(* ===== verification/Kovert_Prelude.thy ===== *)
theory Kovert_Prelude
  imports
    Main
    "HOL-Library.Word"
    "HOL-Library.Char_ord"
    "HOL-Library.List_Lexorder"
    "HOL-Library.Product_Lexorder"
    "HOL-Library.Sublist"
begin

text \<open>
  Shared vocabulary of the development: the parts of the Rust standard library the
  source uses (\<open>Option\<close> combinators, byte strings and their ASCII predicates, \<open>trim\<close>,
  Unix \<open>Path\<close>), the time types, and the generic list, option and sorting lemmas the
  components share.

  A Rust \<open>String\<close> is a sequence of UTF-8 bytes, and \<^typ>\<open>char\<close> is a byte, so
  \<^typ>\<open>string\<close> models \<open>String\<close> with \<^const>\<open>length\<close> as \<open>len()\<close> and the
  byte-wise lexicographic order of \<open>HOL-Library.List_Lexorder\<close> as \<open>Ord for str\<close>.
  A Unix \<open>PathBuf\<close> is its byte string too, but two paths are equal when their
  components are.
\<close>

named_theorems kovert_simps \<open>unfolding rules of the small operations of the model\<close>

section \<open>Time\<close>

text \<open>
  A \<open>chrono::DateTime<Utc>\<close> is its number of nanoseconds since the epoch; a
  \<open>std::time::Duration\<close> is a number of nanoseconds.
\<close>

type_synonym timestamp = int
type_synonym duration = nat

definition from_secs :: "nat \<Rightarrow> duration" where
  "from_secs s = s * 1000000000"

section \<open>Option combinators of the Rust standard library\<close>

definition is_none_or :: "('a \<Rightarrow> bool) \<Rightarrow> 'a option \<Rightarrow> bool" where
  "is_none_or p x = (case x of None \<Rightarrow> True | Some v \<Rightarrow> p v)"

definition is_some_and :: "('a \<Rightarrow> bool) \<Rightarrow> 'a option \<Rightarrow> bool" where
  "is_some_and p x = (case x of None \<Rightarrow> False | Some v \<Rightarrow> p v)"

definition unwrap_or :: "'a option \<Rightarrow> 'a \<Rightarrow> 'a" where
  "unwrap_or x d = (case x of None \<Rightarrow> d | Some v \<Rightarrow> v)"

section \<open>Byte strings\<close>

abbreviation byte :: "char \<Rightarrow> nat" where
  "byte c \<equiv> of_char c"

definition is_ascii_digit :: "char \<Rightarrow> bool" where
  "is_ascii_digit c \<longleftrightarrow> 48 \<le> byte c \<and> byte c \<le> 57"

definition is_ascii_uppercase :: "char \<Rightarrow> bool" where
  "is_ascii_uppercase c \<longleftrightarrow> 65 \<le> byte c \<and> byte c \<le> 90"

definition is_ascii_lowercase :: "char \<Rightarrow> bool" where
  "is_ascii_lowercase c \<longleftrightarrow> 97 \<le> byte c \<and> byte c \<le> 122"

definition is_ascii_alphanumeric :: "char \<Rightarrow> bool" where
  "is_ascii_alphanumeric c \<longleftrightarrow>
     is_ascii_digit c \<or> is_ascii_uppercase c \<or> is_ascii_lowercase c"

definition is_ascii_hexdigit :: "char \<Rightarrow> bool" where
  "is_ascii_hexdigit c \<longleftrightarrow>
     is_ascii_digit c \<or> (65 \<le> byte c \<and> byte c \<le> 70) \<or> (97 \<le> byte c \<and> byte c \<le> 102)"

definition to_ascii_lower :: "char \<Rightarrow> char" where
  "to_ascii_lower c = (if is_ascii_uppercase c then char_of (byte c + 32) else c)"

definition to_ascii_upper :: "char \<Rightarrow> char" where
  "to_ascii_upper c = (if is_ascii_lowercase c then char_of (byte c - 32) else c)"

definition to_ascii_uppercase :: "string \<Rightarrow> string" where
  "to_ascii_uppercase s = map to_ascii_upper s"

definition to_ascii_lowercase :: "string \<Rightarrow> string" where
  "to_ascii_lowercase s = map to_ascii_lower s"

definition eq_ignore_ascii_case :: "string \<Rightarrow> string \<Rightarrow> bool" where
  "eq_ignore_ascii_case a b \<longleftrightarrow> map to_ascii_lower a = map to_ascii_lower b"

text \<open>
  \<open>chars().any(char::is_control)\<close> on UTF-8 bytes: the control characters are
  \<open>U+0000..U+001F\<close>, \<open>U+007F\<close> and \<open>U+0080..U+009F\<close>, the last range being
  encoded as the byte \<open>C2\<close> followed by \<open>80..9F\<close>.
\<close>

fun any_control :: "string \<Rightarrow> bool" where
  "any_control [] = False"
| "any_control (c # cs) =
     (byte c < 32 \<or> byte c = 127 \<or>
      (byte c = 194 \<and> (case cs of [] \<Rightarrow> False | d # _ \<Rightarrow> 128 \<le> byte d \<and> byte d \<le> 159)) \<or>
      any_control cs)"

text \<open>
  The number of bytes of the Unicode \<open>White_Space\<close> character at the head of a string,
  0 when it starts with none.
\<close>

definition ws_len :: "string \<Rightarrow> nat" where
  "ws_len s =
     (case map byte (take 3 s) of
        [] \<Rightarrow> 0
      | a # r \<Rightarrow>
          if (9 \<le> a \<and> a \<le> 13) \<or> a = 32 then 1
          else (case r of
             [] \<Rightarrow> 0
           | b # r' \<Rightarrow>
               if a = 194 \<and> (b = 133 \<or> b = 160) then 2
               else (case r' of
                  [] \<Rightarrow> 0
                | c # _ \<Rightarrow>
                    if (a = 225 \<and> b = 154 \<and> c = 128) \<or>
                       (a = 226 \<and> b = 128 \<and>
                         ((128 \<le> c \<and> c \<le> 138) \<or> c = 168 \<or> c = 169 \<or> c = 175)) \<or>
                       (a = 226 \<and> b = 129 \<and> c = 159) \<or>
                       (a = 227 \<and> b = 128 \<and> c = 128)
                    then 3 else 0)))"

lemma ws_len_Nil [simp]: "ws_len [] = 0"
  by (simp add: ws_len_def)

function trim_start :: "string \<Rightarrow> string" where
  "trim_start s = (if ws_len s = 0 then s else trim_start (drop (ws_len s) s))"
  by pat_completeness auto
termination
proof (relation "measure length")
  fix s :: string
  assume "ws_len s \<noteq> 0"
  then have "s \<noteq> []" by auto
  with \<open>ws_len s \<noteq> 0\<close> show "(drop (ws_len s) s, s) \<in> measure length" by simp
qed simp

declare trim_start.simps [simp del]

text \<open>The length of the \<open>White_Space\<close> character a string ends with.\<close>

definition ws_len_end :: "string \<Rightarrow> nat" where
  "ws_len_end s =
     (if ws_len (drop (length s - 1) s) = 1 then 1
      else if ws_len (drop (length s - 2) s) = 2 then 2
      else if ws_len (drop (length s - 3) s) = 3 then 3 else 0)"

lemma ws_len_end_Nil [simp]: "ws_len_end [] = 0"
  by (simp add: ws_len_end_def)

function trim_end :: "string \<Rightarrow> string" where
  "trim_end s =
     (if ws_len_end s = 0 then s else trim_end (take (length s - ws_len_end s) s))"
  by pat_completeness auto
termination
proof (relation "measure length")
  fix s :: string
  assume "ws_len_end s \<noteq> 0"
  then have "s \<noteq> []" by auto
  with \<open>ws_len_end s \<noteq> 0\<close>
  show "(take (length s - ws_len_end s) s, s) \<in> measure length" by simp
qed simp

declare trim_end.simps [simp del]

definition trim :: "string \<Rightarrow> string" where
  "trim s = trim_end (trim_start s)"

definition strip_prefix :: "string \<Rightarrow> string \<Rightarrow> string option" where
  "strip_prefix p s = (if take (length p) s = p then Some (drop (length p) s) else None)"

text \<open>Decimal printing of the unsigned integers the messages interpolate.\<close>

fun show_nat :: "nat \<Rightarrow> string" where
  "show_nat n =
     (if n < 10 then [char_of (48 + n)] else show_nat (n div 10) @ [char_of (48 + n mod 10)])"

declare show_nat.simps [simp del]

definition show_int :: "int \<Rightarrow> string" where
  "show_int i = (if i < 0 then ''-'' @ show_nat (nat (- i)) else show_nat (nat i))"

section \<open>Unix paths\<close>

type_synonym path = string

datatype component = RootDir | CurDir | ParentDir | Normal string

text \<open>Splitting at a separator byte, as \<open>str::split\<close> does: \<open>n\<close> separators give \<open>n + 1\<close> pieces.\<close>

fun split_on :: "char \<Rightarrow> string \<Rightarrow> string list" where
  "split_on d [] = [[]]"
| "split_on d (c # cs) =
     (if c = d then [] # split_on d cs
      else (case split_on d cs of [] \<Rightarrow> [[c]] | w # ws \<Rightarrow> (c # w) # ws))"

definition path_is_absolute :: "path \<Rightarrow> bool" where
  "path_is_absolute p = (case p of [] \<Rightarrow> False | c # _ \<Rightarrow> c = CHR ''/'')"

definition component_of :: "string \<Rightarrow> component" where
  "component_of s = (if s = ''..'' then ParentDir else Normal s)"

text \<open>
  \<open>Path::components\<close>: repeated separators and interior or trailing \<open>.\<close> are dropped, a
  leading \<open>.\<close> of a relative path is kept as \<open>CurDir\<close>.
\<close>

definition components :: "path \<Rightarrow> component list" where
  "components p =
     (let segs = split_on CHR ''/'' p;
          body = map component_of (filter (\<lambda>s. s \<noteq> [] \<and> s \<noteq> ''.'') segs)
      in if path_is_absolute p then RootDir # body
         else if hd segs = ''.'' then CurDir # body
         else body)"

text \<open>\<open>PartialEq for Path\<close> and \<open>Path::starts_with\<close> compare component sequences.\<close>

definition path_eq :: "path \<Rightarrow> path \<Rightarrow> bool" where
  "path_eq p q \<longleftrightarrow> components p = components q"

definition path_starts_with :: "path \<Rightarrow> path \<Rightarrow> bool" where
  "path_starts_with p base \<longleftrightarrow> prefix (components base) (components p)"

text \<open>\<open>Path::join\<close>: an absolute operand replaces the base.\<close>

definition path_join :: "path \<Rightarrow> path \<Rightarrow> path" where
  "path_join base p =
     (if path_is_absolute p then p
      else if base = [] then p
      else if last base = CHR ''/'' then base @ p
      else base @ ''/'' @ p)"

section \<open>Generic lemmas\<close>

lemma is_none_or_simps [simp, kovert_simps]:
  "is_none_or p None = True" "is_none_or p (Some v) = p v"
  by (simp_all add: is_none_or_def)

lemma is_some_and_simps [simp, kovert_simps]:
  "is_some_and p None = False" "is_some_and p (Some v) = p v"
  by (simp_all add: is_some_and_def)

lemma unwrap_or_simps [simp, kovert_simps]:
  "unwrap_or None d = d" "unwrap_or (Some v) d = v"
  by (simp_all add: unwrap_or_def)

lemma is_some_and_iff: "is_some_and p x \<longleftrightarrow> (\<exists>v. x = Some v \<and> p v)"
  by (cases x) simp_all

lemma is_none_or_iff: "is_none_or p x \<longleftrightarrow> (\<forall>v. x = Some v \<longrightarrow> p v)"
  by (cases x) simp_all

lemma eq_ignore_ascii_case_refl [simp]: "eq_ignore_ascii_case s s"
  by (simp add: eq_ignore_ascii_case_def)

lemma eq_ignore_ascii_case_sym: "eq_ignore_ascii_case s t \<Longrightarrow> eq_ignore_ascii_case t s"
  by (simp add: eq_ignore_ascii_case_def)

lemma eq_ignore_ascii_case_trans:
  "eq_ignore_ascii_case s t \<Longrightarrow> eq_ignore_ascii_case t u \<Longrightarrow> eq_ignore_ascii_case s u"
  by (simp add: eq_ignore_ascii_case_def)

lemma path_eq_refl [simp]: "path_eq p p"
  by (simp add: path_eq_def)

lemma path_eq_sym: "path_eq p q \<Longrightarrow> path_eq q p"
  by (simp add: path_eq_def)

lemma path_eq_trans: "path_eq p q \<Longrightarrow> path_eq q r \<Longrightarrow> path_eq p r"
  by (simp add: path_eq_def)

lemma path_starts_with_refl [simp]: "path_starts_with p p"
  by (simp add: path_starts_with_def)

lemma path_starts_with_trans:
  "path_starts_with p q \<Longrightarrow> path_starts_with q r \<Longrightarrow> path_starts_with p r"
  by (auto simp: path_starts_with_def intro: prefix_order.trans)

text \<open>What \<^const>\<open>trim\<close> leaves neither starts nor ends with white space.\<close>

lemma trim_start_fixed: "ws_len (trim_start s) = 0"
proof (induction s rule: trim_start.induct)
  case (1 s)
  then show ?case by (subst trim_start.simps) simp
qed

lemma trim_start_length: "length (trim_start s) \<le> length s"
proof (induction s rule: trim_start.induct)
  case (1 s)
  then show ?case by (subst trim_start.simps) auto
qed

lemma trim_end_fixed: "ws_len_end (trim_end s) = 0"
proof (induction s rule: trim_end.induct)
  case (1 s)
  then show ?case by (subst trim_end.simps) simp
qed

text \<open>A stable sort changes nothing on a list that is sorted already.\<close>

lemma sort_key_id: "sorted (map f xs) \<Longrightarrow> sort_key f xs = xs"
  by (rule sort_key_id_if_sorted)

section \<open>Machines\<close>

text \<open>
  A component is a step function that may fail; \<open>run_ops\<close> executes a sequence of
  operations and stops at the first failure. The locale is the contract of a component
  with an invariant: every allowed operation succeeds and keeps it. Every stateful
  component of the development is an interpretation of it.
\<close>

fun run_ops :: "('s \<Rightarrow> 'o \<Rightarrow> 'p + 's) \<Rightarrow> 's \<Rightarrow> 'o list \<Rightarrow> 'p + 's" where
  "run_ops step s [] = Inr s"
| "run_ops step s (x # xs) = (case step s x of Inl p \<Rightarrow> Inl p | Inr s' \<Rightarrow> run_ops step s' xs)"

lemma run_ops_append:
  "run_ops step s (xs @ ys) = (case run_ops step s xs of Inl p \<Rightarrow> Inl p | Inr s' \<Rightarrow> run_ops step s' ys)"
  by (induction xs arbitrary: s) (auto split: sum.splits)

locale safe_machine =
  fixes step :: "'s \<Rightarrow> 'o \<Rightarrow> 'p + 's"
    and inv :: "'s \<Rightarrow> bool"
    and allowed :: "'o \<Rightarrow> bool"
  assumes progress: "inv s \<Longrightarrow> allowed x \<Longrightarrow> \<exists>s'. step s x = Inr s'"
    and preserve: "inv s \<Longrightarrow> allowed x \<Longrightarrow> step s x = Inr s' \<Longrightarrow> inv s'"
begin

lemma run_safe:
  assumes "inv s" and "list_all allowed xs"
  shows "\<exists>s'. run_ops step s xs = Inr s' \<and> inv s'"
  using assms
proof (induction xs arbitrary: s)
  case Nil
  then show ?case by simp
next
  case (Cons x xs)
  then obtain s' where "step s x = Inr s'" and "inv s'"
    using progress preserve by fastforce
  with Cons show ?case by simp
qed

lemma run_preserves:
  "inv s \<Longrightarrow> list_all allowed xs \<Longrightarrow> run_ops step s xs = Inr s' \<Longrightarrow> inv s'"
  using run_safe by fastforce

end

end
