(* ===== verification/Config.thy ===== *)
theory Config
  imports Kovert_Prelude
begin

text \<open>
  The configuration data of \<open>kovert-core/src/config.rs\<close>: one datatype per enum, one
  record per struct, with the field defaults of the \<open>Default\<close> implementations, and
  \<open>ActionSpec::conflict_key\<close> with its correctness: the key names exactly the resource
  an action changes.

  Constructors carry a letter for their enum (\<open>T_\<close> trigger, \<open>C_\<close> condition, \<open>A_\<close>
  action), since the source reuses the variant names; record fields carry the name of
  their struct. Machine integers keep their width (\<open>u8\<close>, \<open>u16\<close>, \<open>u32\<close>); the \<open>i32\<close>
  priority, which is only ever compared, is an \<^typ>\<open>int\<close>.
\<close>

section \<open>Enums\<close>

datatype vault_adapter = Fscrypt | Gocryptfs

datatype sensor_failure_policy = Alert | Ignore | FailClosed

datatype file_operation = Create | Modify | Rename | Delete | Access | Metadata | Other

datatype device_action = Added | Removed | Changed

datatype network_protocol = Tcp | Udp

datatype session_state = LoggedIn | LoggedOut | Locked | Unlocked

datatype weekday = Mon | Tue | Wed | Thu | Fri | Sat | Sun

datatype service_action = Start | Stop | Restart

datatype process_signal = Term | Kill | Hup | Int

datatype notification_urgency = Low | Normal_Urgency | Critical

text \<open>\<open>TriggerSpec\<close>: event matchers, with the recursive composite forms.\<close>

datatype trigger_spec =
    T_Tick
  | T_File path "file_operation list" bool
  | T_WifiChanged "string option" "string option" "bool option"
  | T_NetworkChanged "string option" "bool option" "bool option"
  | T_Usb "device_action option" "string option" "string option" "string option"
  | T_Mount "device_action option" "path option"
  | T_Process "string option" "bool option"
  | T_Service "string option" "bool option"
  | T_Port "16 word option" "bool option" "network_protocol option"
  | T_Session "session_state option" "string option" "bool option"
  | T_Power "bool option" "8 word option" "bool option"
  | T_Hotkey string
  | T_IntegrityFailure "string option"
  | T_Manual string
  | T_SensorFailure "string option"
  | T_All "trigger_spec list"
  | T_Any "trigger_spec list"
  | T_Not trigger_spec
  | T_Sequence "trigger_spec list" duration

text \<open>\<open>ConditionSpec\<close>: predicates over the latest known host state.\<close>

datatype condition_spec =
    C_All "condition_spec list"
  | C_Any "condition_spec list"
  | C_Not condition_spec
  | C_TimeWindow string string bool "weekday list"
  | C_Wifi "string option" "string option" "bool option"
  | C_Network "bool option" "string option" "bool option"
  | C_Mode string
  | C_PathExists path bool
  | C_Mounted path bool
  | C_Process string bool
  | C_Service string bool
  | C_Port "16 word" bool network_protocol
  | C_Session "session_state option" "string option" "bool option"
  | C_Power "bool option" "8 word option" "bool option"
  | C_SensorHealthy string bool

text \<open>
  \<open>ActionSpec\<close>: typed defensive operations. The \<open>BTreeMap\<close> of an \<open>Exec\<close> environment
  is the list of its entries.
\<close>

datatype action_spec =
    A_LockVault string
  | A_UnlockVault string
  | A_Unmount path
  | A_NetworkIsolation bool
  | A_InterfaceState string bool
  | A_Service string service_action
  | A_TerminateProcess string process_signal
  | A_Notify string string notification_urgency
  | A_CaptureEvidence "path list" path
  | A_SetMode string
  | A_Exec path "string list" "string option" "(string \<times> string) list"

section \<open>Structs\<close>

record daemon_config =
  socket_path :: path
  state_path :: path
  dry_run :: bool
  poll_interval :: duration
  command_timeout :: duration
  event_buffer :: nat
  socket_group :: string
  allowed_executables :: "path list"
  managed_processes :: "string list"
  desktop_notifications :: bool

record audit_config =
  max_records :: "64 word"
  verify_on_start :: bool

record mode_config =
  mode_name :: string
  mode_description :: string
  mode_initial :: bool

record vault_config =
  vault_name :: string
  vault_adapter_of :: vault_adapter
  vault_path :: path
  encrypted_path :: "path option"
  mount_path :: "path option"
  keyring_description :: "string option"

record hotkey_config =
  hotkey_name :: string
  hotkey_device :: path
  hotkey_sequence :: "string list"
  hotkey_within :: duration

record rule =
  rule_id :: string
  rule_description :: string
  rule_enabled :: bool
  rule_priority :: int
  rule_cooldown :: duration
  rule_sustain_for :: duration
  rule_once_per_boot :: bool
  rule_on_sensor_failure :: sensor_failure_policy
  rule_trigger :: trigger_spec
  rule_when :: "condition_spec option"
  rule_actions :: "action_spec list"

record config =
  cfg_version :: "32 word"
  cfg_daemon :: daemon_config
  cfg_audit :: audit_config
  cfg_modes :: "mode_config list"
  cfg_vaults :: "vault_config list"
  cfg_hotkeys :: "hotkey_config list"
  cfg_rules :: "rule list"

definition default_daemon_config :: daemon_config where
  "default_daemon_config =
     \<lparr> socket_path = ''/run/kovert/kovert.sock'',
       state_path = ''/var/lib/kovert/state.db'',
       dry_run = True,
       poll_interval = from_secs 5,
       command_timeout = from_secs 15,
       event_buffer = 1024,
       socket_group = ''kovert'',
       allowed_executables = [],
       managed_processes = [],
       desktop_notifications = False \<rparr>"

definition default_audit_config :: audit_config where
  "default_audit_config = \<lparr> max_records = 10000, verify_on_start = True \<rparr>"

definition default_hotkey_window :: duration where
  "default_hotkey_window = from_secs 3"

section \<open>Conflict keys\<close>

text \<open>\<open>ActionSpec::conflict_key\<close>: the string two mutually exclusive actions share.\<close>

fun conflict_key :: "action_spec \<Rightarrow> string option" where
  "conflict_key (A_LockVault vault) = Some (''vault:'' @ vault)"
| "conflict_key (A_UnlockVault vault) = Some (''vault:'' @ vault)"
| "conflict_key (A_NetworkIsolation _) = Some ''network:isolation''"
| "conflict_key (A_InterfaceState interface _) = Some (''interface:'' @ interface)"
| "conflict_key (A_Service name _) = Some (''service:'' @ name)"
| "conflict_key (A_SetMode _) = Some ''mode''"
| "conflict_key (A_Unmount path) = Some (''mount:'' @ path)"
| "conflict_key (A_TerminateProcess process _) = Some (''process:'' @ process)"
| "conflict_key (A_Notify _ _ _) = None"
| "conflict_key (A_CaptureEvidence _ _) = None"
| "conflict_key (A_Exec _ _ _ _) = None"

text \<open>
  Specification: the resource an action acts on, as a typed value instead of a string.
\<close>

datatype resource =
    Vault_Resource string
  | Network_Resource
  | Interface_Resource string
  | Service_Resource string
  | Mode_Resource
  | Mount_Resource path
  | Process_Resource string

fun action_resource :: "action_spec \<Rightarrow> resource option" where
  "action_resource (A_LockVault v) = Some (Vault_Resource v)"
| "action_resource (A_UnlockVault v) = Some (Vault_Resource v)"
| "action_resource (A_NetworkIsolation _) = Some Network_Resource"
| "action_resource (A_InterfaceState i _) = Some (Interface_Resource i)"
| "action_resource (A_Service n _) = Some (Service_Resource n)"
| "action_resource (A_SetMode _) = Some Mode_Resource"
| "action_resource (A_Unmount p) = Some (Mount_Resource p)"
| "action_resource (A_TerminateProcess p _) = Some (Process_Resource p)"
| "action_resource _ = None"

fun resource_key :: "resource \<Rightarrow> string" where
  "resource_key (Vault_Resource v) = ''vault:'' @ v"
| "resource_key Network_Resource = ''network:isolation''"
| "resource_key (Interface_Resource i) = ''interface:'' @ i"
| "resource_key (Service_Resource n) = ''service:'' @ n"
| "resource_key Mode_Resource = ''mode''"
| "resource_key (Mount_Resource p) = ''mount:'' @ p"
| "resource_key (Process_Resource p) = ''process:'' @ p"

lemma resource_key_inj: "resource_key a = resource_key b \<Longrightarrow> a = b"
  by (cases a; cases b) simp_all

lemma conflict_key_resource: "conflict_key a = map_option resource_key (action_resource a)"
  by (cases a) simp_all

lemma conflict_key_eq_iff:
  "conflict_key a = conflict_key b \<longleftrightarrow> action_resource a = action_resource b"
  by (cases "action_resource a"; cases "action_resource b")
    (auto simp: conflict_key_resource dest: resource_key_inj)

end
