(* ===== verification/Event.thy ===== *)
theory Event
  imports Config
begin

text \<open>
  Normalized events and the latest-known host state of \<open>kovert-core/src/event.rs\<close>:
  \<open>Event\<close>, \<open>EventKind\<close>, \<open>SystemSnapshot\<close> and \<open>SystemSnapshot::apply\<close>.

  The \<open>BTreeSet\<close> and \<open>BTreeMap\<close> fields are sets and maps; \<open>BTreeSet<PathBuf>\<close>
  identifies paths with equal components, so the set of mounts holds component
  sequences. A \<open>Uuid\<close> is its string form. The clock and the random generator behind
  \<open>Event::new\<close> and \<open>SystemSnapshot::default\<close> are arguments.
\<close>

section \<open>Events\<close>

datatype event_kind =
    E_Tick
  | E_File path file_operation
  | E_Wifi bool "string option" "string option"
  | E_Network bool "string option" bool
  | E_Usb device_action "string option" "string option" "string option"
  | E_Mount device_action path "string option"
  | E_Process string bool "32 word option"
  | E_Service string bool
  | E_Port "16 word" network_protocol bool
  | E_Session session_state "string option" bool
  | E_Power "bool option" "8 word option" "bool option"
  | E_Hotkey string
  | E_Integrity string bool "string option"
  | E_Manual string
  | E_SensorFailure string string

record event =
  ev_id :: string
  ev_timestamp :: timestamp
  ev_source :: string
  ev_kind :: event_kind

definition event_new :: "string \<Rightarrow> timestamp \<Rightarrow> string \<Rightarrow> event_kind \<Rightarrow> event" where
  "event_new uuid now source kind =
     \<lparr> ev_id = uuid, ev_timestamp = now, ev_source = source, ev_kind = kind \<rparr>"

section \<open>The host snapshot\<close>

record snapshot =
  snap_now :: timestamp
  wifi_connected :: bool
  wifi_ssid :: "string option"
  wifi_bssid :: "string option"
  network_online :: bool
  active_interface :: "string option"
  vpn_active :: bool
  snap_mounts :: "component list set"
  snap_processes :: "string set"
  snap_services :: "string \<rightharpoonup> bool"
  snap_ports :: "(network_protocol \<times> 16 word) set"
  snap_session_state :: "session_state option"
  session_user :: "string option"
  session_remote :: bool
  snap_on_ac :: "bool option"
  snap_battery_percent :: "8 word option"
  snap_lid_closed :: "bool option"
  snap_mode :: string
  sensor_health :: "string \<rightharpoonup> bool"

definition default_snapshot :: "timestamp \<Rightarrow> snapshot" where
  "default_snapshot now =
     \<lparr> snap_now = now, wifi_connected = False, wifi_ssid = None, wifi_bssid = None,
       network_online = False, active_interface = None, vpn_active = False,
       snap_mounts = {}, snap_processes = {}, snap_services = Map.empty, snap_ports = {},
       snap_session_state = None, session_user = None, session_remote = False,
       snap_on_ac = None, snap_battery_percent = None, snap_lid_closed = None,
       snap_mode = ''normal'', sensor_health = Map.empty \<rparr>"

text \<open>The \<open>match\<close> on the event kind in \<open>SystemSnapshot::apply\<close>.\<close>

fun apply_kind :: "event_kind \<Rightarrow> snapshot \<Rightarrow> snapshot" where
  "apply_kind (E_Wifi connected ssid bssid) s =
     s\<lparr>wifi_connected := connected, wifi_ssid := ssid, wifi_bssid := bssid\<rparr>"
| "apply_kind (E_Network online interface vpn) s =
     s\<lparr>network_online := online, active_interface := interface, vpn_active := vpn\<rparr>"
| "apply_kind (E_Mount action path _) s =
     (case action of
        Removed \<Rightarrow> s\<lparr>snap_mounts := snap_mounts s - {components path}\<rparr>
      | _ \<Rightarrow> s\<lparr>snap_mounts := insert (components path) (snap_mounts s)\<rparr>)"
| "apply_kind (E_Process name running _) s =
     (if running then s\<lparr>snap_processes := insert name (snap_processes s)\<rparr>
      else s\<lparr>snap_processes := snap_processes s - {name}\<rparr>)"
| "apply_kind (E_Service name active) s =
     s\<lparr>snap_services := (snap_services s)(name \<mapsto> active)\<rparr>"
| "apply_kind (E_Port port protocol is_open) s =
     (if is_open then s\<lparr>snap_ports := insert (protocol, port) (snap_ports s)\<rparr>
      else s\<lparr>snap_ports := snap_ports s - {(protocol, port)}\<rparr>)"
| "apply_kind (E_Session state user remote) s =
     s\<lparr>snap_session_state := Some state, session_user := user, session_remote := remote\<rparr>"
| "apply_kind (E_Power on_ac battery lid) s =
     s\<lparr>snap_on_ac := on_ac, snap_battery_percent := battery, snap_lid_closed := lid\<rparr>"
| "apply_kind (E_Integrity component valid _) s =
     s\<lparr>sensor_health := (sensor_health s)(component \<mapsto> valid)\<rparr>"
| "apply_kind (E_SensorFailure sensor _) s =
     s\<lparr>sensor_health := (sensor_health s)(sensor \<mapsto> False)\<rparr>"
| "apply_kind _ s = s"

definition snapshot_apply :: "snapshot \<Rightarrow> event \<Rightarrow> snapshot" where
  "snapshot_apply s event =
     apply_kind (ev_kind event)
       (s\<lparr>snap_now := ev_timestamp event,
          sensor_health := (sensor_health s)(ev_source event \<mapsto> True)\<rparr>)"

section \<open>Frame and effect lemmas\<close>

lemma apply_kind_mode [simp]: "snap_mode (apply_kind k s) = snap_mode s"
  by (cases k) (auto split: device_action.splits)

lemma apply_kind_now [simp]: "snap_now (apply_kind k s) = snap_now s"
  by (cases k) (auto split: device_action.splits)

lemma snapshot_apply_mode [simp]: "snap_mode (snapshot_apply s ev) = snap_mode s"
  by (simp add: snapshot_apply_def)

lemma snapshot_apply_now [simp]: "snap_now (snapshot_apply s ev) = ev_timestamp ev"
  by (simp add: snapshot_apply_def)

text \<open>
  The health a snapshot records for one sensor after one event: a failure event of the
  sensor marks it unhealthy, an integrity event of the component of that name gives its
  verdict, any other event with that source marks it healthy, and no other event
  changes it.
\<close>

fun health_verdict :: "event_kind \<Rightarrow> (string \<times> bool) option" where
  "health_verdict (E_Integrity c valid _) = Some (c, valid)"
| "health_verdict (E_SensorFailure n _) = Some (n, False)"
| "health_verdict _ = None"

lemma apply_kind_health:
  "sensor_health (apply_kind k s) =
     (case health_verdict k of None \<Rightarrow> sensor_health s
      | Some (n, v) \<Rightarrow> (sensor_health s)(n \<mapsto> v))"
  by (cases k) (auto split: device_action.splits)

lemma snapshot_apply_health:
  "sensor_health (snapshot_apply s ev) n =
     (case health_verdict (ev_kind ev) of
        Some (m, v) \<Rightarrow> if n = m then Some v else if n = ev_source ev then Some True
                       else sensor_health s n
      | None \<Rightarrow> if n = ev_source ev then Some True else sensor_health s n)"
  by (simp add: snapshot_apply_def apply_kind_health split: option.splits)

end
