(* ===== verification/Matching.thy ===== *)
theory Matching
  imports Event
begin

text \<open>
  The pure matchers of \<open>kovert-core/src/engine.rs\<close>: \<open>trigger_matches\<close>,
  \<open>condition_matches\<close>, \<open>trigger_uses_sensor\<close>, \<open>path_matches\<close>, \<open>eq_optional\<close>,
  \<open>eq_optional_ci\<close>, \<open>weekday_from_chrono\<close> and \<open>elapsed\<close>.

  What the conditions read from outside the engine is an argument: the \<open>chrono\<close> time
  parser and local-time conversion, and the existence of a path.
\<close>

section \<open>The environment of a condition\<close>

text \<open>\<open>chrono::Weekday\<close>, an enum of the \<open>chrono\<close> crate.\<close>

datatype chrono_weekday = Ch_Mon | Ch_Tue | Ch_Wed | Ch_Thu | Ch_Fri | Ch_Sat | Ch_Sun

text \<open>
  \<open>parse_hm\<close> is \<open>NaiveTime::parse_from_str(_, "%H:%M")\<close>, with a \<open>NaiveTime\<close> as
  nanoseconds since midnight; \<open>local_time\<close> and \<open>local_weekday\<close> read
  \<open>now.with_timezone(&Local)\<close>; \<open>path_exists\<close> is \<open>Path::exists\<close> at the time of the
  evaluation.
\<close>

record host =
  parse_hm :: "string \<Rightarrow> nat option"
  local_time :: "timestamp \<Rightarrow> nat"
  local_weekday :: "timestamp \<Rightarrow> chrono_weekday"
  path_exists :: "path \<Rightarrow> bool"

section \<open>Helpers\<close>

definition elapsed :: "timestamp \<Rightarrow> timestamp \<Rightarrow> duration" where
  "elapsed later earlier = nat (later - earlier)"

definition path_matches :: "path \<Rightarrow> path \<Rightarrow> bool \<Rightarrow> bool" where
  "path_matches configured actual recursive =
     (if recursive then path_starts_with actual configured else path_eq actual configured)"

definition eq_optional :: "string option \<Rightarrow> string option \<Rightarrow> bool" where
  "eq_optional expected actual = is_none_or (\<lambda>value. actual = Some value) expected"

definition eq_optional_ci :: "string option \<Rightarrow> string option \<Rightarrow> bool" where
  "eq_optional_ci expected actual =
     is_none_or (\<lambda>value. is_some_and (\<lambda>candidate. eq_ignore_ascii_case candidate value) actual)
       expected"

fun weekday_from_chrono :: "chrono_weekday \<Rightarrow> weekday" where
  "weekday_from_chrono Ch_Mon = Mon"
| "weekday_from_chrono Ch_Tue = Tue"
| "weekday_from_chrono Ch_Wed = Wed"
| "weekday_from_chrono Ch_Thu = Thu"
| "weekday_from_chrono Ch_Fri = Fri"
| "weekday_from_chrono Ch_Sat = Sat"
| "weekday_from_chrono Ch_Sun = Sun"

section \<open>Triggers\<close>

fun trigger_matches :: "trigger_spec \<Rightarrow> event_kind \<Rightarrow> bool" where
  "trigger_matches T_Tick k = (case k of E_Tick \<Rightarrow> True | _ \<Rightarrow> False)"
| "trigger_matches (T_File p operations recursive) k =
     (case k of
        E_File event_path operation \<Rightarrow>
          path_matches p event_path recursive \<and>
          (operations = [] \<or> operation \<in> set operations)
      | _ \<Rightarrow> False)"
| "trigger_matches (T_WifiChanged ssid bssid connected) k =
     (case k of
        E_Wifi event_connected event_ssid event_bssid \<Rightarrow>
          is_none_or (\<lambda>value. value = event_connected) connected \<and>
          is_none_or (\<lambda>value. event_ssid = Some value) ssid \<and>
          is_none_or (\<lambda>value. is_some_and (\<lambda>actual. eq_ignore_ascii_case actual value) event_bssid)
            bssid
      | _ \<Rightarrow> False)"
| "trigger_matches (T_NetworkChanged interface online vpn) k =
     (case k of
        E_Network event_online event_interface event_vpn \<Rightarrow>
          is_none_or (\<lambda>value. value = event_online) online \<and>
          is_none_or (\<lambda>value. value = event_vpn) vpn \<and>
          is_none_or (\<lambda>value. event_interface = Some value) interface
      | _ \<Rightarrow> False)"
| "trigger_matches (T_Usb action vendor_id product_id serial) k =
     (case k of
        E_Usb event_action event_vendor event_product event_serial \<Rightarrow>
          is_none_or (\<lambda>value. value = event_action) action \<and>
          eq_optional_ci vendor_id event_vendor \<and>
          eq_optional_ci product_id event_product \<and>
          eq_optional serial event_serial
      | _ \<Rightarrow> False)"
| "trigger_matches (T_Mount action p) k =
     (case k of
        E_Mount event_action event_path _ \<Rightarrow>
          is_none_or (\<lambda>value. value = event_action) action \<and>
          is_none_or (\<lambda>value. path_eq value event_path) p
      | _ \<Rightarrow> False)"
| "trigger_matches (T_Process name running) k =
     (case k of
        E_Process event_name event_running _ \<Rightarrow>
          is_none_or (\<lambda>value. value = event_running) running \<and>
          is_none_or (\<lambda>value. value = event_name) name
      | _ \<Rightarrow> False)"
| "trigger_matches (T_Service name active) k =
     (case k of
        E_Service event_name event_active \<Rightarrow>
          is_none_or (\<lambda>value. value = event_active) active \<and>
          is_none_or (\<lambda>value. value = event_name) name
      | _ \<Rightarrow> False)"
| "trigger_matches (T_Port port is_open protocol) k =
     (case k of
        E_Port event_port event_protocol event_open \<Rightarrow>
          is_none_or (\<lambda>value. value = event_port) port \<and>
          is_none_or (\<lambda>value. value = event_open) is_open \<and>
          is_none_or (\<lambda>value. value = event_protocol) protocol
      | _ \<Rightarrow> False)"
| "trigger_matches (T_Session state user remote) k =
     (case k of
        E_Session event_state event_user event_remote \<Rightarrow>
          is_none_or (\<lambda>value. value = event_state) state \<and>
          is_none_or (\<lambda>value. value = event_remote) remote \<and>
          is_none_or (\<lambda>value. event_user = Some value) user
      | _ \<Rightarrow> False)"
| "trigger_matches (T_Power on_ac battery_below lid_closed) k =
     (case k of
        E_Power event_ac battery_percent event_lid \<Rightarrow>
          is_none_or (\<lambda>value. event_ac = Some value) on_ac \<and>
          is_none_or (\<lambda>value. event_lid = Some value) lid_closed \<and>
          is_none_or (\<lambda>limit. is_some_and (\<lambda>actual. actual < limit) battery_percent) battery_below
      | _ \<Rightarrow> False)"
| "trigger_matches (T_Hotkey name) k =
     (case k of E_Hotkey event_name \<Rightarrow> name = event_name | _ \<Rightarrow> False)"
| "trigger_matches (T_IntegrityFailure component) k =
     (case k of
        E_Integrity event_component valid _ \<Rightarrow>
          \<not> valid \<and> is_none_or (\<lambda>value. value = event_component) component
      | _ \<Rightarrow> False)"
| "trigger_matches (T_Manual name) k =
     (case k of E_Manual event_name \<Rightarrow> name = event_name | _ \<Rightarrow> False)"
| "trigger_matches (T_SensorFailure sensor) k =
     (case k of
        E_SensorFailure event_sensor _ \<Rightarrow> is_none_or (\<lambda>value. value = event_sensor) sensor
      | _ \<Rightarrow> False)"
| "trigger_matches (T_All triggers) k = list_all (\<lambda>item. trigger_matches item k) triggers"
| "trigger_matches (T_Any triggers) k = list_ex (\<lambda>item. trigger_matches item k) triggers"
| "trigger_matches (T_Not trigger) k = (\<not> trigger_matches trigger k)"
| "trigger_matches (T_Sequence _ _) k = False"

fun trigger_uses_sensor :: "trigger_spec \<Rightarrow> string \<Rightarrow> bool" where
  "trigger_uses_sensor T_Tick sensor = (sensor = ''time'')"
| "trigger_uses_sensor (T_File _ _ _) sensor = (sensor = ''filesystem'')"
| "trigger_uses_sensor (T_WifiChanged _ _ _) sensor = (sensor = ''wifi'')"
| "trigger_uses_sensor (T_NetworkChanged _ _ _) sensor = (sensor = ''network'')"
| "trigger_uses_sensor (T_Usb _ _ _ _) sensor = (sensor = ''usb'')"
| "trigger_uses_sensor (T_Mount _ _) sensor = (sensor = ''mounts'')"
| "trigger_uses_sensor (T_Process _ _) sensor = (sensor = ''processes'')"
| "trigger_uses_sensor (T_Service _ _) sensor = (sensor = ''services'')"
| "trigger_uses_sensor (T_Port _ _ _) sensor = (sensor = ''ports'')"
| "trigger_uses_sensor (T_Session _ _ _) sensor = (sensor = ''sessions'')"
| "trigger_uses_sensor (T_Power _ _ _) sensor = (sensor = ''power'')"
| "trigger_uses_sensor (T_Hotkey _) sensor = (sensor = ''hotkeys'')"
| "trigger_uses_sensor (T_IntegrityFailure _) sensor = (sensor = ''integrity'')"
| "trigger_uses_sensor (T_Manual _) sensor = (sensor = ''manual'')"
| "trigger_uses_sensor (T_SensorFailure expected) sensor =
     is_none_or (\<lambda>value. value = sensor) expected"
| "trigger_uses_sensor (T_All triggers) sensor =
     list_ex (\<lambda>item. trigger_uses_sensor item sensor) triggers"
| "trigger_uses_sensor (T_Any triggers) sensor =
     list_ex (\<lambda>item. trigger_uses_sensor item sensor) triggers"
| "trigger_uses_sensor (T_Sequence triggers _) sensor =
     list_ex (\<lambda>item. trigger_uses_sensor item sensor) triggers"
| "trigger_uses_sensor (T_Not trigger) sensor = trigger_uses_sensor trigger sensor"

section \<open>Conditions\<close>

text \<open>\<open>ConditionSpec::TimeWindow\<close>: the window wraps past midnight when it ends before it starts.\<close>

definition in_time_window :: "nat \<Rightarrow> nat \<Rightarrow> nat \<Rightarrow> bool" where
  "in_time_window start finish now =
     (if start \<le> finish then start \<le> now \<and> now \<le> finish
      else start \<le> now \<or> now \<le> finish)"

definition time_window_matches ::
  "host \<Rightarrow> string \<Rightarrow> string \<Rightarrow> bool \<Rightarrow> weekday list \<Rightarrow> timestamp \<Rightarrow> bool" where
  "time_window_matches h start finish outside weekdays now =
     (case parse_hm h start of
        None \<Rightarrow> False
      | Some s \<Rightarrow>
          (case parse_hm h finish of
             None \<Rightarrow> False
           | Some e \<Rightarrow>
               (let inside = in_time_window s e (local_time h now);
                    weekday_matches =
                      weekdays = [] \<or> weekday_from_chrono (local_weekday h now) \<in> set weekdays
                in weekday_matches \<and> (if outside then \<not> inside else inside))))"

fun condition_matches :: "host \<Rightarrow> snapshot \<Rightarrow> condition_spec \<Rightarrow> bool" where
  "condition_matches h s (C_All conditions) =
     list_all (\<lambda>item. condition_matches h s item) conditions"
| "condition_matches h s (C_Any conditions) =
     list_ex (\<lambda>item. condition_matches h s item) conditions"
| "condition_matches h s (C_Not condition) = (\<not> condition_matches h s condition)"
| "condition_matches h s (C_TimeWindow start finish outside weekdays) =
     time_window_matches h start finish outside weekdays (snap_now s)"
| "condition_matches h s (C_Wifi ssid bssid connected) =
     (is_none_or (\<lambda>value. value = wifi_connected s) connected \<and>
      is_none_or (\<lambda>value. wifi_ssid s = Some value) ssid \<and>
      is_none_or (\<lambda>value. is_some_and (\<lambda>actual. eq_ignore_ascii_case actual value) (wifi_bssid s))
        bssid)"
| "condition_matches h s (C_Network online interface vpn) =
     (is_none_or (\<lambda>value. value = network_online s) online \<and>
      is_none_or (\<lambda>value. value = vpn_active s) vpn \<and>
      is_none_or (\<lambda>value. active_interface s = Some value) interface)"
| "condition_matches h s (C_Mode name) = (name = snap_mode s)"
| "condition_matches h s (C_PathExists p should_exist) = (path_exists h p = should_exist)"
| "condition_matches h s (C_Mounted p mounted) = ((components p \<in> snap_mounts s) = mounted)"
| "condition_matches h s (C_Process name running) = ((name \<in> snap_processes s) = running)"
| "condition_matches h s (C_Service name active) =
     (unwrap_or (snap_services s name) False = active)"
| "condition_matches h s (C_Port port is_open protocol) =
     (((protocol, port) \<in> snap_ports s) = is_open)"
| "condition_matches h s (C_Session state user remote) =
     (is_none_or (\<lambda>value. snap_session_state s = Some value) state \<and>
      is_none_or (\<lambda>value. session_remote s = value) remote \<and>
      is_none_or (\<lambda>value. session_user s = Some value) user)"
| "condition_matches h s (C_Power on_ac battery_below lid_closed) =
     (is_none_or (\<lambda>value. snap_on_ac s = Some value) on_ac \<and>
      is_none_or (\<lambda>value. snap_lid_closed s = Some value) lid_closed \<and>
      is_none_or (\<lambda>limit. is_some_and (\<lambda>actual. actual < limit) (snap_battery_percent s))
        battery_below)"
| "condition_matches h s (C_SensorHealthy sensor healthy) =
     (unwrap_or (sensor_health s sensor) False = healthy)"

section \<open>Lemmas\<close>

lemma elapsed_self [simp]: "elapsed t t = 0"
  by (simp add: elapsed_def)

lemma elapsed_backwards: "later \<le> earlier \<Longrightarrow> elapsed later earlier = 0"
  by (simp add: elapsed_def)

lemma elapsed_mono: "t \<le> t' \<Longrightarrow> elapsed t s \<le> elapsed t' s"
  by (simp add: elapsed_def)

lemma weekday_from_chrono_bij: "bij weekday_from_chrono"
proof (rule bijI)
  show "inj weekday_from_chrono"
  proof (rule injI)
    fix x y
    assume "weekday_from_chrono x = weekday_from_chrono y"
    then show "x = y" by (cases x; cases y) simp_all
  qed
  show "surj weekday_from_chrono"
  proof (rule surjI)
    fix w
    show "weekday_from_chrono
        (case w of Mon \<Rightarrow> Ch_Mon | Tue \<Rightarrow> Ch_Tue | Wed \<Rightarrow> Ch_Wed | Thu \<Rightarrow> Ch_Thu
         | Fri \<Rightarrow> Ch_Fri | Sat \<Rightarrow> Ch_Sat | Sun \<Rightarrow> Ch_Sun) = w"
      by (cases w) simp_all
  qed
qed

text \<open>
  A trigger that matches a sensor failure by itself names that sensor: the only atomic
  trigger with a sensor-failure event is \<^const>\<open>T_SensorFailure\<close>.
\<close>

lemma sensor_failure_trigger_uses_sensor:
  "trigger_matches (T_SensorFailure s) (E_SensorFailure n m) \<longleftrightarrow>
   trigger_uses_sensor (T_SensorFailure s) n"
  by simp

lemma sensor_failure_trigger_only:
  "trigger_matches (T_SensorFailure s) k \<Longrightarrow> \<exists>n m. k = E_SensorFailure n m \<and> trigger_uses_sensor (T_SensorFailure s) n"
  by (cases k) auto

lemma in_time_window_overnight:
  "finish < start \<Longrightarrow> in_time_window start finish now \<longleftrightarrow> \<not> (finish < now \<and> now < start)"
  by (auto simp: in_time_window_def)

end
