(* ===== verification/Engine.thy ===== *)
theory Engine
  imports Matching
begin

text \<open>
  The stateful event-condition-action evaluator of \<open>kovert-core/src/engine.rs\<close>:
  \<open>PolicyEngine\<close> with its per-rule \<open>RuleRuntime\<close>, the sequence matcher, conflict
  resolution and the whole of \<open>handle\<close>.

  Slice indexing can panic, and the release profile aborts on a panic, so the operations
  that index return \<^typ>\<open>'a + 'b\<close> with the panic on the left. The engine invariant
  says when no panic can happen; it is established by \<open>new\<close> and kept by every operation
  except \<open>replace_rules\<close>, which can break it.
\<close>

section \<open>State\<close>

record rule_runtime =
  last_fired :: "timestamp option"
  armed_at :: "timestamp option"
  fired_once :: bool
  sequence_index :: nat
  sequence_started :: "timestamp option"

definition default_runtime :: rule_runtime where
  "default_runtime =
     \<lparr> last_fired = None, armed_at = None, fired_once = False,
       sequence_index = 0, sequence_started = None \<rparr>"

record action_plan =
  plan_rule_id :: string
  plan_priority :: int
  plan_event_id :: string
  plan_action :: action_spec

record policy_engine =
  eng_rules :: "rule list"
  eng_runtime :: "string \<rightharpoonup> rule_runtime"
  eng_snapshot :: snapshot
  eng_recovery_mode :: bool

text \<open>The panics of the model: an index out of range, and a channel made with a bad capacity.\<close>

datatype panic = IndexOutOfBounds nat nat | ChannelCapacity nat

section \<open>Construction and administration\<close>

text \<open>
  \<open>sort_by\<close> is a stable sort; its comparator (descending priority, then ascending id)
  is the order of the key \<open>(- priority, id)\<close>.
\<close>

definition rule_order :: "rule \<Rightarrow> int \<times> string" where
  "rule_order r = (- rule_priority r, rule_id r)"

definition sort_rules :: "rule list \<Rightarrow> rule list" where
  "sort_rules rules = sort_key rule_order rules"

definition engine_new :: "timestamp \<Rightarrow> rule list \<Rightarrow> string \<Rightarrow> policy_engine" where
  "engine_new now rules initial_mode =
     (let sorted_rules = sort_rules rules in
      \<lparr> eng_rules = sorted_rules,
        eng_runtime = map_of (map (\<lambda>r. (rule_id r, default_runtime)) sorted_rules),
        eng_snapshot = (default_snapshot now)\<lparr>snap_mode := initial_mode\<rparr>,
        eng_recovery_mode = False \<rparr>)"

definition clear_progress :: "rule_runtime \<Rightarrow> rule_runtime" where
  "clear_progress rt = rt\<lparr>armed_at := None, sequence_index := 0, sequence_started := None\<rparr>"

definition set_recovery_mode :: "policy_engine \<Rightarrow> bool \<Rightarrow> policy_engine" where
  "set_recovery_mode e enabled =
     (let e' = e\<lparr>eng_recovery_mode := enabled\<rparr> in
      if enabled
      then e'\<lparr>eng_runtime := (\<lambda>i. map_option clear_progress (eng_runtime e i))\<rparr>
      else e')"

definition set_mode :: "policy_engine \<Rightarrow> string \<Rightarrow> policy_engine" where
  "set_mode e mode = e\<lparr>eng_snapshot := (eng_snapshot e)\<lparr>snap_mode := mode\<rparr>\<rparr>"

text \<open>
  The loop of \<open>replace_rules\<close>: \<open>remove\<close> takes an entry out of the old map, so a second
  rule with the same id finds nothing and stores a default.
\<close>

fun carry_runtime ::
  "rule list \<Rightarrow> (string \<rightharpoonup> rule_runtime) \<Rightarrow> (string \<rightharpoonup> rule_runtime) \<Rightarrow> (string \<rightharpoonup> rule_runtime)"
where
  "carry_runtime [] old next_runtime = next_runtime"
| "carry_runtime (r # rs) old next_runtime =
     carry_runtime rs (old(rule_id r := None))
       (next_runtime(rule_id r \<mapsto> unwrap_or (old (rule_id r)) default_runtime))"

definition replace_rules :: "policy_engine \<Rightarrow> rule list \<Rightarrow> policy_engine" where
  "replace_rules e rules =
     (let sorted_rules = sort_rules rules in
      e\<lparr>eng_rules := sorted_rules,
        eng_runtime := carry_runtime sorted_rules (eng_runtime e) Map.empty\<rparr>)"

section \<open>Sequences\<close>

definition expire_sequence :: "rule_runtime \<Rightarrow> duration \<Rightarrow> event \<Rightarrow> rule_runtime" where
  "expire_sequence rt within ev =
     (if is_some_and (\<lambda>start. elapsed (ev_timestamp ev) start > within) (sequence_started rt)
      then rt\<lparr>sequence_index := 0, sequence_started := None\<rparr> else rt)"

definition sequence_matches ::
  "rule_runtime \<Rightarrow> trigger_spec list \<Rightarrow> duration \<Rightarrow> event \<Rightarrow> panic + (rule_runtime \<times> bool)"
where
  "sequence_matches rt steps within ev =
     (if steps = [] then Inr (rt, False)
      else
        let rt = expire_sequence rt within ev; i = sequence_index rt in
        if length steps \<le> i then Inl (IndexOutOfBounds i (length steps))
        else if \<not> trigger_matches (steps ! i) (ev_kind ev) then
          (if trigger_matches (steps ! 0) (ev_kind ev)
           then Inr (rt\<lparr>sequence_index := 1, sequence_started := Some (ev_timestamp ev)\<rparr>, False)
           else Inr (rt, False))
        else
          let rt = (if i = 0 then rt\<lparr>sequence_started := Some (ev_timestamp ev)\<rparr> else rt);
              rt = rt\<lparr>sequence_index := i + 1\<rparr>
          in if i + 1 = length steps
             then Inr (rt\<lparr>sequence_index := 0, sequence_started := None\<rparr>, True)
             else Inr (rt, False))"

section \<open>Rule evaluation\<close>

definition plan_of :: "rule \<Rightarrow> event \<Rightarrow> action_spec \<Rightarrow> action_plan" where
  "plan_of r ev a =
     \<lparr> plan_rule_id = rule_id r, plan_priority = rule_priority r,
       plan_event_id = ev_id ev, plan_action = a \<rparr>"

definition append_actions :: "action_plan list \<Rightarrow> rule \<Rightarrow> event \<Rightarrow> action_plan list" where
  "append_actions candidates r ev = candidates @ map (plan_of r ev) (rule_actions r)"

fun fail_closed_action :: "action_spec \<Rightarrow> bool" where
  "fail_closed_action (A_LockVault _) = True"
| "fail_closed_action (A_NetworkIsolation enabled) = enabled"
| "fail_closed_action (A_SetMode _) = True"
| "fail_closed_action _ = False"

text \<open>
  The sensor-failure arm of the loop body: \<open>None\<close> when the event does not concern the
  rule, otherwise the candidates with what the rule's failure policy adds.
\<close>

definition sensor_failure_arm ::
  "rule \<Rightarrow> event \<Rightarrow> action_plan list \<Rightarrow> action_plan list option" where
  "sensor_failure_arm r ev candidates =
     (case ev_kind ev of
        E_SensorFailure sensor message \<Rightarrow>
          if trigger_uses_sensor (rule_trigger r) sensor then
            Some (case rule_on_sensor_failure r of
                Ignore \<Rightarrow> candidates
              | Alert \<Rightarrow> candidates @
                  [plan_of r ev (A_Notify ''Kovert sensor failure''
                     (sensor @ '': '' @ message) Critical)]
              | FailClosed \<Rightarrow> candidates @
                  map (plan_of r ev) (filter fail_closed_action (rule_actions r)))
          else None
      | _ \<Rightarrow> None)"

definition conditions_match :: "host \<Rightarrow> snapshot \<Rightarrow> rule \<Rightarrow> bool" where
  "conditions_match h s r = is_none_or (condition_matches h s) (rule_when r)"

definition fire :: "rule_runtime \<Rightarrow> event \<Rightarrow> rule_runtime" where
  "fire rt ev = rt\<lparr>last_fired := Some (ev_timestamp ev), fired_once := True\<rparr>"

definition match_trigger ::
  "rule_runtime \<Rightarrow> rule \<Rightarrow> event \<Rightarrow> panic + (rule_runtime \<times> bool)" where
  "match_trigger rt r ev =
     (case rule_trigger r of
        T_Sequence steps within \<Rightarrow> sequence_matches rt steps within ev
      | t \<Rightarrow> Inr (rt, trigger_matches t (ev_kind ev)))"

definition blocked :: "rule \<Rightarrow> rule_runtime \<Rightarrow> event \<Rightarrow> bool" where
  "blocked r rt ev \<longleftrightarrow>
     rule_once_per_boot r \<and> fired_once rt \<or>
     is_some_and (\<lambda>last. elapsed (ev_timestamp ev) last < rule_cooldown r) (last_fired rt)"

text \<open>The body of the rule loop in \<open>handle\<close>, for an enabled rule and its runtime entry.\<close>

definition rule_step ::
  "host \<Rightarrow> snapshot \<Rightarrow> event \<Rightarrow> rule \<Rightarrow> rule_runtime \<Rightarrow> action_plan list
   \<Rightarrow> panic + (rule_runtime \<times> action_plan list)"
where
  "rule_step h s ev r rt candidates =
     (if blocked r rt ev then Inr (rt, candidates)
      else case sensor_failure_arm r ev candidates of
        Some candidates' \<Rightarrow> Inr (rt, candidates')
      | None \<Rightarrow>
          (case armed_at rt of
             Some armed \<Rightarrow>
               if \<not> conditions_match h s r then Inr (rt\<lparr>armed_at := None\<rparr>, candidates)
               else if elapsed (ev_timestamp ev) armed < rule_sustain_for r then Inr (rt, candidates)
               else Inr (fire (rt\<lparr>armed_at := None\<rparr>) ev, append_actions candidates r ev)
           | None \<Rightarrow>
               (case match_trigger rt r ev of
                  Inl p \<Rightarrow> Inl p
                | Inr (rt, trigger_matched) \<Rightarrow>
                    if \<not> trigger_matched \<or> \<not> conditions_match h s r then Inr (rt, candidates)
                    else if rule_sustain_for r = 0
                      then Inr (fire rt ev, append_actions candidates r ev)
                    else Inr (rt\<lparr>armed_at := Some (ev_timestamp ev)\<rparr>, candidates))))"

fun handle_rules ::
  "host \<Rightarrow> snapshot \<Rightarrow> event \<Rightarrow> rule list \<Rightarrow> (string \<rightharpoonup> rule_runtime) \<Rightarrow> action_plan list
   \<Rightarrow> panic + ((string \<rightharpoonup> rule_runtime) \<times> action_plan list)"
where
  "handle_rules h s ev [] runtime candidates = Inr (runtime, candidates)"
| "handle_rules h s ev (r # rs) runtime candidates =
     (if \<not> rule_enabled r then handle_rules h s ev rs runtime candidates
      else case rule_step h s ev r (unwrap_or (runtime (rule_id r)) default_runtime) candidates of
        Inl p \<Rightarrow> Inl p
      | Inr (rt, candidates') \<Rightarrow>
          handle_rules h s ev rs (runtime(rule_id r \<mapsto> rt)) candidates')"

section \<open>Conflict resolution\<close>

text \<open>The closure of the \<open>filter\<close>: \<open>claimed.insert(key)\<close> is true for a new key.\<close>

fun claim_filter :: "string set \<Rightarrow> action_plan list \<Rightarrow> action_plan list" where
  "claim_filter claimed [] = []"
| "claim_filter claimed (p # ps) =
     (case conflict_key (plan_action p) of
        None \<Rightarrow> p # claim_filter claimed ps
      | Some key \<Rightarrow>
          if key \<in> claimed then claim_filter claimed ps
          else p # claim_filter (insert key claimed) ps)"

definition resolve_conflicts :: "action_plan list \<Rightarrow> action_plan list" where
  "resolve_conflicts candidates =
     claim_filter {} (sort_key (\<lambda>p. - plan_priority p) candidates)"

section \<open>Handling an event\<close>

definition handle :: "host \<Rightarrow> policy_engine \<Rightarrow> event \<Rightarrow> panic + (policy_engine \<times> action_plan list)"
where
  "handle h e ev =
     (let s = snapshot_apply (eng_snapshot e) ev; e' = e\<lparr>eng_snapshot := s\<rparr> in
      if eng_recovery_mode e then Inr (e', [])
      else case handle_rules h s ev (eng_rules e) (eng_runtime e) [] of
        Inl p \<Rightarrow> Inl p
      | Inr (runtime, candidates) \<Rightarrow>
          Inr (e'\<lparr>eng_runtime := runtime\<rparr>, resolve_conflicts candidates))"

end
