(* ===== verification/Engine_Conflicts.thy ===== *)
theory Engine_Conflicts
  imports Engine
begin

text \<open>
  Correctness of \<open>resolve_conflicts\<close>: the plan is conflict-free, keeps every action
  without a conflict key, and gives each contested resource to the action of highest
  priority that the rules listed first.
\<close>

section \<open>The claim filter\<close>

abbreviation plan_key :: "action_plan \<Rightarrow> string option" where
  "plan_key p \<equiv> conflict_key (plan_action p)"

definition plan_keys :: "action_plan list \<Rightarrow> string list" where
  "plan_keys ps = List.map_filter plan_key ps"

lemma plan_keys_simps [simp]:
  "plan_keys [] = []"
  "plan_keys (p # ps) = (case plan_key p of None \<Rightarrow> plan_keys ps | Some k \<Rightarrow> k # plan_keys ps)"
  by (simp_all add: plan_keys_def map_filter_simps split: option.split)

lemma claim_filter_subseq: "subseq (claim_filter claimed ps) ps"
  by (induction ps arbitrary: claimed) (auto split: option.splits)

lemma claim_filter_set: "set (claim_filter claimed ps) \<subseteq> set ps"
  by (induction ps arbitrary: claimed) (auto split: option.splits if_splits)

lemma claim_filter_keys:
  "distinct (plan_keys (claim_filter claimed ps)) \<and>
   set (plan_keys (claim_filter claimed ps)) \<inter> claimed = {}"
proof (induction ps arbitrary: claimed)
  case Nil
  then show ?case by simp
next
  case (Cons p ps)
  show ?case
  proof (cases "plan_key p")
    case None
    with Cons.IH [of claimed] show ?thesis by simp
  next
    case (Some k)
    with Cons.IH [of claimed] Cons.IH [of "insert k claimed"] show ?thesis by auto
  qed
qed

lemma claim_filter_keyless:
  "filter (\<lambda>p. plan_key p = None) (claim_filter claimed ps) = filter (\<lambda>p. plan_key p = None) ps"
  by (induction ps arbitrary: claimed) (auto split: option.splits)

lemma claim_filter_claimed:
  "p \<in> set (claim_filter claimed ps) \<Longrightarrow> plan_key p = Some k \<Longrightarrow> k \<notin> claimed"
  by (induction ps arbitrary: claimed) (auto split: option.splits if_splits)

text \<open>The survivor of a key is the first plan of the list with that key.\<close>

lemma claim_filter_first:
  assumes "plan_key p = Some k" and "k \<notin> claimed"
  shows "p \<in> set (claim_filter claimed ps) \<longleftrightarrow> find (\<lambda>q. plan_key q = Some k) ps = Some p"
  using assms(2)
proof (induction ps arbitrary: claimed)
  case Nil
  then show ?case by simp
next
  case (Cons q ps)
  have gone: "p \<notin> set (claim_filter (insert k claimed) ps)"
    using claim_filter_claimed [OF _ assms(1)] by blast
  consider "plan_key q = None" | "plan_key q = Some k"
    | j where "plan_key q = Some j" "j \<noteq> k" by (cases "plan_key q") auto
  then show ?case
  proof cases
    case 1
    then have "q \<noteq> p" using assms(1) by auto
    with 1 Cons show ?thesis by simp
  next
    case 2
    with gone Cons.prems show ?thesis by auto
  next
    case 3
    then have "q \<noteq> p" using assms(1) by auto
    with 3 Cons show ?thesis by simp
  qed
qed

section \<open>The resolved plan\<close>

abbreviation by_priority :: "action_plan list \<Rightarrow> action_plan list" where
  "by_priority ps \<equiv> sort_key (\<lambda>p. - plan_priority p) ps"

lemma subseq_sorted_key: "subseq xs ys \<Longrightarrow> sorted (map f ys) \<Longrightarrow> sorted (map f xs)"
  by (induction rule: list_emb.induct) (auto dest: list_emb_set)

lemma resolve_conflicts_sorted: "sorted (map (\<lambda>p. - plan_priority p) (resolve_conflicts ps))"
  unfolding resolve_conflicts_def
  by (rule subseq_sorted_key [OF claim_filter_subseq]) simp

lemma resolve_conflicts_subset: "set (resolve_conflicts ps) \<subseteq> set ps"
  unfolding resolve_conflicts_def using claim_filter_set by fastforce

lemma resolve_conflicts_distinct_keys: "distinct (plan_keys (resolve_conflicts ps))"
  unfolding resolve_conflicts_def using claim_filter_keys by blast

lemma find_sorted_max:
  assumes "find P xs = Some x" and "sorted (map f xs)" and "y \<in> set xs" and "P y"
  shows "f x \<le> f y"
  using assms
proof (induction xs)
  case Nil
  then show ?case by simp
next
  case (Cons a xs)
  then show ?case by (auto split: if_splits)
qed

lemma resolve_conflicts_dominated:
  assumes p: "p \<in> set ps" and k: "plan_key p = Some k"
  shows "\<exists>w \<in> set (resolve_conflicts ps). plan_key w = Some k \<and> plan_priority p \<le> plan_priority w"
proof -
  let ?P = "\<lambda>q. plan_key q = Some k"
  from p k have "\<exists>x \<in> set (by_priority ps). ?P x" by auto
  then have "find ?P (by_priority ps) \<noteq> None" by (auto simp: find_None_iff)
  then obtain w where w: "find ?P (by_priority ps) = Some w" by auto
  then have wk: "plan_key w = Some k" by (auto simp: find_Some_iff)
  then have "w \<in> set (resolve_conflicts ps)"
    using claim_filter_first [OF wk, of "{}"] w by (simp add: resolve_conflicts_def)
  moreover have "- plan_priority w \<le> - plan_priority p"
    by (rule find_sorted_max [OF w _ _ k]) (use p in simp_all)
  ultimately show ?thesis using wk by auto
qed

lemma resolve_conflicts_keyless:
  "p \<in> set ps \<Longrightarrow> plan_key p = None \<Longrightarrow> p \<in> set (resolve_conflicts ps)"
proof -
  assume "p \<in> set ps" and "plan_key p = None"
  then have "p \<in> set (filter (\<lambda>p. plan_key p = None) (by_priority ps))" by simp
  then have "p \<in> set (filter (\<lambda>p. plan_key p = None) (claim_filter {} (by_priority ps)))"
    by (simp only: claim_filter_keyless)
  then show ?thesis by (simp add: resolve_conflicts_def)
qed

lemma plan_keys_nth: "n < length ps \<Longrightarrow> plan_key (ps ! n) = Some k \<Longrightarrow> k \<in> set (plan_keys ps)"
  by (induction ps arbitrary: n) (auto simp: nth_Cons split: nat.splits option.splits)

lemma distinct_plan_keys_nth:
  assumes "distinct (plan_keys ps)" and "i < j" and "j < length ps"
    and "plan_key (ps ! i) = Some k"
  shows "plan_key (ps ! j) \<noteq> Some k"
  using assms
proof (induction ps arbitrary: i j)
  case Nil
  then show ?case by simp
next
  case (Cons p ps)
  then obtain j' where j: "j = Suc j'" "j' < length ps" by (cases j) auto
  show ?case
  proof (cases i)
    case 0
    with Cons.prems j plan_keys_nth [of j' ps k] show ?thesis by auto
  next
    case (Suc i')
    have "distinct (plan_keys ps)" using Cons.prems(1) by (auto split: option.splits)
    from Cons.IH [OF this, of i' j'] Suc j Cons.prems show ?thesis by simp
  qed
qed

lemma claim_filter_id:
  "distinct (plan_keys ps) \<Longrightarrow> set (plan_keys ps) \<inter> claimed = {} \<Longrightarrow> claim_filter claimed ps = ps"
  by (induction ps arbitrary: claimed) (auto split: option.splits)

lemma resolve_conflicts_idem: "resolve_conflicts (resolve_conflicts ps) = resolve_conflicts ps"
proof -
  have "by_priority (resolve_conflicts ps) = resolve_conflicts ps"
    by (rule sort_key_id) (rule resolve_conflicts_sorted)
  then show ?thesis
    unfolding resolve_conflicts_def [of "resolve_conflicts ps"]
    using claim_filter_id [OF resolve_conflicts_distinct_keys, of ps "{}"] by simp
qed

end
