(* ===== verification/Engine_Invariant.thy ===== *)
theory Engine_Invariant
  imports Engine_Conflicts
begin

text \<open>
  The engine invariant: rule ids are distinct, the rules are in evaluation order, every
  sequence cursor is inside its sequence and only loaded rules have a runtime. Every operation of the engine but
  \<open>replace_rules\<close> keeps it, no indexing panics under it, and the rule loop of \<open>handle\<close>
  then is a map over the rules: each rule reads and writes its own runtime only.
\<close>

section \<open>The invariant\<close>

definition runtime_of :: "(string \<rightharpoonup> rule_runtime) \<Rightarrow> rule \<Rightarrow> rule_runtime" where
  "runtime_of runtime r = unwrap_or (runtime (rule_id r)) default_runtime"

definition cursor_ok :: "rule \<Rightarrow> rule_runtime \<Rightarrow> bool" where
  "cursor_ok r rt \<longleftrightarrow>
     (case rule_trigger r of
        T_Sequence steps _ \<Rightarrow> steps = [] \<or> sequence_index rt < length steps
      | _ \<Rightarrow> True)"

definition wf_engine :: "policy_engine \<Rightarrow> bool" where
  "wf_engine e \<longleftrightarrow>
     distinct (map rule_id (eng_rules e)) \<and>
     sorted (map rule_order (eng_rules e)) \<and>
     list_all (\<lambda>r. cursor_ok r (runtime_of (eng_runtime e) r)) (eng_rules e) \<and>
     dom (eng_runtime e) \<subseteq> rule_id ` set (eng_rules e)"

lemma wf_engineD:
  assumes "wf_engine e"
  shows "distinct (map rule_id (eng_rules e))"
    and "sorted (map rule_order (eng_rules e))"
    and "r \<in> set (eng_rules e) \<Longrightarrow> cursor_ok r (runtime_of (eng_runtime e) r)"
    and "dom (eng_runtime e) \<subseteq> rule_id ` set (eng_rules e)"
  using assms unfolding wf_engine_def list_all_iff by blast+

section \<open>One rule\<close>

lemma cursor_ok_default [simp]: "cursor_ok r default_runtime"
  by (auto simp: cursor_ok_def default_runtime_def split: trigger_spec.splits)

lemma cursor_ok_armed [simp]: "cursor_ok r (rt\<lparr>armed_at := a\<rparr>) = cursor_ok r rt"
  by (simp add: cursor_ok_def cong: trigger_spec.case_cong)

lemma cursor_ok_fire [simp]: "cursor_ok r (fire rt ev) = cursor_ok r rt"
  by (simp add: cursor_ok_def fire_def cong: trigger_spec.case_cong)

lemma cursor_ok_clear [simp]: "cursor_ok r (clear_progress rt)"
  by (auto simp: cursor_ok_def clear_progress_def split: trigger_spec.splits)

lemma expire_sequence_index:
  "sequence_index rt < n \<Longrightarrow> sequence_index (expire_sequence rt within ev) < n"
  by (auto simp: expire_sequence_def)

lemma sequence_matches_safe:
  assumes "steps \<noteq> []" and "sequence_index rt < length steps"
  shows "\<exists>rt' b. sequence_matches rt steps within ev = Inr (rt', b) \<and>
                 sequence_index rt' < length steps"
proof -
  let ?i = "sequence_index (expire_sequence rt within ev)"
  have i: "?i < length steps" using assms(2) by (rule expire_sequence_index)
  have two: "1 < length steps"
    if "\<not> trigger_matches (steps ! ?i) k" "trigger_matches (steps ! 0) k" for k
  proof -
    have "?i \<noteq> 0" using that by (metis (full_types))
    then show ?thesis using i by simp
  qed
  show ?thesis
    using assms(1) i two by (auto simp: sequence_matches_def Let_def)
qed

lemma match_trigger_safe:
  assumes "cursor_ok r rt"
  shows "\<exists>rt' b. match_trigger rt r ev = Inr (rt', b) \<and> cursor_ok r rt'"
proof (cases "\<exists>steps within. rule_trigger r = T_Sequence steps within")
  case True
  then obtain steps within where t: "rule_trigger r = T_Sequence steps within" by blast
  show ?thesis
  proof (cases "steps = []")
    case True
    with t have "match_trigger rt r ev = Inr (rt, False)"
      by (simp add: match_trigger_def sequence_matches_def)
    with assms show ?thesis by blast
  next
    case False
    with t assms have "sequence_index rt < length steps" by (simp add: cursor_ok_def)
    with sequence_matches_safe [OF False] t show ?thesis
      by (fastforce simp: match_trigger_def cursor_ok_def)
  qed
next
  case False
  with assms show ?thesis by (cases "rule_trigger r") (simp_all add: match_trigger_def)
qed

lemma rule_step_safe:
  assumes "cursor_ok r rt"
  shows "\<exists>rt' cs'. rule_step h s ev r rt cs = Inr (rt', cs') \<and> cursor_ok r rt'"
proof -
  obtain rt' b where "match_trigger rt r ev = Inr (rt', b)" and "cursor_ok r rt'"
    using match_trigger_safe [OF assms] by blast
  with assms show ?thesis by (simp add: rule_step_def split: option.split)
qed

text \<open>A rule only appends to the candidates, whatever they are.\<close>

lemma sensor_failure_arm_append:
  "sensor_failure_arm r ev cs = map_option ((@) cs) (sensor_failure_arm r ev [])"
  by (simp add: sensor_failure_arm_def split: event_kind.split sensor_failure_policy.split)

lemma rule_step_append:
  "rule_step h s ev r rt cs =
     map_sum id (\<lambda>(rt', new). (rt', cs @ new)) (rule_step h s ev r rt [])"
  by (cases "blocked r rt ev"; cases "sensor_failure_arm r ev []"; cases "armed_at rt";
      cases "match_trigger rt r ev")
    (auto simp: rule_step_def sensor_failure_arm_append [of r ev cs] append_actions_def)

section \<open>The rule loop\<close>

text \<open>What one rule contributes to the candidates, from the runtime it finds.\<close>

definition rule_plans ::
  "host \<Rightarrow> snapshot \<Rightarrow> event \<Rightarrow> (string \<rightharpoonup> rule_runtime) \<Rightarrow> rule \<Rightarrow> action_plan list" where
  "rule_plans h s ev runtime r =
     (if rule_enabled r
      then (case rule_step h s ev r (runtime_of runtime r) [] of Inl _ \<Rightarrow> [] | Inr (_, new) \<Rightarrow> new)
      else [])"

definition rule_next ::
  "host \<Rightarrow> snapshot \<Rightarrow> event \<Rightarrow> (string \<rightharpoonup> rule_runtime) \<Rightarrow> rule \<Rightarrow> rule_runtime" where
  "rule_next h s ev runtime r =
     (if rule_enabled r
      then (case rule_step h s ev r (runtime_of runtime r) [] of
              Inl _ \<Rightarrow> runtime_of runtime r | Inr (rt, _) \<Rightarrow> rt)
      else runtime_of runtime r)"

lemma runtime_of_upd:
  "runtime_of (runtime(i \<mapsto> rt)) r = (if rule_id r = i then rt else runtime_of runtime r)"
  by (simp add: runtime_of_def)

lemma runtime_of_cong:
  "runtime (rule_id r) = runtime' (rule_id r) \<Longrightarrow> runtime_of runtime r = runtime_of runtime' r"
  by (simp add: runtime_of_def)

lemma rule_plans_cong:
  "runtime (rule_id r) = runtime' (rule_id r) \<Longrightarrow>
   rule_plans h s ev runtime r = rule_plans h s ev runtime' r"
  by (drule runtime_of_cong) (simp add: rule_plans_def)

lemma rule_next_cong:
  "runtime (rule_id r) = runtime' (rule_id r) \<Longrightarrow>
   rule_next h s ev runtime r = rule_next h s ev runtime' r"
  by (drule runtime_of_cong) (simp add: rule_next_def split: sum.split)

lemma rule_next_cursor:
  "cursor_ok r (runtime_of runtime r) \<Longrightarrow> cursor_ok r (rule_next h s ev runtime r)"
  using rule_step_safe [of r "runtime_of runtime r" h s ev "[]"]
  by (auto simp: rule_next_def)

lemma handle_rules_spec:
  assumes "distinct (map rule_id rs)"
    and "\<And>r. r \<in> set rs \<Longrightarrow> cursor_ok r (runtime_of runtime r)"
  shows "\<exists>runtime'.
     handle_rules h s ev rs runtime cs =
       Inr (runtime', cs @ concat (map (rule_plans h s ev runtime) rs)) \<and>
     (\<forall>r \<in> set rs. runtime_of runtime' r = rule_next h s ev runtime r) \<and>
     (\<forall>i. i \<notin> rule_id ` set rs \<longrightarrow> runtime' i = runtime i)"
  using assms
proof (induction rs arbitrary: runtime cs)
  case Nil
  then show ?case by simp
next
  case (Cons r rs)
  show ?case
  proof (cases "rule_enabled r")
    case False
    have "\<And>q. q \<in> set rs \<Longrightarrow> cursor_ok q (runtime_of runtime q)" using Cons.prems by simp
    from Cons.IH [OF _ this, of cs] Cons.prems(1) obtain runtime' where
      IH: "handle_rules h s ev rs runtime cs =
             Inr (runtime', cs @ concat (map (rule_plans h s ev runtime) rs))"
          "\<forall>q \<in> set rs. runtime_of runtime' q = rule_next h s ev runtime q"
          "\<forall>i. i \<notin> rule_id ` set rs \<longrightarrow> runtime' i = runtime i" by auto
    moreover have "runtime_of runtime' r = rule_next h s ev runtime r"
      using IH(3) Cons.prems(1) False by (simp add: rule_next_def runtime_of_def)
    ultimately show ?thesis using False by (auto simp: rule_plans_def [of _ _ _ _ r])
  next
    case True
    have d: "distinct (map rule_id rs)" using Cons.prems(1) by simp
    obtain rt new where step: "rule_step h s ev r (runtime_of runtime r) [] = Inr (rt, new)"
      using rule_step_safe Cons.prems(2) by (metis list.set_intros(1))
    let ?runtime = "runtime(rule_id r \<mapsto> rt)"
    have other: "?runtime (rule_id q) = runtime (rule_id q)" if "q \<in> set rs" for q
    proof -
      have "rule_id r \<notin> rule_id ` set rs" using Cons.prems(1) by simp
      with that have "rule_id q \<noteq> rule_id r" by (metis image_eqI)
      then show ?thesis by simp
    qed
    then have "\<And>q. q \<in> set rs \<Longrightarrow> cursor_ok q (runtime_of ?runtime q)"
      using Cons.prems(2) by (simp add: runtime_of_def)
    from Cons.IH [OF _ this, of "cs @ new"] d obtain runtime' where
      IH: "handle_rules h s ev rs ?runtime (cs @ new) =
             Inr (runtime', (cs @ new) @ concat (map (rule_plans h s ev ?runtime) rs))"
          "\<forall>q \<in> set rs. runtime_of runtime' q = rule_next h s ev ?runtime q"
          "\<forall>i. i \<notin> rule_id ` set rs \<longrightarrow> runtime' i = ?runtime i" by blast
    have plans: "map (rule_plans h s ev ?runtime) rs = map (rule_plans h s ev runtime) rs"
      using other by (auto intro: rule_plans_cong)
    have nexts: "\<forall>q \<in> set rs. runtime_of runtime' q = rule_next h s ev runtime q"
      using IH(2) other rule_next_cong by metis
    have self: "runtime_of runtime' r = rule_next h s ev runtime r"
      using IH(3) Cons.prems(1) True step by (simp add: rule_next_def runtime_of_def)
    have "handle_rules h s ev (r # rs) runtime cs =
        Inr (runtime', cs @ concat (map (rule_plans h s ev runtime) (r # rs)))"
      using True step IH(1)
      by (simp add: plans rule_plans_def rule_step_append [of h s ev r _ cs]
          flip: runtime_of_def)
    with nexts self IH(3) show ?thesis by auto
  qed
qed

section \<open>The whole engine\<close>

lemma handle_spec:
  assumes "wf_engine e"
  defines "s ev \<equiv> snapshot_apply (eng_snapshot e) ev"
  obtains e' ps where
    "handle h e ev = Inr (e', ps)" and "wf_engine e'"
    and "eng_rules e' = eng_rules e" and "eng_snapshot e' = s ev"
    and "eng_recovery_mode e' = eng_recovery_mode e"
    and "ps = (if eng_recovery_mode e then []
               else resolve_conflicts
                      (concat (map (rule_plans h (s ev) ev (eng_runtime e)) (eng_rules e))))"
    and "\<And>r. r \<in> set (eng_rules e) \<Longrightarrow>
           runtime_of (eng_runtime e') r =
             (if eng_recovery_mode e then runtime_of (eng_runtime e) r
              else rule_next h (s ev) ev (eng_runtime e) r)"
proof (cases "eng_recovery_mode e")
  case True
  then have "handle h e ev = Inr (e\<lparr>eng_snapshot := s ev\<rparr>, [])"
    by (simp add: handle_def s_def)
  with True assms(1) show ?thesis
    by (intro that [of "e\<lparr>eng_snapshot := s ev\<rparr>" "[]"]) (simp_all add: wf_engine_def)
next
  case False
  note wf = wf_engineD [OF assms(1)]
  from handle_rules_spec [OF wf(1,3), of h "s ev" ev "[]"] obtain runtime' where
    loop: "handle_rules h (s ev) ev (eng_rules e) (eng_runtime e) [] =
             Inr (runtime', concat (map (rule_plans h (s ev) ev (eng_runtime e)) (eng_rules e)))"
    and nexts: "\<forall>r \<in> set (eng_rules e). runtime_of runtime' r = rule_next h (s ev) ev (eng_runtime e) r"
    and others: "\<forall>i. i \<notin> rule_id ` set (eng_rules e) \<longrightarrow> runtime' i = eng_runtime e i"
    by auto
  have "dom runtime' \<subseteq> rule_id ` set (eng_rules e)"
  proof
    fix i
    assume "i \<in> dom runtime'"
    then show "i \<in> rule_id ` set (eng_rules e)" using others wf(4) by (cases "i \<in> dom (eng_runtime e)") auto
  qed
  let ?e = "e\<lparr>eng_snapshot := s ev, eng_runtime := runtime'\<rparr>"
  have "wf_engine ?e"
    using wf(1-3) nexts \<open>dom runtime' \<subseteq> _\<close> by (simp add: wf_engine_def list_all_iff rule_next_cursor)
  moreover have "handle h e ev = Inr (?e, resolve_conflicts
      (concat (map (rule_plans h (s ev) ev (eng_runtime e)) (eng_rules e))))"
    using False loop by (simp add: handle_def s_def Let_def)
  ultimately show ?thesis using False nexts by (intro that [of ?e]) simp_all
qed

lemma handle_result:
  assumes "wf_engine e" and "handle h e ev = Inr (e', ps)"
  defines "s \<equiv> snapshot_apply (eng_snapshot e) ev"
  shows "wf_engine e'" and "eng_rules e' = eng_rules e" and "eng_snapshot e' = s"
    and "eng_recovery_mode e' = eng_recovery_mode e"
    and "ps = (if eng_recovery_mode e then []
               else resolve_conflicts
                      (concat (map (rule_plans h s ev (eng_runtime e)) (eng_rules e))))"
    and "r \<in> set (eng_rules e) \<Longrightarrow>
           runtime_of (eng_runtime e') r =
             (if eng_recovery_mode e then runtime_of (eng_runtime e) r
              else rule_next h s ev (eng_runtime e) r)"
  unfolding s_def
  by (rule handle_spec [OF assms(1), of h ev]; use assms(2) in simp)+

lemma sort_rules_set [simp]: "set (sort_rules rules) = set rules"
  by (simp add: sort_rules_def)

lemma sort_rules_distinct [simp]:
  "distinct (map rule_id (sort_rules rules)) = distinct (map rule_id rules)"
  by (simp add: sort_rules_def distinct_map)

lemma sort_rules_sorted [simp]: "sorted (map rule_order (sort_rules rules))"
  by (simp add: sort_rules_def)

lemma runtime_of_new [simp]: "runtime_of (eng_runtime (engine_new now rules mode)) r = default_runtime"
proof -
  have "map_of (map (\<lambda>r. (rule_id r, default_runtime)) rs) i = (if i \<in> rule_id ` set rs then Some default_runtime else None)"
    for i and rs :: "rule list" by (induction rs) auto
  then show ?thesis by (simp add: engine_new_def runtime_of_def Let_def)
qed

lemma engine_new_wf:
  "distinct (map rule_id rules) \<Longrightarrow> wf_engine (engine_new now rules mode)"
  using runtime_of_new [of now rules mode]
  by (auto simp: wf_engine_def list_all_iff)
    (auto simp: engine_new_def Let_def dest!: map_of_SomeD)

lemma set_mode_rules [simp]: "eng_rules (set_mode e mode) = eng_rules e"
  by (simp add: set_mode_def)

lemma set_mode_wf [simp]: "wf_engine (set_mode e mode) = wf_engine e"
  by (simp add: set_mode_def wf_engine_def)

lemma runtime_of_recovery:
  "runtime_of (eng_runtime (set_recovery_mode e enabled)) r =
     (if enabled then clear_progress (runtime_of (eng_runtime e) r) else runtime_of (eng_runtime e) r)"
  by (cases "eng_runtime e (rule_id r)")
    (simp_all add: set_recovery_mode_def runtime_of_def Let_def clear_progress_def default_runtime_def)

lemma set_recovery_mode_rules [simp]: "eng_rules (set_recovery_mode e enabled) = eng_rules e"
  by (simp add: set_recovery_mode_def Let_def)

lemma set_recovery_mode_wf: "wf_engine e \<Longrightarrow> wf_engine (set_recovery_mode e enabled)"
  by (simp add: wf_engine_def list_all_iff runtime_of_recovery)
    (auto simp: set_recovery_mode_def Let_def dom_def split: if_splits)

section \<open>Runs of the engine\<close>

text \<open>
  The operations the daemon performs on a loaded engine. The environment of the
  conditions may differ at every event.
\<close>

datatype engine_op = Op_Event host event | Op_SetMode string | Op_Recovery bool

fun engine_step :: "policy_engine \<Rightarrow> engine_op \<Rightarrow> panic + policy_engine" where
  "engine_step e (Op_Event h ev) = map_sum id fst (handle h e ev)"
| "engine_step e (Op_SetMode mode) = Inr (set_mode e mode)"
| "engine_step e (Op_Recovery enabled) = Inr (set_recovery_mode e enabled)"

lemma engine_step_safe:
  assumes "wf_engine e"
  shows "\<exists>e'. engine_step e x = Inr e' \<and> wf_engine e' \<and> eng_rules e' = eng_rules e"
proof (cases x)
  case (Op_Event h ev)
  from handle_spec [OF assms, of h ev] show ?thesis
    unfolding Op_Event by (metis engine_step.simps(1) fst_conv map_sum.simps(2))
qed (use assms in \<open>auto simp: set_recovery_mode_wf\<close>)

interpretation engine: safe_machine engine_step wf_engine "\<lambda>_. True"
proof unfold_locales
  show "\<exists>e'. engine_step e x = Inr e'" if "wf_engine e" for e x
    using engine_step_safe [OF that] by blast
  show "wf_engine e'" if "wf_engine e" "engine_step e x = Inr e'" for e x e'
    using engine_step_safe [OF that(1), of x] that(2) by auto
qed

end
