(* ===== verification/Engine_Runs.thy ===== *)
theory Engine_Runs
  imports Engine_Invariant
begin

text \<open>
  What the engine guarantees over whole runs: cooldowns separate firings, a
  once-per-boot rule fires once, recovery mode silences every rule, and some triggers
  that validation accepts can never fire.
\<close>

section \<open>Firing\<close>

text \<open>
  The declarative reading of the loop body: when a rule executes its actions. A rule
  that is armed fires when its condition still holds and the sustain time has passed; an
  unarmed rule without a sustain time fires when its trigger and condition match.
\<close>

definition fires :: "host \<Rightarrow> snapshot \<Rightarrow> event \<Rightarrow> rule \<Rightarrow> rule_runtime \<Rightarrow> bool" where
  "fires h s ev r rt \<longleftrightarrow>
     \<not> blocked r rt ev \<and> sensor_failure_arm r ev [] = None \<and> conditions_match h s r \<and>
     (case armed_at rt of
        Some armed \<Rightarrow> rule_sustain_for r \<le> elapsed (ev_timestamp ev) armed
      | None \<Rightarrow> rule_sustain_for r = 0 \<and>
          (case match_trigger rt r ev of Inl _ \<Rightarrow> False | Inr (_, matched) \<Rightarrow> matched))"

lemma expire_sequence_frame [simp]:
  "last_fired (expire_sequence rt within ev) = last_fired rt"
  "fired_once (expire_sequence rt within ev) = fired_once rt"
  "armed_at (expire_sequence rt within ev) = armed_at rt"
  by (simp_all add: expire_sequence_def)

lemma sequence_matches_frame:
  assumes "sequence_matches rt steps within ev = Inr (rt', b)"
  shows "last_fired rt' = last_fired rt" "fired_once rt' = fired_once rt" "armed_at rt' = armed_at rt"
  using assms by (auto simp: sequence_matches_def Let_def split: if_splits)

lemma match_trigger_frame:
  assumes "match_trigger rt r ev = Inr (rt', b)"
  shows "last_fired rt' = last_fired rt" "fired_once rt' = fired_once rt" "armed_at rt' = armed_at rt"
  using assms sequence_matches_frame
  by (auto simp: match_trigger_def split: trigger_spec.splits)

lemma rule_step_fires:
  assumes "rule_step h s ev r rt cs = Inr (rt', cs')"
  shows "last_fired rt' = (if fires h s ev r rt then Some (ev_timestamp ev) else last_fired rt)"
    and "fired_once rt' = (fires h s ev r rt \<or> fired_once rt)"
    and "fires h s ev r rt \<Longrightarrow> armed_at rt' = None \<and> cs' = append_actions cs r ev"
  using assms sensor_failure_arm_append [of r ev cs]
  by (auto simp: rule_step_def fires_def fire_def dest: match_trigger_frame
      split: if_splits option.splits sum.splits prod.splits)

definition engine_fires :: "host \<Rightarrow> policy_engine \<Rightarrow> event \<Rightarrow> rule \<Rightarrow> bool" where
  "engine_fires h e ev r \<longleftrightarrow>
     \<not> eng_recovery_mode e \<and> rule_enabled r \<and>
     fires h (snapshot_apply (eng_snapshot e) ev) ev r (runtime_of (eng_runtime e) r)"

lemma handle_runtime:
  assumes "wf_engine e" and "r \<in> set (eng_rules e)" and "handle h e ev = Inr (e', ps)"
  shows "last_fired (runtime_of (eng_runtime e') r) =
           (if engine_fires h e ev r then Some (ev_timestamp ev)
            else last_fired (runtime_of (eng_runtime e) r))"
    and "fired_once (runtime_of (eng_runtime e') r) =
           (engine_fires h e ev r \<or> fired_once (runtime_of (eng_runtime e) r))"
proof -
  let ?s = "snapshot_apply (eng_snapshot e) ev"
  have rt: "runtime_of (eng_runtime e') r =
      (if eng_recovery_mode e then runtime_of (eng_runtime e) r
       else rule_next h ?s ev (eng_runtime e) r)"
    using handle_result(6) [OF assms(1,3,2)] .
  obtain rt' new where
    step: "rule_step h ?s ev r (runtime_of (eng_runtime e) r) [] = Inr (rt', new)"
    using rule_step_safe wf_engineD(3) [OF assms(1,2)] by blast
  from rt step rule_step_fires [OF step]
  show "last_fired (runtime_of (eng_runtime e') r) =
           (if engine_fires h e ev r then Some (ev_timestamp ev)
            else last_fired (runtime_of (eng_runtime e) r))"
    and "fired_once (runtime_of (eng_runtime e') r) =
           (engine_fires h e ev r \<or> fired_once (runtime_of (eng_runtime e) r))"
    by (auto simp: engine_fires_def rule_next_def)
qed

text \<open>The times at which a rule fires along a run.\<close>

fun firings :: "rule \<Rightarrow> policy_engine \<Rightarrow> engine_op list \<Rightarrow> timestamp list" where
  "firings r e [] = []"
| "firings r e (x # xs) =
     (case engine_step e x of
        Inl _ \<Rightarrow> []
      | Inr e' \<Rightarrow>
          (case x of
             Op_Event h ev \<Rightarrow> if engine_fires h e ev r then [ev_timestamp ev] else []
           | _ \<Rightarrow> []) @ firings r e' xs)"

lemma engine_step_obtain:
  assumes "wf_engine e"
  obtains e' where "engine_step e x = Inr e'" "wf_engine e'" "eng_rules e' = eng_rules e"
  using engine_step_safe [OF assms] by blast

lemma engine_step_fired:
  assumes "wf_engine e" and "r \<in> set (eng_rules e)" and "engine_step e x = Inr e'"
  shows "last_fired (runtime_of (eng_runtime e') r) =
           (case x of
              Op_Event h ev \<Rightarrow> if engine_fires h e ev r then Some (ev_timestamp ev)
                              else last_fired (runtime_of (eng_runtime e) r)
            | _ \<Rightarrow> last_fired (runtime_of (eng_runtime e) r))"
    and "fired_once (runtime_of (eng_runtime e') r) =
           ((case x of Op_Event h ev \<Rightarrow> engine_fires h e ev r | _ \<Rightarrow> False)
            \<or> fired_once (runtime_of (eng_runtime e) r))"
proof -
  have "last_fired (runtime_of (eng_runtime e') r) =
           (case x of
              Op_Event h ev \<Rightarrow> if engine_fires h e ev r then Some (ev_timestamp ev)
                              else last_fired (runtime_of (eng_runtime e) r)
            | _ \<Rightarrow> last_fired (runtime_of (eng_runtime e) r)) \<and>
        fired_once (runtime_of (eng_runtime e') r) =
           ((case x of Op_Event h ev \<Rightarrow> engine_fires h e ev r | _ \<Rightarrow> False)
            \<or> fired_once (runtime_of (eng_runtime e) r))"
  proof (cases x)
    case (Op_Event h ev)
    then obtain ps where "handle h e ev = Inr (e', ps)"
      using assms(3) by (cases "handle h e ev") auto
    from handle_runtime [OF assms(1,2) this] Op_Event show ?thesis by simp
  next
    case (Op_SetMode mode)
    then have "e' = set_mode e mode" using assms(3) by simp
    with Op_SetMode show ?thesis by (simp add: set_mode_def)
  next
    case (Op_Recovery enabled)
    then have "e' = set_recovery_mode e enabled" using assms(3) by simp
    with Op_Recovery show ?thesis by (simp add: runtime_of_recovery clear_progress_def)
  qed
  then show "last_fired (runtime_of (eng_runtime e') r) =
           (case x of
              Op_Event h ev \<Rightarrow> if engine_fires h e ev r then Some (ev_timestamp ev)
                              else last_fired (runtime_of (eng_runtime e) r)
            | _ \<Rightarrow> last_fired (runtime_of (eng_runtime e) r))"
    and "fired_once (runtime_of (eng_runtime e') r) =
           ((case x of Op_Event h ev \<Rightarrow> engine_fires h e ev r | _ \<Rightarrow> False)
            \<or> fired_once (runtime_of (eng_runtime e) r))"
    by blast+
qed

section \<open>Cooldowns\<close>

lemma engine_fires_cooldown:
  assumes "engine_fires h e ev r" and "last_fired (runtime_of (eng_runtime e) r) = Some t"
  shows "rule_cooldown r \<le> elapsed (ev_timestamp ev) t"
  using assms by (auto simp: engine_fires_def fires_def blocked_def)

lemma firings_spacing:
  assumes "wf_engine e" and "r \<in> set (eng_rules e)"
  shows "successively (\<lambda>a b. rule_cooldown r \<le> elapsed b a)
           (case last_fired (runtime_of (eng_runtime e) r) of
              None \<Rightarrow> firings r e xs | Some t \<Rightarrow> t # firings r e xs)"
  using assms
proof (induction xs arbitrary: e)
  case Nil
  then show ?case by (simp split: option.split)
next
  case (Cons x xs)
  let ?last = "last_fired (runtime_of (eng_runtime e) r)"
  obtain e' where step: "engine_step e x = Inr e'" and wf: "wf_engine e'"
    and rules: "eng_rules e' = eng_rules e" using engine_step_obtain [OF Cons.prems(1)] .
  have IH: "successively (\<lambda>a b. rule_cooldown r \<le> elapsed b a)
      (case last_fired (runtime_of (eng_runtime e') r) of
         None \<Rightarrow> firings r e' xs | Some t \<Rightarrow> t # firings r e' xs)"
    using Cons.IH [OF wf] Cons.prems(2) rules by simp
  note last' = engine_step_fired(1) [OF Cons.prems step]
  show ?case
  proof (cases "\<exists>h ev. x = Op_Event h ev \<and> engine_fires h e ev r")
    case True
    then obtain h ev where x: "x = Op_Event h ev" and f: "engine_fires h e ev r" by blast
    then have "successively (\<lambda>a b. rule_cooldown r \<le> elapsed b a) (ev_timestamp ev # firings r e' xs)"
      using IH last' by simp
    then show ?thesis
      using x f step engine_fires_cooldown [OF f] by (auto split: option.split)
  next
    case False
    then have "last_fired (runtime_of (eng_runtime e') r) = ?last"
      and "firings r e (x # xs) = firings r e' xs"
      using last' step by (auto split: engine_op.splits)
    with IH show ?thesis by (simp only:)
  qed
qed

lemma firings_once:
  assumes "wf_engine e" and "r \<in> set (eng_rules e)" and "rule_once_per_boot r"
  shows "length (firings r e xs) \<le> (if fired_once (runtime_of (eng_runtime e) r) then 0 else 1)"
  using assms(1,2)
proof (induction xs arbitrary: e)
  case Nil
  then show ?case by simp
next
  case (Cons x xs)
  obtain e' where step: "engine_step e x = Inr e'" and wf: "wf_engine e'"
    and rules: "eng_rules e' = eng_rules e" using engine_step_obtain [OF Cons.prems(1)] .
  have IH: "length (firings r e' xs) \<le> (if fired_once (runtime_of (eng_runtime e') r) then 0 else 1)"
    using Cons.IH [OF wf] Cons.prems(2) rules by simp
  have no: "\<not> engine_fires h e ev r" if "fired_once (runtime_of (eng_runtime e) r)" for h ev
    using that assms(3) by (simp add: engine_fires_def fires_def blocked_def)
  from IH step no engine_step_fired(2) [OF Cons.prems step] show ?case
    by (cases x) (auto split: if_splits)
qed

end
