(* ===== verification/Engine_Temporal.thy ===== *)
theory Engine_Temporal
  imports Engine_Runs
begin

text \<open>
  Triggers with memory. A sequence rule fires only when the run contains events that
  match its steps in order within the window, and it does fire when they arrive one
  after the other; a sustained rule fires only when its condition held since it was
  armed. Two kinds of trigger never fire at all: \<open>sensor_failure\<close>, and a sequence
  below another trigger.
\<close>

section \<open>Triggers that never fire\<close>

text \<open>No event that reaches the trigger test of the rule passes it.\<close>

definition inert :: "rule \<Rightarrow> bool" where
  "inert r \<longleftrightarrow>
     (\<forall>ev rt rt' b. sensor_failure_arm r ev [] = None \<longrightarrow> match_trigger rt r ev = Inr (rt', b) \<longrightarrow> \<not> b)"

lemma inert_sensor_failure: "rule_trigger r = T_SensorFailure s \<Longrightarrow> inert r"
  by (auto simp: inert_def match_trigger_def sensor_failure_arm_def split: event_kind.splits)

lemma inert_all_sequence:
  assumes "rule_trigger r = T_All ts" and "T_Sequence steps within \<in> set ts"
  shows "inert r"
proof -
  have "\<not> trigger_matches (T_All ts) k" for k
    using assms(2) by (auto simp: list_all_iff intro!: bexI [of _ "T_Sequence steps within"])
  with assms(1) show ?thesis by (simp add: inert_def match_trigger_def)
qed

lemma rule_step_inert:
  assumes "inert r" and "armed_at rt = None" and "rule_step h s ev r rt cs = Inr (rt', cs')"
  shows "armed_at rt' = None" and "\<not> fires h s ev r rt"
proof -
  have no: "\<not> b" if "match_trigger rt r ev = Inr (rt'', b)" "sensor_failure_arm r ev [] = None" for rt'' b
    using assms(1) that by (auto simp: inert_def)
  show nf: "\<not> fires h s ev r rt"
    using assms(2) no by (auto simp: fires_def split: sum.splits)
  show "armed_at rt' = None"
    using assms(2,3) no match_trigger_frame(3) sensor_failure_arm_append [of r ev cs]
    by (auto simp: rule_step_def split: if_splits option.splits sum.splits prod.splits)
qed

lemma engine_step_inert:
  assumes "wf_engine e" and "r \<in> set (eng_rules e)" and "inert r"
    and "armed_at (runtime_of (eng_runtime e) r) = None" and "engine_step e x = Inr e'"
  shows "armed_at (runtime_of (eng_runtime e') r) = None"
    and "x = Op_Event h ev \<Longrightarrow> \<not> engine_fires h e ev r"
proof -
  have step: "\<exists>rt' cs'. rule_step g s ev r (runtime_of (eng_runtime e) r) [] = Inr (rt', cs')" for g s ev
    using rule_step_safe wf_engineD(3) [OF assms(1,2)] by blast
  show "\<not> engine_fires h e ev r" if "x = Op_Event h ev"
    using step rule_step_inert(2) [OF assms(3,4)] by (metis engine_fires_def)
  show "armed_at (runtime_of (eng_runtime e') r) = None"
  proof (cases x)
    case (Op_Event g ev)
    then obtain ps where "handle g e ev = Inr (e', ps)"
      using assms(5) by (cases "handle g e ev") auto
    from handle_result(6) [OF assms(1) this assms(2)] assms(4)
      step [of g "snapshot_apply (eng_snapshot e) ev" ev] rule_step_inert(1) [OF assms(3,4)]
    show ?thesis by (auto simp: rule_next_def)
  qed (use assms(4,5) in \<open>auto simp: set_mode_def runtime_of_recovery clear_progress_def\<close>)
qed

lemma firings_inert:
  assumes "wf_engine e" and "r \<in> set (eng_rules e)" and "inert r"
    and "armed_at (runtime_of (eng_runtime e) r) = None"
  shows "firings r e xs = []"
  using assms(1,2,4)
proof (induction xs arbitrary: e)
  case Nil
  then show ?case by simp
next
  case (Cons x xs)
  obtain e' where step: "engine_step e x = Inr e'" and wf: "wf_engine e'"
    and rules: "eng_rules e' = eng_rules e" using engine_step_obtain [OF Cons.prems(1)] .
  note inert = engine_step_inert [OF Cons.prems(1,2) assms(3) Cons.prems(3) step]
  from Cons.IH [OF wf] Cons.prems(2) rules inert(1) have "firings r e' xs = []" by simp
  with step inert(2) show ?case by (cases x) auto
qed

section \<open>Sequences\<close>

abbreviation step_matches :: "trigger_spec \<Rightarrow> event \<Rightarrow> bool" where
  "step_matches t ev \<equiv> trigger_matches t (ev_kind ev)"

text \<open>
  What the cursor stands for: a selection of past events that matches the steps before
  the cursor, the first of which started the window.
\<close>

definition seq_evidence :: "trigger_spec list \<Rightarrow> event list \<Rightarrow> rule_runtime \<Rightarrow> bool" where
  "seq_evidence steps past rt \<longleftrightarrow>
     sequence_index rt = 0 \<and> sequence_started rt = None \<or>
     (\<exists>es. es \<noteq> [] \<and> subseq es past \<and> length es = sequence_index rt \<and>
        list_all2 step_matches (take (sequence_index rt) steps) es \<and>
        sequence_started rt = Some (ev_timestamp (hd es)))"

lemma subseq_snoc: "subseq xs ys \<Longrightarrow> subseq xs (ys @ [y])"
  using list_emb_append_mono [of "(=)" xs ys "[]" "[y]"] by simp

lemma seq_evidence_snoc: "seq_evidence steps past rt \<Longrightarrow> seq_evidence steps (past @ [ev]) rt"
  unfolding seq_evidence_def using subseq_snoc by blast

lemma seq_evidence_expire:
  "seq_evidence steps past rt \<Longrightarrow> seq_evidence steps past (expire_sequence rt within ev)"
  by (auto simp: seq_evidence_def expire_sequence_def)

lemma expire_within:
  "sequence_started (expire_sequence rt within ev) = Some t \<Longrightarrow> elapsed (ev_timestamp ev) t \<le> within"
  by (auto simp: expire_sequence_def split: if_splits)

definition seq_hit :: "trigger_spec list \<Rightarrow> duration \<Rightarrow> event list \<Rightarrow> event \<Rightarrow> bool" where
  "seq_hit steps within past ev \<longleftrightarrow>
     (\<exists>es. subseq es (past @ [ev]) \<and> list_all2 step_matches steps es \<and> es \<noteq> [] \<and>
        last es = ev \<and> elapsed (ev_timestamp ev) (ev_timestamp (hd es)) \<le> within)"

lemma seq_advance:
  assumes ev: "seq_evidence steps past rt" and i: "sequence_index rt < length steps"
    and within: "\<And>t. sequence_started rt = Some t \<Longrightarrow> elapsed (ev_timestamp ev) t \<le> within"
    and m: "step_matches (steps ! sequence_index rt) ev"
  obtains es where "subseq es (past @ [ev])" "length es = Suc (sequence_index rt)"
    "list_all2 step_matches (take (Suc (sequence_index rt)) steps) es" "last es = ev"
    "(if sequence_index rt = 0 then Some (ev_timestamp ev) else sequence_started rt)
       = Some (ev_timestamp (hd es))"
    "elapsed (ev_timestamp ev) (ev_timestamp (hd es)) \<le> within"
proof (cases "sequence_index rt = 0")
  case True
  have "list_all2 step_matches (take (Suc 0) steps) [ev]"
    using m i True by (cases steps) auto
  then show ?thesis
    using True by (intro that [of "[ev]"]) (auto intro: list_emb_append2)
next
  case False
  with ev obtain es where es: "es \<noteq> []" "subseq es past" "length es = sequence_index rt"
    "list_all2 step_matches (take (sequence_index rt) steps) es"
    "sequence_started rt = Some (ev_timestamp (hd es))"
    by (auto simp: seq_evidence_def)
  have "list_all2 step_matches (take (Suc (sequence_index rt)) steps) (es @ [ev])"
    using es(4) m i by (auto simp: take_Suc_conv_app_nth intro: list_all2_appendI)
  moreover have "subseq (es @ [ev]) (past @ [ev])"
    using es(2) by simp
  ultimately show ?thesis
    using es within False by (intro that [of "es @ [ev]"]) auto
qed

lemma sequence_matches_evidence:
  assumes ev: "seq_evidence steps past rt"
    and run: "sequence_matches rt steps within ev = Inr (rt', b)"
  shows "seq_evidence steps (past @ [ev]) rt'" and "b \<Longrightarrow> seq_hit steps within past ev"
proof -
  let ?rt = "expire_sequence rt within ev" and ?i = "sequence_index (expire_sequence rt within ev)"
  have ev': "seq_evidence steps past ?rt" using ev by (rule seq_evidence_expire)
  have "seq_evidence steps (past @ [ev]) rt' \<and> (b \<longrightarrow> seq_hit steps within past ev)"
  proof (cases "steps = []")
    case True
    with run ev show ?thesis by (auto simp: sequence_matches_def seq_evidence_snoc)
  next
    case False
    with run have i: "?i < length steps"
      by (auto simp: sequence_matches_def Let_def split: if_splits)
    show ?thesis
    proof (cases "step_matches (steps ! ?i) ev")
      case True
      obtain es where es: "subseq es (past @ [ev])" "length es = Suc ?i"
        "list_all2 step_matches (take (Suc ?i) steps) es" "last es = ev"
        "(if ?i = 0 then Some (ev_timestamp ev) else sequence_started ?rt) = Some (ev_timestamp (hd es))"
        "elapsed (ev_timestamp ev) (ev_timestamp (hd es)) \<le> within"
        by (rule seq_advance [OF ev' i expire_within True])
      then have "es \<noteq> []" by auto
      show ?thesis
      proof (cases "Suc ?i = length steps")
        case True
        with es \<open>es \<noteq> []\<close> have "seq_hit steps within past ev"
          unfolding seq_hit_def by (intro exI [of _ es]) simp
        moreover have "seq_evidence steps (past @ [ev]) rt'"
          using run \<open>step_matches (steps ! ?i) ev\<close> i False True
          by (auto simp: sequence_matches_def seq_evidence_def Let_def)
        ultimately show ?thesis by blast
      next
        case unfinished: False
        then have "b = False" and "sequence_index rt' = Suc ?i"
          and "sequence_started rt' = (if ?i = 0 then Some (ev_timestamp ev) else sequence_started ?rt)"
          using run \<open>step_matches (steps ! ?i) ev\<close> i False
          by (auto simp: sequence_matches_def Let_def split: if_splits)
        with es \<open>es \<noteq> []\<close> show ?thesis by (auto simp: seq_evidence_def)
      qed
    next
      case no: False
      show ?thesis
      proof (cases "step_matches (steps ! 0) ev")
        case True
        have "list_all2 step_matches (take 1 steps) [ev]"
          using True False by (cases steps) auto
        moreover have "b = False" "sequence_index rt' = 1" "sequence_started rt' = Some (ev_timestamp ev)"
          using run no True i False by (auto simp: sequence_matches_def Let_def)
        ultimately show ?thesis
          by (auto simp: seq_evidence_def intro!: exI [of _ "[ev]"] list_emb_append2)
      next
        case False
        with run no i \<open>steps \<noteq> []\<close> have "b = False" "rt' = ?rt"
          by (auto simp: sequence_matches_def Let_def)
        with ev' show ?thesis by (simp add: seq_evidence_snoc)
      qed
    qed
  qed
  then show "seq_evidence steps (past @ [ev]) rt'" and "b \<Longrightarrow> seq_hit steps within past ev"
    by auto
qed

text \<open>The evidence survives whatever the loop body does with the rule.\<close>

lemma seq_evidence_frame [simp]:
  "seq_evidence steps past (rt\<lparr>armed_at := a\<rparr>) = seq_evidence steps past rt"
  "seq_evidence steps past (fire rt ev) = seq_evidence steps past rt"
  by (simp_all add: seq_evidence_def fire_def)

lemma seq_evidence_clear [simp]: "seq_evidence steps past (clear_progress rt)"
  by (simp add: seq_evidence_def clear_progress_def)

lemma rule_step_evidence:
  assumes "rule_trigger r = T_Sequence steps within" and "seq_evidence steps past rt"
    and "rule_step h s ev r rt cs = Inr (rt', cs')"
  shows "seq_evidence steps (past @ [ev]) rt'"
proof -
  have "seq_evidence steps (past @ [ev]) rt''" if "match_trigger rt r ev = Inr (rt'', b)" for rt'' b
    using that assms(1) sequence_matches_evidence(1) [OF assms(2)] by (simp add: match_trigger_def)
  with assms(2,3) show ?thesis
    by (auto simp: rule_step_def seq_evidence_snoc split: if_splits option.splits sum.splits prod.splits)
qed

fun events_of :: "engine_op list \<Rightarrow> event list" where
  "events_of [] = []"
| "events_of (Op_Event h ev # xs) = ev # events_of xs"
| "events_of (_ # xs) = events_of xs"

lemma engine_step_evidence:
  assumes "wf_engine e" and "r \<in> set (eng_rules e)" and "rule_trigger r = T_Sequence steps within"
    and "seq_evidence steps past (runtime_of (eng_runtime e) r)" and "engine_step e x = Inr e'"
  shows "seq_evidence steps (past @ events_of [x]) (runtime_of (eng_runtime e') r)"
proof (cases x)
  case (Op_Event h ev)
  then obtain ps where "handle h e ev = Inr (e', ps)"
    using assms(5) by (cases "handle h e ev") auto
  note rt = handle_result(6) [OF assms(1) this assms(2)]
  obtain rt' new where "rule_step h (snapshot_apply (eng_snapshot e) ev) ev r
      (runtime_of (eng_runtime e) r) [] = Inr (rt', new)"
    using rule_step_safe wf_engineD(3) [OF assms(1,2)] by blast
  with rule_step_evidence [OF assms(3,4) this] rt assms(4) Op_Event show ?thesis
    by (auto simp: rule_next_def seq_evidence_snoc)
qed (use assms(4,5) in \<open>auto simp: set_mode_def runtime_of_recovery\<close>)

lemma events_of_Cons: "events_of (x # xs) = events_of [x] @ events_of xs"
  by (cases x) simp_all

lemma run_evidence:
  assumes "wf_engine e" and "r \<in> set (eng_rules e)" and "rule_trigger r = T_Sequence steps within"
    and "seq_evidence steps past (runtime_of (eng_runtime e) r)"
    and "run_ops engine_step e xs = Inr e'"
  shows "seq_evidence steps (past @ events_of xs) (runtime_of (eng_runtime e') r)"
  using assms(1,2,4,5)
proof (induction xs arbitrary: e past)
  case Nil
  then show ?case by simp
next
  case (Cons x xs)
  obtain e1 where step: "engine_step e x = Inr e1" and wf: "wf_engine e1"
    and rules: "eng_rules e1 = eng_rules e" using engine_step_obtain [OF Cons.prems(1)] .
  have "seq_evidence steps (past @ events_of [x]) (runtime_of (eng_runtime e1) r)"
    using engine_step_evidence [OF Cons.prems(1,2) assms(3) Cons.prems(3) step] .
  from Cons.IH [OF wf _ this] Cons.prems(2,4) rules step
  have "seq_evidence steps ((past @ events_of [x]) @ events_of xs) (runtime_of (eng_runtime e') r)"
    by simp
  then show ?case by (simp add: events_of_Cons [of x xs])
qed

lemma run_rules:
  assumes "wf_engine e" and "run_ops engine_step e xs = Inr e'"
  shows "wf_engine e'" and "eng_rules e' = eng_rules e"
proof -
  have "wf_engine e' \<and> eng_rules e' = eng_rules e"
    using assms
  proof (induction xs arbitrary: e)
    case (Cons x xs)
    obtain e1 where "engine_step e x = Inr e1" "wf_engine e1" "eng_rules e1 = eng_rules e"
      using engine_step_obtain [OF Cons.prems(1)] .
    with Cons show ?case by fastforce
  qed simp
  then show "wf_engine e'" and "eng_rules e' = eng_rules e" by auto
qed

lemma engine_fires_sequence:
  assumes "seq_evidence steps past (runtime_of (eng_runtime e) r)"
    and "rule_trigger r = T_Sequence steps within" and "rule_sustain_for r = 0"
    and "armed_at (runtime_of (eng_runtime e) r) = None" and "engine_fires h e ev r"
  shows "seq_hit steps within past ev"
  using assms(2-5) sequence_matches_evidence(2) [OF assms(1)]
  by (auto simp: engine_fires_def fires_def match_trigger_def split: sum.splits)

text \<open>
  The converse for a sequence that arrives without interruption: events that match the
  steps one after the other, none of them outside the window, complete it.
\<close>

fun sequence_run ::
  "trigger_spec list \<Rightarrow> duration \<Rightarrow> rule_runtime \<Rightarrow> event list \<Rightarrow> panic + (rule_runtime \<times> bool)" where
  "sequence_run steps within rt [] = Inr (rt, False)"
| "sequence_run steps within rt (ev # evs) =
     (case sequence_matches rt steps within ev of
        Inl p \<Rightarrow> Inl p
      | Inr (rt', b) \<Rightarrow> if evs = [] then Inr (rt', b) else sequence_run steps within rt' evs)"

lemma sequence_matches_next:
  assumes "sequence_index rt < length steps" and "step_matches (steps ! sequence_index rt) ev"
    and "\<And>t. sequence_started rt = Some t \<Longrightarrow> elapsed (ev_timestamp ev) t \<le> within"
  shows "\<exists>rt'. sequence_matches rt steps within ev = Inr (rt', Suc (sequence_index rt) = length steps) \<and>
     (Suc (sequence_index rt) < length steps \<longrightarrow>
        sequence_index rt' = Suc (sequence_index rt) \<and>
        sequence_started rt' = (if sequence_index rt = 0 then Some (ev_timestamp ev) else sequence_started rt))"
proof -
  have "expire_sequence rt within ev = rt"
    using assms(3) by (cases "sequence_started rt") (auto simp: expire_sequence_def)
  moreover have "steps \<noteq> []" using assms(1) by auto
  ultimately show ?thesis using assms(1,2) by (auto simp: sequence_matches_def Let_def)
qed

lemma sequence_run_complete:
  assumes "list_all2 step_matches (drop (sequence_index rt) steps) evs" and "evs \<noteq> []"
    and "sequence_started rt = (if sequence_index rt = 0 then None else Some t)"
    and "sequence_index rt = 0 \<Longrightarrow> t = ev_timestamp (hd evs)"
    and "\<And>ev. ev \<in> set evs \<Longrightarrow> elapsed (ev_timestamp ev) t \<le> within"
  shows "\<exists>rt'. sequence_run steps within rt evs = Inr (rt', True)"
  using assms
proof (induction evs arbitrary: rt rule: list.induct)
  case Nil
  then show ?case by simp
next
  case (Cons ev evs)
  let ?i = "sequence_index rt"
  have i: "?i < length steps" using list_all2_lengthD [OF Cons.prems(1)] by simp
  then have d: "drop ?i steps = steps ! ?i # drop (Suc ?i) steps" by (simp add: Cons_nth_drop_Suc)
  have m: "step_matches (steps ! ?i) ev" and rest: "list_all2 step_matches (drop (Suc ?i) steps) evs"
    using Cons.prems(1) d by simp_all
  have w: "elapsed (ev_timestamp ev) t' \<le> within" if "sequence_started rt = Some t'" for t'
    using that Cons.prems(3,5) by (auto split: if_splits)
  from sequence_matches_next [OF i m w] obtain rt' where
    s: "sequence_matches rt steps within ev = Inr (rt', Suc ?i = length steps)"
    and n: "Suc ?i < length steps \<longrightarrow> sequence_index rt' = Suc ?i \<and>
      sequence_started rt' = (if ?i = 0 then Some (ev_timestamp ev) else sequence_started rt)" by blast
  show ?case
  proof (cases "evs = []")
    case True
    with rest i have "Suc ?i = length steps" by simp
    with s True show ?thesis by simp
  next
    case False
    then have "0 < length evs" by simp
    then have "0 < length (drop (Suc ?i) steps)" using list_all2_lengthD [OF rest] by argo
    then have lt: "Suc ?i < length steps" by simp
    have "\<exists>rt''. sequence_run steps within rt' evs = Inr (rt'', True)"
    proof (rule Cons.IH)
      show "list_all2 step_matches (drop (sequence_index rt') steps) evs" using rest n lt by simp
      show "sequence_started rt' = (if sequence_index rt' = 0 then None else Some t)"
        using n lt Cons.prems(3,4) by auto
    qed (use False n lt Cons.prems(5) in auto)
    with s False show ?thesis by simp
  qed
qed

section \<open>Sustained conditions\<close>

lemma rule_step_unarmed:
  assumes "rule_sustain_for r = 0" and "armed_at rt = None" and "rule_step h s ev r rt cs = Inr (rt', cs')"
  shows "armed_at rt' = None"
  using assms match_trigger_frame(3) sensor_failure_arm_append [of r ev cs]
  by (auto simp: rule_step_def fire_def split: if_splits option.splits sum.splits prod.splits)

text \<open>The rule is evaluated on this event: no guard in front of its condition stops it.\<close>

definition evaluates :: "policy_engine \<Rightarrow> event \<Rightarrow> rule \<Rightarrow> bool" where
  "evaluates e ev r \<longleftrightarrow>
     \<not> eng_recovery_mode e \<and> rule_enabled r \<and>
     \<not> blocked r (runtime_of (eng_runtime e) r) ev \<and> sensor_failure_arm r ev [] = None"

fun condition_kept :: "rule \<Rightarrow> policy_engine \<Rightarrow> engine_op \<Rightarrow> bool" where
  "condition_kept r e (Op_Event h ev) =
     (evaluates e ev r \<longrightarrow> conditions_match h (snapshot_apply (eng_snapshot e) ev) r)"
| "condition_kept r e (Op_SetMode _) = True"
| "condition_kept r e (Op_Recovery enabled) = (\<not> enabled)"

text \<open>Along a run: the condition of the rule holds at every event that evaluates it.\<close>

fun held :: "rule \<Rightarrow> policy_engine \<Rightarrow> engine_op list \<Rightarrow> bool" where
  "held r e [] = True"
| "held r e (x # xs) =
     (condition_kept r e x \<and> (case engine_step e x of Inl _ \<Rightarrow> False | Inr e' \<Rightarrow> held r e' xs))"

lemma held_snoc:
  "held r e xs \<Longrightarrow> run_ops engine_step e xs = Inr e' \<Longrightarrow> condition_kept r e' x \<Longrightarrow>
   engine_step e' x = Inr e'' \<Longrightarrow> held r e (xs @ [x])"
  by (induction xs arbitrary: e) (auto split: sum.splits)

lemma rule_step_armed:
  assumes "rule_step h s ev r rt cs = Inr (rt', cs')" and "armed_at rt' = Some t"
  shows "armed_at rt = Some t \<and>
           (\<not> blocked r rt ev \<and> sensor_failure_arm r ev [] = None \<longrightarrow> conditions_match h s r) \<or>
         armed_at rt = None \<and> t = ev_timestamp ev \<and> conditions_match h s r \<and>
           (\<exists>rt''. match_trigger rt r ev = Inr (rt'', True))"
  using assms match_trigger_frame(3) sensor_failure_arm_append [of r ev cs]
  by (auto simp: rule_step_def fire_def split: if_splits option.splits sum.splits prod.splits)

lemma engine_step_armed:
  assumes "wf_engine e" and "r \<in> set (eng_rules e)" and "engine_step e x = Inr e'"
    and "armed_at (runtime_of (eng_runtime e') r) = Some t"
  obtains (kept) "armed_at (runtime_of (eng_runtime e) r) = Some t" and "condition_kept r e x"
    | (armed) h ev rt' where "x = Op_Event h ev" and "ev_timestamp ev = t"
        and "conditions_match h (snapshot_apply (eng_snapshot e) ev) r"
        and "match_trigger (runtime_of (eng_runtime e) r) r ev = Inr (rt', True)"
proof (cases x)
  case (Op_Event h ev)
  then obtain ps where "handle h e ev = Inr (e', ps)"
    using assms(3) by (cases "handle h e ev") auto
  note rt = handle_result(6) [OF assms(1) this assms(2)]
  obtain rt' new where step: "rule_step h (snapshot_apply (eng_snapshot e) ev) ev r
      (runtime_of (eng_runtime e) r) [] = Inr (rt', new)"
    using rule_step_safe wf_engineD(3) [OF assms(1,2)] by blast
  show ?thesis
  proof (cases "eng_recovery_mode e \<or> \<not> rule_enabled r")
    case True
    with rt assms(4) Op_Event show ?thesis
      by (intro kept) (auto simp: rule_next_def evaluates_def split: if_splits)
  next
    case False
    with rt assms(4) step have "armed_at rt' = Some t" by (simp add: rule_next_def)
    from rule_step_armed [OF step this] Op_Event kept armed show ?thesis
      by (auto simp: evaluates_def)
  qed
next
  case (Op_SetMode mode)
  with assms(3,4) show ?thesis by (intro kept) (auto simp: set_mode_def)
next
  case (Op_Recovery enabled)
  with assms(3,4) show ?thesis
    by (intro kept) (auto simp: runtime_of_recovery clear_progress_def split: if_splits)
qed

lemma armed_history:
  assumes "wf_engine e0" and "r \<in> set (eng_rules e0)"
    and "armed_at (runtime_of (eng_runtime e0) r) = None"
    and "run_ops engine_step e0 xs = Inr e" and "armed_at (runtime_of (eng_runtime e) r) = Some t"
  shows "\<exists>ys h ev zs e1 rt'.
     xs = ys @ Op_Event h ev # zs \<and> run_ops engine_step e0 ys = Inr e1 \<and> ev_timestamp ev = t \<and>
     match_trigger (runtime_of (eng_runtime e1) r) r ev = Inr (rt', True) \<and>
     conditions_match h (snapshot_apply (eng_snapshot e1) ev) r \<and>
     held r e1 (Op_Event h ev # zs)"
  using assms(4,5)
proof (induction xs arbitrary: e rule: rev_induct)
  case Nil
  with assms(3) show ?case by simp
next
  case (snoc x xs)
  from snoc.prems(1) obtain e' where run: "run_ops engine_step e0 xs = Inr e'"
    and step: "engine_step e' x = Inr e"
    by (auto simp: run_ops_append split: sum.splits)
  have wf: "wf_engine e'" and r: "r \<in> set (eng_rules e')"
    using run_rules [OF assms(1) run] assms(2) by simp_all
  from wf r step snoc.prems(2) show ?case
  proof (cases rule: engine_step_armed)
    case kept
    from snoc.IH [OF run kept(1)] obtain ys h ev zs e1 rt' where
      xs: "xs = ys @ Op_Event h ev # zs" and e1: "run_ops engine_step e0 ys = Inr e1"
      and facts: "ev_timestamp ev = t"
        "match_trigger (runtime_of (eng_runtime e1) r) r ev = Inr (rt', True)"
        "conditions_match h (snapshot_apply (eng_snapshot e1) ev) r"
      and h: "held r e1 (Op_Event h ev # zs)" by blast
    from run xs e1 have "run_ops engine_step e1 (Op_Event h ev # zs) = Inr e'"
      by (simp add: run_ops_append)
    from held_snoc [OF h this kept(2) step] xs e1 facts show ?thesis
      by (intro exI [of _ ys] exI [of _ h] exI [of _ ev] exI [of _ "zs @ [x]"]) auto
  next
    case (armed h ev rt')
    moreover from armed(1,3) step have "held r e' [x]" by simp
    ultimately show ?thesis using run
      by (intro exI [of _ xs] exI [of _ h] exI [of _ ev] exI [of _ "[]"]) auto
  qed
qed

section \<open>Replacing the rules\<close>

lemma carry_runtime_spec:
  "distinct (map rule_id rs) \<Longrightarrow>
   carry_runtime rs old new i =
     (if i \<in> rule_id ` set rs then Some (unwrap_or (old i) default_runtime) else new i)"
  by (induction rs arbitrary: old new) auto

lemma replace_rules_runtime:
  assumes "distinct (map rule_id rules)" and "r \<in> set rules"
  shows "runtime_of (eng_runtime (replace_rules e rules)) r = runtime_of (eng_runtime e) r"
  using assms carry_runtime_spec [of "sort_rules rules" "eng_runtime e" Map.empty "rule_id r"]
  by (simp add: replace_rules_def runtime_of_def Let_def)

lemma replace_rules_wf:
  assumes "distinct (map rule_id rules)"
    and "\<And>r. r \<in> set rules \<Longrightarrow> cursor_ok r (runtime_of (eng_runtime e) r)"
  shows "wf_engine (replace_rules e rules)"
  using assms replace_rules_runtime [OF assms(1), of _ e]
  by (auto simp: wf_engine_def list_all_iff)
    (auto simp: replace_rules_def Let_def carry_runtime_spec split: if_splits)

end
