(* ===== verification/Engine_Properties.thy ===== *)
theory Engine_Properties
  imports Engine_Temporal
begin

text \<open>
  The properties of the policy engine, stated over the definitions of \<open>engine.rs\<close>, with
  witnesses on the fixtures of its unit tests.
\<close>

section \<open>Fixtures\<close>

text \<open>The \<open>rule\<close> and \<open>event_at\<close> helpers of the unit tests, and an environment for them.\<close>

definition test_rule :: "trigger_spec \<Rightarrow> rule" where
  "test_rule t =
     \<lparr> rule_id = ''test'', rule_description = '''', rule_enabled = True, rule_priority = 10,
       rule_cooldown = 0, rule_sustain_for = 0, rule_once_per_boot = False,
       rule_on_sensor_failure = Ignore, rule_trigger = t, rule_when = None,
       rule_actions = [A_Notify ''test'' ''matched'' Normal_Urgency] \<rparr>"

definition event_at :: "event_kind \<Rightarrow> nat \<Rightarrow> event" where
  "event_at k second =
     \<lparr> ev_id = ''e'', ev_timestamp = int (from_secs second), ev_source = ''test'', ev_kind = k \<rparr>"

definition test_host :: host where
  "test_host =
     \<lparr> parse_hm = (\<lambda>_. None), local_time = (\<lambda>_. 0), local_weekday = (\<lambda>_. Ch_Mon),
       path_exists = (\<lambda>_. False) \<rparr>"

lemmas fixture_simps = test_rule_def event_at_def test_host_def from_secs_def

lemmas engine_eval =
  handle_def rule_step_def blocked_def sensor_failure_arm_def conditions_match_def
  match_trigger_def fire_def append_actions_def plan_of_def engine_new_def sort_rules_def
  rule_order_def Let_def resolve_conflicts_def snapshot_apply_def default_runtime_def
  default_snapshot_def elapsed_def sequence_matches_def expire_sequence_def

section \<open>What one rule plans\<close>

lemma rule_plans_cases:
  assumes "cursor_ok r (runtime_of runtime r)"
  shows "rule_plans h s ev runtime r =
     (if \<not> rule_enabled r \<or> blocked r (runtime_of runtime r) ev then []
      else case sensor_failure_arm r ev [] of
        Some ps \<Rightarrow> ps
      | None \<Rightarrow> if fires h s ev r (runtime_of runtime r) then map (plan_of r ev) (rule_actions r)
               else [])"
proof -
  obtain rt' new where "rule_step h s ev r (runtime_of runtime r) [] = Inr (rt', new)"
    using rule_step_safe [OF assms] by blast
  then show ?thesis
    by (auto simp: rule_plans_def rule_step_def fires_def append_actions_def
        split: option.splits sum.splits prod.splits if_splits)
qed

lemma sensor_failure_arm_plans:
  assumes "sensor_failure_arm r ev [] = Some ps" and "p \<in> set ps"
  obtains n m where "ev_kind ev = E_SensorFailure n m" and "trigger_uses_sensor (rule_trigger r) n"
    and "p = plan_of r ev (plan_action p)"
    and "rule_on_sensor_failure r = Alert \<and>
           plan_action p = A_Notify ''Kovert sensor failure'' (n @ '': '' @ m) Critical \<or>
         rule_on_sensor_failure r = FailClosed \<and>
           plan_action p \<in> set (rule_actions r) \<and> fail_closed_action (plan_action p)"
  using assms
  by (auto simp: sensor_failure_arm_def plan_of_def
      split: event_kind.splits if_splits sensor_failure_policy.splits)

text \<open>An action of a plan is an action of some rule, or the notification of a sensor failure.\<close>

lemma plan_origin:
  assumes "wf_engine e" and "handle h e ev = Inr (e', ps)" and "p \<in> set ps"
  obtains r where "r \<in> set (eng_rules e)" and "p = plan_of r ev (plan_action p)"
    and "plan_action p \<in> set (rule_actions r) \<or> (\<exists>t m u. plan_action p = A_Notify t m u)"
proof -
  let ?s = "snapshot_apply (eng_snapshot e) ev"
  from handle_result(5) [OF assms(1,2)] assms(3)
  have "p \<in> set (resolve_conflicts (concat (map (rule_plans h ?s ev (eng_runtime e)) (eng_rules e))))"
    by (auto split: if_splits)
  then obtain r where r: "r \<in> set (eng_rules e)" and p: "p \<in> set (rule_plans h ?s ev (eng_runtime e) r)"
    using resolve_conflicts_subset by fastforce
  note cases = rule_plans_cases [OF wf_engineD(3) [OF assms(1) r], of h ?s ev]
  have "p = plan_of r ev (plan_action p) \<and>
    (plan_action p \<in> set (rule_actions r) \<or> (\<exists>t m u. plan_action p = A_Notify t m u))"
  proof (cases "sensor_failure_arm r ev []")
    case None
    with p cases show ?thesis by (auto simp: plan_of_def split: if_splits)
  next
    case (Some qs)
    with p cases have "p \<in> set qs" by (auto split: if_splits)
    with Some show ?thesis by (blast elim: sensor_failure_arm_plans)
  qed
  with r that show ?thesis by blast
qed

lemma run_ops_rules:
  "wf_engine e \<Longrightarrow> run_ops engine_step e ops = Inr e' \<Longrightarrow> eng_rules e' = eng_rules e"
proof (induction ops arbitrary: e)
  case (Cons x ops)
  then show ?case using engine_step_safe [of e x] by auto
qed simp

section \<open>Properties\<close>

text \<open>
  C6. From a configuration with distinct rule ids, no sequence of events, mode changes
  and recovery switches makes the engine panic, and every reachable engine satisfies the
  engine invariant.
\<close>

theorem engine_run_safe:
  assumes "distinct (map rule_id rules)"
  shows "\<exists>e. run_ops engine_step (engine_new now rules mode) ops = Inr e \<and> wf_engine e"
  using engine.run_safe [OF engine_new_wf [OF assms]] by (simp add: list_all_iff)

theorem engine_run_safe_witness:
  "\<exists>e. run_ops engine_step (engine_new 0 [test_rule T_Tick] ''normal'')
        [Op_Event test_host (event_at E_Tick 1), Op_Recovery True] = Inr e \<and> wf_engine e"
  by (rule engine_run_safe) simp


definition lockdown_rule :: rule where
  "lockdown_rule = (test_rule (T_Manual ''panic''))
     \<lparr>rule_actions := [A_SetMode ''hardened'', A_LockVault ''operations'', A_UnlockVault ''operations'']\<rparr>"

lemma lockdown_plan:
  "\<exists>e' ps. handle test_host (engine_new 0 [lockdown_rule] ''normal'')
       (event_at (E_Manual ''panic'') 1) = Inr (e', ps) \<and>
     map plan_action ps = [A_SetMode ''hardened'', A_LockVault ''operations'']"
  by (simp add: engine_eval fixture_simps lockdown_rule_def)


text \<open>
  C8. No action is lost without reason: every action a rule plans for the event is in
  the final plan, or the final plan gives its resource to an action of at least its
  priority. The plan is ordered by descending priority.
\<close>

theorem handle_priority:
  assumes "wf_engine e" and "\<not> eng_recovery_mode e" and "handle h e ev = Inr (e', ps)"
    and "r \<in> set (eng_rules e)"
    and "p \<in> set (rule_plans h (snapshot_apply (eng_snapshot e) ev) ev (eng_runtime e) r)"
  shows "(p \<in> set ps \<or>
      (\<exists>w \<in> set ps. action_resource (plan_action w) = action_resource (plan_action p) \<and>
                   action_resource (plan_action p) \<noteq> None \<and> plan_priority p \<le> plan_priority w)) \<and>
     sorted_wrt (\<lambda>x y. plan_priority y \<le> plan_priority x) ps"
proof
  let ?cs = "concat (map (rule_plans h (snapshot_apply (eng_snapshot e) ev) ev (eng_runtime e)) (eng_rules e))"
  have ps: "ps = resolve_conflicts ?cs" using handle_result(5) [OF assms(1,3)] assms(2) by simp
  have p: "p \<in> set ?cs" using assms(4,5) by auto
  show "p \<in> set ps \<or>
      (\<exists>w \<in> set ps. action_resource (plan_action w) = action_resource (plan_action p) \<and>
                   action_resource (plan_action p) \<noteq> None \<and> plan_priority p \<le> plan_priority w)"
  proof (cases "plan_key p")
    case None
    with resolve_conflicts_keyless [OF p] ps show ?thesis by simp
  next
    case (Some k)
    then obtain w where "w \<in> set ps" "plan_key w = plan_key p" "plan_priority p \<le> plan_priority w"
      using resolve_conflicts_dominated [OF p Some] ps by auto
    moreover have "action_resource (plan_action p) \<noteq> None"
      using Some by (auto simp: conflict_key_resource)
    ultimately show ?thesis by (auto simp: conflict_key_eq_iff)
  qed
  show "sorted_wrt (\<lambda>x y. plan_priority y \<le> plan_priority x) ps"
    using resolve_conflicts_sorted [of ?cs] ps by (simp add: sorted_map)
qed

definition low_rule :: rule where
  "low_rule = (test_rule T_Tick)
     \<lparr>rule_id := ''low'', rule_priority := 1, rule_actions := [A_NetworkIsolation False]\<rparr>"

definition high_rule :: rule where
  "high_rule = (test_rule T_Tick)
     \<lparr>rule_id := ''high'', rule_priority := 100, rule_actions := [A_NetworkIsolation True]\<rparr>"

abbreviation low_high :: policy_engine where
  "low_high \<equiv> engine_new 0 [low_rule, high_rule] ''normal''"

lemma low_high_rules: "eng_rules low_high = [high_rule, low_rule]"
  by (simp add: engine_new_def sort_rules_def rule_order_def low_rule_def high_rule_def Let_def)

lemma low_high_plan:
  "plan_of low_rule (event_at E_Tick 1) (A_NetworkIsolation False)
     \<in> set (rule_plans test_host (snapshot_apply (eng_snapshot low_high) (event_at E_Tick 1))
         (event_at E_Tick 1) (eng_runtime low_high) low_rule)"
  by (simp add: rule_plans_def rule_step_def blocked_def sensor_failure_arm_def conditions_match_def
      match_trigger_def append_actions_def default_runtime_def low_rule_def fixture_simps)

theorem handle_priority_witness:
  "\<exists>e' ps. handle test_host low_high (event_at E_Tick 1) = Inr (e', ps) \<and>
     sorted_wrt (\<lambda>x y. plan_priority y \<le> plan_priority x) ps"
proof -
  have wf: "wf_engine low_high" by (rule engine_new_wf) (simp add: low_rule_def high_rule_def)
  obtain e' ps where h: "handle test_host low_high (event_at E_Tick 1) = Inr (e', ps)"
    using handle_spec [OF wf] by metis
  have rec: "\<not> eng_recovery_mode low_high" by (simp add: engine_new_def Let_def)
  have r: "low_rule \<in> set (eng_rules low_high)" by (simp add: low_high_rules)
  from handle_priority [OF wf rec h r low_high_plan] h show ?thesis by blast
qed

text \<open>
  C15. Cooldown: along any run, two successive firings of a rule are at least its cooldown
  apart.
\<close>

theorem cooldown_separates_firings:
  assumes "wf_engine e" and "r \<in> set (eng_rules e)"
  shows "successively (\<lambda>a b. rule_cooldown r \<le> elapsed b a) (firings r e ops)"
  using firings_spacing [OF assms, of ops]
  by (cases "last_fired (runtime_of (eng_runtime e) r)") (auto simp: successively_Cons)

definition cooling_rule :: rule where
  "cooling_rule = (test_rule T_Tick)\<lparr>rule_cooldown := from_secs 5\<rparr>"

lemma wf_single: "wf_engine (engine_new now [r] mode)"
  by (rule engine_new_wf) simp

lemma rules_single [simp]: "set (eng_rules (engine_new now [r] mode)) = {r}"
  by (simp add: engine_new_def Let_def)

theorem cooldown_separates_firings_witness:
  "successively (\<lambda>a b. rule_cooldown cooling_rule \<le> elapsed b a)
     (firings cooling_rule (engine_new 0 [cooling_rule] ''normal'')
        [Op_Event test_host (event_at E_Tick 1), Op_Event test_host (event_at E_Tick 3),
         Op_Event test_host (event_at E_Tick 6)])"
  by (rule cooldown_separates_firings) (simp_all add: wf_single)

text \<open>C16. A once-per-boot rule fires at most once along any run of the daemon.\<close>

theorem once_per_boot_fires_once:
  assumes "wf_engine e" and "r \<in> set (eng_rules e)" and "rule_once_per_boot r"
  shows "length (firings r e ops) \<le> 1"
  using firings_once [OF assms, of ops] by (auto split: if_splits)

theorem once_per_boot_fires_once_witness:
  "length (firings ((test_rule T_Tick)\<lparr>rule_once_per_boot := True\<rparr>)
     (engine_new 0 [(test_rule T_Tick)\<lparr>rule_once_per_boot := True\<rparr>] ''normal'')
     [Op_Event test_host (event_at E_Tick 1), Op_Event test_host (event_at E_Tick 2)]) \<le> 1"
  by (rule once_per_boot_fires_once) (simp_all add: wf_single)

lemma run_unarmed:
  assumes "wf_engine e0" and "r \<in> set (eng_rules e0)" and "rule_sustain_for r = 0"
    and "armed_at (runtime_of (eng_runtime e0) r) = None"
    and "run_ops engine_step e0 xs = Inr e"
  shows "armed_at (runtime_of (eng_runtime e) r) = None"
  using assms(1,2,4,5)
proof (induction xs arbitrary: e0)
  case Nil
  then show ?case by simp
next
  case (Cons x xs)
  obtain e1 where step: "engine_step e0 x = Inr e1" and wf: "wf_engine e1"
    and rules: "eng_rules e1 = eng_rules e0" using engine_step_obtain [OF Cons.prems(1)] .
  have "armed_at (runtime_of (eng_runtime e1) r) = None"
  proof (cases x)
    case (Op_Event h ev)
    then obtain ps where "handle h e0 ev = Inr (e1, ps)"
      using step by (cases "handle h e0 ev") auto
    from handle_result(6) [OF Cons.prems(1) this Cons.prems(2)] Cons.prems(3)
      rule_step_unarmed [OF assms(3) Cons.prems(3)]
    show ?thesis by (auto simp: rule_next_def split: sum.splits)
  qed (use step Cons.prems(3) in \<open>auto simp: set_mode_def runtime_of_recovery clear_progress_def\<close>)
  with Cons.IH [OF wf] Cons.prems rules step show ?case by simp
qed


definition alpha_bravo :: rule where
  "alpha_bravo = test_rule (T_Sequence [T_Manual ''alpha'', T_Manual ''bravo''] (from_secs 5))"

lemma alpha_bravo_run:
  "\<exists>e. run_ops engine_step (engine_new 0 [alpha_bravo] ''normal'')
         [Op_Event test_host (event_at (E_Manual ''alpha'') 100)] = Inr e \<and>
       engine_fires test_host e (event_at (E_Manual ''bravo'') 103) alpha_bravo"
  by (simp add: engine_eval fixture_simps alpha_bravo_def engine_fires_def fires_def runtime_of_def)


text \<open>
  C18. Sequences are complete for uninterrupted input: from the initial cursor, events
  that match the steps one by one with none outside the window are recognized at the
  last of them.
\<close>

theorem sequence_recognized:
  assumes "steps \<noteq> []" and "list_all2 (\<lambda>t x. trigger_matches t (ev_kind x)) steps evs"
    and "\<And>ev. ev \<in> set evs \<Longrightarrow> elapsed (ev_timestamp ev) (ev_timestamp (hd evs)) \<le> within"
  shows "\<exists>rt. sequence_run steps within default_runtime evs = Inr (rt, True)"
proof (rule sequence_run_complete)
  show "evs \<noteq> []" using assms(1,2) by auto
qed (use assms in \<open>auto simp: default_runtime_def\<close>)

theorem sequence_recognized_witness:
  "\<exists>rt. sequence_run [T_Manual ''alpha'', T_Tick] (from_secs 5) default_runtime
     [event_at (E_Manual ''alpha'') 100, event_at E_Tick 105] = Inr (rt, True)"
  by (rule sequence_recognized) (auto simp: fixture_simps elapsed_def)


definition sustained_rule :: rule where
  "sustained_rule = (test_rule T_Tick)\<lparr>rule_sustain_for := from_secs 5\<rparr>"

lemma sustained_run:
  "\<exists>e. run_ops engine_step (engine_new 0 [sustained_rule] ''normal'')
         [Op_Event test_host (event_at E_Tick 1)] = Inr e \<and>
       engine_fires test_host e (event_at E_Tick 7) sustained_rule"
  by (simp add: engine_eval fixture_simps sustained_rule_def engine_fires_def fires_def runtime_of_def)


text \<open>
  In recovery mode no rule acts: an event updates the host snapshot and nothing else,
  and the plan is empty.
\<close>

lemma recovery_mode_suspends_rules:
  assumes "eng_recovery_mode e"
  shows "handle h e ev = Inr (e\<lparr>eng_snapshot := snapshot_apply (eng_snapshot e) ev\<rparr>, [])"
  using assms by (simp add: handle_def)

text \<open>
  C29. Where a planned action comes from: an enabled rule that fired, with one of its own
  actions; or, when a sensor its trigger uses failed, the alert of the default policy or,
  under the fail-closed policy, one of the rule's vault locks, network isolations or mode
  changes.
\<close>

theorem plan_provenance:
  assumes "wf_engine e" and "handle h e ev = Inr (e', ps)" and "p \<in> set ps"
  shows "\<exists>r \<in> set (eng_rules e).
     rule_enabled r \<and> p = plan_of r ev (plan_action p) \<and>
     (engine_fires h e ev r \<and> plan_action p \<in> set (rule_actions r) \<or>
      (\<exists>n m. ev_kind ev = E_SensorFailure n m \<and> trigger_uses_sensor (rule_trigger r) n \<and>
         (rule_on_sensor_failure r = Alert \<and>
            plan_action p = A_Notify ''Kovert sensor failure'' (n @ '': '' @ m) Critical \<or>
          rule_on_sensor_failure r = FailClosed \<and>
            plan_action p \<in> set (rule_actions r) \<and> fail_closed_action (plan_action p))))"
proof -
  let ?s = "snapshot_apply (eng_snapshot e) ev"
  from handle_result(5) [OF assms(1,2)] assms(3)
  have rec: "\<not> eng_recovery_mode e"
    and "p \<in> set (resolve_conflicts (concat (map (rule_plans h ?s ev (eng_runtime e)) (eng_rules e))))"
    by (auto split: if_splits)
  then obtain r where r: "r \<in> set (eng_rules e)" and p: "p \<in> set (rule_plans h ?s ev (eng_runtime e) r)"
    using resolve_conflicts_subset by fastforce
  note cases = rule_plans_cases [OF wf_engineD(3) [OF assms(1) r], of h ?s ev]
  from p cases have en: "rule_enabled r" by (auto split: if_splits)
  show ?thesis
  proof (cases "sensor_failure_arm r ev []")
    case None
    with p cases have "fires h ?s ev r (runtime_of (eng_runtime e) r)"
      and "p \<in> set (map (plan_of r ev) (rule_actions r))" by (auto split: if_splits)
    then have "engine_fires h e ev r \<and> plan_action p \<in> set (rule_actions r) \<and> p = plan_of r ev (plan_action p)"
      using rec en by (auto simp: engine_fires_def plan_of_def)
    with r en show ?thesis by blast
  next
    case (Some qs)
    with p cases have "p \<in> set qs" by (auto split: if_splits)
    with Some r en show ?thesis by (blast elim: sensor_failure_arm_plans)
  qed
qed

theorem plan_provenance_witness:
  "\<exists>e' ps. handle test_host (engine_new 0 [lockdown_rule] ''normal'')
         (event_at (E_Manual ''panic'') 1) = Inr (e', ps) \<and> ps \<noteq> [] \<and>
     (\<exists>r \<in> set (eng_rules (engine_new 0 [lockdown_rule] ''normal'')).
        rule_enabled r \<and> hd ps = plan_of r (event_at (E_Manual ''panic'') 1) (plan_action (hd ps)))"
proof -
  from lockdown_plan obtain e' ps where
    h: "handle test_host (engine_new 0 [lockdown_rule] ''normal'')
         (event_at (E_Manual ''panic'') 1) = Inr (e', ps)"
    and ps: "map plan_action ps = [A_SetMode ''hardened'', A_LockVault ''operations'']"
    by (elim exE conjE)
  from ps have "ps \<noteq> []" by auto
  with plan_provenance [OF wf_single h, of "hd ps"] h show ?thesis by fastforce
qed

section \<open>Where the engine departs from its documentation\<close>

text \<open>
  C39. A rule whose trigger is \<open>sensor_failure\<close> never fires: the event that would match
  it is intercepted by the rule's own failure policy first, so its actions never run
  (except the fail-closed ones under that policy). The documentation lists the trigger
  as an ordinary one.
\<close>

theorem sensor_failure_trigger_never_fires:
  assumes "distinct (map rule_id rules)" and "r \<in> set rules"
    and "rule_trigger r = T_SensorFailure sensor"
  shows "firings r (engine_new now rules mode) ops = []"
proof (rule firings_inert)
  show "wf_engine (engine_new now rules mode)" by (rule engine_new_wf) fact
  show "r \<in> set (eng_rules (engine_new now rules mode))"
    using assms(2) by (simp add: engine_new_def Let_def)
  show "inert r" using assms(3) by (rule inert_sensor_failure)
qed (simp add: default_runtime_def)

theorem sensor_failure_trigger_never_fires_witness:
  "firings (test_rule (T_SensorFailure None))
     (engine_new 0 [test_rule (T_SensorFailure None)] ''normal'')
     [Op_Event test_host (event_at (E_SensorFailure ''wifi'' ''nmcli failed'') 1)] = []"
  by (rule sensor_failure_trigger_never_fires [of "[test_rule (T_SensorFailure None)]" _ None])
    (simp_all add: test_rule_def)

text \<open>
  A sequence inside an \<open>all\<close> trigger is accepted by validation (only a sequence
  directly below a sequence is refused) but can never fire.
\<close>

lemma nested_sequence_never_fires:
  assumes "distinct (map rule_id rules)" and "r \<in> set rules"
    and "rule_trigger r = T_All ts" and "T_Sequence steps within \<in> set ts"
  shows "firings r (engine_new now rules mode) ops = []"
proof (rule firings_inert)
  show "wf_engine (engine_new now rules mode)" by (rule engine_new_wf) fact
  show "r \<in> set (eng_rules (engine_new now rules mode))"
    using assms(2) by (simp add: engine_new_def Let_def)
  show "inert r" using assms(3,4) by (rule inert_all_sequence)
qed (simp add: default_runtime_def)

abbreviation long_sequence :: rule where
  "long_sequence \<equiv> test_rule (T_Sequence [T_Manual ''a'', T_Manual ''b'', T_Manual ''c''] (from_secs 60))"

abbreviation short_sequence :: rule where
  "short_sequence \<equiv> test_rule (T_Sequence [T_Manual ''a'', T_Manual ''b''] (from_secs 60))"


end
