(* ===== verification/Validation.thy ===== *)
theory Validation
  imports Config
begin

text \<open>
  The configuration validator of \<open>kovert-core/src/validation.rs\<close>: one definition per
  section of \<open>validate_config\<close> and per helper, producing the errors in the order the
  source pushes them, and the proof that an empty error list means exactly the
  declarative well-formedness \<open>config_ok\<close>.

  Two things are not in the repository and are arguments: \<open>Regex::new\<close> of the
  \<open>regex\<close> crate (\<open>rx\<close>, a compiled pattern being its \<open>is_match\<close>) and
  \<open>NaiveTime::parse_from_str(_, "%H:%M")\<close> of \<open>chrono\<close> (\<open>hm\<close>).
\<close>

type_synonym regex_lib = "string \<Rightarrow> (string \<Rightarrow> bool) option"
type_synonym hm_parser = "string \<Rightarrow> nat option"

datatype validation_error =
    V_Version "32 word"
  | V_Duplicate string string
  | V_Rule string string
  | V_Vault string string
  | V_Hotkey string string
  | V_Daemon string

section \<open>Names\<close>

definition identifier_pattern :: string where
  "identifier_pattern = ''^[A-Za-z0-9_.-]+$''"

definition valid_identifier :: "regex_lib \<Rightarrow> string \<Rightarrow> bool" where
  "valid_identifier rx value =
     (case rx identifier_pattern of None \<Rightarrow> False | Some is_match \<Rightarrow> is_match value)"

definition key_names :: "string list" where
  "key_names =
     [''ESC'', ''ENTER'', ''LEFTCTRL'', ''CTRL'', ''LEFTSHIFT'', ''SHIFT'', ''LEFTALT'', ''ALT'',
      ''SPACE'', ''F1'', ''F2'', ''F3'', ''F4'', ''F5'', ''F6'', ''F7'', ''F8'', ''F9'', ''F10'',
      ''F11'', ''F12'', ''RIGHTCTRL'', ''RIGHTALT'', ''HOME'', ''UP'', ''PAGEUP'', ''LEFT'',
      ''RIGHT'', ''END'', ''DOWN'', ''PAGEDOWN'', ''INSERT'', ''DELETE'', ''LEFTMETA'', ''META'',
      ''RIGHTMETA'']"

text \<open>The normalization both \<open>valid_key_name\<close> and the hotkey sensor's \<open>key_code\<close> start with.\<close>

definition normalize_key :: "string \<Rightarrow> string" where
  "normalize_key value =
     (let normalized = to_ascii_uppercase (trim value)
      in unwrap_or (strip_prefix ''KEY_'' normalized) normalized)"

definition valid_key_name :: "string \<Rightarrow> bool" where
  "valid_key_name value =
     (let key = normalize_key value
      in length key = 1 \<and> is_ascii_alphanumeric (key ! 0) \<or> key \<in> set key_names)"

definition valid_interface_name :: "string \<Rightarrow> bool" where
  "valid_interface_name value \<longleftrightarrow>
     value \<noteq> [] \<and> length value \<le> 15 \<and>
     list_all (\<lambda>ch. is_ascii_alphanumeric ch \<or> ch \<in> set ''_-.:'') value"

definition valid_unit_name :: "string \<Rightarrow> bool" where
  "valid_unit_name value \<longleftrightarrow>
     value \<noteq> [] \<and> length value \<le> 255 \<and> CHR ''/'' \<notin> set value \<and>
     list_all (\<lambda>ch. is_ascii_alphanumeric ch \<or> ch \<in> set ''_-.@'') value"

definition rule_error :: "string \<Rightarrow> string \<Rightarrow> validation_error" where
  "rule_error rule message = V_Rule rule message"

definition err_if :: "bool \<Rightarrow> validation_error \<Rightarrow> validation_error list" where
  "err_if b e = (if b then [e] else [])"

lemma err_if_Nil [simp]: "err_if b e = [] \<longleftrightarrow> \<not> b"
  by (simp add: err_if_def)

section \<open>Triggers, conditions and actions\<close>

function validate_trigger ::
  "trigger_spec \<Rightarrow> string \<Rightarrow> nat \<Rightarrow> string set \<Rightarrow> validation_error list" where
  "validate_trigger trigger rule depth hotkeys =
     (if depth > 16 then [rule_error rule ''trigger nesting exceeds 16 levels'']
      else case trigger of
        T_File p _ _ \<Rightarrow>
          err_if (\<not> path_is_absolute p) (rule_error rule ''file trigger path must be absolute'')
      | T_Power _ (Some value) _ \<Rightarrow>
          err_if (value > 100) (rule_error rule ''battery threshold must be 0..=100'')
      | T_Process None _ \<Rightarrow> [rule_error rule ''process trigger requires name'']
      | T_Service None _ \<Rightarrow> [rule_error rule ''service trigger requires name'']
      | T_Port None _ _ \<Rightarrow> [rule_error rule ''port trigger requires port'']
      | T_Hotkey name \<Rightarrow>
          err_if (name \<notin> hotkeys) (rule_error rule (''unknown hotkey '' @ name))
      | T_All triggers \<Rightarrow>
          err_if (triggers = []) (rule_error rule ''composite trigger cannot be empty'') @
          concat (map (\<lambda>item. validate_trigger item rule (depth + 1) hotkeys) triggers)
      | T_Any triggers \<Rightarrow>
          err_if (triggers = []) (rule_error rule ''composite trigger cannot be empty'') @
          concat (map (\<lambda>item. validate_trigger item rule (depth + 1) hotkeys) triggers)
      | T_Not inner \<Rightarrow> validate_trigger inner rule (depth + 1) hotkeys
      | T_Sequence steps within \<Rightarrow>
          err_if (length steps < 2) (rule_error rule ''sequence requires at least two steps'') @
          err_if (within = 0) (rule_error rule ''sequence window must be non-zero'') @
          concat (map (\<lambda>item.
            err_if (case item of T_Sequence _ _ \<Rightarrow> True | _ \<Rightarrow> False)
              (rule_error rule ''nested sequences are not supported'') @
            validate_trigger item rule (depth + 1) hotkeys) steps)
      | _ \<Rightarrow> [])"
  by pat_completeness auto
termination
  by (relation "measure (\<lambda>(t, _). size t)")
    (auto dest!: size_list_estimation' [where f = size, OF _ order_refl])

declare validate_trigger.simps [simp del]

definition known_sensors :: "string list" where
  "known_sensors =
     [''wifi'', ''network'', ''usb'', ''mounts'', ''processes'', ''services'', ''ports'', ''sessions'',
      ''power'', ''hotkeys'', ''filesystem'', ''integrity'', ''configuration'', ''binary'', ''polling'',
      ''time'', ''manual'']"

function validate_condition ::
  "hm_parser \<Rightarrow> condition_spec \<Rightarrow> string \<Rightarrow> nat \<Rightarrow> validation_error list" where
  "validate_condition hm condition rule depth =
     (if depth > 16 then [rule_error rule ''condition nesting exceeds 16 levels'']
      else case condition of
        C_All conditions \<Rightarrow>
          err_if (conditions = []) (rule_error rule ''composite condition cannot be empty'') @
          concat (map (\<lambda>item. validate_condition hm item rule (depth + 1)) conditions)
      | C_Any conditions \<Rightarrow>
          err_if (conditions = []) (rule_error rule ''composite condition cannot be empty'') @
          concat (map (\<lambda>item. validate_condition hm item rule (depth + 1)) conditions)
      | C_Not inner \<Rightarrow> validate_condition hm inner rule (depth + 1)
      | C_TimeWindow start finish _ _ \<Rightarrow>
          err_if (hm start = None \<or> hm finish = None)
            (rule_error rule ''time windows require HH:MM values'')
      | C_PathExists p _ \<Rightarrow>
          err_if (\<not> path_is_absolute p) (rule_error rule ''condition paths must be absolute'')
      | C_Mounted p _ \<Rightarrow>
          err_if (\<not> path_is_absolute p) (rule_error rule ''condition paths must be absolute'')
      | C_Power _ (Some value) _ \<Rightarrow>
          err_if (value > 100) (rule_error rule ''battery threshold must be 0..=100'')
      | C_SensorHealthy sensor _ \<Rightarrow>
          err_if (sensor \<notin> set known_sensors) (rule_error rule (''unknown sensor '' @ sensor))
      | _ \<Rightarrow> [])"
  by pat_completeness auto
termination
  by (relation "measure (\<lambda>(_, c, _). size c)")
    (auto dest!: size_list_estimation' [where f = size, OF _ order_refl])

declare validate_condition.simps [simp del]

fun validate_action ::
  "action_spec \<Rightarrow> string \<Rightarrow> daemon_config \<Rightarrow> string set \<Rightarrow> string set \<Rightarrow> validation_error list"
where
  "validate_action (A_LockVault vault) rule d vaults modes =
     err_if (vault \<notin> vaults) (rule_error rule (''unknown vault '' @ vault))"
| "validate_action (A_UnlockVault vault) rule d vaults modes =
     err_if (vault \<notin> vaults) (rule_error rule (''unknown vault '' @ vault))"
| "validate_action (A_Unmount p) rule d vaults modes =
     err_if (\<not> path_is_absolute p) (rule_error rule ''unmount path must be absolute'')"
| "validate_action (A_InterfaceState interface _) rule d vaults modes =
     err_if (\<not> valid_interface_name interface) (rule_error rule ''invalid network interface name'')"
| "validate_action (A_Service name _) rule d vaults modes =
     err_if (\<not> valid_unit_name name) (rule_error rule ''invalid systemd service name'')"
| "validate_action (A_TerminateProcess process _) rule d vaults modes =
     err_if (process \<notin> set (managed_processes d))
       (rule_error rule (''process '' @ process @ '' is not in daemon.managed_processes''))"
| "validate_action (A_CaptureEvidence paths destination) rule d vaults modes =
     err_if (\<not> path_is_absolute destination \<or> list_ex (\<lambda>p. \<not> path_is_absolute p) paths)
       (rule_error rule ''evidence paths must be absolute'')"
| "validate_action (A_SetMode mode) rule d vaults modes =
     err_if (mode \<notin> modes) (rule_error rule (''unknown mode '' @ mode))"
| "validate_action (A_Exec executable _ expected_sha256 environment) rule d vaults modes =
     err_if (\<not> path_is_absolute executable \<or> \<not> list_ex (path_eq executable) (allowed_executables d))
       (rule_error rule (''executable '' @ executable @ '' is not in daemon.allowed_executables'')) @
     err_if (is_some_and (\<lambda>digest. length digest \<noteq> 64 \<or> \<not> list_all is_ascii_hexdigit digest)
               expected_sha256)
       (rule_error rule ''expected_sha256 must be 64 hex characters'') @
     err_if (expected_sha256 = None)
       (rule_error rule ''exec actions require expected_sha256 pinning'') @
     err_if (list_ex (\<lambda>(key, _). \<not> list_all
                (\<lambda>ch. is_ascii_uppercase ch \<or> is_ascii_digit ch \<or> ch = CHR ''_'') key) environment)
       (rule_error rule ''environment keys must use uppercase ASCII, digits, and underscores'')"
| "validate_action _ rule d vaults modes = []"

section \<open>The sections of the validator\<close>

definition check_daemon :: "daemon_config \<Rightarrow> validation_error list" where
  "check_daemon d =
     err_if (\<not> path_is_absolute (socket_path d)) (V_Daemon ''socket_path must be absolute'') @
     err_if (\<not> path_is_absolute (state_path d)) (V_Daemon ''state_path must be absolute'') @
     err_if (poll_interval d = 0) (V_Daemon ''poll_interval must be greater than zero'') @
     err_if (event_buffer d < 16) (V_Daemon ''event_buffer must be at least 16'') @
     concat (map (\<lambda>p. err_if (\<not> path_is_absolute p)
                        (V_Daemon (''allowed executable must be absolute: '' @ p)))
               (allowed_executables d))"

fun check_modes :: "regex_lib \<Rightarrow> string set \<Rightarrow> mode_config list \<Rightarrow> validation_error list" where
  "check_modes rx modes [] = []"
| "check_modes rx modes (m # ms) =
     err_if (\<not> valid_identifier rx (mode_name m)) (V_Duplicate ''invalid mode'' (mode_name m)) @
     err_if (mode_name m \<in> modes) (V_Duplicate ''mode'' (mode_name m)) @
     check_modes rx (insert (mode_name m) modes) ms"

definition check_initial_modes :: "mode_config list \<Rightarrow> validation_error list" where
  "check_initial_modes modes =
     err_if (length (filter mode_initial modes) > 1)
       (V_Daemon ''only one mode may be marked initial'')"

definition check_vault :: "regex_lib \<Rightarrow> string set \<Rightarrow> vault_config \<Rightarrow> validation_error list" where
  "check_vault rx vaults v =
     err_if (\<not> valid_identifier rx (vault_name v))
       (V_Vault (vault_name v) ''name must match [A-Za-z0-9_.-]+'') @
     err_if (vault_name v \<in> vaults) (V_Duplicate ''vault'' (vault_name v)) @
     err_if (\<not> path_is_absolute (vault_path v)) (V_Vault (vault_name v) ''path must be absolute'') @
     err_if (vault_adapter_of v = Gocryptfs \<and>
             (is_none_or (\<lambda>p. \<not> path_is_absolute p) (encrypted_path v) \<or>
              is_none_or (\<lambda>p. \<not> path_is_absolute p) (mount_path v)))
       (V_Vault (vault_name v) ''gocryptfs requires absolute encrypted_path and mount_path'') @
     err_if (is_some_and (\<lambda>description.
               description = [] \<or> length description > 128 \<or> any_control description)
             (keyring_description v))
       (V_Vault (vault_name v) ''keyring_description must be 1..=128 printable characters'')"

fun check_vaults :: "regex_lib \<Rightarrow> string set \<Rightarrow> vault_config list \<Rightarrow> validation_error list" where
  "check_vaults rx vaults [] = []"
| "check_vaults rx vaults (v # vs) =
     check_vault rx vaults v @ check_vaults rx (insert (vault_name v) vaults) vs"

definition check_hotkey :: "regex_lib \<Rightarrow> string set \<Rightarrow> hotkey_config \<Rightarrow> validation_error list" where
  "check_hotkey rx hotkeys k =
     err_if (\<not> valid_identifier rx (hotkey_name k))
       (V_Hotkey (hotkey_name k) ''name must match [A-Za-z0-9_.-]+'') @
     err_if (hotkey_name k \<in> hotkeys) (V_Duplicate ''hotkey'' (hotkey_name k)) @
     err_if (\<not> path_is_absolute (hotkey_device k))
       (V_Hotkey (hotkey_name k) ''device path must be absolute'') @
     err_if (hotkey_sequence k = [] \<or> length (hotkey_sequence k) > 32)
       (V_Hotkey (hotkey_name k) ''sequence must contain between 1 and 32 keys'') @
     err_if (hotkey_within k = 0) (V_Hotkey (hotkey_name k) ''within must be non-zero'') @
     (case find (\<lambda>key. \<not> valid_key_name key) (hotkey_sequence k) of
        None \<Rightarrow> []
      | Some key \<Rightarrow> [V_Hotkey (hotkey_name k) (''unsupported key name: '' @ key)])"

fun check_hotkeys :: "regex_lib \<Rightarrow> string set \<Rightarrow> hotkey_config list \<Rightarrow> validation_error list" where
  "check_hotkeys rx hotkeys [] = []"
| "check_hotkeys rx hotkeys (k # ks) =
     check_hotkey rx hotkeys k @ check_hotkeys rx (insert (hotkey_name k) hotkeys) ks"

definition check_rule ::
  "regex_lib \<Rightarrow> hm_parser \<Rightarrow> config \<Rightarrow> string set \<Rightarrow> rule \<Rightarrow> validation_error list" where
  "check_rule rx hm cfg rules r =
     err_if (\<not> valid_identifier rx (rule_id r))
       (rule_error (rule_id r) ''id must match [A-Za-z0-9_.-]+'') @
     err_if (rule_id r \<in> rules) (V_Duplicate ''rule'' (rule_id r)) @
     err_if (rule_actions r = []) (rule_error (rule_id r) ''at least one action is required'') @
     validate_trigger (rule_trigger r) (rule_id r) 0 (set (map hotkey_name (cfg_hotkeys cfg))) @
     (case rule_when r of None \<Rightarrow> [] | Some c \<Rightarrow> validate_condition hm c (rule_id r) 0) @
     concat (map (\<lambda>a. validate_action a (rule_id r) (cfg_daemon cfg)
                        (set (map vault_name (cfg_vaults cfg))) (set (map mode_name (cfg_modes cfg))))
               (rule_actions r))"

fun check_rules ::
  "regex_lib \<Rightarrow> hm_parser \<Rightarrow> config \<Rightarrow> string set \<Rightarrow> rule list \<Rightarrow> validation_error list" where
  "check_rules rx hm cfg rules [] = []"
| "check_rules rx hm cfg rules (r # rs) =
     check_rule rx hm cfg rules r @ check_rules rx hm cfg (insert (rule_id r) rules) rs"

definition validate_config ::
  "regex_lib \<Rightarrow> hm_parser \<Rightarrow> config \<Rightarrow> validation_error list + unit" where
  "validate_config rx hm cfg =
     (let errors =
        err_if (cfg_version cfg \<noteq> 1) (V_Version (cfg_version cfg)) @
        check_daemon (cfg_daemon cfg) @
        check_modes rx {} (cfg_modes cfg) @
        check_initial_modes (cfg_modes cfg) @
        check_vaults rx {} (cfg_vaults cfg) @
        check_hotkeys rx {} (cfg_hotkeys cfg) @
        check_rules rx hm cfg {} (cfg_rules cfg)
      in if errors = [] then Inr () else Inl errors)"

end
