(* ===== verification/Validation_Spec.thy ===== *)
theory Validation_Spec
  imports Validation
begin

text \<open>
  What validation promises: a declarative well-formedness predicate on configurations,
  with no errors, no accumulators and no recursion bound, and the proof that the
  validator accepts exactly the configurations that satisfy it.
\<close>

section \<open>Well-formed parts\<close>

fun trigger_ok :: "string set \<Rightarrow> trigger_spec \<Rightarrow> bool" where
  "trigger_ok hotkeys (T_File p _ _) = path_is_absolute p"
| "trigger_ok hotkeys (T_Power _ battery_below _) = is_none_or (\<lambda>v. v \<le> 100) battery_below"
| "trigger_ok hotkeys (T_Process name _) = (name \<noteq> None)"
| "trigger_ok hotkeys (T_Service name _) = (name \<noteq> None)"
| "trigger_ok hotkeys (T_Port port _ _) = (port \<noteq> None)"
| "trigger_ok hotkeys (T_Hotkey name) = (name \<in> hotkeys)"
| "trigger_ok hotkeys (T_All ts) = (ts \<noteq> [] \<and> list_all (trigger_ok hotkeys) ts)"
| "trigger_ok hotkeys (T_Any ts) = (ts \<noteq> [] \<and> list_all (trigger_ok hotkeys) ts)"
| "trigger_ok hotkeys (T_Not t) = trigger_ok hotkeys t"
| "trigger_ok hotkeys (T_Sequence steps within) =
     (2 \<le> length steps \<and> within \<noteq> 0 \<and>
      list_all (\<lambda>t. \<not> (\<exists>ss w. t = T_Sequence ss w)) steps \<and> list_all (trigger_ok hotkeys) steps)"
| "trigger_ok hotkeys _ = True"

text \<open>Nesting depth: 0 for a trigger without parts.\<close>

fun trigger_depth :: "trigger_spec \<Rightarrow> nat" where
  "trigger_depth (T_All ts) = foldr max (map (\<lambda>t. Suc (trigger_depth t)) ts) 0"
| "trigger_depth (T_Any ts) = foldr max (map (\<lambda>t. Suc (trigger_depth t)) ts) 0"
| "trigger_depth (T_Sequence ts _) = foldr max (map (\<lambda>t. Suc (trigger_depth t)) ts) 0"
| "trigger_depth (T_Not t) = Suc (trigger_depth t)"
| "trigger_depth _ = 0"

fun condition_ok :: "hm_parser \<Rightarrow> condition_spec \<Rightarrow> bool" where
  "condition_ok hm (C_All cs) = (cs \<noteq> [] \<and> list_all (condition_ok hm) cs)"
| "condition_ok hm (C_Any cs) = (cs \<noteq> [] \<and> list_all (condition_ok hm) cs)"
| "condition_ok hm (C_Not c) = condition_ok hm c"
| "condition_ok hm (C_TimeWindow start finish _ _) = (hm start \<noteq> None \<and> hm finish \<noteq> None)"
| "condition_ok hm (C_PathExists p _) = path_is_absolute p"
| "condition_ok hm (C_Mounted p _) = path_is_absolute p"
| "condition_ok hm (C_Power _ battery_below _) = is_none_or (\<lambda>v. v \<le> 100) battery_below"
| "condition_ok hm (C_SensorHealthy sensor _) = (sensor \<in> set known_sensors)"
| "condition_ok hm _ = True"

fun condition_depth :: "condition_spec \<Rightarrow> nat" where
  "condition_depth (C_All cs) = foldr max (map (\<lambda>c. Suc (condition_depth c)) cs) 0"
| "condition_depth (C_Any cs) = foldr max (map (\<lambda>c. Suc (condition_depth c)) cs) 0"
| "condition_depth (C_Not c) = Suc (condition_depth c)"
| "condition_depth _ = 0"

definition env_key_ok :: "string \<Rightarrow> bool" where
  "env_key_ok key \<longleftrightarrow> (\<forall>ch \<in> set key. is_ascii_uppercase ch \<or> is_ascii_digit ch \<or> ch = CHR ''_'')"

definition digest_ok :: "string \<Rightarrow> bool" where
  "digest_ok digest \<longleftrightarrow> length digest = 64 \<and> (\<forall>ch \<in> set digest. is_ascii_hexdigit ch)"

fun action_ok :: "config \<Rightarrow> action_spec \<Rightarrow> bool" where
  "action_ok cfg (A_LockVault v) = (v \<in> vault_name ` set (cfg_vaults cfg))"
| "action_ok cfg (A_UnlockVault v) = (v \<in> vault_name ` set (cfg_vaults cfg))"
| "action_ok cfg (A_Unmount p) = path_is_absolute p"
| "action_ok cfg (A_InterfaceState i _) = valid_interface_name i"
| "action_ok cfg (A_Service n _) = valid_unit_name n"
| "action_ok cfg (A_TerminateProcess p _) = (p \<in> set (managed_processes (cfg_daemon cfg)))"
| "action_ok cfg (A_CaptureEvidence ps d) = (path_is_absolute d \<and> (\<forall>p \<in> set ps. path_is_absolute p))"
| "action_ok cfg (A_SetMode m) = (m \<in> mode_name ` set (cfg_modes cfg))"
| "action_ok cfg (A_Exec x _ sha env) =
     (path_is_absolute x \<and> (\<exists>p \<in> set (allowed_executables (cfg_daemon cfg)). path_eq x p) \<and>
      (\<exists>digest. sha = Some digest \<and> digest_ok digest) \<and> (\<forall>(key, _) \<in> set env. env_key_ok key))"
| "action_ok cfg _ = True"

definition daemon_ok :: "daemon_config \<Rightarrow> bool" where
  "daemon_ok d \<longleftrightarrow>
     path_is_absolute (socket_path d) \<and> path_is_absolute (state_path d) \<and>
     0 < poll_interval d \<and> 16 \<le> event_buffer d \<and>
     (\<forall>p \<in> set (allowed_executables d). path_is_absolute p)"

definition vault_ok :: "regex_lib \<Rightarrow> vault_config \<Rightarrow> bool" where
  "vault_ok rx v \<longleftrightarrow>
     valid_identifier rx (vault_name v) \<and> path_is_absolute (vault_path v) \<and>
     (vault_adapter_of v = Gocryptfs \<longrightarrow>
        is_some_and path_is_absolute (encrypted_path v) \<and> is_some_and path_is_absolute (mount_path v)) \<and>
     is_none_or (\<lambda>d. d \<noteq> [] \<and> length d \<le> 128 \<and> \<not> any_control d) (keyring_description v)"

definition hotkey_ok :: "regex_lib \<Rightarrow> hotkey_config \<Rightarrow> bool" where
  "hotkey_ok rx k \<longleftrightarrow>
     valid_identifier rx (hotkey_name k) \<and> path_is_absolute (hotkey_device k) \<and>
     1 \<le> length (hotkey_sequence k) \<and> length (hotkey_sequence k) \<le> 32 \<and>
     0 < hotkey_within k \<and> (\<forall>key \<in> set (hotkey_sequence k). valid_key_name key)"

definition rule_ok :: "regex_lib \<Rightarrow> hm_parser \<Rightarrow> config \<Rightarrow> rule \<Rightarrow> bool" where
  "rule_ok rx hm cfg r \<longleftrightarrow>
     valid_identifier rx (rule_id r) \<and> rule_actions r \<noteq> [] \<and>
     trigger_ok (hotkey_name ` set (cfg_hotkeys cfg)) (rule_trigger r) \<and>
     trigger_depth (rule_trigger r) \<le> 16 \<and>
     is_none_or (\<lambda>c. condition_ok hm c \<and> condition_depth c \<le> 16) (rule_when r) \<and>
     (\<forall>a \<in> set (rule_actions r). action_ok cfg a)"

definition config_ok :: "regex_lib \<Rightarrow> hm_parser \<Rightarrow> config \<Rightarrow> bool" where
  "config_ok rx hm cfg \<longleftrightarrow>
     cfg_version cfg = 1 \<and> daemon_ok (cfg_daemon cfg) \<and>
     distinct (map mode_name (cfg_modes cfg)) \<and>
     (\<forall>m \<in> set (cfg_modes cfg). valid_identifier rx (mode_name m)) \<and>
     length (filter mode_initial (cfg_modes cfg)) \<le> 1 \<and>
     distinct (map vault_name (cfg_vaults cfg)) \<and> (\<forall>v \<in> set (cfg_vaults cfg). vault_ok rx v) \<and>
     distinct (map hotkey_name (cfg_hotkeys cfg)) \<and> (\<forall>k \<in> set (cfg_hotkeys cfg). hotkey_ok rx k) \<and>
     distinct (map rule_id (cfg_rules cfg)) \<and> (\<forall>r \<in> set (cfg_rules cfg). rule_ok rx hm cfg r)"

section \<open>The validator decides it\<close>

lemma foldr_max_le: "foldr max (map f xs) 0 \<le> (n::nat) \<longleftrightarrow> (\<forall>x \<in> set xs. f x \<le> n)"
  by (induction xs) auto

lemma depth_step:
  "depth + foldr max (map (\<lambda>x. Suc (f x)) xs) 0 \<le> (16::nat) \<longleftrightarrow>
   depth \<le> 16 \<and> (\<forall>x \<in> set xs. Suc depth + f x \<le> 16)"
proof (cases "depth \<le> 16")
  case True
  then have "depth + foldr max (map (\<lambda>x. Suc (f x)) xs) 0 \<le> 16 \<longleftrightarrow>
      foldr max (map (\<lambda>x. Suc (f x)) xs) 0 \<le> 16 - depth" by linarith
  also have "\<dots> \<longleftrightarrow> (\<forall>x \<in> set xs. Suc (f x) \<le> 16 - depth)" by (rule foldr_max_le)
  finally show ?thesis using True by (metis Suc_eq_plus1 add.assoc add.commute le_diff_conv2)
qed simp

lemma validate_trigger_iff:
  "validate_trigger t rule depth hotkeys = [] \<longleftrightarrow> depth + trigger_depth t \<le> 16 \<and> trigger_ok hotkeys t"
proof (induction t arbitrary: depth)
  case (T_Power a b c)
  then show ?case by (cases b) (auto simp: validate_trigger.simps)
next
  case (T_Process a b)
  then show ?case by (cases a) (auto simp: validate_trigger.simps)
next
  case (T_Service a b)
  then show ?case by (cases a) (auto simp: validate_trigger.simps)
next
  case (T_Port a b c)
  then show ?case by (cases a) (auto simp: validate_trigger.simps)
next
  case (T_All ts)
  then show ?case
    by (auto simp: validate_trigger.simps [of "T_All ts"] depth_step list_all_iff)
next
  case (T_Any ts)
  then show ?case
    by (auto simp: validate_trigger.simps [of "T_Any ts"] depth_step list_all_iff)
next
  case (T_Not t)
  then show ?case by (auto simp: validate_trigger.simps [of "T_Not t"])
next
  case (T_Sequence ts w)
  have flag: "(case t of T_Sequence _ _ \<Rightarrow> True | _ \<Rightarrow> False) \<longleftrightarrow> (\<exists>ss v. t = T_Sequence ss v)" for t
    by (cases t) simp_all
  from T_Sequence show ?case
    by (auto simp: validate_trigger.simps [of "T_Sequence ts w"] depth_step list_all_iff flag)
qed (auto simp: validate_trigger.simps)

lemma validate_condition_iff:
  "validate_condition hm c rule depth = [] \<longleftrightarrow> depth + condition_depth c \<le> 16 \<and> condition_ok hm c"
proof (induction c arbitrary: depth)
  case (C_All cs)
  then show ?case
    by (auto simp: validate_condition.simps [of _ "C_All cs"] depth_step list_all_iff)
next
  case (C_Any cs)
  then show ?case
    by (auto simp: validate_condition.simps [of _ "C_Any cs"] depth_step list_all_iff)
next
  case (C_Not c)
  then show ?case by (auto simp: validate_condition.simps [of _ "C_Not c"])
next
  case (C_Power a b c)
  then show ?case by (cases b) (auto simp: validate_condition.simps)
qed (auto simp: validate_condition.simps)

lemma validate_action_iff:
  "validate_action a rule (cfg_daemon cfg) (set (map vault_name (cfg_vaults cfg)))
     (set (map mode_name (cfg_modes cfg))) = [] \<longleftrightarrow> action_ok cfg a"
proof (cases a)
  case (A_Exec x args sha env)
  then show ?thesis
    by (cases sha) (auto simp: list_ex_iff list_all_iff digest_ok_def env_key_ok_def)
qed (auto simp: list_ex_iff)

lemma check_daemon_iff: "check_daemon d = [] \<longleftrightarrow> daemon_ok d"
  by (auto simp: check_daemon_def daemon_ok_def)

lemma check_modes_iff:
  "check_modes rx seen ms = [] \<longleftrightarrow>
     distinct (map mode_name ms) \<and> mode_name ` set ms \<inter> seen = {} \<and>
     (\<forall>m \<in> set ms. valid_identifier rx (mode_name m))"
  by (induction ms arbitrary: seen) auto

lemma check_vault_iff:
  "check_vault rx seen v = [] \<longleftrightarrow> vault_name v \<notin> seen \<and> vault_ok rx v"
  by (cases "encrypted_path v"; cases "mount_path v"; cases "keyring_description v")
    (auto simp: check_vault_def vault_ok_def)

lemma check_vaults_iff:
  "check_vaults rx seen vs = [] \<longleftrightarrow>
     distinct (map vault_name vs) \<and> vault_name ` set vs \<inter> seen = {} \<and> (\<forall>v \<in> set vs. vault_ok rx v)"
  by (induction vs arbitrary: seen) (auto simp: check_vault_iff)

lemma first_bad_Nil:
  "(case find P xs of None \<Rightarrow> [] | Some x \<Rightarrow> [f x]) = [] \<longleftrightarrow> (\<forall>x \<in> set xs. \<not> P x)"
  by (induction xs) auto

lemma check_hotkey_iff:
  "check_hotkey rx seen k = [] \<longleftrightarrow> hotkey_name k \<notin> seen \<and> hotkey_ok rx k"
  by (auto simp: check_hotkey_def hotkey_ok_def first_bad_Nil Suc_le_eq)

lemma check_hotkeys_iff:
  "check_hotkeys rx seen ks = [] \<longleftrightarrow>
     distinct (map hotkey_name ks) \<and> hotkey_name ` set ks \<inter> seen = {} \<and> (\<forall>k \<in> set ks. hotkey_ok rx k)"
  by (induction ks arbitrary: seen) (auto simp: check_hotkey_iff)

lemma check_rule_iff:
  "check_rule rx hm cfg seen r = [] \<longleftrightarrow> rule_id r \<notin> seen \<and> rule_ok rx hm cfg r"
  by (cases "rule_when r")
    (auto simp: check_rule_def rule_ok_def validate_trigger_iff validate_condition_iff
      validate_action_iff [unfolded set_map] simp del: validate_action.simps)

lemma check_rules_iff:
  "check_rules rx hm cfg seen rs = [] \<longleftrightarrow>
     distinct (map rule_id rs) \<and> rule_id ` set rs \<inter> seen = {} \<and> (\<forall>r \<in> set rs. rule_ok rx hm cfg r)"
  by (induction rs arbitrary: seen) (auto simp: check_rule_iff)

lemmas check_iffs =
  check_daemon_iff check_modes_iff check_vaults_iff check_hotkeys_iff check_rules_iff

lemma validate_config_iff: "validate_config rx hm cfg = Inr () \<longleftrightarrow> config_ok rx hm cfg"
  by (auto simp: validate_config_def config_ok_def check_initial_modes_def Let_def check_iffs)

end
