(* ===== verification/Validation_Properties.thy ===== *)
theory Validation_Properties
  imports Validation_Spec Engine_Properties
begin

text \<open>
  What validation guarantees the rest of the daemon, with witnesses on a configuration in
  the style of the shipped examples.
\<close>

section \<open>Fixtures\<close>

text \<open>A regular-expression library that knows the one pattern the validator uses, and an \<open>HH:MM\<close> parser.\<close>

definition identifier_char :: "char \<Rightarrow> bool" where
  "identifier_char ch \<longleftrightarrow> is_ascii_alphanumeric ch \<or> ch \<in> set ''_.-''"

definition demo_regex :: regex_lib where
  "demo_regex p =
     (if p = identifier_pattern then Some (\<lambda>s. s \<noteq> [] \<and> list_all identifier_char s) else None)"

definition demo_hm :: hm_parser where
  "demo_hm s = (if s = ''22:00'' then Some (22 * 60) else if s = ''06:00'' then Some 360 else None)"

definition demo_rule :: rule where
  "demo_rule =
     \<lparr> rule_id = ''night-usb'', rule_description = '''', rule_enabled = True, rule_priority = 10,
       rule_cooldown = from_secs 60, rule_sustain_for = 0, rule_once_per_boot = False,
       rule_on_sensor_failure = Ignore, rule_trigger = T_Hotkey ''panic'',
       rule_when = Some (C_TimeWindow ''22:00'' ''06:00'' False []),
       rule_actions = [A_LockVault ''documents'', A_SetMode ''lockdown''] \<rparr>"

definition demo_config :: config where
  "demo_config =
     \<lparr> cfg_version = 1, cfg_daemon = default_daemon_config, cfg_audit = default_audit_config,
       cfg_modes = [\<lparr> mode_name = ''normal'', mode_description = '''', mode_initial = True \<rparr>,
                    \<lparr> mode_name = ''lockdown'', mode_description = '''', mode_initial = False \<rparr>],
       cfg_vaults = [\<lparr> vault_name = ''documents'', vault_adapter_of = Fscrypt,
                       vault_path = ''/home/u/docs'', encrypted_path = None, mount_path = None,
                       keyring_description = None \<rparr>],
       cfg_hotkeys = [\<lparr> hotkey_name = ''panic'', hotkey_device = ''/dev/input/event0'',
                        hotkey_sequence = [''CTRL'', ''KEY_L''], hotkey_within = from_secs 3 \<rparr>],
       cfg_rules = [demo_rule] \<rparr>"

lemma demo_config_ok: "config_ok demo_regex demo_hm demo_config"
proof -
  have keys: "valid_key_name ''CTRL''" "valid_key_name ''KEY_L''" by code_simp+
  have rule: "rule_ok demo_regex demo_hm demo_config demo_rule"
    by (simp add: rule_ok_def demo_rule_def demo_config_def valid_identifier_def demo_regex_def
        identifier_char_def is_ascii_alphanumeric_def is_ascii_lowercase_def demo_hm_def)
  have rules: "cfg_rules demo_config = [demo_rule]" by (simp add: demo_config_def)
  show ?thesis
    by (simp add: config_ok_def rules rule) (simp add: demo_config_def demo_rule_def valid_identifier_def
        demo_regex_def identifier_char_def is_ascii_alphanumeric_def is_ascii_lowercase_def keys
        vault_ok_def hotkey_ok_def path_is_absolute_def daemon_ok_def default_daemon_config_def
        from_secs_def)
qed

section \<open>Properties\<close>

text \<open>
  C13. Validation decides well-formedness: it accepts exactly the configurations in which
  every identifier is valid and unique within its section, every reference to a hotkey,
  vault, mode, executable or process resolves, paths that must be absolute are, nesting is
  at most 16 deep and every \<open>exec\<close> action pins a digest.
\<close>

theorem validation_decides_wellformedness:
  "validate_config rx hm cfg = Inr () \<longleftrightarrow> config_ok rx hm cfg"
  by (rule validate_config_iff)

text \<open>
  C14. A validated configuration never yields an action outside what it validated: from the
  engine built on its rules, after any run, every action planned for any event refers to
  configured vaults, modes, processes and executables, or is a plain notification.
\<close>

theorem planned_actions_validated:
  assumes "validate_config rx hm cfg = Inr ()"
    and "run_ops engine_step (engine_new now (cfg_rules cfg) mode) ops = Inr e"
    and "handle h e ev = Inr (e', ps)" and "p \<in> set ps"
  shows "action_ok cfg (plan_action p)"
proof -
  have ok: "config_ok rx hm cfg" using assms(1) by (simp add: validate_config_iff)
  then have new: "wf_engine (engine_new now (cfg_rules cfg) mode)"
    by (intro engine_new_wf) (simp add: config_ok_def)
  then have wf: "wf_engine e"
    using engine.run_preserves [OF _ _ assms(2)] by (simp add: list_all_iff)
  obtain r where r: "r \<in> set (eng_rules e)"
    and origin: "plan_action p \<in> set (rule_actions r) \<or> (\<exists>t m u. plan_action p = A_Notify t m u)"
    by (rule plan_origin [OF wf assms(3,4)])
  have "set (eng_rules e) = set (cfg_rules cfg)"
    using run_ops_rules [OF new assms(2)] by (simp add: engine_new_def Let_def)
  with r ok have "\<forall>a \<in> set (rule_actions r). action_ok cfg a"
    by (simp add: config_ok_def rule_ok_def)
  with origin show ?thesis by (elim disjE exE) simp_all
qed

definition demo_host :: host where
  "demo_host = test_host\<lparr>parse_hm := demo_hm, local_time := (\<lambda>_. 1380)\<rparr>"

lemma demo_plan:
  "\<exists>e' ps. handle demo_host (engine_new 0 (cfg_rules demo_config) ''normal'')
       (event_at (E_Hotkey ''panic'') 1) = Inr (e', ps) \<and>
     map plan_action ps = [A_LockVault ''documents'', A_SetMode ''lockdown'']"
  by (simp add: engine_eval fixture_simps demo_config_def demo_rule_def demo_host_def demo_hm_def
      time_window_matches_def in_time_window_def)

theorem planned_actions_validated_witness:
  "\<exists>e' ps. handle demo_host (engine_new 0 (cfg_rules demo_config) ''normal'')
         (event_at (E_Hotkey ''panic'') 1) = Inr (e', ps) \<and> length ps = 2 \<and>
     action_ok demo_config (plan_action (hd ps))"
proof -
  from demo_plan obtain e' ps where
    h: "handle demo_host (engine_new 0 (cfg_rules demo_config) ''normal'')
       (event_at (E_Hotkey ''panic'') 1) = Inr (e', ps)"
    and ps: "map plan_action ps = [A_LockVault ''documents'', A_SetMode ''lockdown'']"
    by (elim exE conjE)
  have len: "length ps = 2" using arg_cong [OF ps, of length] by simp
  then have "hd ps \<in> set ps" by (cases ps) auto
  moreover have "validate_config demo_regex demo_hm demo_config = Inr ()"
    using demo_config_ok by (simp add: validate_config_iff)
  ultimately have "action_ok demo_config (plan_action (hd ps))"
    using planned_actions_validated [where ops = "[]", OF _ run_ops.simps(1) h] by blast
  with h len show ?thesis by blast
qed

end
