(* ===== verification/Host.thy ===== *)
theory Host
  imports Kovert_Prelude
begin

text \<open>
  The host as the daemon sees it: error values, JSON trees, and file metadata.

  An \<open>anyhow::Result\<close> is \<^typ>\<open>string + 'a\<close>, the string being what
  \<open>error.to_string()\<close> gives: the outermost context. A JSON value is the tree
  \<open>serde_json::Value\<close> documents; printing and parsing it is the library's and is
  always an argument.
\<close>

section \<open>Results\<close>

type_synonym 'a result = "string + 'a"

definition and_then :: "'e + 'a \<Rightarrow> ('a \<Rightarrow> 'e + 'b) \<Rightarrow> 'e + 'b" where
  "and_then m k = (case m of Inl e \<Rightarrow> Inl e | Inr x \<Rightarrow> k x)"

definition with_context :: "'a result \<Rightarrow> string \<Rightarrow> 'a result" where
  "with_context m message = (case m of Inl _ \<Rightarrow> Inl message | Inr x \<Rightarrow> Inr x)"

definition ensure :: "bool \<Rightarrow> string \<Rightarrow> unit result" where
  "ensure b message = (if b then Inr () else Inl message)"

definition ok_or :: "'a option \<Rightarrow> string \<Rightarrow> 'a result" where
  "ok_or x message = (case x of None \<Rightarrow> Inl message | Some v \<Rightarrow> Inr v)"

lemma and_then_simps [simp, kovert_simps]:
  "and_then (Inl e) k = Inl e" "and_then (Inr x) k = k x"
  by (simp_all add: and_then_def)

lemma with_context_simps [simp, kovert_simps]:
  "with_context (Inl e) message = Inl message" "with_context (Inr x) message = Inr x"
  by (simp_all add: with_context_def)

lemma and_then_eq_Inr: "and_then m k = Inr y \<longleftrightarrow> (\<exists>x. m = Inr x \<and> k x = Inr y)"
  by (cases m) simp_all

lemma with_context_eq_Inr: "with_context m message = Inr y \<longleftrightarrow> m = Inr y"
  by (cases m) simp_all

lemma ensure_eq_Inr: "ensure b message = Inr u \<longleftrightarrow> b"
  by (simp add: ensure_def)

lemma ok_or_eq_Inr: "ok_or x message = Inr y \<longleftrightarrow> x = Some y"
  by (cases x) (simp_all add: ok_or_def)

lemmas result_elims = and_then_eq_Inr with_context_eq_Inr ensure_eq_Inr ok_or_eq_Inr

section \<open>JSON values\<close>

datatype json =
    J_Null
  | J_Bool bool
  | J_Number int
  | J_String string
  | J_Array "json list"
  | J_Object "(string \<times> json) list"

section \<open>File metadata\<close>

datatype file_type = Regular_File | Directory | Symlink | Socket | Other_File

record metadata =
  meta_type :: file_type
  meta_uid :: "32 word"
  meta_mode :: "32 word"
  meta_len :: nat

datatype io_error = NotFound | Io_Error string

text \<open>\<open>mode & 0o022 != 0\<close>: writable by the group or by others.\<close>

definition group_or_world_writable :: "metadata \<Rightarrow> bool" where
  "group_or_world_writable m \<longleftrightarrow> and (meta_mode m) 18 \<noteq> 0"

lemma group_or_world_writable_bits:
  "group_or_world_writable m \<longleftrightarrow> bit (meta_mode m) 1 \<or> bit (meta_mode m) 4"
proof -
  have "bit (or (push_bit 1 1) (push_bit 4 1) :: 32 word) n \<longleftrightarrow> n = 1 \<or> n = 4" for n
    by (simp only: bit_or_iff bit_push_bit_iff bit_1_iff) auto
  then have mask: "bit (18 :: 32 word) n \<longleftrightarrow> n = 1 \<or> n = 4" for n by simp
  have "and (meta_mode m) 18 = 0 \<longleftrightarrow> (\<forall>n. \<not> (bit (meta_mode m) n \<and> bit (18 :: 32 word) n))"
    by (subst bit_eq_iff) (metis bit_0_eq bit_and_iff bit_imp_possible_bit bot_apply bot_bool_def)
  also have "\<dots> \<longleftrightarrow> \<not> bit (meta_mode m) 1 \<and> \<not> bit (meta_mode m) 4"
    unfolding mask by blast
  finally have "and (meta_mode m) 18 = 0 \<longleftrightarrow>
    \<not> bit (meta_mode m) 1 \<and> \<not> bit (meta_mode m) 4" .
  then show ?thesis by (simp add: group_or_world_writable_def)
qed

text \<open>
  \<open>Path::parent\<close>: the path without its last component, none when it ends in the root
  or is empty. The result is printed from its components.
\<close>

fun component_text :: "component \<Rightarrow> string" where
  "component_text RootDir = ''/''"
| "component_text CurDir = ''.''"
| "component_text ParentDir = ''..''"
| "component_text (Normal s) = s"

definition path_of :: "component list \<Rightarrow> path" where
  "path_of cs = foldl (\<lambda>p c. path_join p (component_text c)) [] cs"

definition path_parent :: "path \<Rightarrow> path option" where
  "path_parent p =
     (case rev (components p) of
        [] \<Rightarrow> None
      | RootDir # _ \<Rightarrow> None
      | _ # cs \<Rightarrow> Some (path_of (rev cs)))"

text \<open>What a check that a path is safe establishes about it.\<close>

definition root_controlled :: "metadata \<Rightarrow> bool" where
  "root_controlled m \<longleftrightarrow> meta_uid m = 0 \<and> \<not> group_or_world_writable m"

end
