(* ===== verification/Audit_Db.thy ===== *)
theory Audit_Db
  imports Host
begin

text \<open>
  The durable store of \<open>kovert-daemon/src/audit.rs\<close>: the tamper-evident journal, the
  key/value state table and the action ledger.

  The three SQL tables are the state; a statement of the source is an operation on them,
  with \<open>ORDER BY id\<close> as a sort. Every statement may fail (\<open>sql\<close>, by an argument that
  says which statements fail and with what message), and a transaction that is dropped
  before \<open>commit\<close> leaves the tables as they were. BLAKE3, RFC 3339 printing and parsing,
  and JSON printing and parsing are library code and come as arguments, in the
  record \<open>audit_lib\<close>.
\<close>

section \<open>Tables\<close>

record audit_row =
  row_id :: int
  row_timestamp :: string
  row_event_id :: "string option"
  row_kind :: string
  row_rule_id :: "string option"
  row_payload :: string
  row_previous_hash :: string
  row_hash :: string

record audit_record =
  rec_id :: int
  rec_timestamp :: timestamp
  rec_event_id :: "string option"
  rec_kind :: string
  rec_rule_id :: "string option"
  rec_payload :: json
  rec_previous_hash :: string
  rec_hash :: string

record ledger_row =
  led_status :: string
  led_outcome :: "string option"
  led_updated_at :: string

type_synonym ledger_key = "string \<times> string \<times> string"

text \<open>\<open>db_seq\<close> is the \<open>AUTOINCREMENT\<close> counter of the \<open>audit\<close> table.\<close>

record audit_db =
  db_audit :: "audit_row list"
  db_seq :: int
  db_state :: "string \<rightharpoonup> string"
  db_ledger :: "ledger_key \<rightharpoonup> ledger_row"

definition empty_db :: audit_db where
  "empty_db = \<lparr> db_audit = [], db_seq = 0, db_state = Map.empty, db_ledger = Map.empty \<rparr>"

record audit_lib =
  blake3_hex :: "string \<Rightarrow> string"
  to_rfc3339 :: "timestamp \<Rightarrow> string"
  parse_rfc3339 :: "string \<Rightarrow> timestamp result"
  json_to_string :: "json \<Rightarrow> string"
  json_from_str :: "string \<Rightarrow> json result"

datatype sql_step =
    S_Begin | S_Anchor | S_Last | S_Insert | S_Count | S_Cutoff | S_Delete | S_PutAnchor | S_Commit
  | S_Query | S_Write

type_synonym sql_faults = "sql_step \<Rightarrow> string option"

definition sql :: "sql_faults \<Rightarrow> sql_step \<Rightarrow> 'a result \<Rightarrow> 'a result" where
  "sql faults step k = (case faults step of Some e \<Rightarrow> Inl e | None \<Rightarrow> k)"

definition by_id :: "audit_db \<Rightarrow> audit_row list" where
  "by_id db = sort_key row_id (db_audit db)"

section \<open>The hash chain\<close>

definition genesis_hash :: string where
  "genesis_hash = replicate 64 CHR ''0''"

text \<open>\<open>(len as u64).to_le_bytes()\<close>.\<close>

definition le_bytes :: "64 word \<Rightarrow> string" where
  "le_bytes w = map (\<lambda>i. char_of (unat (drop_bit (8 * i) w) mod 256)) [0..<8]"

definition encode_field :: "string \<Rightarrow> string" where
  "encode_field value = le_bytes (of_nat (length value)) @ value"

definition record_preimage ::
  "string \<Rightarrow> string \<Rightarrow> string option \<Rightarrow> string \<Rightarrow> string option \<Rightarrow> string \<Rightarrow> string" where
  "record_preimage previous_hash timestamp event_id kind rule_id payload =
     concat (map encode_field
       [previous_hash, timestamp, unwrap_or event_id [], kind, unwrap_or rule_id [], payload])"

definition record_hash ::
  "audit_lib \<Rightarrow> string \<Rightarrow> string \<Rightarrow> string option \<Rightarrow> string \<Rightarrow> string option \<Rightarrow> string \<Rightarrow> string"
where
  "record_hash lib previous_hash timestamp event_id kind rule_id payload =
     blake3_hex lib (record_preimage previous_hash timestamp event_id kind rule_id payload)"

definition audit_anchor :: string where
  "audit_anchor = ''audit_anchor''"

definition anchor_of :: "audit_db \<Rightarrow> string" where
  "anchor_of db = unwrap_or (db_state db audit_anchor) genesis_hash"

section \<open>Retention\<close>

text \<open>
  \<open>count - max_records as i64\<close> is an \<open>i64\<close> subtraction, so both operands are taken at
  64 bits and the difference is read as signed.
\<close>

definition excess_records :: "nat \<Rightarrow> 64 word \<Rightarrow> int" where
  "excess_records count max_records = max (sint (of_nat count - max_records)) 0"

definition prune :: "sql_faults \<Rightarrow> 64 word \<Rightarrow> audit_db \<Rightarrow> audit_db result" where
  "prune faults max_records db =
     (if max_records = 0 then Inr db
      else sql faults S_Count (
        let excess = excess_records (length (db_audit db)) max_records in
        if excess = 0 then Inr db
        else case faults S_Cutoff of
            Some e \<Rightarrow> Inl (''select audit retention anchor: '' @ e)
          | None \<Rightarrow>
              (case drop (nat (excess - 1)) (by_id db) of
                 [] \<Rightarrow> Inl ''select audit retention anchor: Query returned no rows''
               | cutoff # _ \<Rightarrow>
                   sql faults S_Delete (sql faults S_PutAnchor (Inr
                     (db\<lparr>db_audit := filter (\<lambda>r. \<not> row_id r \<le> row_id cutoff) (db_audit db),
                         db_state := (db_state db)(audit_anchor \<mapsto> row_hash cutoff)\<rparr>))))))"

section \<open>Appending\<close>

definition max_row_id :: int where
  "max_row_id = 2 ^ 63 - 1"

definition last_row_id :: "audit_db \<Rightarrow> int" where
  "last_row_id db = fold max (map row_id (db_audit db)) (db_seq db)"

text \<open>\<open>INSERT\<close> under \<open>AUTOINCREMENT\<close> and \<open>UNIQUE(hash)\<close>.\<close>

definition insert_row :: "audit_db \<Rightarrow> audit_row \<Rightarrow> (int \<times> audit_db) result" where
  "insert_row db r =
     (let rid = last_row_id db + 1 in
      if rid > max_row_id then Inl ''database or disk is full''
      else if row_hash r \<in> row_hash ` set (db_audit db)
      then Inl ''UNIQUE constraint failed: audit.hash''
      else Inr (rid, db\<lparr>db_audit := db_audit db @ [r\<lparr>row_id := rid\<rparr>], db_seq := rid\<rparr>))"

definition append_tx ::
  "audit_lib \<Rightarrow> sql_faults \<Rightarrow> timestamp \<Rightarrow> 64 word \<Rightarrow> audit_db \<Rightarrow>
   string option \<Rightarrow> string \<Rightarrow> string option \<Rightarrow> json \<Rightarrow> (audit_record \<times> audit_db) result" where
  "append_tx lib faults now max_records db event_id kind rule_id payload =
     sql faults S_Begin (sql faults S_Anchor (sql faults S_Last (
       let anchor = anchor_of db;
           previous_hash = (case rev (by_id db) of [] \<Rightarrow> anchor | r # _ \<Rightarrow> row_hash r);
           payload_text = json_to_string lib payload;
           hash = record_hash lib previous_hash (to_rfc3339 lib now) event_id kind rule_id payload_text
       in sql faults S_Insert (and_then
            (insert_row db
               \<lparr> row_id = 0, row_timestamp = to_rfc3339 lib now, row_event_id = event_id,
                 row_kind = kind, row_rule_id = rule_id, row_payload = payload_text,
                 row_previous_hash = previous_hash, row_hash = hash \<rparr>)
            (\<lambda>(rid, db'). and_then (prune faults max_records db') (\<lambda>db''.
               sql faults S_Commit (Inr
                 (\<lparr> rec_id = rid, rec_timestamp = now, rec_event_id = event_id, rec_kind = kind,
                    rec_rule_id = rule_id, rec_payload = payload,
                    rec_previous_hash = previous_hash, rec_hash = hash \<rparr>, db''))))))))"

text \<open>The transaction rolls back unless it is committed.\<close>

definition audit_append ::
  "audit_lib \<Rightarrow> sql_faults \<Rightarrow> timestamp \<Rightarrow> 64 word \<Rightarrow> audit_db \<Rightarrow>
   string option \<Rightarrow> string \<Rightarrow> string option \<Rightarrow> json \<Rightarrow> audit_record result \<times> audit_db" where
  "audit_append lib faults now max_records db event_id kind rule_id payload =
     (case append_tx lib faults now max_records db event_id kind rule_id payload of
        Inl e \<Rightarrow> (Inl e, db)
      | Inr (r, db') \<Rightarrow> (Inr r, db'))"

section \<open>Reading\<close>

definition decode_row :: "audit_lib \<Rightarrow> audit_row \<Rightarrow> audit_record result" where
  "decode_row lib r =
     and_then (parse_rfc3339 lib (row_timestamp r))
       (\<lambda>t. and_then (json_from_str lib (row_payload r))
         (\<lambda>j. Inr \<lparr> rec_id = row_id r, rec_timestamp = t, rec_event_id = row_event_id r,
                     rec_kind = row_kind r, rec_rule_id = row_rule_id r, rec_payload = j,
                     rec_previous_hash = row_previous_hash r, rec_hash = row_hash r \<rparr>))"

text \<open>\<open>collect::<Result<Vec<_>>>\<close>: the first error, or all the values.\<close>

fun collect_results :: "'a result list \<Rightarrow> 'a list result" where
  "collect_results [] = Inr []"
| "collect_results (m # ms) = and_then m (\<lambda>x. and_then (collect_results ms) (\<lambda>xs. Inr (x # xs)))"

definition recent :: "audit_lib \<Rightarrow> sql_faults \<Rightarrow> audit_db \<Rightarrow> nat \<Rightarrow> audit_record list result" where
  "recent lib faults db limit =
     sql faults S_Query
       (collect_results (map (decode_row lib) (take (min limit 1000) (rev (by_id db)))))"

fun verify_rows :: "audit_lib \<Rightarrow> string \<Rightarrow> audit_row list \<Rightarrow> nat \<Rightarrow> nat result" where
  "verify_rows lib previous [] verified = Inr verified"
| "verify_rows lib previous (r # rs) verified =
     (if row_previous_hash r \<noteq> previous
      then Inl (''audit chain break before record '' @ show_int (row_id r))
      else if record_hash lib previous (row_timestamp r) (row_event_id r) (row_kind r)
                (row_rule_id r) (row_payload r) \<noteq> row_hash r
      then Inl (''audit record '' @ show_int (row_id r) @ '' digest mismatch'')
      else verify_rows lib (row_hash r) rs (verified + 1))"

definition verify :: "audit_lib \<Rightarrow> sql_faults \<Rightarrow> audit_db \<Rightarrow> nat result" where
  "verify lib faults db =
     sql faults S_Anchor (sql faults S_Query (verify_rows lib (anchor_of db) (by_id db) 0))"

section \<open>State table and action ledger\<close>

definition get_state :: "sql_faults \<Rightarrow> audit_db \<Rightarrow> string \<Rightarrow> string option result" where
  "get_state faults db key = sql faults S_Query (Inr (db_state db key))"

definition set_state :: "sql_faults \<Rightarrow> audit_db \<Rightarrow> string \<Rightarrow> string \<Rightarrow> unit result \<times> audit_db" where
  "set_state faults db key value =
     (case faults S_Write of
        Some e \<Rightarrow> (Inl e, db)
      | None \<Rightarrow> (Inr (), db\<lparr>db_state := (db_state db)(key \<mapsto> value)\<rparr>))"

definition action_completed ::
  "sql_faults \<Rightarrow> audit_db \<Rightarrow> string \<Rightarrow> string \<Rightarrow> string \<Rightarrow> bool result" where
  "action_completed faults db event_id rule_id action_hash =
     sql faults S_Query
       (Inr (map_option led_status (db_ledger db (event_id, rule_id, action_hash)) = Some ''succeeded''))"

definition record_action ::
  "audit_lib \<Rightarrow> sql_faults \<Rightarrow> timestamp \<Rightarrow> audit_db \<Rightarrow> string \<Rightarrow> string \<Rightarrow> string \<Rightarrow> string \<Rightarrow>
   json option \<Rightarrow> unit result \<times> audit_db" where
  "record_action lib faults now db event_id rule_id action_hash status outcome =
     (case faults S_Write of
        Some e \<Rightarrow> (Inl e, db)
      | None \<Rightarrow>
          (Inr (), db\<lparr>db_ledger := (db_ledger db)((event_id, rule_id, action_hash) \<mapsto>
             \<lparr> led_status = status, led_outcome = map_option (json_to_string lib) outcome,
               led_updated_at = to_rfc3339 lib now \<rparr>)\<rparr>))"

section \<open>Opening\<close>

text \<open>
  The file-system calls \<open>open\<close> makes, each with what it returns. \<open>stat\<close> is
  \<open>symlink_metadata\<close> as seen after \<open>create_dir_all\<close>.
\<close>

record open_host =
  oh_create_dir_all :: "path \<Rightarrow> unit result"
  oh_stat :: "path \<Rightarrow> io_error + metadata"
  oh_create_new :: "path \<Rightarrow> 32 word \<Rightarrow> unit result"
  oh_connect :: "path \<Rightarrow> audit_db result"
  oh_pragmas :: "unit result"
  oh_exists :: "path \<Rightarrow> bool"
  oh_chmod :: "path \<Rightarrow> 32 word \<Rightarrow> unit result"
  oh_create_tables :: "audit_db \<Rightarrow> audit_db result"

definition io_text :: "io_error \<Rightarrow> string" where
  "io_text e = (case e of NotFound \<Rightarrow> ''No such file or directory'' | Io_Error s \<Rightarrow> s)"

definition stat_result :: "io_error + metadata \<Rightarrow> metadata result" where
  "stat_result r = (case r of Inl e \<Rightarrow> Inl (io_text e) | Inr m \<Rightarrow> Inr m)"

definition verify_state_path :: "open_host \<Rightarrow> path \<Rightarrow> bool \<Rightarrow> unit result" where
  "verify_state_path h p directory =
     and_then (with_context (stat_result (oh_stat h p)) (''inspect state path '' @ p))
       (\<lambda>m. let expected_type =
              (if directory then meta_type m = Directory
               else meta_type m = Regular_File \<and> meta_type m \<noteq> Symlink) in
            if \<not> expected_type \<or> meta_type m = Symlink
            then Inl (''state path has an unsafe file type: '' @ p)
            else if meta_uid m \<noteq> 0 \<or> group_or_world_writable m
            then Inl (''state path must be root-owned and not group/world writable: '' @ p)
            else Inr ())"

definition sidecar_path :: "path \<Rightarrow> string \<Rightarrow> path" where
  "sidecar_path p extension = p @ extension"

fun secure_files :: "open_host \<Rightarrow> path list \<Rightarrow> unit result" where
  "secure_files h [] = Inr ()"
| "secure_files h (candidate # rest) =
     and_then
       (if oh_exists h candidate
        then with_context (oh_chmod h candidate 0x180) (''secure database file '' @ candidate)
        else Inr ())
       (\<lambda>_. secure_files h rest)"

definition harden_database_files :: "open_host \<Rightarrow> path \<Rightarrow> unit result" where
  "harden_database_files h p = secure_files h [p, sidecar_path p ''-wal'', sidecar_path p ''-shm'']"

definition audit_open :: "open_host \<Rightarrow> path \<Rightarrow> bool \<Rightarrow> audit_db result" where
  "audit_open h p allow_unsafe =
     and_then
       (case path_parent p of
          None \<Rightarrow> Inr ()
        | Some parent \<Rightarrow>
            and_then (with_context (oh_create_dir_all h parent) (''create state directory '' @ parent))
              (\<lambda>_. if \<not> allow_unsafe then verify_state_path h parent True else Inr ()))
       (\<lambda>_. and_then
         (case oh_stat h p of
            Inr _ \<Rightarrow> if \<not> allow_unsafe then verify_state_path h p False else Inr ()
          | Inl NotFound \<Rightarrow>
              with_context (oh_create_new h p 0x180) (''create state database '' @ p)
          | Inl _ \<Rightarrow> Inl (''inspect state database '' @ p))
         (\<lambda>_. and_then (with_context (oh_connect h p) (''open state database '' @ p))
           (\<lambda>db. and_then (oh_pragmas h) (\<lambda>_. and_then (harden_database_files h p)
             (\<lambda>_. oh_create_tables h db)))))"

end
