(* ===== verification/Audit_Chain.thy ===== *)
theory Audit_Chain
  imports Audit_Db
begin

text \<open>
  The hash chain of the journal: the length-delimited encoding is injective, \<open>verify\<close>
  accepts exactly the chained tables, and two chained tables with the same anchor and the
  same tip have the same contents unless the hash function collides.
\<close>

section \<open>The encoding is injective\<close>

lemma digits_determine:
  assumes "\<forall>i < k. (n::nat) div 256 ^ i mod 256 = m div 256 ^ i mod 256"
  shows "n mod 256 ^ k = m mod 256 ^ k"
  using assms
proof (induction k)
  case (Suc k)
  have step: "x mod 256 ^ Suc k = 256 ^ k * (x div 256 ^ k mod 256) + x mod 256 ^ k" for x :: nat
    using mod_mult2_eq [of x "256 ^ k" 256] by (simp add: mult.commute)
  show ?case unfolding step using Suc by simp
qed simp

lemma length_le_bytes [simp]: "length (le_bytes w) = 8"
  by (simp add: le_bytes_def)

lemma le_bytes_inj: "le_bytes v = le_bytes w \<longleftrightarrow> v = w"
proof
  assume eq: "le_bytes v = le_bytes w"
  have digit: "byte (le_bytes u ! i) = unat u div 256 ^ i mod 256" if "i < 8" for u i
  proof -
    have "byte (le_bytes u ! i) = unat (drop_bit (8 * i) u) mod 256"
      using that by (simp add: le_bytes_def)
    also have "unat (drop_bit (8 * i) u) = unat u div 2 ^ (8 * i)"
      unfolding unat_drop_bit_eq by (rule drop_bit_eq_div)
    finally show ?thesis by (simp add: power_mult)
  qed
  have "\<forall>i < 8. unat v div 256 ^ i mod 256 = unat w div 256 ^ i mod 256"
    using eq digit by metis
  from digits_determine [OF this] have "unat v mod 256 ^ 8 = unat w mod 256 ^ 8" .
  moreover have "unat u < 256 ^ 8" for u :: "64 word"
    using unsigned_less [of u, where ?'a = nat] by simp
  ultimately show "v = w" by (simp add: word_unat_eq_iff)
qed simp

definition encodable :: "string \<Rightarrow> bool" where
  "encodable s \<longleftrightarrow> length s < 2 ^ 64"

lemma encode_field_append_inj:
  assumes "encodable a" "encodable b" and eq: "encode_field a @ xs = encode_field b @ ys"
  shows "a = b \<and> xs = ys"
proof -
  from eq have "le_bytes (of_nat (length a)) = le_bytes (of_nat (length b))"
    and rest: "a @ xs = b @ ys"
    by (simp_all add: encode_field_def append_eq_append_conv)
  then have "(of_nat (length a) :: 64 word) = of_nat (length b)" by (simp add: le_bytes_inj)
  with assms(1,2) have "length a = length b"
    by (simp add: encodable_def word_of_nat_eq_iff take_bit_nat_eq_self)
  with rest show ?thesis by simp
qed

lemma encode_fields_inj:
  assumes "list_all encodable as" "list_all encodable bs" "length as = length bs"
    and "concat (map encode_field as) = concat (map encode_field bs)"
  shows "as = bs"
  using assms
proof (induction as arbitrary: bs)
  case (Cons a as)
  then obtain b bs' where bs: "bs = b # bs'" by (cases bs) auto
  with Cons.prems have "a = b \<and> concat (map encode_field as) = concat (map encode_field bs')"
    by (intro encode_field_append_inj) simp_all
  with Cons bs show ?case by simp
qed simp

section \<open>Chained rows\<close>

fun chained :: "audit_lib \<Rightarrow> string \<Rightarrow> audit_row list \<Rightarrow> bool" where
  "chained lib previous [] = True"
| "chained lib previous (r # rs) =
     (row_previous_hash r = previous \<and>
      record_hash lib previous (row_timestamp r) (row_event_id r) (row_kind r) (row_rule_id r)
        (row_payload r) = row_hash r \<and>
      chained lib (row_hash r) rs)"

definition tip :: "string \<Rightarrow> audit_row list \<Rightarrow> string" where
  "tip previous rs = (if rs = [] then previous else row_hash (last rs))"

lemma tip_simps [simp]:
  "tip p [] = p" "tip p (xs @ [r]) = row_hash r" "tip p (r # rs) = tip (row_hash r) rs"
  by (auto simp: tip_def)

lemma verify_rows_iff:
  "verify_rows lib p rs n = Inr m \<longleftrightarrow> chained lib p rs \<and> m = n + length rs"
  by (induction rs arbitrary: p n) auto

lemma chained_append:
  "chained lib p (xs @ ys) \<longleftrightarrow> chained lib p xs \<and> chained lib (tip p xs) ys"
  by (induction xs arbitrary: p) auto

lemma chained_drop: "chained lib p rs \<Longrightarrow> chained lib (tip p (take k rs)) (drop k rs)"
  using chained_append [of lib p "take k rs" "drop k rs"] by simp

section \<open>Tamper evidence\<close>

text \<open>The contents of a row that the chain covers, and the bytes that are hashed for it.\<close>

definition row_fields :: "audit_row \<Rightarrow> string list" where
  "row_fields r =
     [row_previous_hash r, row_timestamp r, unwrap_or (row_event_id r) [], row_kind r,
      unwrap_or (row_rule_id r) [], row_payload r]"

definition row_preimage :: "audit_row \<Rightarrow> string" where
  "row_preimage r = concat (map encode_field (row_fields r))"

definition row_encodable :: "audit_row \<Rightarrow> bool" where
  "row_encodable r \<longleftrightarrow> list_all encodable (row_fields r)"

text \<open>Two different records of the tables, one of each, with the same digest.\<close>

definition collision_between :: "audit_lib \<Rightarrow> audit_row list \<Rightarrow> audit_row list \<Rightarrow> bool" where
  "collision_between lib xs ys \<longleftrightarrow>
     (\<exists>r \<in> set xs. \<exists>s \<in> set ys. row_preimage r \<noteq> row_preimage s \<and>
        blake3_hex lib (row_preimage r) = blake3_hex lib (row_preimage s))"

lemma chained_last:
  "chained lib p (rs @ [r]) \<longleftrightarrow>
     chained lib p rs \<and> row_previous_hash r = tip p rs \<and> blake3_hex lib (row_preimage r) = row_hash r"
  by (auto simp: chained_append record_hash_def row_preimage_def row_fields_def record_preimage_def)

lemma row_preimage_inj:
  "row_encodable r \<Longrightarrow> row_encodable s \<Longrightarrow> row_preimage r = row_preimage s \<Longrightarrow> row_fields r = row_fields s"
  unfolding row_preimage_def row_encodable_def
  by (rule encode_fields_inj) (assumption | simp add: row_fields_def)+

lemma chains_agree:
  assumes "chained lib a xs" "chained lib a ys" "tip a xs = tip a ys"
    and "list_all row_encodable xs" "list_all row_encodable ys"
  shows "(map row_fields xs = map row_fields ys \<and> map row_hash xs = map row_hash ys) \<or>
         a \<in> row_hash ` (set xs \<union> set ys) \<or> collision_between lib xs ys"
  using assms
proof (induction xs arbitrary: ys rule: rev_induct)
  case Nil
  then show ?case by (cases ys rule: rev_cases) auto
next
  case (snoc x xs)
  show ?case
  proof (cases ys rule: rev_cases)
    case Nil
    with snoc.prems show ?thesis by auto
  next
    case (snoc ys' y)
    note prems = snoc.prems [unfolded \<open>ys = ys' @ [y]\<close>]
    have hash: "row_hash x = row_hash y" using prems by simp
    then have digest: "blake3_hex lib (row_preimage x) = blake3_hex lib (row_preimage y)"
      using prems by (simp add: chained_last)
    show ?thesis
    proof (cases "row_preimage x = row_preimage y")
      case False
      with digest \<open>ys = ys' @ [y]\<close> show ?thesis by (auto simp: collision_between_def)
    next
      case True
      with prems(4,5) have fields: "row_fields x = row_fields y" by (auto intro: row_preimage_inj)
      then have "tip a xs = tip a ys'" using prems by (simp add: chained_last row_fields_def)
      with snoc.IH [of ys'] prems have
        "(map row_fields xs = map row_fields ys' \<and> map row_hash xs = map row_hash ys') \<or>
         a \<in> row_hash ` (set xs \<union> set ys') \<or> collision_between lib xs ys'"
        by (simp add: chained_last)
      with hash fields \<open>ys = ys' @ [y]\<close> show ?thesis by (auto simp: collision_between_def)
    qed
  qed
qed

end
