(* ===== verification/Audit_Store.thy ===== *)
theory Audit_Store
  imports Audit_Chain
begin

text \<open>
  The journal as a data structure: its invariant, what \<open>append\<close> and \<open>prune\<close> do to a
  table that satisfies it, the laws of the state table and of the action ledger (one
  locale, interpreted for each of them), and the store as a machine whose every operation
  keeps the chain verifiable.
\<close>

section \<open>Invariant\<close>

definition rows_ordered :: "audit_db \<Rightarrow> bool" where
  "rows_ordered db \<longleftrightarrow>
     sorted_wrt (<) (map row_id (db_audit db)) \<and>
     (\<forall>r \<in> set (db_audit db). 0 < row_id r \<and> row_id r \<le> db_seq db) \<and>
     0 \<le> db_seq db \<and> db_seq db \<le> max_row_id"

definition audit_wf :: "audit_lib \<Rightarrow> audit_db \<Rightarrow> bool" where
  "audit_wf lib db \<longleftrightarrow> rows_ordered db \<and> chained lib (anchor_of db) (db_audit db)"

lemma empty_db_wf [simp]: "audit_wf lib empty_db"
  by (simp add: audit_wf_def rows_ordered_def empty_db_def max_row_id_def)

lemma by_id_ordered: "rows_ordered db \<Longrightarrow> by_id db = db_audit db"
  unfolding rows_ordered_def by_id_def
  by (intro sort_key_id strict_sorted_imp_sorted) simp

lemma fold_max_upper: "\<forall>x \<in> set xs. x \<le> (a::int) \<Longrightarrow> fold max xs a = a"
  by (induction xs) auto

lemma last_row_id_ordered: "rows_ordered db \<Longrightarrow> last_row_id db = db_seq db"
  unfolding rows_ordered_def last_row_id_def by (intro fold_max_upper) auto

text \<open>Distinct positive ids bounded by the counter: there are no more rows than its value.\<close>

lemma ordered_count: "rows_ordered db \<Longrightarrow> int (length (db_audit db)) \<le> db_seq db"
proof -
  assume ord: "rows_ordered db"
  let ?ids = "map row_id (db_audit db)"
  have "distinct ?ids" using ord unfolding rows_ordered_def by (simp add: strict_sorted_iff)
  from distinct_card [OF this] have "length (db_audit db) = card (set ?ids)" by simp
  also have "\<dots> \<le> card {1..db_seq db}"
    using ord unfolding rows_ordered_def by (intro card_mono) auto
  also have "\<dots> = nat (db_seq db)" by simp
  finally show ?thesis using ord unfolding rows_ordered_def by linarith
qed

lemma verify_wf: "audit_wf lib db \<Longrightarrow> verify lib (\<lambda>_. None) db = Inr (length (db_audit db))"
  by (simp add: verify_def sql_def audit_wf_def by_id_ordered verify_rows_iff)

lemma wf_verify:
  "rows_ordered db \<Longrightarrow> verify lib faults db = Inr n \<Longrightarrow> audit_wf lib db \<and> n = length (db_audit db)"
  by (auto simp: verify_def sql_def audit_wf_def by_id_ordered verify_rows_iff split: option.splits)

section \<open>Retention\<close>

lemma excess_records_exact:
  assumes "int count \<le> max_row_id" and "int (unat max_records) \<le> max_row_id"
  shows "excess_records count max_records = int (count - unat max_records)"
proof -
  let ?k = "int count - int (unat max_records)"
  have eq: "(of_nat count - max_records :: 64 word) = word_of_int ?k" by simp
  have range: "- (2 ^ 63) \<le> ?k" "?k < 2 ^ 63" using assms unfolding max_row_id_def by linarith+
  then have "sint (word_of_int ?k :: 64 word) = ?k"
    by (simp only: sint_sbintrunc') (simp add: signed_take_bit_int_eq_self)
  then have "sint (of_nat count - max_records) = ?k" unfolding eq .
  then have "excess_records count max_records = max ?k 0" by (simp only: excess_records_def)
  also have "max ?k 0 = int (count - unat max_records)" by linarith
  finally show ?thesis .
qed

lemma filter_beyond:
  assumes "sorted_wrt (<) (map row_id rs)" and "k < length rs"
  shows "filter (\<lambda>r. \<not> row_id r \<le> row_id (rs ! k)) rs = drop (Suc k) rs"
  using assms
proof (induction rs arbitrary: k)
  case (Cons r rs)
  have rest: "filter (\<lambda>x. \<not> row_id x \<le> row_id r) rs = rs"
    using Cons.prems(1) by (intro filter_True) auto
  show ?case
  proof (cases k)
    case 0
    with rest show ?thesis by simp
  next
    case (Suc j)
    with Cons.prems have "rs ! j \<in> set rs" by simp
    with Cons.prems have "row_id r < row_id (rs ! j)" by auto
    moreover have "filter (\<lambda>r. \<not> row_id r \<le> row_id (rs ! j)) rs = drop (Suc j) rs"
      using Cons Suc by simp
    ultimately show ?thesis using Suc by simp
  qed
qed simp

definition retained :: "64 word \<Rightarrow> nat \<Rightarrow> nat" where
  "retained max_records n = (if max_records = 0 then n else min n (unat max_records))"

text \<open>Pruning removes the oldest rows beyond the limit and re-anchors the chain at the last one removed.\<close>

lemma prune_spec:
  assumes ord: "rows_ordered db" and fits: "int (unat max_records) \<le> max_row_id"
    and pruned: "prune faults max_records db = Inr db'"
  defines "k \<equiv> length (db_audit db) - retained max_records (length (db_audit db))"
  shows "db_audit db' = drop k (db_audit db)" and "db_seq db' = db_seq db"
    and "anchor_of db' = tip (anchor_of db) (take k (db_audit db))"
    and "db_ledger db' = db_ledger db" and "\<And>key. key \<noteq> audit_anchor \<Longrightarrow> db_state db' key = db_state db key"
proof -
  let ?rows = "db_audit db" and ?excess = "length (db_audit db) - unat max_records"
  have excess: "excess_records (length ?rows) max_records = int ?excess"
    using ordered_count [OF ord] ord fits
    by (intro excess_records_exact) (auto simp: rows_ordered_def)
  have "db_audit db' = drop k ?rows \<and> db_seq db' = db_seq db \<and>
    anchor_of db' = tip (anchor_of db) (take k ?rows) \<and> db_ledger db' = db_ledger db \<and>
    (\<forall>key. key \<noteq> audit_anchor \<longrightarrow> db_state db' key = db_state db key)"
  proof (cases "max_records = 0 \<or> ?excess = 0")
    case True
    with pruned excess have "db' = db"
      by (auto simp: prune_def sql_def Let_def split: option.splits if_splits)
    moreover have "k = 0" using True by (auto simp: k_def retained_def)
    ultimately show ?thesis by simp
  next
    case False
    then have pos: "0 < unat max_records" by (simp add: unat_gt_0)
    with False have k: "k = ?excess" "0 < k" "k \<le> length ?rows" "k - 1 < length ?rows"
      by (auto simp: k_def retained_def)
    have ex: "excess_records (length ?rows) max_records = int k" using excess k by simp
    have cut: "drop (k - 1) ?rows = ?rows ! (k - 1) # drop k ?rows"
      using Cons_nth_drop_Suc [OF k(4)] k(2) by simp
    have pred: "nat (int k - 1) = k - 1" by simp
    have sorted: "sorted_wrt (<) (map row_id ?rows)" using ord by (simp add: rows_ordered_def)
    have tip: "tip (anchor_of db) (take k ?rows) = row_hash (?rows ! (k - 1))"
      using k by (auto simp: tip_def last_conv_nth)
    from pruned False ex cut k(2) have "db' = db\<lparr>
        db_audit := filter (\<lambda>r. \<not> row_id r \<le> row_id (?rows ! (k - 1))) ?rows,
        db_state := (db_state db)(audit_anchor \<mapsto> row_hash (?rows ! (k - 1)))\<rparr>"
      by (auto simp: prune_def sql_def Let_def by_id_ordered [OF ord] pred split: option.splits if_splits)
    with filter_beyond [OF sorted k(4)] k(2) tip show ?thesis by (simp add: anchor_of_def)
  qed
  then show "db_audit db' = drop k (db_audit db)" and "db_seq db' = db_seq db"
    and "anchor_of db' = tip (anchor_of db) (take k (db_audit db))"
    and "db_ledger db' = db_ledger db" and "\<And>key. key \<noteq> audit_anchor \<Longrightarrow> db_state db' key = db_state db key"
    by blast+
qed

lemma prune_total:
  assumes ord: "rows_ordered db" and fits: "int (unat max_records) \<le> max_row_id"
  shows "\<exists>db'. prune (\<lambda>_. None) max_records db = Inr db'"
proof -
  let ?n = "length (db_audit db)"
  have "excess_records ?n max_records = int (?n - unat max_records)"
    using ordered_count [OF ord] ord fits
    by (intro excess_records_exact) (auto simp: rows_ordered_def)
  moreover have "drop (nat (int (?n - unat max_records) - 1)) (db_audit db) \<noteq> []"
    if "?n - unat max_records \<noteq> 0"
  proof -
    have "nat (int (?n - unat max_records) - 1) < ?n" using that by linarith
    then show ?thesis by simp
  qed
  ultimately show ?thesis
    by (auto simp: prune_def sql_def Let_def by_id_ordered [OF ord] simp del: drop_eq_Nil
        split: list.splits)
qed

lemma prune_wf:
  assumes wf: "audit_wf lib db" and "int (unat max_records) \<le> max_row_id"
    and "prune faults max_records db = Inr db'"
  shows "audit_wf lib db'"
proof -
  let ?k = "length (db_audit db) - retained max_records (length (db_audit db))"
  have ord: "rows_ordered db" using wf by (simp add: audit_wf_def)
  note spec = prune_spec [OF ord assms(2,3)]
  have "rows_ordered db'"
    using ord unfolding rows_ordered_def spec(1,2)
    by (auto simp: drop_map [symmetric] sorted_wrt_drop dest: in_set_dropD)
  moreover have "chained lib (anchor_of db') (db_audit db')"
    unfolding spec(1,3) using wf by (intro chained_drop) (simp add: audit_wf_def)
  ultimately show ?thesis by (simp add: audit_wf_def)
qed

section \<open>Appending\<close>

definition chain_tip :: "audit_db \<Rightarrow> string" where
  "chain_tip db = tip (anchor_of db) (db_audit db)"

definition new_row ::
  "audit_lib \<Rightarrow> timestamp \<Rightarrow> audit_db \<Rightarrow> string option \<Rightarrow> string \<Rightarrow> string option \<Rightarrow> json \<Rightarrow> audit_row"
where
  "new_row lib now db event_id kind rule_id payload =
     \<lparr> row_id = db_seq db + 1, row_timestamp = to_rfc3339 lib now, row_event_id = event_id,
       row_kind = kind, row_rule_id = rule_id, row_payload = json_to_string lib payload,
       row_previous_hash = chain_tip db,
       row_hash = record_hash lib (chain_tip db) (to_rfc3339 lib now) event_id kind rule_id
                    (json_to_string lib payload) \<rparr>"

definition record_of :: "timestamp \<Rightarrow> json \<Rightarrow> audit_row \<Rightarrow> audit_record" where
  "record_of now payload r =
     \<lparr> rec_id = row_id r, rec_timestamp = now, rec_event_id = row_event_id r, rec_kind = row_kind r,
       rec_rule_id = row_rule_id r, rec_payload = payload,
       rec_previous_hash = row_previous_hash r, rec_hash = row_hash r \<rparr>"

definition with_row :: "audit_db \<Rightarrow> audit_row \<Rightarrow> audit_db" where
  "with_row db r = db\<lparr>db_audit := db_audit db @ [r], db_seq := row_id r\<rparr>"

lemma with_row_wf:
  assumes "audit_wf lib db" and "db_seq db < max_row_id"
  shows "audit_wf lib (with_row db (new_row lib now db event_id kind rule_id payload))"
  using assms
  by (auto simp: audit_wf_def rows_ordered_def with_row_def new_row_def chained_append anchor_of_def
      chain_tip_def sorted_wrt_append intro: order.strict_trans1)

text \<open>On a well-formed journal a transaction is: insert the new row, prune, commit.\<close>

lemma append_tx_unfold:
  assumes "audit_wf lib db"
    and "append_tx lib faults now max_records db event_id kind rule_id payload = Inr (rc, db')"
  defines "r \<equiv> new_row lib now db event_id kind rule_id payload"
  shows "db_seq db < max_row_id" and "rc = record_of now payload r"
    and "prune faults max_records (with_row db r) = Inr db'"
proof -
  have ord: "rows_ordered db" using assms(1) by (simp add: audit_wf_def)
  have tip: "(case rev (by_id db) of [] \<Rightarrow> anchor_of db | x # _ \<Rightarrow> row_hash x) = chain_tip db"
    by (cases "db_audit db" rule: rev_cases) (simp_all add: by_id_ordered [OF ord] chain_tip_def)
  have "db_seq db < max_row_id \<and> rc = record_of now payload r \<and>
    prune faults max_records (with_row db r) = Inr db'"
    using assms(2)
    by (auto simp: append_tx_def tip insert_row_def last_row_id_ordered [OF ord] Let_def sql_def
        and_then_eq_Inr r_def new_row_def record_of_def with_row_def split: option.splits if_splits)
  then show "db_seq db < max_row_id" and "rc = record_of now payload r"
    and "prune faults max_records (with_row db r) = Inr db'"
    by blast+
qed

lemma audit_append_Inr:
  "audit_append lib faults now m db e k ru p = (Inr rc, db') \<longleftrightarrow>
   append_tx lib faults now m db e k ru p = Inr (rc, db')"
  by (auto simp: audit_append_def split: sum.splits)

lemma audit_append_Inl: "audit_append lib faults now m db e k ru p = (Inl err, db') \<Longrightarrow> db' = db"
  by (auto simp: audit_append_def split: sum.splits)

text \<open>What a successful append leaves behind.\<close>

lemma audit_append_spec:
  assumes wf: "audit_wf lib db" and fits: "int (unat max_records) \<le> max_row_id"
    and app: "audit_append lib faults now max_records db event_id kind rule_id payload = (Inr rc, db')"
  defines "r \<equiv> new_row lib now db event_id kind rule_id payload"
    and "n \<equiv> Suc (length (db_audit db))"
  shows "audit_wf lib db'" and "rc = record_of now payload r"
    and "db_audit db' = drop (n - retained max_records n) (db_audit db @ [r])"
    and "chain_tip db' = row_hash r" and "db_seq db' = db_seq db + 1"
    and "db_ledger db' = db_ledger db" and "\<And>key. key \<noteq> audit_anchor \<Longrightarrow> db_state db' key = db_state db key"
proof -
  note tx = append_tx_unfold [OF wf app [unfolded audit_append_Inr], folded r_def]
  have wf': "audit_wf lib (with_row db r)" unfolding r_def by (rule with_row_wf [OF wf tx(1)])
  then have ord: "rows_ordered (with_row db r)" by (simp add: audit_wf_def)
  note spec = prune_spec [OF ord fits tx(3)]
  show "audit_wf lib db'" by (rule prune_wf [OF wf' fits tx(3)])
  show "rc = record_of now payload r" by (rule tx(2))
  show rows: "db_audit db' = drop (n - retained max_records n) (db_audit db @ [r])"
    using spec(1) by (simp add: with_row_def n_def)
  have "n - retained max_records n < n"
    by (auto simp: retained_def n_def min_def unat_gt_0 [symmetric] simp del: unat_gt_0)
  then show "chain_tip db' = row_hash r"
    unfolding chain_tip_def rows by (simp add: tip_def n_def last_drop)
  show "db_seq db' = db_seq db + 1" using spec(2) by (simp add: with_row_def r_def new_row_def)
  show "db_ledger db' = db_ledger db" using spec(4) by (simp add: with_row_def)
  show "\<And>key. key \<noteq> audit_anchor \<Longrightarrow> db_state db' key = db_state db key"
    using spec(5) by (simp add: with_row_def)
qed

lemma retained_pos: "0 < n \<Longrightarrow> 0 < retained max_records n"
  by (auto simp: retained_def unat_gt_0)

lemma retained_le: "retained max_records n \<le> n"
  by (simp add: retained_def)

text \<open>Without faults an append succeeds as long as ids last and the digest is new.\<close>

lemma audit_append_total:
  assumes wf: "audit_wf lib db" and fits: "int (unat max_records) \<le> max_row_id"
    and ids: "db_seq db < max_row_id"
    and fresh: "row_hash (new_row lib now db event_id kind rule_id payload) \<notin> row_hash ` set (db_audit db)"
  shows "\<exists>rc db'. audit_append lib (\<lambda>_. None) now max_records db event_id kind rule_id payload = (Inr rc, db')"
proof -
  let ?r = "new_row lib now db event_id kind rule_id payload"
  have ord: "rows_ordered db" using wf by (simp add: audit_wf_def)
  have tip: "(case rev (by_id db) of [] \<Rightarrow> anchor_of db | x # _ \<Rightarrow> row_hash x) = chain_tip db"
    by (cases "db_audit db" rule: rev_cases) (simp_all add: by_id_ordered [OF ord] chain_tip_def)
  have ord': "rows_ordered (with_row db ?r)"
    using with_row_wf [OF wf ids] by (simp add: audit_wf_def)
  obtain db' where "prune (\<lambda>_. None) max_records (with_row db ?r) = Inr db'"
    using prune_total [OF ord' fits] by blast
  then have "append_tx lib (\<lambda>_. None) now max_records db event_id kind rule_id payload =
      Inr (record_of now payload ?r, db')"
    using ids fresh
    by (simp add: append_tx_def tip insert_row_def last_row_id_ordered [OF ord] Let_def sql_def
        new_row_def record_of_def with_row_def)
  then show ?thesis by (auto simp: audit_append_def)
qed

section \<open>Reading back\<close>

text \<open>
  What the source relies on in \<open>chrono\<close> and \<open>serde_json\<close>: parsing what was printed gives
  the value back.
\<close>

definition codec_ok :: "audit_lib \<Rightarrow> timestamp \<Rightarrow> json \<Rightarrow> bool" where
  "codec_ok lib now payload \<longleftrightarrow>
     parse_rfc3339 lib (to_rfc3339 lib now) = Inr now \<and>
     json_from_str lib (json_to_string lib payload) = Inr payload"

lemma decode_new_row:
  "codec_ok lib now payload \<Longrightarrow>
   decode_row lib (new_row lib now db event_id kind rule_id payload) =
     Inr (record_of now payload (new_row lib now db event_id kind rule_id payload))"
  by (simp add: codec_ok_def decode_row_def new_row_def record_of_def)

lemma collect_results_length: "collect_results ms = Inr xs \<Longrightarrow> length xs = length ms"
  by (induction ms arbitrary: xs) (auto simp: and_then_eq_Inr)

lemma recent_length:
  "recent lib faults db limit = Inr rs \<Longrightarrow> length rs = min (min limit 1000) (length (db_audit db))"
  by (auto simp: recent_def sql_def by_id_def min_def dest!: collect_results_length split: option.splits)

section \<open>The keyed tables\<close>

text \<open>
  The contract of an upsert table: a write is what the next read of the key returns, and
  reads of other keys do not change. The state table and the action ledger both satisfy it.
\<close>

locale keyed_store =
  fixes get :: "'s \<Rightarrow> 'k \<Rightarrow> 'v"
    and put :: "'s \<Rightarrow> 'k \<Rightarrow> 'v \<Rightarrow> 's"
  assumes get_put: "get (put s k v) j = (if j = k then v else get s j)"
begin

definition puts :: "'s \<Rightarrow> ('k \<times> 'v) list \<Rightarrow> 's" where
  "puts s ws = foldl (\<lambda>t (k, v). put t k v) s ws"

lemma get_put_same: "get (put s k v) k = v"
  by (simp add: get_put)

lemma get_put_other: "j \<noteq> k \<Longrightarrow> get (put s k v) j = get s j"
  by (simp add: get_put)

lemma puts_snoc: "puts s (ws @ [(k, v)]) = put (puts s ws) k v"
  by (simp add: puts_def)

lemma last_write_wins: "get (puts s ws) k = (case map_of (rev ws) k of None \<Rightarrow> get s k | Some v \<Rightarrow> v)"
proof (induction ws rule: rev_induct)
  case (snoc w ws)
  obtain j v where "w = (j, v)" by fastforce
  with snoc show ?case by (simp add: puts_snoc get_put)
qed (simp add: puts_def)

end

definition state_put :: "audit_db \<Rightarrow> string \<Rightarrow> string option \<Rightarrow> audit_db" where
  "state_put db key value =
     (case value of
        Some v \<Rightarrow> snd (set_state (\<lambda>_. None) db key v)
      | None \<Rightarrow> db\<lparr>db_state := (db_state db)(key := None)\<rparr>)"

definition state_get :: "audit_db \<Rightarrow> string \<Rightarrow> string option" where
  "state_get db key = (case get_state (\<lambda>_. None) db key of Inr v \<Rightarrow> v | Inl _ \<Rightarrow> None)"

interpretation state_table: keyed_store state_get state_put
  by unfold_locales (auto simp: state_get_def state_put_def get_state_def set_state_def sql_def
      split: option.splits)

text \<open>In the ledger a key maps to whether the action has succeeded.\<close>

definition ledger_done :: "audit_db \<Rightarrow> ledger_key \<Rightarrow> bool" where
  "ledger_done db key =
     (case key of (e, r, h) \<Rightarrow>
        (case action_completed (\<lambda>_. None) db e r h of Inr b \<Rightarrow> b | Inl _ \<Rightarrow> False))"

definition ledger_mark :: "audit_lib \<Rightarrow> timestamp \<Rightarrow> audit_db \<Rightarrow> ledger_key \<Rightarrow> bool \<Rightarrow> audit_db" where
  "ledger_mark lib now db key succeeded =
     (case key of (e, r, h) \<Rightarrow>
        snd (record_action lib (\<lambda>_. None) now db e r h
               (if succeeded then ''succeeded'' else ''failed'') None))"

interpretation ledger: keyed_store ledger_done "ledger_mark lib now" for lib now
  by unfold_locales
    (auto simp: ledger_done_def ledger_mark_def action_completed_def record_action_def sql_def
      split: prod.splits)

section \<open>The store as a machine\<close>

datatype store_op =
    Op_Append sql_faults timestamp "string option" string "string option" json
  | Op_SetState sql_faults string string
  | Op_RecordAction sql_faults timestamp string string string string "json option"

fun store_step :: "audit_lib \<Rightarrow> 64 word \<Rightarrow> audit_db \<Rightarrow> store_op \<Rightarrow> unit + audit_db" where
  "store_step lib m db (Op_Append f now e k ru p) = Inr (snd (audit_append lib f now m db e k ru p))"
| "store_step lib m db (Op_SetState f key value) = Inr (snd (set_state f db key value))"
| "store_step lib m db (Op_RecordAction f now e ru h st out) =
     Inr (snd (record_action lib f now db e ru h st out))"

text \<open>The daemon writes the keys \<open>mode\<close>, \<open>recovery_mode\<close> and \<open>network_isolated\<close>, never the anchor.\<close>

fun store_allowed :: "store_op \<Rightarrow> bool" where
  "store_allowed (Op_SetState _ key _) = (key \<noteq> audit_anchor)"
| "store_allowed _ = True"

lemma audit_append_wf:
  assumes "audit_wf lib db" and "int (unat m) \<le> max_row_id"
    and "audit_append lib f now m db e k ru p = (res, db')"
  shows "audit_wf lib db'"
proof (cases res)
  case (Inl err)
  with assms show ?thesis using audit_append_Inl by blast
next
  case (Inr rc)
  with audit_append_spec(1) [OF assms(1,2)] assms(3) show ?thesis by blast
qed

lemma set_state_wf:
  "audit_wf lib db \<Longrightarrow> key \<noteq> audit_anchor \<Longrightarrow> set_state f db key value = (res, db') \<Longrightarrow> audit_wf lib db'"
  by (auto simp: set_state_def audit_wf_def rows_ordered_def anchor_of_def split: option.splits)

lemma record_action_wf:
  "audit_wf lib db \<Longrightarrow> record_action lib' f now db e ru h st out = (res, db') \<Longrightarrow> audit_wf lib db'"
  by (auto simp: record_action_def audit_wf_def rows_ordered_def anchor_of_def split: option.splits)

definition store_inv :: "audit_lib \<Rightarrow> 64 word \<Rightarrow> audit_db \<Rightarrow> bool" where
  "store_inv lib m db \<longleftrightarrow> audit_wf lib db \<and> int (unat m) \<le> max_row_id"

lemma store_step_inv: "store_inv lib m db \<Longrightarrow> store_allowed x \<Longrightarrow> store_step lib m db x = Inr db' \<Longrightarrow> store_inv lib m db'"
  by (cases x)
    (auto simp: store_inv_def intro: audit_append_wf set_state_wf record_action_wf prod.collapse [symmetric])

interpretation store: safe_machine "store_step lib m" "store_inv lib m" store_allowed for lib m
proof
  show "\<exists>s'. store_step lib m s x = Inr s'" for s x by (cases x) auto
qed (rule store_step_inv)

end
