(* ===== verification/Audit_Properties.thy ===== *)
theory Audit_Properties
  imports Audit_Store
begin

text \<open>The properties of the audit store, with witnesses on a journal built by \<open>append\<close>.\<close>

section \<open>Fixtures\<close>

text \<open>
  A library for the witnesses: an injective digest, and one timestamp and one payload that
  are printed and parsed back.
\<close>

definition demo_lib :: audit_lib where
  "demo_lib =
     \<lparr> blake3_hex = (\<lambda>s. s), to_rfc3339 = (\<lambda>_. ''T''), parse_rfc3339 = (\<lambda>_. Inr 0),
       json_to_string = (\<lambda>_. ''{}''), json_from_str = (\<lambda>_. Inr (J_Object [])) \<rparr>"

definition no_faults :: sql_faults where
  "no_faults = (\<lambda>_. None)"

definition demo_db :: audit_db where
  "demo_db = snd (audit_append demo_lib no_faults 0 1 empty_db None ''test'' None (J_Object []))"

lemma demo_append:
  "fst (audit_append demo_lib no_faults 0 1 empty_db None ''test'' None (J_Object [])) =
     Inr (record_of 0 (J_Object []) (new_row demo_lib 0 empty_db None ''test'' None (J_Object [])))"
  "db_audit demo_db = [new_row demo_lib 0 empty_db None ''test'' None (J_Object [])]"
  "db_state demo_db = Map.empty" "db_seq demo_db = 1"
  by (simp_all add: demo_db_def audit_append_def append_tx_def no_faults_def sql_def insert_row_def
      last_row_id_def empty_db_def max_row_id_def prune_def excess_records_def by_id_def new_row_def
      record_of_def chain_tip_def anchor_of_def audit_anchor_def Let_def)

lemma demo_fits: "int (unat (1 :: 64 word)) \<le> max_row_id"
  by (simp add: max_row_id_def)

lemma demo_db_wf: "audit_wf demo_lib demo_db"
  using audit_append_wf [OF empty_db_wf demo_fits surjective_pairing] by (simp add: demo_db_def)

section \<open>The journal\<close>

text \<open>
  C10. Whatever sequence of appends, state writes and ledger writes the daemon issues, and
  whichever SQL statements fail on the way, the journal stays verifiable: \<open>verify\<close>
  accepts it and counts every row. This covers retention: re-anchoring keeps the retained
  suffix a valid chain.
\<close>

theorem journal_stays_verifiable:
  assumes "int (unat m) \<le> max_row_id" and "list_all store_allowed ops"
  shows "\<exists>db. run_ops (store_step lib m) empty_db ops = Inr db \<and>
              verify lib (\<lambda>_. None) db = Inr (length (db_audit db))"
proof -
  have "store_inv lib m empty_db" using assms(1) by (simp add: store_inv_def)
  from store.run_safe [OF this assms(2)] show ?thesis
    by (auto simp: store_inv_def intro: verify_wf)
qed

theorem journal_stays_verifiable_witness:
  "\<exists>db. run_ops (store_step demo_lib 1) empty_db
           [Op_Append no_faults 0 None ''a'' None J_Null, Op_SetState no_faults ''mode'' ''normal'',
            Op_Append (\<lambda>s. if s = S_Delete then Some ''I/O'' else None) 0 None ''b'' None J_Null,
            Op_Append no_faults 0 None ''c'' None J_Null] = Inr db \<and>
        verify demo_lib (\<lambda>_. None) db = Inr (length (db_audit db))"
  by (rule journal_stays_verifiable [OF demo_fits]) (simp add: audit_anchor_def)

text \<open>
  C11. A successful \<open>append\<close> on a well-formed journal adds exactly one record at the end,
  linked to the previous tip and numbered next, drops the oldest rows beyond
  \<open>max_records\<close> (none when it is 0), and leaves the ledger and every other state key
  alone. A failed \<open>append\<close> changes nothing.
\<close>

theorem append_extends_journal:
  assumes "audit_wf lib db" and "int (unat m) \<le> max_row_id"
    and "audit_append lib faults now m db event_id kind rule_id payload = (res, db')"
  shows "case res of
      Inl e \<Rightarrow> db' = db
    | Inr rc \<Rightarrow>
        rec_previous_hash rc = chain_tip db \<and> rec_id rc = db_seq db + 1 \<and>
        rec_hash rc = chain_tip db' \<and> rec_payload rc = payload \<and>
        (let n = Suc (length (db_audit db)); keep = retained m n in
           length (db_audit db') = keep \<and>
           butlast (db_audit db') = drop (n - keep) (db_audit db) \<and>
           verify lib (\<lambda>_. None) db' = Inr keep) \<and>
        db_ledger db' = db_ledger db \<and>
        (\<forall>key. key = audit_anchor \<or> db_state db' key = db_state db key)"
proof (cases res)
  case (Inl e)
  with assms(3) show ?thesis by (simp add: audit_append_Inl)
next
  case (Inr rc)
  note spec = audit_append_spec [OF assms(1,2) assms(3) [unfolded Inr]]
  let ?n = "Suc (length (db_audit db))"
  have keep: "0 < retained m ?n" "retained m ?n \<le> ?n" by (simp_all add: retained_pos retained_le)
  have len: "length (db_audit db') = retained m ?n" using spec(3) keep by simp
  have rows: "butlast (db_audit db') = drop (?n - retained m ?n) (db_audit db)"
    unfolding spec(3) using keep by (simp add: butlast_append)
  show ?thesis
    using Inr spec(2,4,6,7) len rows verify_wf [OF spec(1)]
    by (auto simp: record_of_def new_row_def Let_def)
qed

theorem append_extends_journal_witness:
  "case fst (audit_append demo_lib no_faults 0 1 demo_db None ''b'' None J_Null) of
      Inl e \<Rightarrow> True
    | Inr rc \<Rightarrow> rec_previous_hash rc = chain_tip demo_db \<and> rec_id rc = 2"
  using append_extends_journal [OF demo_db_wf demo_fits
      surjective_pairing [of "audit_append demo_lib no_faults 0 1 demo_db None ''b'' None J_Null"]]
  by (auto simp: demo_append split: sum.splits)



text \<open>
  Read-back: right after a successful \<open>append\<close>, the newest record \<open>recent\<close> returns is
  the record \<open>append\<close> returned, given that the timestamp and the payload parse back to what was
  printed.
\<close>

lemma recent_returns_appended:
  assumes "audit_wf lib db" and "int (unat m) \<le> max_row_id" and "codec_ok lib now payload"
    and "audit_append lib faults now m db event_id kind rule_id payload = (Inr rc, db')"
  shows "recent lib (\<lambda>_. None) db' 1 = Inr [rc]"
proof -
  note spec = audit_append_spec [OF assms(1,2,4)]
  let ?n = "Suc (length (db_audit db))" and ?r = "new_row lib now db event_id kind rule_id payload"
  have keep: "?n - retained m ?n \<le> length (db_audit db)" using retained_pos [of ?n m] by simp
  have "rows_ordered db'" using spec(1) by (simp add: audit_wf_def)
  then have "rev (by_id db') = ?r # rev (drop (?n - retained m ?n) (db_audit db))"
    using keep by (simp add: by_id_ordered spec(3))
  then show ?thesis
    by (simp add: recent_def sql_def decode_new_row [OF assms(3)] spec(2))
qed

section \<open>The keyed tables\<close>

text \<open>
  The ledger and the state table are last-write-wins: after any sequence of marks, an
  action is completed exactly if the last mark of its (event, rule, action) key says it
  succeeded, or there is none and it was completed before; and a state key holds the last
  value written to it.
\<close>

lemma keyed_tables_last_write:
  "ledger_done (foldl (\<lambda>db (k, b). ledger_mark lib now db k b) db marks) key =
     (case map_of (rev marks) key of None \<Rightarrow> ledger_done db key | Some b \<Rightarrow> b) \<and>
   state_get (foldl (\<lambda>db (k, v). state_put db k v) db writes) name =
     (case map_of (rev writes) name of None \<Rightarrow> state_get db name | Some v \<Rightarrow> v)"
  using ledger.last_write_wins [of lib now db marks key, unfolded ledger.puts_def]
    state_table.last_write_wins [of db writes name, unfolded state_table.puts_def]
  by simp

section \<open>Opening\<close>

text \<open>
  Outside development mode \<open>open\<close> returns a store only when the state directory is a
  root-controlled directory and the database file is a root-controlled regular file, or did
  not exist and has just been created with mode 0600.
\<close>

lemma open_requires_safe_paths:
  assumes "audit_open h p False = Inr db"
  shows "(\<forall>parent. path_parent p = Some parent \<longrightarrow>
           (\<exists>m. oh_stat h parent = Inr m \<and> meta_type m = Directory \<and> root_controlled m)) \<and>
         ((\<exists>m. oh_stat h p = Inr m \<and> meta_type m = Regular_File \<and> root_controlled m) \<or>
          (oh_stat h p = Inl NotFound \<and> oh_create_new h p 0x180 = Inr ()))"
  using assms
  by (auto simp: audit_open_def verify_state_path_def result_elims root_controlled_def Let_def
      stat_result_def split: option.splits sum.splits io_error.splits if_splits)

definition demo_open_host :: open_host where
  "demo_open_host =
     \<lparr> oh_create_dir_all = (\<lambda>_. Inr ()),
       oh_stat = (\<lambda>p. if p = ''/var/lib/kovert''
                      then Inr \<lparr> meta_type = Directory, meta_uid = 0, meta_mode = 0x1C0, meta_len = 0 \<rparr>
                      else Inl NotFound),
       oh_create_new = (\<lambda>_ _. Inr ()), oh_connect = (\<lambda>_. Inr empty_db), oh_pragmas = Inr (),
       oh_exists = (\<lambda>_. True), oh_chmod = (\<lambda>_ _. Inr ()), oh_create_tables = Inr \<rparr>"

lemma demo_open: "audit_open demo_open_host ''/var/lib/kovert/state.db'' False = Inr empty_db"
proof -
  have "path_parent ''/var/lib/kovert/state.db'' = Some ''/var/lib/kovert''"
    by (simp add: path_parent_def components_def path_is_absolute_def component_of_def path_of_def
        path_join_def Let_def)
  then show ?thesis
    by (simp add: audit_open_def demo_open_host_def verify_state_path_def stat_result_def
        group_or_world_writable_def harden_database_files_def Let_def)
qed

section \<open>What the chain does not show\<close>

text \<open>
  C40. Removing the newest records is not detected: for every well-formed journal and every
  number of rows kept from the front, the shortened table still verifies.
\<close>

theorem truncation_undetected:
  assumes "audit_wf lib db"
  shows "verify lib (\<lambda>_. None) (db\<lparr>db_audit := take k (db_audit db)\<rparr>) = Inr (min k (length (db_audit db)))"
proof -
  have "chained lib (anchor_of db) (take k (db_audit db))"
    using assms chained_append [of lib "anchor_of db" "take k (db_audit db)" "drop k (db_audit db)"]
    by (simp add: audit_wf_def)
  moreover have "rows_ordered (db\<lparr>db_audit := take k (db_audit db)\<rparr>)"
    using assms
    by (auto simp: audit_wf_def rows_ordered_def take_map [symmetric] sorted_wrt_take dest: in_set_takeD)
  ultimately have "audit_wf lib (db\<lparr>db_audit := take k (db_audit db)\<rparr>)"
    by (simp add: audit_wf_def anchor_of_def)
  from verify_wf [OF this] show ?thesis by (simp add: min.commute)
qed

theorem truncation_undetected_witness:
  "length (db_audit demo_db) = 1 \<and> verify demo_lib (\<lambda>_. None) (demo_db\<lparr>db_audit := []\<rparr>) = Inr 0"
  using truncation_undetected [OF demo_db_wf, of 0] by (simp add: demo_append)

end
