(* ===== verification/Commands.thy ===== *)
theory Commands
  imports Config Host
begin

text \<open>
  The process runner and the vault adapters: \<open>kovert-actions/src/command.rs\<close> and
  \<open>kovert-actions/src/vault.rs\<close>.

  An action is a computation that may fail and that leaves a trace of what it did to the
  host: the processes it spawned with their exact arguments, standard input and
  environment, the signals it sent and the files it created. What the host answers may
  depend on the trace so far.
\<close>

section \<open>Effects\<close>

record invocation =
  inv_executable :: path
  inv_args :: "string list"
  inv_stdin :: "string option"
  inv_env :: "(string \<times> string) list"

record file_metadata =
  fm_path :: path
  fm_exists :: bool
  fm_file_type :: "string option"
  fm_length :: "nat option"
  fm_readonly :: "bool option"
  fm_modified :: "string option"

datatype effect =
    Fx_Spawn invocation
  | Fx_Kill int process_signal
  | Fx_MakeDir path
  | Fx_CreateFile path "32 word" "file_metadata list"

type_synonym trace = "effect list"
type_synonym 'a act = "trace \<Rightarrow> 'a result \<times> trace"

definition act_return :: "'a \<Rightarrow> 'a act" where
  "act_return x = (\<lambda>tr. (Inr x, tr))"

definition act_lift :: "'a result \<Rightarrow> 'a act" where
  "act_lift m = (\<lambda>tr. (m, tr))"

definition act_fail :: "string \<Rightarrow> 'a act" where
  "act_fail e = (\<lambda>tr. (Inl e, tr))"

definition act_bind :: "'a act \<Rightarrow> ('a \<Rightarrow> 'b act) \<Rightarrow> 'b act" where
  "act_bind m k = (\<lambda>tr. case m tr of (Inl e, tr') \<Rightarrow> (Inl e, tr') | (Inr x, tr') \<Rightarrow> k x tr')"

definition act_context :: "'a act \<Rightarrow> string \<Rightarrow> 'a act" where
  "act_context m message = (\<lambda>tr. case m tr of (r, tr') \<Rightarrow> (with_context r message, tr'))"

section \<open>The host\<close>

text \<open>How the wait for a child ends; on a timeout the child is killed, which may fail.\<close>

datatype wait_result = Exited bool | Wait_Error | Timed_Out bool

text \<open>An entry of \<open>/proc\<close>: its name when it is UTF-8, and the contents of its \<open>comm\<close> file.\<close>

record proc_entry =
  pe_name :: "string option"
  pe_comm :: "string option"

text \<open>
  \<open>ph_is_file\<close> is \<open>Path::is_file\<close>; the next four describe a child process: whether the
  spawn succeeds, the error of writing its standard input, how the wait ends, and the bytes
  it writes; the rest are the file-system, \<open>/proc\<close>, signal, clock and SHA-256 calls of the
  actions.
\<close>

record proc_host =
  ph_is_file :: "path \<Rightarrow> bool"
  ph_spawn :: "trace \<Rightarrow> invocation \<Rightarrow> bool"
  ph_stdin :: "trace \<Rightarrow> invocation \<Rightarrow> string option"
  ph_wait :: "trace \<Rightarrow> invocation \<Rightarrow> wait_result"
  ph_stdout :: "trace \<Rightarrow> invocation \<Rightarrow> string option"
  ph_stderr :: "trace \<Rightarrow> invocation \<Rightarrow> string option"
  ph_stat :: "path \<Rightarrow> io_error + metadata"
  ph_modified :: "path \<Rightarrow> string option"
  ph_read_chunks :: "path \<Rightarrow> (string result list) result"
  ph_sha256_hex :: "string \<Rightarrow> string"
  ph_proc :: "trace \<Rightarrow> (proc_entry result list) result"
  ph_own_pid :: "32 word"
  ph_kill :: "trace \<Rightarrow> int \<Rightarrow> process_signal \<Rightarrow> bool"
  ph_create_dir_all :: "path \<Rightarrow> bool"
  ph_create_new :: "path \<Rightarrow> bool"
  ph_write_ok :: "path \<Rightarrow> bool"
  ph_file_stamp :: string
  ph_elapsed_ms :: "trace \<Rightarrow> nat"

section \<open>UTF-8\<close>

text \<open>
  \<open>String::from_utf8_lossy\<close>: the head of a byte string is a UTF-8 sequence of a given
  length, or an ill-formed part of a given length that becomes \<open>U+FFFD\<close>.
\<close>

definition utf8_second :: "nat \<Rightarrow> nat \<times> nat" where
  "utf8_second a =
     (if a = 224 then (160, 191) else if a = 237 then (128, 159)
      else if a = 240 then (144, 191) else if a = 244 then (128, 143) else (128, 191))"

definition utf8_width :: "nat \<Rightarrow> nat" where
  "utf8_width a =
     (if a < 128 then 1 else if 194 \<le> a \<and> a \<le> 223 then 2
      else if 224 \<le> a \<and> a \<le> 239 then 3 else if 240 \<le> a \<and> a \<le> 244 then 4 else 0)"

definition utf8_head :: "string \<Rightarrow> bool \<times> nat" where
  "utf8_head s =
     (case map byte (take 4 s) of
        [] \<Rightarrow> (True, 0)
      | a # r \<Rightarrow>
          (let w = utf8_width a; (lo, hi) = utf8_second a;
               good = (case r of [] \<Rightarrow> 0
                       | b # r' \<Rightarrow> if lo \<le> b \<and> b \<le> hi
                           then 1 + length (takeWhile (\<lambda>c. 128 \<le> c \<and> c \<le> 191) (take (w - 2) r'))
                           else 0)
           in if w \<le> 1 then (w = 1, 1)
              else if good = w - 1 then (True, w) else (False, 1 + good)))"

lemma utf8_head_pos: "s \<noteq> [] \<Longrightarrow> 0 < snd (utf8_head s)"
  by (cases s) (auto simp: utf8_head_def Let_def split: prod.splits)

function from_utf8_lossy :: "string \<Rightarrow> string" where
  "from_utf8_lossy s =
     (if s = [] then []
      else (if fst (utf8_head s) then take (snd (utf8_head s)) s else [CHR 0xEF, CHR 0xBF, CHR 0xBD]) @
           from_utf8_lossy (drop (snd (utf8_head s)) s))"
  by pat_completeness auto
termination
proof (relation "measure length")
  show "(drop (snd (utf8_head s)) s, s) \<in> measure length" if "s \<noteq> []" for s
    using that utf8_head_pos [of s] by simp
qed simp

declare from_utf8_lossy.simps [simp del]

section \<open>Running a command\<close>

definition output_limit :: nat where
  "output_limit = 64 * 1024"

record raw_result =
  raw_success :: bool
  raw_stdout :: string
  raw_stderr :: string
  raw_truncated :: bool

record command_result =
  cr_success :: bool
  cr_stdout :: string
  cr_stderr :: string
  cr_truncated :: bool

definition tool_directories :: "path list" where
  "tool_directories = [''/usr/bin'', ''/usr/sbin'', ''/bin'', ''/sbin'']"

definition resolve_tool :: "proc_host \<Rightarrow> string \<Rightarrow> path result" where
  "resolve_tool h name =
     (if CHR ''/'' \<in> set name \<or> CHR 0x00 \<in> set name then Inl ''invalid tool name''
      else ok_or (find (ph_is_file h) (map (\<lambda>d. path_join d name) tool_directories))
             (''required adapter tool is unavailable: '' @ name))"

text \<open>\<open>take(OUTPUT_LIMIT + 1)\<close>, then truncation to the limit.\<close>

definition read_limited :: "string \<Rightarrow> string \<times> bool" where
  "read_limited output =
     (let bytes = take (output_limit + 1) output
      in (take output_limit bytes, length bytes > output_limit))"

definition run_raw_command ::
  "proc_host \<Rightarrow> path \<Rightarrow> string list \<Rightarrow> string option \<Rightarrow> (string \<times> string) list \<Rightarrow> duration \<Rightarrow>
   raw_result act" where
  "run_raw_command h executable args secret_stdin environment timeout =
     (\<lambda>tr.
       if \<not> path_is_absolute executable then (Inl ''executable path must be absolute'', tr)
       else
         let inv = \<lparr> inv_executable = executable, inv_args = args,
                     inv_stdin = map_option (\<lambda>secret. secret @ [CHR 0x0A]) secret_stdin,
                     inv_env = environment \<rparr>
         in if \<not> ph_spawn h tr inv then (Inl (''spawn '' @ executable), tr)
            else
              let tr' = tr @ [Fx_Spawn inv] in
              case (if secret_stdin = None then None else ph_stdin h tr inv) of
                Some e \<Rightarrow> (Inl e, tr')
              | None \<Rightarrow>
                  (case ph_wait h tr inv of
                     Wait_Error \<Rightarrow> (Inl ''wait for adapter'', tr')
                   | Timed_Out killed \<Rightarrow>
                       (if killed
                        then (Inl (''command timed out after '' @ show_nat (timeout div from_secs 1) @
                                   '' seconds: '' @ executable), tr')
                        else (Inl ''kill timed-out adapter'', tr'))
                   | Exited success \<Rightarrow>
                       (case (ph_stdout h tr inv, ph_stderr h tr inv) of
                          (Some out, Some err) \<Rightarrow>
                            (let (stdout, out_truncated) = read_limited out;
                                 (stderr, err_truncated) = read_limited err
                             in (Inr \<lparr> raw_success = success, raw_stdout = stdout,
                                       raw_stderr = stderr,
                                       raw_truncated = (out_truncated \<or> err_truncated) \<rparr>, tr'))
                        | _ \<Rightarrow> (Inl ''read command output'', tr'))))"

definition run_command ::
  "proc_host \<Rightarrow> path \<Rightarrow> string list \<Rightarrow> string option \<Rightarrow> (string \<times> string) list \<Rightarrow> duration \<Rightarrow>
   command_result act" where
  "run_command h executable args secret_stdin environment timeout =
     act_bind (run_raw_command h executable args secret_stdin environment timeout)
       (\<lambda>raw. act_return
          \<lparr> cr_success = raw_success raw, cr_stdout = trim (from_utf8_lossy (raw_stdout raw)),
            cr_stderr = trim (from_utf8_lossy (raw_stderr raw)), cr_truncated = raw_truncated raw \<rparr>)"

definition read_command_bytes :: "proc_host \<Rightarrow> path \<Rightarrow> string list \<Rightarrow> duration \<Rightarrow> string act" where
  "read_command_bytes h executable args timeout =
     act_bind (run_raw_command h executable args None [] timeout)
       (\<lambda>raw. if \<not> raw_success raw
              then act_fail (''command failed: '' @ trim (from_utf8_lossy (raw_stderr raw)))
              else if raw_truncated raw then act_fail ''command output exceeded the security limit''
              else act_return (raw_stdout raw))"

section \<open>Vault adapters\<close>

definition or_else :: "'a result \<Rightarrow> 'a result \<Rightarrow> 'a result" where
  "or_else a b = (case a of Inl _ \<Rightarrow> b | Inr x \<Rightarrow> Inr x)"

definition lock_vault :: "proc_host \<Rightarrow> vault_config \<Rightarrow> duration \<Rightarrow> command_result act" where
  "lock_vault h vault timeout =
     (case vault_adapter_of vault of
        Fscrypt \<Rightarrow>
          act_bind (act_lift (resolve_tool h ''fscrypt''))
            (\<lambda>executable. run_command h executable [''lock'', vault_path vault] None [] timeout)
      | Gocryptfs \<Rightarrow>
          act_bind (act_lift (ok_or (mount_path vault) ''gocryptfs vault has no mount_path''))
            (\<lambda>mount. act_bind
               (act_lift (or_else (resolve_tool h ''fusermount3'') (resolve_tool h ''fusermount'')))
               (\<lambda>executable. run_command h executable [''-u'', mount] None [] timeout)))"

definition read_keyring :: "proc_host \<Rightarrow> string \<Rightarrow> duration \<Rightarrow> string act" where
  "read_keyring h description timeout =
     (if description = [] \<or> length description > 128 \<or> any_control description
      then act_fail ''invalid kernel-keyring description''
      else act_bind (act_lift (resolve_tool h ''keyctl'')) (\<lambda>keyctl.
        act_bind (run_command h keyctl [''search'', ''@u'', ''user'', description] None [] timeout)
          (\<lambda>search.
             if \<not> cr_success search then act_fail (''kernel-keyring lookup failed: '' @ cr_stderr search)
             else let serial = trim (cr_stdout search) in
               if serial = [] \<or> \<not> list_all is_ascii_digit serial
               then act_fail ''kernel-keyring lookup returned an invalid serial''
               else act_bind
                 (act_context (read_command_bytes h keyctl [''pipe'', serial] timeout) ''read kernel key'')
                 (\<lambda>key. if key = [] then act_fail ''kernel-keyring key is empty'' else act_return key))))"

definition unlock_vault :: "proc_host \<Rightarrow> vault_config \<Rightarrow> duration \<Rightarrow> command_result act" where
  "unlock_vault h vault timeout =
     act_bind (act_lift (ok_or (keyring_description vault)
                 ''automatic unlock requires keyring_description''))
       (\<lambda>description. act_bind (read_keyring h description timeout) (\<lambda>key.
          case vault_adapter_of vault of
            Fscrypt \<Rightarrow>
              act_bind (act_lift (resolve_tool h ''fscrypt''))
                (\<lambda>executable.
                   run_command h executable [''unlock'', vault_path vault] (Some key) [] timeout)
          | Gocryptfs \<Rightarrow>
              act_bind (act_lift (ok_or (encrypted_path vault) ''gocryptfs vault has no encrypted_path''))
                (\<lambda>encrypted. act_bind
                   (act_lift (ok_or (mount_path vault) ''gocryptfs vault has no mount_path''))
                   (\<lambda>mount. act_bind (act_lift (resolve_tool h ''gocryptfs''))
                      (\<lambda>executable. run_command h executable
                         [''-quiet'', ''-passfile'', ''/dev/stdin'', encrypted, mount]
                         (Some key) [] timeout)))))"

end
