(* ===== verification/Actions.thy ===== *)
theory Actions
  imports Commands Event
begin

text \<open>
  The typed actions of \<open>kovert-actions/src/lib.rs\<close> and the evidence bundle of
  \<open>kovert-actions/src/evidence.rs\<close>: \<open>ActionExecutor::execute\<close> with every guard and
  every arm. Printing an action for the dry-run message (\<open>derive(Debug)\<close>) is an argument.
\<close>

section \<open>Context and outcomes\<close>

text \<open>The two \<open>HashSet\<close>s are given by lists; only membership is used.\<close>

record execution_context =
  ctx_dry_run :: bool
  ctx_timeout :: duration
  ctx_allowed_executables :: "path list"
  ctx_managed_processes :: "string list"
  ctx_vaults :: "vault_config list"
  ctx_desktop_notifications :: bool

datatype action_effect = No_Effect | Set_Mode_Effect string | Network_Isolation_Effect bool

record action_outcome =
  out_success :: bool
  out_dry_run :: bool
  out_message :: string
  out_duration_ms :: nat
  out_effect :: action_effect
  out_stdout :: "string option"
  out_stderr :: "string option"
  out_truncated :: bool

definition nonempty :: "string \<Rightarrow> string option" where
  "nonempty value = (if value = [] then None else Some value)"

definition outcome_dry_run :: "string \<Rightarrow> action_outcome" where
  "outcome_dry_run message =
     \<lparr> out_success = True, out_dry_run = True, out_message = message, out_duration_ms = 0,
       out_effect = No_Effect, out_stdout = None, out_stderr = None, out_truncated = False \<rparr>"

definition outcome_internal :: "proc_host \<Rightarrow> string \<Rightarrow> action_effect \<Rightarrow> action_outcome act" where
  "outcome_internal h message effect =
     (\<lambda>tr. (Inr \<lparr> out_success = True, out_dry_run = False, out_message = message,
                   out_duration_ms = ph_elapsed_ms h tr, out_effect = effect,
                   out_stdout = None, out_stderr = None, out_truncated = False \<rparr>, tr))"

definition outcome_command :: "proc_host \<Rightarrow> string \<Rightarrow> command_result \<Rightarrow> action_outcome act" where
  "outcome_command h message result =
     (\<lambda>tr. (Inr \<lparr> out_success = cr_success result, out_dry_run = False, out_message = message,
                   out_duration_ms = ph_elapsed_ms h tr, out_effect = No_Effect,
                   out_stdout = nonempty (cr_stdout result), out_stderr = nonempty (cr_stderr result),
                   out_truncated = cr_truncated result \<rparr>, tr))"

section \<open>Guards\<close>

definition find_vault :: "execution_context \<Rightarrow> string \<Rightarrow> vault_config result" where
  "find_vault ctx name =
     ok_or (find (\<lambda>v. vault_name v = name) (ctx_vaults ctx)) (''unknown vault '' @ name)"

definition ensure_absolute :: "path \<Rightarrow> unit result" where
  "ensure_absolute p = ensure (path_is_absolute p) (''privileged path must be absolute: '' @ p)"

definition validate_interface :: "string \<Rightarrow> unit result" where
  "validate_interface value =
     ensure (value \<noteq> [] \<and> length value \<le> 15 \<and>
             list_all (\<lambda>ch. is_ascii_alphanumeric ch \<or> ch \<in> set ''_-.:'') value)
       ''invalid network interface name''"

definition validate_unit :: "string \<Rightarrow> unit result" where
  "validate_unit value =
     ensure (value \<noteq> [] \<and> length value \<le> 255 \<and> CHR ''/'' \<notin> set value \<and>
             list_all (\<lambda>ch. is_ascii_alphanumeric ch \<or> ch \<in> set ''_-.@'') value)
       ''invalid systemd unit name''"

definition verify_executable_security :: "proc_host \<Rightarrow> path \<Rightarrow> unit result" where
  "verify_executable_security h p =
     (case ph_stat h p of
        Inl _ \<Rightarrow> Inl (''inspect executable '' @ p)
      | Inr m \<Rightarrow>
          if meta_type m \<noteq> Regular_File then Inl (''approved executable must be a regular file: '' @ p)
          else if meta_uid m \<noteq> 0 then Inl (''approved executable must be owned by root: '' @ p)
          else if group_or_world_writable m
          then Inl (''approved executable cannot be group- or world-writable: '' @ p)
          else Inr ())"

text \<open>The read loop: an empty read ends it, and the digest is over what was read until then.\<close>

fun hash_chunks :: "string result list \<Rightarrow> string \<Rightarrow> string result" where
  "hash_chunks [] acc = Inr acc"
| "hash_chunks (Inl e # _) acc = Inl e"
| "hash_chunks (Inr chunk # rest) acc = (if chunk = [] then Inr acc else hash_chunks rest (acc @ chunk))"

definition verify_sha256 :: "proc_host \<Rightarrow> path \<Rightarrow> string \<Rightarrow> unit result" where
  "verify_sha256 h p expected =
     and_then (with_context (ph_read_chunks h p) (''open '' @ p)) (\<lambda>chunks.
       and_then (with_context (hash_chunks chunks []) (''read '' @ p)) (\<lambda>content.
         ensure (eq_ignore_ascii_case (ph_sha256_hex h content) expected)
           (''executable digest mismatch for '' @ p)))"

section \<open>Signalling processes\<close>

fun parse_digits :: "string \<Rightarrow> nat \<Rightarrow> nat option" where
  "parse_digits [] n = Some n"
| "parse_digits (c # cs) n =
     (if is_ascii_digit c then parse_digits cs (10 * n + (byte c - 48)) else None)"

text \<open>\<open>str::parse::<u32>\<close>: an optional plus sign, then digits, within range.\<close>

definition parse_u32 :: "string \<Rightarrow> 32 word option" where
  "parse_u32 s =
     (let digits = (case s of c # cs \<Rightarrow> if c = CHR ''+'' then cs else s | [] \<Rightarrow> [])
      in if digits = [] then None
         else case parse_digits digits 0 of
             None \<Rightarrow> None
           | Some n \<Rightarrow> if n < 2 ^ 32 then Some (of_nat n) else None)"

fun signal_processes ::
  "proc_host \<Rightarrow> string \<Rightarrow> process_signal \<Rightarrow> proc_entry result list \<Rightarrow> nat \<Rightarrow> nat act" where
  "signal_processes h name signal [] count = act_return count"
| "signal_processes h name signal (Inl e # _) count = act_fail e"
| "signal_processes h name signal (Inr entry # rest) count =
     (case Option.bind (pe_name entry) parse_u32 of
        None \<Rightarrow> signal_processes h name signal rest count
      | Some pid \<Rightarrow>
          if pid \<le> 1 \<or> pid = ph_own_pid h then signal_processes h name signal rest count
          else if trim (unwrap_or (pe_comm entry) []) \<noteq> name
          then signal_processes h name signal rest count
          else (\<lambda>tr.
            if ph_kill h tr (sint pid) signal
            then signal_processes h name signal rest (count + 1) (tr @ [Fx_Kill (sint pid) signal])
            else (Inl (''signal process '' @ show_nat (unat pid)), tr)))"

definition terminate_named_processes :: "proc_host \<Rightarrow> string \<Rightarrow> process_signal \<Rightarrow> nat act" where
  "terminate_named_processes h name signal =
     (\<lambda>tr. case ph_proc h tr of
        Inl _ \<Rightarrow> (Inl ''read /proc'', tr)
      | Inr entries \<Rightarrow> signal_processes h name signal entries 0 tr)"

section \<open>Evidence\<close>

definition file_kind :: "metadata \<Rightarrow> string" where
  "file_kind m =
     (case meta_type m of
        Symlink \<Rightarrow> ''symlink'' | Directory \<Rightarrow> ''directory'' | Regular_File \<Rightarrow> ''file''
      | _ \<Rightarrow> ''other'')"

definition evidence_metadata :: "proc_host \<Rightarrow> path \<Rightarrow> file_metadata" where
  "evidence_metadata h p =
     (case ph_stat h p of
        Inr m \<Rightarrow>
          \<lparr> fm_path = p, fm_exists = True, fm_file_type = Some (file_kind m),
            fm_length = Some (meta_len m), fm_readonly = Some (and (meta_mode m) 0x92 = 0),
            fm_modified = ph_modified h p \<rparr>
      | Inl _ \<Rightarrow>
          \<lparr> fm_path = p, fm_exists = False, fm_file_type = None, fm_length = None,
            fm_readonly = None, fm_modified = None \<rparr>)"

definition capture_metadata :: "proc_host \<Rightarrow> path list \<Rightarrow> path \<Rightarrow> event \<Rightarrow> path act" where
  "capture_metadata h paths destination ev =
     (\<lambda>tr.
       if \<not> path_is_absolute destination \<or> list_ex (\<lambda>p. \<not> path_is_absolute p) paths
       then (Inl ''evidence paths must be absolute'', tr)
       else if \<not> ph_create_dir_all h destination
       then (Inl (''create evidence directory '' @ destination), tr)
       else
         let tr1 = tr @ [Fx_MakeDir destination];
             files = map (evidence_metadata h) paths;
             output = path_join destination (ph_file_stamp h @ ''-'' @ ev_id ev @ ''.json'')
         in if \<not> ph_create_new h output then (Inl (''create evidence file '' @ output), tr1)
            else
              let tr2 = tr1 @ [Fx_CreateFile output 0x180 files] in
              if \<not> ph_write_ok h output then (Inl ''serialize evidence metadata'', tr2)
              else (Inr output, tr2))"

section \<open>Executing an action\<close>

fun service_verb :: "service_action \<Rightarrow> string" where
  "service_verb Start = ''start''"
| "service_verb Stop = ''stop''"
| "service_verb Restart = ''restart''"

fun urgency_text :: "notification_urgency \<Rightarrow> string" where
  "urgency_text Low = ''low''"
| "urgency_text Normal_Urgency = ''normal''"
| "urgency_text Critical = ''critical''"

definition run_tool ::
  "proc_host \<Rightarrow> execution_context \<Rightarrow> string \<Rightarrow> string list \<Rightarrow> command_result act" where
  "run_tool h ctx tool args =
     act_bind (act_lift (resolve_tool h tool))
       (\<lambda>executable. run_command h executable args None [] (ctx_timeout ctx))"

fun execute_arm ::
  "proc_host \<Rightarrow> execution_context \<Rightarrow> action_spec \<Rightarrow> event \<Rightarrow> action_outcome act" where
  "execute_arm h ctx (A_LockVault name) ev =
     act_bind (act_lift (find_vault ctx name)) (\<lambda>vault.
       act_bind (lock_vault h vault (ctx_timeout ctx))
         (outcome_command h (''locked vault '' @ vault_name vault)))"
| "execute_arm h ctx (A_UnlockVault name) ev =
     act_bind (act_lift (find_vault ctx name)) (\<lambda>vault.
       act_bind (unlock_vault h vault (ctx_timeout ctx))
         (outcome_command h (''unlocked vault '' @ vault_name vault)))"
| "execute_arm h ctx (A_Unmount p) ev =
     act_bind (act_lift (ensure_absolute p)) (\<lambda>_.
       act_bind (run_tool h ctx ''umount'' [p]) (outcome_command h (''unmounted '' @ p)))"
| "execute_arm h ctx (A_NetworkIsolation enabled) ev =
     act_bind (run_tool h ctx ''nmcli'' [''networking'', if enabled then ''off'' else ''on'']) (\<lambda>result.
       act_bind (outcome_command h (if enabled then ''isolated networking'' else ''restored networking'') result)
         (\<lambda>outcome. act_return
            (if out_success outcome then outcome\<lparr>out_effect := Network_Isolation_Effect enabled\<rparr>
             else outcome)))"
| "execute_arm h ctx (A_InterfaceState interface up) ev =
     act_bind (act_lift (validate_interface interface)) (\<lambda>_.
       let state = (if up then ''up'' else ''down'') in
       act_bind (run_tool h ctx ''ip'' [''link'', ''set'', ''dev'', interface, state])
         (outcome_command h (''set interface '' @ interface @ '' '' @ state)))"
| "execute_arm h ctx (A_Service name state) ev =
     act_bind (act_lift (validate_unit name)) (\<lambda>_.
       act_bind (run_tool h ctx ''systemctl'' [service_verb state, name, ''--no-block''])
         (outcome_command h (''requested '' @ service_verb state @ '' for '' @ name)))"
| "execute_arm h ctx (A_TerminateProcess process signal) ev =
     (if process \<notin> set (ctx_managed_processes ctx)
      then act_fail (''process '' @ process @ '' is not in the managed-process allowlist'')
      else act_bind (terminate_named_processes h process signal) (\<lambda>count.
        outcome_internal h (''signalled '' @ show_nat count @ '' instance(s) of '' @ process) No_Effect))"
| "execute_arm h ctx (A_Notify title message urgency) ev =
     (if \<not> ctx_desktop_notifications ctx
      then outcome_internal h ''notification recorded in the local journal'' No_Effect
      else act_bind
        (run_tool h ctx ''notify-send''
           [''--app-name=Kovert'', ''--urgency='' @ urgency_text urgency, title, message])
        (outcome_command h ''sent local notification''))"
| "execute_arm h ctx (A_CaptureEvidence paths destination) ev =
     act_bind (capture_metadata h paths destination ev) (\<lambda>output.
       outcome_internal h (''captured metadata at '' @ output) No_Effect)"
| "execute_arm h ctx (A_SetMode mode) ev =
     outcome_internal h (''set security mode to '' @ mode) (Set_Mode_Effect mode)"
| "execute_arm h ctx (A_Exec executable args expected_sha256 environment) ev =
     (if \<not> list_ex (path_eq executable) (ctx_allowed_executables ctx)
      then act_fail (''executable '' @ executable @ '' is not in the approved allowlist'')
      else act_bind (act_lift (verify_executable_security h executable)) (\<lambda>_.
        act_bind (act_lift (case expected_sha256 of
                    None \<Rightarrow> Inr () | Some expected \<Rightarrow> verify_sha256 h executable expected)) (\<lambda>_.
          act_bind (run_command h executable args None environment (ctx_timeout ctx))
            (outcome_command h (''executed '' @ executable)))))"

definition execute ::
  "(action_spec \<Rightarrow> string) \<Rightarrow> proc_host \<Rightarrow> execution_context \<Rightarrow> action_spec \<Rightarrow> event \<Rightarrow> action_outcome act"
where
  "execute show_action h ctx action ev =
     (if ctx_dry_run ctx
      then act_return (outcome_dry_run (''would execute '' @ show_action action))
      else execute_arm h ctx action ev)"

end
