(* ===== verification/Actions_Spec.thy ===== *)
theory Actions_Spec
  imports Actions
begin

text \<open>
  A small logic for the traces actions leave: \<open>emits P m\<close> says that \<open>m\<close> only extends the
  trace, by effects that satisfy \<open>P\<close>, whatever the host answers and however it ends. With
  it, \<open>execute\<close> is shown to do nothing outside what its action permits.
\<close>

section \<open>The trace logic\<close>

definition emits :: "(effect \<Rightarrow> bool) \<Rightarrow> 'a act \<Rightarrow> bool" where
  "emits P m \<longleftrightarrow> (\<forall>tr. \<exists>fx. snd (m tr) = tr @ fx \<and> list_all P fx)"

named_theorems emits_rules \<open>rules of the trace logic\<close>

lemma emits_return [emits_rules]: "emits P (act_return x)"
  by (simp add: emits_def act_return_def)

lemma emits_lift [emits_rules]: "emits P (act_lift m)"
  by (simp add: emits_def act_lift_def)

lemma emits_fail [emits_rules]: "emits P (act_fail e)"
  by (simp add: emits_def act_fail_def)

lemma emits_bind:
  assumes "emits P m" and "\<And>x tr tr'. m tr = (Inr x, tr') \<Longrightarrow> emits P (k x)"
  shows "emits P (act_bind m k)"
  unfolding emits_def
proof
  fix tr
  obtain r tr' where m: "m tr = (r, tr')" by fastforce
  from assms(1) obtain fx where fx: "tr' = tr @ fx" "list_all P fx"
    unfolding emits_def by (metis m snd_conv)
  show "\<exists>fx. snd (act_bind m k tr) = tr @ fx \<and> list_all P fx"
  proof (cases r)
    case (Inl e)
    with m fx show ?thesis by (simp add: act_bind_def)
  next
    case (Inr x)
    from assms(2) [OF m [unfolded Inr]] obtain fx' where "snd (k x tr') = tr' @ fx'" "list_all P fx'"
      unfolding emits_def by blast
    with m fx Inr show ?thesis by (simp add: act_bind_def)
  qed
qed

lemma emits_bind_lift [emits_rules]:
  assumes "\<And>x. m = Inr x \<Longrightarrow> emits P (k x)"
  shows "emits P (act_bind (act_lift m) k)"
  by (rule emits_bind [OF emits_lift]) (use assms in \<open>simp add: act_lift_def\<close>)

lemma emits_bind_simple [emits_rules]:
  assumes "emits P m" and "\<And>x. emits P (k x)"
  shows "emits P (act_bind m k)"
  by (rule emits_bind [OF assms(1)]) (rule assms(2))

lemma emits_context [emits_rules]: "emits P m \<Longrightarrow> emits P (act_context m message)"
  unfolding emits_def act_context_def by (metis (no_types, lifting) case_prod_beta snd_conv)

lemma emits_if [emits_rules]:
  "(b \<Longrightarrow> emits P m) \<Longrightarrow> (\<not> b \<Longrightarrow> emits P n) \<Longrightarrow> emits P (if b then m else n)"
  by simp

lemma emits_weaken: "emits P m \<Longrightarrow> (\<And>x. P x \<Longrightarrow> Q x) \<Longrightarrow> emits Q m"
  unfolding emits_def by (metis list.pred_mono_strong)

lemma emits_internal [emits_rules]: "emits P (outcome_internal h message effect)"
  by (simp add: emits_def outcome_internal_def)

lemma emits_command [emits_rules]: "emits P (outcome_command h message result)"
  by (simp add: emits_def outcome_command_def)

section \<open>Processes\<close>

lemma emits_run_raw:
  assumes "P (Fx_Spawn \<lparr> inv_executable = executable, inv_args = args,
                inv_stdin = map_option (\<lambda>secret. secret @ [CHR 0x0A]) secret_stdin, inv_env = env \<rparr>)"
  shows "emits P (run_raw_command h executable args secret_stdin env timeout)"
  using assms
  by (auto simp: emits_def run_raw_command_def Let_def
      split: option.splits wait_result.splits prod.splits)

lemma emits_run_command:
  assumes "P (Fx_Spawn \<lparr> inv_executable = executable, inv_args = args,
                inv_stdin = map_option (\<lambda>secret. secret @ [CHR 0x0A]) secret_stdin, inv_env = env \<rparr>)"
  shows "emits P (run_command h executable args secret_stdin env timeout)"
  unfolding run_command_def by (intro emits_rules emits_run_raw assms)

lemma emits_read_bytes:
  assumes "P (Fx_Spawn \<lparr> inv_executable = executable, inv_args = args, inv_stdin = None, inv_env = [] \<rparr>)"
  shows "emits P (read_command_bytes h executable args timeout)"
  unfolding read_command_bytes_def by (intro emits_rules emits_run_raw) (simp_all add: assms)

definition system_tool :: "string \<Rightarrow> path \<Rightarrow> bool" where
  "system_tool name exe \<longleftrightarrow> (\<exists>d \<in> set tool_directories. exe = path_join d name)"

lemma resolve_tool_system: "resolve_tool h name = Inr exe \<Longrightarrow> system_tool name exe \<and> ph_is_file h exe"
  by (auto simp: resolve_tool_def system_tool_def ok_or_eq_Inr find_Some_iff tool_directories_def
      less_Suc_eq numeral_eq_Suc split: if_splits)

text \<open>A tool run: a binary of a system directory, no input, an empty environment.\<close>

definition tool_spawn :: "string set \<Rightarrow> effect \<Rightarrow> bool" where
  "tool_spawn names fx \<longleftrightarrow>
     (\<exists>inv. fx = Fx_Spawn inv \<and> inv_env inv = [] \<and> (\<exists>name \<in> names. system_tool name (inv_executable inv)))"

lemma tool_spawn_mono: "tool_spawn names fx \<Longrightarrow> names \<subseteq> names' \<Longrightarrow> tool_spawn names' fx"
  unfolding tool_spawn_def by blast

lemma emits_run_tool: "emits (tool_spawn {tool}) (run_tool h ctx tool args)"
  unfolding run_tool_def
  by (intro emits_bind_lift emits_run_command) (auto simp: tool_spawn_def dest: resolve_tool_system)

lemma or_else_Inr: "or_else a b = Inr x \<Longrightarrow> a = Inr x \<or> b = Inr x"
  by (cases a) (simp_all add: or_else_def)

lemma emits_lock_vault:
  "emits (tool_spawn {''fscrypt'', ''fusermount3'', ''fusermount''}) (lock_vault h vault timeout)"
  unfolding lock_vault_def
  by (cases "vault_adapter_of vault")
    (auto intro!: emits_bind_lift emits_run_command dest!: or_else_Inr resolve_tool_system
      simp: tool_spawn_def)

section \<open>Unlocking: where the key goes\<close>

text \<open>The adapter's arguments are a function of the configuration.\<close>

definition unlock_args :: "vault_config \<Rightarrow> string list" where
  "unlock_args vault =
     (case vault_adapter_of vault of
        Fscrypt \<Rightarrow> [''unlock'', vault_path vault]
      | Gocryptfs \<Rightarrow>
          [''-quiet'', ''-passfile'', ''/dev/stdin'', unwrap_or (encrypted_path vault) [],
           unwrap_or (mount_path vault) []])"

text \<open>
  The processes an unlock may start: the two \<open>keyctl\<close> calls, whose arguments are the
  description of the key and a decimal serial and which get no input, and the adapter, whose
  arguments come from the configuration and which alone is given input. None has an
  environment.
\<close>

definition keyctl_spawn :: "vault_config \<Rightarrow> effect \<Rightarrow> bool" where
  "keyctl_spawn vault fx \<longleftrightarrow>
     (\<exists>inv. fx = Fx_Spawn inv \<and> inv_env inv = [] \<and> inv_stdin inv = None \<and>
        system_tool ''keyctl'' (inv_executable inv) \<and>
        ((\<exists>d. keyring_description vault = Some d \<and> inv_args inv = [''search'', ''@u'', ''user'', d]) \<or>
         (\<exists>serial. inv_args inv = [''pipe'', serial] \<and> list_all is_ascii_digit serial)))"

definition adapter_spawn :: "vault_config \<Rightarrow> effect \<Rightarrow> bool" where
  "adapter_spawn vault fx \<longleftrightarrow>
     (\<exists>inv. fx = Fx_Spawn inv \<and> inv_env inv = [] \<and> inv_args inv = unlock_args vault \<and>
        (system_tool ''fscrypt'' (inv_executable inv) \<or> system_tool ''gocryptfs'' (inv_executable inv)))"

lemma emits_read_keyring:
  assumes "keyring_description vault = Some description"
  shows "emits (keyctl_spawn vault) (read_keyring h description timeout)"
  unfolding read_keyring_def Let_def
  by (intro emits_rules emits_bind_simple emits_run_command emits_read_bytes)
    (auto simp: keyctl_spawn_def assms dest: resolve_tool_system)

lemma emits_unlock_vault:
  "emits (\<lambda>fx. keyctl_spawn vault fx \<or> adapter_spawn vault fx) (unlock_vault h vault timeout)"
  unfolding unlock_vault_def
proof (intro emits_bind_lift emits_bind_simple)
  fix description
  assume "ok_or (keyring_description vault) ''automatic unlock requires keyring_description'' = Inr description"
  then have "keyring_description vault = Some description" by (simp add: ok_or_eq_Inr)
  from emits_read_keyring [OF this]
  show "emits (\<lambda>fx. keyctl_spawn vault fx \<or> adapter_spawn vault fx) (read_keyring h description timeout)"
    by (rule emits_weaken) simp
next
  fix key
  show "emits (\<lambda>fx. keyctl_spawn vault fx \<or> adapter_spawn vault fx)
    (case vault_adapter_of vault of
       Fscrypt \<Rightarrow>
         act_bind (act_lift (resolve_tool h ''fscrypt''))
           (\<lambda>executable. run_command h executable [''unlock'', vault_path vault] (Some key) [] timeout)
     | Gocryptfs \<Rightarrow>
         act_bind (act_lift (ok_or (encrypted_path vault) ''gocryptfs vault has no encrypted_path''))
           (\<lambda>encrypted. act_bind
              (act_lift (ok_or (mount_path vault) ''gocryptfs vault has no mount_path''))
              (\<lambda>mount. act_bind (act_lift (resolve_tool h ''gocryptfs''))
                 (\<lambda>executable. run_command h executable
                    [''-quiet'', ''-passfile'', ''/dev/stdin'', encrypted, mount] (Some key) [] timeout))))"
    by (cases "vault_adapter_of vault")
      (auto intro!: emits_bind_lift emits_run_command
        simp: adapter_spawn_def unlock_args_def ok_or_eq_Inr dest: resolve_tool_system)
qed

section \<open>Signals\<close>

definition kill_target :: "proc_host \<Rightarrow> 32 word \<Rightarrow> bool" where
  "kill_target h pid \<longleftrightarrow> 1 < pid \<and> pid \<noteq> ph_own_pid h"

definition kill_of :: "proc_host \<Rightarrow> process_signal \<Rightarrow> effect \<Rightarrow> bool" where
  "kill_of h signal fx \<longleftrightarrow> (\<exists>pid. fx = Fx_Kill (sint pid) signal \<and> kill_target h pid)"

text \<open>The processes of a \<open>/proc\<close> listing with the given name, less init and the daemon itself.\<close>

definition target_pid :: "proc_host \<Rightarrow> string \<Rightarrow> proc_entry \<Rightarrow> 32 word option" where
  "target_pid h name entry =
     (case Option.bind (pe_name entry) parse_u32 of
        Some pid \<Rightarrow>
          if kill_target h pid \<and> trim (unwrap_or (pe_comm entry) []) = name then Some pid else None
      | None \<Rightarrow> None)"

lemma signal_processes_target:
  "signal_processes h name signal (Inr entry # rest) count =
     (case target_pid h name entry of
        None \<Rightarrow> signal_processes h name signal rest count
      | Some pid \<Rightarrow> (\<lambda>tr.
          if ph_kill h tr (sint pid) signal
          then signal_processes h name signal rest (count + 1) (tr @ [Fx_Kill (sint pid) signal])
          else (Inl (''signal process '' @ show_nat (unat pid)), tr)))"
  by (auto simp: target_pid_def kill_target_def not_le split: option.split)

lemma emits_step:
  assumes "P x" and "emits P m"
  shows "emits P (\<lambda>tr. if c tr then m (tr @ [x]) else (r, tr))"
  unfolding emits_def
proof
  fix tr
  obtain fx where "snd (m (tr @ [x])) = (tr @ [x]) @ fx" "list_all P fx"
    using assms(2) unfolding emits_def by blast
  then have "snd (m (tr @ [x])) = tr @ x # fx \<and> list_all P (x # fx)" using assms(1) by simp
  then show "\<exists>fx. snd (if c tr then m (tr @ [x]) else (r, tr)) = tr @ fx \<and> list_all P fx"
    by (cases "c tr") auto
qed

lemma target_pid_kill: "target_pid h name entry = Some pid \<Longrightarrow> kill_of h signal (Fx_Kill (sint pid) signal)"
  by (auto simp: target_pid_def kill_of_def split: option.splits if_splits)

lemma emits_signal_processes: "emits (kill_of h signal) (signal_processes h name signal entries count)"
proof (induction entries arbitrary: count)
  case (Cons e rest)
  show ?case
  proof (cases e)
    case (Inr entry)
    with Cons.IH show ?thesis
      by (auto simp: signal_processes_target simp del: signal_processes.simps split: option.split
          intro: emits_step target_pid_kill)
  qed (simp add: emits_rules)
qed (simp add: emits_rules)

lemma emits_terminate: "emits (kill_of h signal) (terminate_named_processes h name signal)"
  unfolding emits_def
proof
  fix tr
  show "\<exists>fx. snd (terminate_named_processes h name signal tr) = tr @ fx \<and> list_all (kill_of h signal) fx"
    using emits_signal_processes [of h signal name _ 0]
    by (cases "ph_proc h tr") (simp_all add: terminate_named_processes_def emits_def)
qed

lemma signal_processes_all:
  assumes "signal_processes h name signal entries count tr = (Inr n, tr')"
  shows "n = count + length (List.map_filter (target_pid h name) (map projr entries)) \<and>
    tr' = tr @ map (\<lambda>pid. Fx_Kill (sint pid) signal) (List.map_filter (target_pid h name) (map projr entries))"
  using assms
proof (induction entries arbitrary: count tr)
  case Nil
  then show ?case by (simp add: act_return_def map_filter_simps)
next
  case (Cons e rest)
  show ?case
  proof (cases e)
    case (Inl x)
    with Cons.prems show ?thesis by (simp add: act_fail_def)
  next
    case (Inr entry)
    with Cons.prems show ?thesis
      by (auto simp: signal_processes_target map_filter_simps simp del: signal_processes.simps
          split: option.splits if_splits dest: Cons.IH)
  qed
qed

section \<open>Confinement\<close>

fun action_tools :: "action_spec \<Rightarrow> string set" where
  "action_tools (A_LockVault _) = {''fscrypt'', ''fusermount3'', ''fusermount''}"
| "action_tools (A_Unmount _) = {''umount''}"
| "action_tools (A_NetworkIsolation _) = {''nmcli''}"
| "action_tools (A_InterfaceState _ _) = {''ip''}"
| "action_tools (A_Service _ _) = {''systemctl''}"
| "action_tools (A_Notify _ _ _) = {''notify-send''}"
| "action_tools _ = {}"

text \<open>
  An approved execution: on the allowlist, a regular file that only root can change, with
  the pinned digest when there is one, and started with the configured arguments and
  environment and no input.
\<close>

definition approved_exec ::
  "proc_host \<Rightarrow> execution_context \<Rightarrow> path \<Rightarrow> string option \<Rightarrow> bool" where
  "approved_exec h ctx exe sha \<longleftrightarrow>
     (\<exists>p \<in> set (ctx_allowed_executables ctx). path_eq exe p) \<and>
     (\<exists>m. ph_stat h exe = Inr m \<and> meta_type m = Regular_File \<and> root_controlled m) \<and>
     is_none_or (\<lambda>expected. \<exists>chunks content. ph_read_chunks h exe = Inr chunks \<and>
        hash_chunks chunks [] = Inr content \<and>
        eq_ignore_ascii_case (ph_sha256_hex h content) expected) sha"

definition permitted :: "proc_host \<Rightarrow> execution_context \<Rightarrow> action_spec \<Rightarrow> effect \<Rightarrow> bool" where
  "permitted h ctx action fx \<longleftrightarrow>
     tool_spawn (action_tools action) fx \<or>
     (\<exists>name vault. action = A_UnlockVault name \<and> vault \<in> set (ctx_vaults ctx) \<and>
        vault_name vault = name \<and> (keyctl_spawn vault fx \<or> adapter_spawn vault fx)) \<or>
     (\<exists>exe args sha env. action = A_Exec exe args sha env \<and> approved_exec h ctx exe sha \<and>
        fx = Fx_Spawn \<lparr> inv_executable = exe, inv_args = args, inv_stdin = None, inv_env = env \<rparr>) \<or>
     (\<exists>name signal. action = A_TerminateProcess name signal \<and>
        name \<in> set (ctx_managed_processes ctx) \<and> kill_of h signal fx) \<or>
     (\<exists>paths d. action = A_CaptureEvidence paths d \<and> list_all path_is_absolute (d # paths) \<and>
        (fx = Fx_MakeDir d \<or>
         (\<exists>name. fx = Fx_CreateFile (path_join d name) 0x180 (map (evidence_metadata h) paths))))"

lemma permitted_tool: "tool_spawn (action_tools action) fx \<Longrightarrow> permitted h ctx action fx"
  by (simp add: permitted_def)

lemma verify_executable_security_ok:
  "verify_executable_security h exe = Inr u \<Longrightarrow>
   \<exists>m. ph_stat h exe = Inr m \<and> meta_type m = Regular_File \<and> root_controlled m"
  by (auto simp: verify_executable_security_def root_controlled_def split: sum.splits if_splits)

lemma verify_sha256_ok:
  "verify_sha256 h exe expected = Inr u \<Longrightarrow>
   \<exists>chunks content. ph_read_chunks h exe = Inr chunks \<and> hash_chunks chunks [] = Inr content \<and>
     eq_ignore_ascii_case (ph_sha256_hex h content) expected"
  by (auto simp: verify_sha256_def result_elims)

lemma emits_exec:
  "emits (permitted h ctx (A_Exec exe args sha env)) (execute_arm h ctx (A_Exec exe args sha env) ev)"
  unfolding execute_arm.simps
proof (intro emits_rules emits_run_command)
  fix u v
  assume "\<not> \<not> list_ex (path_eq exe) (ctx_allowed_executables ctx)"
    and "verify_executable_security h exe = Inr u"
    and "(case sha of None \<Rightarrow> Inr () | Some expected \<Rightarrow> verify_sha256 h exe expected) = Inr v"
  then have "approved_exec h ctx exe sha"
    by (auto simp: approved_exec_def list_ex_iff split: option.splits
        dest: verify_executable_security_ok verify_sha256_ok)
  then show "permitted h ctx (A_Exec exe args sha env)
    (Fx_Spawn \<lparr>inv_executable = exe, inv_args = args,
       inv_stdin = map_option (\<lambda>secret. secret @ [CHR 0x0A]) None, inv_env = env\<rparr>)"
    by (simp add: permitted_def)
qed

lemma emits_capture:
  "emits (permitted h ctx (A_CaptureEvidence paths d)) (capture_metadata h paths d ev)"
proof -
  have ok: "permitted h ctx (A_CaptureEvidence paths d) (Fx_MakeDir d)"
    "permitted h ctx (A_CaptureEvidence paths d)
       (Fx_CreateFile (path_join d name) 0x180 (map (evidence_metadata h) paths))"
    if "path_is_absolute d" "\<not> list_ex (\<lambda>p. \<not> path_is_absolute p) paths" for name
    using that by (auto simp: permitted_def list_all_iff list_ex_iff)
  show ?thesis by (auto simp: emits_def capture_metadata_def Let_def intro: ok)
qed

lemma emits_tool_arm:
  assumes "emits (tool_spawn names) m" and "names \<subseteq> action_tools action" and "\<And>x. emits (permitted h ctx action) (k x)"
  shows "emits (permitted h ctx action) (act_bind m k)"
proof (rule emits_bind_simple [OF _ assms(3)])
  show "emits (permitted h ctx action) m"
    using assms(1) by (rule emits_weaken) (rule permitted_tool [OF tool_spawn_mono [OF _ assms(2)]])
qed

lemma permitted_run_tool:
  "tool \<in> action_tools action \<Longrightarrow> emits (permitted h ctx action) (run_tool h ctx tool args)"
  by (rule emits_weaken [OF emits_run_tool]) (rule permitted_tool, erule tool_spawn_mono, simp)

lemma find_vault_ok: "find_vault ctx name = Inr vault \<Longrightarrow> vault \<in> set (ctx_vaults ctx) \<and> vault_name vault = name"
  by (auto simp: find_vault_def ok_or_eq_Inr find_Some_iff in_set_conv_nth)

lemma emits_execute_arm: "emits (permitted h ctx action) (execute_arm h ctx action ev)"
proof (cases action)
  case (A_LockVault name)
  show ?thesis
    unfolding A_LockVault execute_arm.simps
    by (intro emits_bind_lift emits_tool_arm [OF emits_lock_vault] emits_command) simp
next
  case (A_UnlockVault name)
  have "emits (permitted h ctx action) (unlock_vault h vault (ctx_timeout ctx))"
    if "find_vault ctx name = Inr vault" for vault
    using emits_unlock_vault
    by (rule emits_weaken) (use find_vault_ok [OF that] in \<open>auto simp: permitted_def A_UnlockVault\<close>)
  then show ?thesis
    unfolding A_UnlockVault execute_arm.simps
    by (intro emits_bind_lift emits_bind_simple emits_command)
next
  case (A_TerminateProcess name signal)
  have "emits (permitted h ctx action) (terminate_named_processes h name signal)"
    if "name \<in> set (ctx_managed_processes ctx)"
    using emits_terminate
    by (rule emits_weaken) (use that in \<open>auto simp: permitted_def A_TerminateProcess\<close>)
  then show ?thesis
    unfolding A_TerminateProcess execute_arm.simps
    by (intro emits_if emits_fail emits_bind_simple emits_internal) simp_all
next
  case (A_CaptureEvidence paths d)
  then show ?thesis by (auto intro!: emits_bind_simple emits_capture emits_internal)
next
  case (A_Exec exe args sha env)
  then show ?thesis by (simp only: emits_exec)
qed (auto simp: Let_def intro!: emits_rules permitted_run_tool)

lemma emits_execute: "emits (permitted h ctx action) (execute show_action h ctx action ev)"
  unfolding execute_def by (intro emits_rules emits_execute_arm)

end
