(* ===== verification/Actions_Properties.thy ===== *)
theory Actions_Properties
  imports Actions_Spec Validation
begin

text \<open>The properties of the action executor, with witnesses on a small host.\<close>

section \<open>Bounds on captured output\<close>

lemma from_utf8_lossy_length: "length (from_utf8_lossy s) \<le> 3 * length s"
proof (induction s rule: from_utf8_lossy.induct)
  case (1 s)
  show ?case
  proof (cases "s = []")
    case True
    then show ?thesis by (simp add: from_utf8_lossy.simps)
  next
    case False
    let ?n = "snd (utf8_head s)"
    have "0 < ?n" using utf8_head_pos [OF False] .
    moreover have "length (from_utf8_lossy (drop ?n s)) \<le> 3 * length (drop ?n s)" using 1 [OF False] .
    moreover obtain k where "length s = Suc k" using False by (cases s) auto
    ultimately show ?thesis
      by (subst from_utf8_lossy.simps) (auto simp: False min_def)
  qed
qed

lemma trim_end_length: "length (trim_end s) \<le> length s"
proof (induction s rule: trim_end.induct)
  case (1 s)
  then show ?case by (subst trim_end.simps) (auto intro: order.trans)
qed

lemma trim_length: "length (trim s) \<le> length s"
  unfolding trim_def using trim_end_length trim_start_length order.trans by blast

lemma read_limited_spec:
  "read_limited out = (take output_limit out, output_limit < length out)"
  by (auto simp: read_limited_def Let_def min_def)

lemma run_command_result:
  assumes "run_command h exe args secret env timeout tr = (Inr r, tr')"
  obtains inv out err where "tr' = tr @ [Fx_Spawn inv]" and "inv_executable inv = exe"
    and "inv_args inv = args" and "inv_env inv = env"
    and "ph_stdout h tr inv = Some out" and "ph_stderr h tr inv = Some err"
    and "cr_stdout r = trim (from_utf8_lossy (take output_limit out))"
    and "cr_stderr r = trim (from_utf8_lossy (take output_limit err))"
    and "cr_truncated r \<longleftrightarrow> output_limit < length out \<or> output_limit < length err"
    and "ph_wait h tr inv = Exited (cr_success r)"
  using assms
  by (auto simp: run_command_def run_raw_command_def act_bind_def act_return_def Let_def read_limited_spec
      split: if_splits option.splits wait_result.splits sum.splits prod.splits)

text \<open>
  C37. Captured output is bounded and never silently cut: whatever a command prints, at most
  64 KiB of each stream is kept (at most three times that after lossy decoding), and a result
  that is not marked truncated carries the decoded output in full.
\<close>

theorem command_output_bounded:
  assumes "run_command h exe args secret env timeout tr = (Inr r, tr')"
  shows "length (cr_stdout r) \<le> 3 * 65536 \<and> length (cr_stderr r) \<le> 3 * 65536 \<and>
    (\<exists>inv out err. tr' = tr @ [Fx_Spawn inv] \<and> ph_stdout h tr inv = Some out \<and> ph_stderr h tr inv = Some err \<and>
       (cr_truncated r \<or>
        cr_stdout r = trim (from_utf8_lossy out) \<and> cr_stderr r = trim (from_utf8_lossy err)))"
proof -
  obtain inv out err where tr': "tr' = tr @ [Fx_Spawn inv]"
    and out: "ph_stdout h tr inv = Some out" "cr_stdout r = trim (from_utf8_lossy (take output_limit out))"
    and err: "ph_stderr h tr inv = Some err" "cr_stderr r = trim (from_utf8_lossy (take output_limit err))"
    and trunc: "cr_truncated r \<longleftrightarrow> output_limit < length out \<or> output_limit < length err"
    by (rule run_command_result [OF assms])
  have bound: "length (trim (from_utf8_lossy (take output_limit s))) \<le> 3 * 65536" for s
    using trim_length [of "from_utf8_lossy (take output_limit s)"]
      from_utf8_lossy_length [of "take output_limit s"]
    by (simp add: output_limit_def min_def split: if_splits)
  from tr' out err trunc bound [of out] bound [of err] show ?thesis by auto
qed

definition demo_proc_host :: proc_host where
  "demo_proc_host =
     \<lparr> ph_is_file = (\<lambda>_. True), ph_spawn = (\<lambda>_ _. True), ph_stdin = (\<lambda>_ _. None),
       ph_wait = (\<lambda>_ _. Exited True), ph_stdout = (\<lambda>_ _. Some ''42''), ph_stderr = (\<lambda>_ _. Some ''''),
       ph_stat = (\<lambda>_. Inr \<lparr> meta_type = Regular_File, meta_uid = 0, meta_mode = 0x1ED, meta_len = 1 \<rparr>),
       ph_modified = (\<lambda>_. None), ph_read_chunks = (\<lambda>_. Inr [Inr ''x'', Inr '''']),
       ph_sha256_hex = (\<lambda>_. replicate 64 CHR ''a''),
       ph_proc = (\<lambda>_. Inr [Inr \<lparr> pe_name = Some ''1'', pe_comm = Some ''sshd'' \<rparr>,
                            Inr \<lparr> pe_name = Some ''77'', pe_comm = Some ''sshd'' \<rparr>,
                            Inr \<lparr> pe_name = Some ''self'', pe_comm = Some ''sshd'' \<rparr>,
                            Inr \<lparr> pe_name = Some ''78'', pe_comm = Some ''bash'' \<rparr>]),
       ph_own_pid = 500, ph_kill = (\<lambda>_ _ _. True), ph_create_dir_all = (\<lambda>_. True),
       ph_create_new = (\<lambda>_. True), ph_write_ok = (\<lambda>_. True), ph_file_stamp = ''20260101T000000.000Z'',
       ph_elapsed_ms = (\<lambda>_. 3) \<rparr>"

lemma demo_run:
  "\<exists>r tr'. run_command demo_proc_host ''/usr/bin/ip'' [''link''] None [] 0 [] = (Inr r, tr')"
  by (simp add: run_command_def run_raw_command_def act_bind_def act_return_def demo_proc_host_def
      path_is_absolute_def read_limited_spec output_limit_def)

theorem command_output_bounded_witness:
  "\<exists>r tr'. run_command demo_proc_host ''/usr/bin/ip'' [''link''] None [] 0 [] = (Inr r, tr') \<and>
     length (cr_stdout r) \<le> 3 * 65536"
  using demo_run command_output_bounded by blast

section \<open>Confinement\<close>



text \<open>
  A vault without a key description cannot be unlocked: the action fails and starts no process.
  Validation accepts a rule that unlocks such a vault.
\<close>

lemma unlock_needs_description:
  "keyring_description vault = None \<Longrightarrow>
     unlock_vault h vault timeout tr = (Inl ''automatic unlock requires keyring_description'', tr)"
  by (simp add: unlock_vault_def act_bind_def act_lift_def ok_or_def)

definition demo_vault :: vault_config where
  "demo_vault =
     \<lparr> vault_name = ''documents'', vault_adapter_of = Fscrypt, vault_path = ''/home/u/docs'',
       encrypted_path = None, mount_path = None, keyring_description = Some ''kovert:docs'' \<rparr>"

lemma demo_trim_42: "trim (from_utf8_lossy ''42'') = ''42''" "trim ''42'' = ''42''"
  by (simp_all add: from_utf8_lossy.simps utf8_head_def utf8_width_def utf8_second_def trim_def
      trim_start.simps trim_end.simps ws_len_def ws_len_end_def)

lemma demo_unlock:
  "\<exists>inv. Fx_Spawn inv \<in> set (snd (unlock_vault demo_proc_host demo_vault 0 [])) \<and>
     inv_stdin inv = Some (''42'' @ [CHR 0x0A])"
  by (intro exI [of _ "\<lparr> inv_executable = ''/usr/bin/fscrypt'', inv_args = [''unlock'', ''/home/u/docs''],
        inv_stdin = Some (''42'' @ [CHR 0x0A]), inv_env = [] \<rparr>"])
    (simp add: unlock_vault_def read_keyring_def read_command_bytes_def run_command_def
      run_raw_command_def act_bind_def act_return_def act_lift_def act_context_def resolve_tool_def
      ok_or_def demo_proc_host_def demo_vault_def path_is_absolute_def path_join_def read_limited_spec
      tool_directories_def output_limit_def demo_trim_42 is_ascii_digit_def Let_def)


text \<open>
  C36. Signals are exact: when \<open>terminate_named_processes\<close> succeeds, it has signalled, once
  and in \<open>/proc\<close> order, every process whose trimmed \<open>comm\<close> is the given name, except pid 1 and the
  daemon itself, and nothing else, and it returns their number.
\<close>

theorem terminate_signals_exactly:
  assumes "ph_proc h tr = Inr entries"
    and "terminate_named_processes h name signal tr = (Inr n, tr')"
  shows "n = length (List.map_filter (target_pid h name) (map projr entries)) \<and>
    tr' = tr @ map (\<lambda>pid. Fx_Kill (sint pid) signal)
                 (List.map_filter (target_pid h name) (map projr entries))"
  using assms signal_processes_all [of h name signal entries 0 tr n tr']
  by (simp add: terminate_named_processes_def)

lemma demo_parse:
  "parse_u32 ''1'' = Some 1" "parse_u32 ''77'' = Some 77" "parse_u32 ''self'' = None"
  "parse_u32 ''78'' = Some 78"
  by (simp_all add: parse_u32_def is_ascii_digit_def)

lemma demo_trim: "trim ''sshd'' = ''sshd''" "trim ''bash'' = ''bash''"
  by (simp_all add: trim_def trim_start.simps trim_end.simps ws_len_def ws_len_end_def)

lemma demo_terminate:
  "terminate_named_processes demo_proc_host ''sshd'' Term [] = (Inr 1, [Fx_Kill 77 Term])"
  by (simp add: terminate_named_processes_def demo_proc_host_def demo_parse demo_trim act_return_def
      word_le_nat_alt)

theorem terminate_signals_exactly_witness:
  "\<exists>entries. ph_proc demo_proc_host [] = Inr entries \<and>
     length (List.map_filter (target_pid demo_proc_host ''sshd'') (map projr entries)) = 1"
proof -
  obtain entries where proc: "ph_proc demo_proc_host [] = Inr entries"
    by (simp add: demo_proc_host_def)
  from terminate_signals_exactly [OF proc demo_terminate] proc show ?thesis by auto
qed

section \<open>Guards and validation\<close>

lemma validate_interface_iff: "validate_interface value = Inr () \<longleftrightarrow> valid_interface_name value"
  by (simp add: validate_interface_def valid_interface_name_def ensure_eq_Inr)

lemma validate_unit_iff: "validate_unit value = Inr () \<longleftrightarrow> valid_unit_name value"
  by (simp add: validate_unit_def valid_unit_name_def ensure_eq_Inr)

end
