(* ===== verification/Ipc.thy ===== *)
theory Ipc
  imports Event Host
begin

text \<open>
  The control protocol of \<open>kovert-core/src/ipc.rs\<close>: requests, responses and the version.
\<close>

definition ipc_version :: "32 word" where
  "ipc_version = 1"

datatype request =
    R_Status
  | R_Rules
  | R_Audit nat
  | R_Reload
  | R_Trigger string
  | R_Simulate event
  | R_SetMode string
  | R_Recovery bool
  | R_VerifyAudit

record request_envelope =
  env_version :: "32 word"
  env_request :: request

definition envelope_new :: "request \<Rightarrow> request_envelope" where
  "envelope_new request = \<lparr> env_version = ipc_version, env_request = request \<rparr>"

record response =
  resp_version :: "32 word"
  resp_ok :: bool
  resp_message :: string
  resp_data :: "json option"

definition response_success :: "string \<Rightarrow> json option \<Rightarrow> response" where
  "response_success message data =
     \<lparr> resp_version = ipc_version, resp_ok = True, resp_message = message, resp_data = data \<rparr>"

definition response_error :: "string \<Rightarrow> response" where
  "response_error message =
     \<lparr> resp_version = ipc_version, resp_ok = False, resp_message = message, resp_data = None \<rparr>"

end
