(* ===== verification/Config_Loader.thy ===== *)
theory Config_Loader
  imports Validation Host
begin

text \<open>
  Loading the configuration: \<open>kovert-daemon/src/config_loader.rs\<close>. The file system and the
  TOML parser are arguments; printing a validation error (\<open>thiserror\<close>'s \<open>Display\<close>) is the
  text of its \<open>#[error]\<close> attribute.
\<close>

record load_host =
  lh_symlink_metadata :: "path \<Rightarrow> metadata result"
  lh_metadata :: "path \<Rightarrow> metadata result"
  lh_read_to_string :: "path \<Rightarrow> string result"
  lh_parse_toml :: "string \<Rightarrow> config result"

definition verify_permissions :: "load_host \<Rightarrow> path \<Rightarrow> unit result" where
  "verify_permissions h p =
     and_then (with_context (lh_symlink_metadata h p) (''inspect configuration '' @ p)) (\<lambda>m.
       if meta_type m = Symlink \<or> meta_type m \<noteq> Regular_File
       then Inl ''configuration must be a regular file, not a symlink''
       else if meta_uid m \<noteq> 0 then Inl ''configuration must be owned by root''
       else if group_or_world_writable m
       then Inl ''configuration must not be writable by group or others''
       else case path_parent p of
           None \<Rightarrow> Inr ()
         | Some parent \<Rightarrow>
             and_then (with_context (lh_metadata h parent) (''inspect configuration directory '' @ parent))
               (\<lambda>pm. ensure (\<not> (meta_uid pm \<noteq> 0 \<or> group_or_world_writable pm))
                  ''configuration directory must be root-owned and not group/world writable''))"

text \<open>The messages of \<open>ValidationError\<close>.\<close>

fun error_text :: "validation_error \<Rightarrow> string" where
  "error_text (V_Version v) = ''unsupported configuration version '' @ show_nat (unat v) @ ''; expected 1''"
| "error_text (V_Duplicate kind name) = ''duplicate '' @ kind @ '' name: '' @ name"
| "error_text (V_Rule rule message) = ''invalid rule '' @ rule @ '': '' @ message"
| "error_text (V_Vault vault message) = ''invalid vault '' @ vault @ '': '' @ message"
| "error_text (V_Hotkey hotkey message) = ''invalid hotkey '' @ hotkey @ '': '' @ message"
| "error_text (V_Daemon message) = ''invalid daemon setting: '' @ message"

fun join_lines :: "string list \<Rightarrow> string" where
  "join_lines [] = []"
| "join_lines [l] = l"
| "join_lines (l # ls) = l @ [CHR 0x0A] @ join_lines ls"

definition load_config ::
  "regex_lib \<Rightarrow> hm_parser \<Rightarrow> load_host \<Rightarrow> path \<Rightarrow> bool \<Rightarrow> config result" where
  "load_config rx hm h p allow_unsafe =
     and_then (if \<not> allow_unsafe then verify_permissions h p else Inr ()) (\<lambda>_.
       and_then (with_context (lh_read_to_string h p) (''read configuration '' @ p)) (\<lambda>text.
         and_then (with_context (lh_parse_toml h text) (''parse configuration '' @ p)) (\<lambda>cfg.
           case validate_config rx hm cfg of
             Inl errors \<Rightarrow>
               Inl (''configuration validation failed:'' @ [CHR 0x0A] @
                    join_lines (map (\<lambda>e. ''- '' @ error_text e) errors))
           | Inr _ \<Rightarrow> Inr cfg)))"

end
