(* ===== verification/Runtime.thy ===== *)
theory Runtime
  imports Engine Actions Audit_Db Ipc Config_Loader
begin

text \<open>
  The daemon's runtime, \<open>kovert-daemon/src/runtime.rs\<close>: the state of \<open>Runtime\<close>, event
  processing, plan execution with the action ledger, the control requests, reload, and the
  event loop.

  A computation of the runtime passes its state explicitly and ends in a panic of the engine
  (which aborts the process), an error, or a value. The state counts the calls it makes to
  the outside (\<open>rt_tick\<close>); everything the outside answers is a function of that count, so a
  fault may strike any database statement of any call and the host may change between calls.
\<close>

section \<open>The outside\<close>

text \<open>
  The libraries and the host: the audit libraries, the clock, database faults, the
  environments of conditions and of actions, the serde serializers, UUIDs, the loader's file
  system, and \<open>SensorHub::start\<close>, whose task handles are numbers.
\<close>

record world =
  wl_lib :: audit_lib
  wl_clock :: "nat \<Rightarrow> timestamp"
  wl_faults :: "nat \<Rightarrow> sql_faults"
  wl_conditions :: "nat \<Rightarrow> host"
  wl_processes :: "nat \<Rightarrow> proc_host"
  wl_uuid :: "nat \<Rightarrow> string"
  wl_show_action :: "action_spec \<Rightarrow> string"
  wl_event_json :: "event \<Rightarrow> json result"
  wl_action_bytes :: "action_spec \<Rightarrow> string result"
  wl_action_json :: "action_spec \<Rightarrow> json result"
  wl_outcome_json :: "action_outcome \<Rightarrow> json result"
  wl_rules_json :: "rule list \<Rightarrow> json result"
  wl_records_json :: "audit_record list \<Rightarrow> json result"
  wl_snapshot_json :: "snapshot \<Rightarrow> json"
  wl_plan_action_json :: "action_spec \<Rightarrow> json"
  wl_regex :: regex_lib
  wl_hm :: hm_parser
  wl_loader :: "nat \<Rightarrow> load_host"
  wl_start_sensors :: "nat \<Rightarrow> config \<Rightarrow> (nat list) result"
  wl_pkg_version :: string

section \<open>State\<close>

record runtime =
  rt_config_path :: path
  rt_allow_unsafe :: bool
  rt_config :: config
  rt_engine :: policy_engine
  rt_executor :: execution_context
  rt_db :: audit_db
  rt_max_records :: "64 word"
  rt_sensor_handles :: "nat list"
  rt_aborted :: "nat list"
  rt_trace :: trace
  rt_tick :: nat

type_synonym 'a rt = "runtime \<Rightarrow> panic + ('a result \<times> runtime)"

definition rt_return :: "'a \<Rightarrow> 'a rt" where
  "rt_return x = (\<lambda>s. Inr (Inr x, s))"

definition rt_fail :: "string \<Rightarrow> 'a rt" where
  "rt_fail e = (\<lambda>s. Inr (Inl e, s))"

definition rt_lift :: "'a result \<Rightarrow> 'a rt" where
  "rt_lift r = (\<lambda>s. Inr (r, s))"

definition rt_bind :: "'a rt \<Rightarrow> ('a \<Rightarrow> 'b rt) \<Rightarrow> 'b rt" where
  "rt_bind m k =
     (\<lambda>s. case m s of
        Inl p \<Rightarrow> Inl p
      | Inr (Inl e, s') \<Rightarrow> Inr (Inl e, s')
      | Inr (Inr x, s') \<Rightarrow> k x s')"

definition rt_get :: "runtime rt" where
  "rt_get = (\<lambda>s. Inr (Inr s, s))"

definition rt_modify :: "(runtime \<Rightarrow> runtime) \<Rightarrow> unit rt" where
  "rt_modify f = (\<lambda>s. Inr (Inr (), f s))"

section \<open>Calls to the store\<close>

definition rt_append :: "world \<Rightarrow> string option \<Rightarrow> string \<Rightarrow> string option \<Rightarrow> json \<Rightarrow> audit_record rt" where
  "rt_append w event_id kind rid payload =
     (\<lambda>s. let n = rt_tick s;
              (r, db) = audit_append (wl_lib w) (wl_faults w n) (wl_clock w n) (rt_max_records s)
                          (rt_db s) event_id kind rid payload
          in Inr (r, s\<lparr>rt_db := db, rt_tick := n + 1\<rparr>))"

definition rt_set_state :: "world \<Rightarrow> string \<Rightarrow> string \<Rightarrow> unit rt" where
  "rt_set_state w key value =
     (\<lambda>s. let n = rt_tick s; (r, db) = set_state (wl_faults w n) (rt_db s) key value
          in Inr (r, s\<lparr>rt_db := db, rt_tick := n + 1\<rparr>))"

definition rt_action_completed :: "world \<Rightarrow> string \<Rightarrow> string \<Rightarrow> string \<Rightarrow> bool rt" where
  "rt_action_completed w event_id rid action_hash =
     (\<lambda>s. let n = rt_tick s
          in Inr (action_completed (wl_faults w n) (rt_db s) event_id rid action_hash,
                  s\<lparr>rt_tick := n + 1\<rparr>))"

definition rt_record_action ::
  "world \<Rightarrow> string \<Rightarrow> string \<Rightarrow> string \<Rightarrow> string \<Rightarrow> json option \<Rightarrow> unit rt" where
  "rt_record_action w event_id rid action_hash status outcome =
     (\<lambda>s. let n = rt_tick s;
              (r, db) = record_action (wl_lib w) (wl_faults w n) (wl_clock w n) (rt_db s)
                          event_id rid action_hash status outcome
          in Inr (r, s\<lparr>rt_db := db, rt_tick := n + 1\<rparr>))"

text \<open>\<open>executor.execute\<close>: its error is a value the runtime audits, so the call itself does not fail.\<close>

definition rt_execute :: "world \<Rightarrow> action_spec \<Rightarrow> event \<Rightarrow> (action_outcome result) rt" where
  "rt_execute w action ev =
     (\<lambda>s. let n = rt_tick s;
              (r, tr) = execute (wl_show_action w) (wl_processes w n) (rt_executor s) action ev (rt_trace s)
          in Inr (Inr r, s\<lparr>rt_trace := tr, rt_tick := n + 1\<rparr>))"

definition rt_handle :: "world \<Rightarrow> event \<Rightarrow> action_plan list rt" where
  "rt_handle w ev =
     (\<lambda>s. let n = rt_tick s in
          case handle (wl_conditions w n) (rt_engine s) ev of
            Inl p \<Rightarrow> Inl p
          | Inr (e, plans) \<Rightarrow> Inr (Inr plans, s\<lparr>rt_engine := e, rt_tick := n + 1\<rparr>))"

section \<open>Events\<close>

definition bool_text :: "bool \<Rightarrow> string" where
  "bool_text b = (if b then ''true'' else ''false'')"

definition apply_effect :: "world \<Rightarrow> action_effect \<Rightarrow> unit rt" where
  "apply_effect w effect =
     (case effect of
        Set_Mode_Effect mode \<Rightarrow>
          rt_bind (rt_modify (\<lambda>s. s\<lparr>rt_engine := set_mode (rt_engine s) mode\<rparr>))
            (\<lambda>_. rt_set_state w ''mode'' mode)
      | Network_Isolation_Effect enabled \<Rightarrow> rt_set_state w ''network_isolated'' (bool_text enabled)
      | No_Effect \<Rightarrow> rt_return ())"

definition finish_plan ::
  "world \<Rightarrow> string \<Rightarrow> action_plan \<Rightarrow> string \<Rightarrow> action_outcome result \<Rightarrow> unit rt" where
  "finish_plan w event_id plan action_hash result =
     (case result of
        Inr outcome \<Rightarrow>
          rt_bind (rt_lift (wl_outcome_json w outcome)) (\<lambda>outcome_value.
          rt_bind (rt_record_action w event_id (plan_rule_id plan) action_hash
                     (if out_success outcome then ''succeeded'' else ''failed'') (Some outcome_value)) (\<lambda>_.
          rt_bind (rt_append w (Some event_id)
                     (if out_success outcome then ''action_succeeded'' else ''action_failed'')
                     (Some (plan_rule_id plan)) outcome_value) (\<lambda>_.
          if out_success outcome \<and> \<not> out_dry_run outcome then apply_effect w (out_effect outcome)
          else rt_return ())))
      | Inl error \<Rightarrow>
          (let outcome = J_Object [(''error'', J_String error)] in
           rt_bind (rt_record_action w event_id (plan_rule_id plan) action_hash ''failed'' (Some outcome))
             (\<lambda>_. rt_bind (rt_append w (Some event_id) ''action_failed'' (Some (plan_rule_id plan)) outcome)
               (\<lambda>_. rt_return ()))))"

definition execute_plan :: "world \<Rightarrow> event \<Rightarrow> action_plan \<Rightarrow> unit rt" where
  "execute_plan w ev plan =
     (let event_id = ev_id ev in
      rt_bind (rt_lift (wl_action_bytes w (plan_action plan))) (\<lambda>action_bytes.
      let action_hash = blake3_hex (wl_lib w) action_bytes in
      rt_bind (rt_action_completed w event_id (plan_rule_id plan) action_hash) (\<lambda>completed.
      if completed then rt_return ()
      else
        rt_bind (rt_record_action w event_id (plan_rule_id plan) action_hash ''started'' None) (\<lambda>_.
        rt_bind (rt_lift (wl_action_json w (plan_action plan))) (\<lambda>action_value.
        rt_bind (rt_append w (Some event_id) ''action_started'' (Some (plan_rule_id plan)) action_value) (\<lambda>_.
        rt_bind (rt_execute w (plan_action plan) ev)
          (finish_plan w event_id plan action_hash)))))))"

fun execute_plans :: "world \<Rightarrow> event \<Rightarrow> action_plan list \<Rightarrow> unit rt" where
  "execute_plans w ev [] = rt_return ()"
| "execute_plans w ev (plan # plans) =
     rt_bind (execute_plan w ev plan) (\<lambda>_. execute_plans w ev plans)"

definition process_event :: "world \<Rightarrow> event \<Rightarrow> nat rt" where
  "process_event w ev =
     rt_bind (rt_lift (wl_event_json w ev)) (\<lambda>payload.
     rt_bind (rt_append w (Some (ev_id ev)) ''event'' None payload) (\<lambda>_.
     rt_bind (rt_handle w ev) (\<lambda>plans.
     rt_bind (execute_plans w ev plans) (\<lambda>_. rt_return (length plans)))))"

section \<open>Control requests\<close>

definition executor_for :: "config \<Rightarrow> execution_context" where
  "executor_for cfg =
     \<lparr> ctx_dry_run = dry_run (cfg_daemon cfg),
       ctx_timeout = command_timeout (cfg_daemon cfg),
       ctx_allowed_executables = allowed_executables (cfg_daemon cfg),
       ctx_managed_processes = managed_processes (cfg_daemon cfg),
       ctx_vaults = cfg_vaults cfg,
       ctx_desktop_notifications = desktop_notifications (cfg_daemon cfg) \<rparr>"

definition rt_load :: "world \<Rightarrow> config rt" where
  "rt_load w =
     (\<lambda>s. let n = rt_tick s
          in Inr (load_config (wl_regex w) (wl_hm w) (wl_loader w n) (rt_config_path s) (rt_allow_unsafe s),
                  s\<lparr>rt_tick := n + 1\<rparr>))"

definition rt_start_sensors :: "world \<Rightarrow> config \<Rightarrow> nat list rt" where
  "rt_start_sensors w cfg =
     (\<lambda>s. let n = rt_tick s
          in Inr (with_context (wl_start_sensors w n cfg) ''restart sensors'', s\<lparr>rt_tick := n + 1\<rparr>))"

definition reload :: "world \<Rightarrow> unit rt" where
  "reload w =
     rt_bind (rt_load w) (\<lambda>cfg.
     rt_bind (rt_start_sensors w cfg) (\<lambda>new_handles.
     rt_bind (rt_modify (\<lambda>s. s\<lparr>rt_aborted := rt_aborted s @ rt_sensor_handles s,
                               rt_sensor_handles := new_handles,
                               rt_engine := replace_rules (rt_engine s) (cfg_rules cfg),
                               rt_executor := executor_for cfg,
                               rt_config := cfg\<rparr>)) (\<lambda>_.
     rt_bind rt_get (\<lambda>s.
     rt_bind (rt_append w None ''configuration_reloaded'' None
                (J_Object [(''rules'', J_Number (int (length (eng_rules (rt_engine s)))))]))
       (\<lambda>_. rt_return ())))))"

definition plan_json :: "world \<Rightarrow> action_plan \<Rightarrow> json" where
  "plan_json w plan =
     J_Object [(''rule_id'', J_String (plan_rule_id plan)), (''priority'', J_Number (plan_priority plan)),
               (''action'', wl_plan_action_json w (plan_action plan))]"

definition rt_recent :: "world \<Rightarrow> nat \<Rightarrow> audit_record list rt" where
  "rt_recent w limit =
     (\<lambda>s. let n = rt_tick s
          in Inr (recent (wl_lib w) (wl_faults w n) (rt_db s) limit, s\<lparr>rt_tick := n + 1\<rparr>))"

definition rt_verify :: "world \<Rightarrow> nat rt" where
  "rt_verify w =
     (\<lambda>s. let n = rt_tick s
          in Inr (verify (wl_lib w) (wl_faults w n) (rt_db s), s\<lparr>rt_tick := n + 1\<rparr>))"

text \<open>\<open>Simulate\<close> runs the event on a clone of the engine.\<close>

definition rt_simulate :: "world \<Rightarrow> event \<Rightarrow> action_plan list rt" where
  "rt_simulate w ev =
     (\<lambda>s. let n = rt_tick s in
          case handle (wl_conditions w n) (rt_engine s) ev of
            Inl p \<Rightarrow> Inl p
          | Inr (_, plans) \<Rightarrow> Inr (Inr plans, s\<lparr>rt_tick := n + 1\<rparr>))"

text \<open>\<open>Event::new\<close> draws a fresh UUID and reads the clock.\<close>

definition rt_event_new :: "world \<Rightarrow> string \<Rightarrow> event_kind \<Rightarrow> event rt" where
  "rt_event_new w source kind =
     (\<lambda>s. let n = rt_tick s
          in Inr (Inr (event_new (wl_uuid w n) (wl_clock w n) source kind), s\<lparr>rt_tick := n + 1\<rparr>))"

fun handle_control_result :: "world \<Rightarrow> request \<Rightarrow> response rt" where
  "handle_control_result w R_Status =
     rt_bind rt_get (\<lambda>s. rt_return (response_success ''Kovert is running'' (Some (J_Object
       [(''version'', J_String (wl_pkg_version w)),
        (''dry_run'', J_Bool (dry_run (cfg_daemon (rt_config s)))),
        (''recovery_mode'', J_Bool (eng_recovery_mode (rt_engine s))),
        (''rules'', J_Number (int (length (eng_rules (rt_engine s))))),
        (''snapshot'', wl_snapshot_json w (eng_snapshot (rt_engine s)))]))))"
| "handle_control_result w R_Rules =
     rt_bind rt_get (\<lambda>s.
     rt_bind (rt_lift (wl_rules_json w (eng_rules (rt_engine s)))) (\<lambda>j.
     rt_return (response_success ''active rules'' (Some j))))"
| "handle_control_result w (R_Audit limit) =
     rt_bind (rt_recent w limit) (\<lambda>records.
     rt_bind (rt_lift (wl_records_json w records)) (\<lambda>j.
     rt_return (response_success ''audit records'' (Some j))))"
| "handle_control_result w R_Reload =
     rt_bind (reload w) (\<lambda>_. rt_return (response_success ''configuration reloaded'' None))"
| "handle_control_result w (R_Trigger name) =
     rt_bind (rt_event_new w ''manual'' (E_Manual name)) (\<lambda>ev.
     rt_bind (process_event w ev) (\<lambda>count.
     rt_return (response_success
       (''manual event processed; '' @ show_nat count @ '' action(s) planned'') None)))"
| "handle_control_result w (R_Simulate ev) =
     rt_bind (rt_simulate w ev) (\<lambda>plans.
     rt_return (response_success (''simulation produced '' @ show_nat (length plans) @ '' action(s)'')
       (Some (J_Object [(''plans'', J_Array (map (plan_json w) plans))]))))"
| "handle_control_result w (R_SetMode mode) =
     rt_bind rt_get (\<lambda>s.
     if \<not> list_ex (\<lambda>item. mode_name item = mode) (cfg_modes (rt_config s))
     then rt_fail (''unknown security mode '' @ mode)
     else
       rt_bind (rt_modify (\<lambda>s. s\<lparr>rt_engine := set_mode (rt_engine s) mode\<rparr>)) (\<lambda>_.
       rt_bind (rt_set_state w ''mode'' mode) (\<lambda>_.
       rt_bind (rt_append w None ''mode_changed'' None (J_Object [(''mode'', J_String mode)])) (\<lambda>_.
       rt_return (response_success ''security mode changed'' None)))))"
| "handle_control_result w (R_Recovery enabled) =
     rt_bind (rt_modify (\<lambda>s. s\<lparr>rt_engine := set_recovery_mode (rt_engine s) enabled\<rparr>)) (\<lambda>_.
     rt_bind (rt_set_state w ''recovery_mode'' (bool_text enabled)) (\<lambda>_.
     rt_bind (rt_append w None ''recovery_mode_changed'' None (J_Object [(''enabled'', J_Bool enabled)])) (\<lambda>_.
     rt_return (response_success
       (if enabled then ''recovery mode enabled; automatic rules are suspended''
        else ''recovery mode disabled; automatic rules are active'') None))))"
| "handle_control_result w R_VerifyAudit =
     rt_bind (rt_verify w) (\<lambda>verified.
     rt_return (response_success (''verified '' @ show_nat verified @ '' audit record(s)'')
       (Some (J_Object [(''verified'', J_Number (int verified))]))))"

definition handle_control :: "world \<Rightarrow> request \<Rightarrow> response rt" where
  "handle_control w request =
     (\<lambda>s. case handle_control_result w request s of
        Inl p \<Rightarrow> Inl p
      | Inr (Inl error, s') \<Rightarrow> Inr (Inr (response_error error), s')
      | Inr (Inr response, s') \<Rightarrow> Inr (Inr response, s'))"

section \<open>Start, loop and stop\<close>

definition configured_mode :: "config \<Rightarrow> string" where
  "configured_mode cfg =
     (case find mode_initial (cfg_modes cfg) of
        Some m \<Rightarrow> mode_name m
      | None \<Rightarrow> (case cfg_modes cfg of m # _ \<Rightarrow> mode_name m | [] \<Rightarrow> ''normal''))"

definition initial_mode :: "config \<Rightarrow> string option \<Rightarrow> string" where
  "initial_mode cfg stored =
     (case stored of
        Some mode \<Rightarrow>
          if cfg_modes cfg = [] \<or> list_ex (\<lambda>item. mode_name item = mode) (cfg_modes cfg)
          then mode else configured_mode cfg
      | None \<Rightarrow> configured_mode cfg)"

definition runtime_new ::
  "sql_faults \<Rightarrow> sql_faults \<Rightarrow> timestamp \<Rightarrow> path \<Rightarrow> bool \<Rightarrow> config \<Rightarrow> audit_db \<Rightarrow> nat list \<Rightarrow> runtime result"
where
  "runtime_new faults faults' now config_path allow_unsafe cfg db handles =
     and_then (get_state faults db ''mode'') (\<lambda>stored_mode.
     and_then (get_state faults' db ''recovery_mode'') (\<lambda>stored_recovery.
     let engine = engine_new now (cfg_rules cfg) (initial_mode cfg stored_mode);
         recovery = is_some_and (\<lambda>value. value = ''true'') stored_recovery
     in Inr \<lparr> rt_config_path = config_path, rt_allow_unsafe = allow_unsafe, rt_config = cfg,
              rt_engine = set_recovery_mode engine recovery, rt_executor = executor_for cfg,
              rt_db = db, rt_max_records = max_records (cfg_audit cfg),
              rt_sensor_handles = handles, rt_aborted = [], rt_trace = [], rt_tick = 0 \<rparr>))"

text \<open>
  What \<open>select!\<close> yields: the shutdown channel closed or carrying its value, an event or the
  end of the event channel, a control request or the end of its channel. A step continues
  the loop or leaves it; an event that fails is logged and the loop goes on.
\<close>

datatype loop_input =
    In_Shutdown "bool option"
  | In_Event "event option"
  | In_Control "request option"

datatype loop_verdict = Continue | Break

fun loop_step :: "world \<Rightarrow> loop_input \<Rightarrow> loop_verdict rt" where
  "loop_step w (In_Shutdown changed) =
     rt_return (if is_none_or (\<lambda>value. value) changed then Break else Continue)"
| "loop_step w (In_Event None) = rt_return Break"
| "loop_step w (In_Event (Some ev)) =
     (\<lambda>s. case process_event w ev s of Inl p \<Rightarrow> Inl p | Inr (_, s') \<Rightarrow> Inr (Inr Continue, s'))"
| "loop_step w (In_Control None) = rt_return Break"
| "loop_step w (In_Control (Some request)) =
     rt_bind (handle_control w request) (\<lambda>_. rt_return Continue)"

text \<open>The loop on a finite stream of inputs; at the end of the stream it waits for more.\<close>

fun run_loop :: "world \<Rightarrow> loop_input list \<Rightarrow> loop_verdict rt" where
  "run_loop w [] = rt_return Continue"
| "run_loop w (i # is) =
     rt_bind (loop_step w i) (\<lambda>v. case v of Break \<Rightarrow> rt_return Break | Continue \<Rightarrow> run_loop w is)"

text \<open>The task: a record of the start, the loop, and on leaving it the sensors' end and a record.\<close>

definition start_runtime :: "world \<Rightarrow> unit rt" where
  "start_runtime w =
     rt_bind rt_get (\<lambda>s.
     rt_bind (rt_append w None ''daemon_started'' None (J_Object
       [(''version'', J_String (wl_pkg_version w)),
        (''dry_run'', J_Bool (dry_run (cfg_daemon (rt_config s)))),
        (''recovery_mode'', J_Bool (eng_recovery_mode (rt_engine s)))])) (\<lambda>_.
     rt_return ()))"

definition stop_runtime :: "world \<Rightarrow> unit rt" where
  "stop_runtime w =
     rt_bind (rt_modify (\<lambda>s. s\<lparr>rt_aborted := rt_aborted s @ rt_sensor_handles s\<rparr>)) (\<lambda>_.
     rt_bind (rt_append w None ''daemon_stopped'' None (J_Object [(''graceful'', J_Bool True)])) (\<lambda>_.
     rt_return ()))"

definition run :: "world \<Rightarrow> loop_input list \<Rightarrow> unit rt" where
  "run w inputs =
     rt_bind (start_runtime w) (\<lambda>_.
     rt_bind (run_loop w inputs) (\<lambda>v.
     case v of Continue \<Rightarrow> rt_return () | Break \<Rightarrow> stop_runtime w))"

end
