(* ===== verification/Runtime_Logic.thy ===== *)
theory Runtime_Logic
  imports Runtime
begin

text \<open>
  A program logic for the runtime. \<open>safe I R m Q\<close>: from a state with the invariant \<open>I\<close>,
  \<open>m\<close> does not panic, keeps \<open>I\<close>, relates the states before and after by \<open>R\<close>, and every
  value it returns satisfies \<open>Q\<close>.

  Three locales state what the loop needs of its steps and what the event path and the control
  path need of the store, the engine and the executor, and derive the contract of the loop
  and of the whole handlers once. They are interpreted for the daemon invariant, for dry-run
  mode and for runs with reloads.
\<close>

definition safe ::
  "(runtime \<Rightarrow> bool) \<Rightarrow> (runtime \<Rightarrow> runtime \<Rightarrow> bool) \<Rightarrow> 'a rt \<Rightarrow> ('a \<Rightarrow> bool) \<Rightarrow> bool" where
  "safe I R m Q \<longleftrightarrow>
     (\<forall>s. I s \<longrightarrow> (\<exists>r s'. m s = Inr (r, s') \<and> I s' \<and> R s s' \<and> (\<forall>x. r = Inr x \<longrightarrow> Q x)))"

abbreviation any :: "'a \<Rightarrow> bool" where
  "any x \<equiv> True"

lemma safeI:
  assumes "\<And>s. I s \<Longrightarrow> \<exists>r s'. m s = Inr (r, s') \<and> I s' \<and> R s s' \<and> (\<forall>x. r = Inr x \<longrightarrow> Q x)"
  shows "safe I R m Q"
  using assms by (simp add: safe_def)

lemma safeE:
  assumes "safe I R m Q" and "I s"
  obtains r s' where "m s = Inr (r, s')" and "I s'" and "R s s'" and "\<And>x. r = Inr x \<Longrightarrow> Q x"
  using assms unfolding safe_def by blast

lemma safe_weaken: "safe I R m Q \<Longrightarrow> (\<And>x. Q x \<Longrightarrow> Q' x) \<Longrightarrow> safe I R m Q'"
  unfolding safe_def by blast

lemma safe_bind:
  assumes "transp R" and "safe I R m P" and "\<And>x. P x \<Longrightarrow> safe I R (k x) Q"
  shows "safe I R (rt_bind m k) Q"
proof (rule safeI)
  fix s
  assume "I s"
  with assms(2) obtain r s' where m: "m s = Inr (r, s')" "I s'" "R s s'" "\<And>x. r = Inr x \<Longrightarrow> P x"
    by (rule safeE) blast
  show "\<exists>r s'. rt_bind m k s = Inr (r, s') \<and> I s' \<and> R s s' \<and> (\<forall>x. r = Inr x \<longrightarrow> Q x)"
  proof (cases r)
    case (Inl e)
    with m show ?thesis by (simp add: rt_bind_def)
  next
    case (Inr x)
    from assms(3) [OF m(4) [OF Inr]] m(2) obtain r' s''
      where k: "k x s' = Inr (r', s'')" "I s''" "R s' s''" "\<And>y. r' = Inr y \<Longrightarrow> Q y"
      by (rule safeE) blast
    with m Inr transpD [OF assms(1)] show ?thesis by (auto simp: rt_bind_def)
  qed
qed

lemma handle_control_of_result:
  assumes "safe I R (handle_control_result w q) any"
  shows "safe I R (handle_control w q) any"
proof (rule safeI)
  fix s
  assume "I s"
  with assms obtain r s' where "handle_control_result w q s = Inr (r, s')" "I s'" "R s s'"
    by (rule safeE) blast
  then show "\<exists>r s'. handle_control w q s = Inr (r, s') \<and> I s' \<and> R s s' \<and> (\<forall>x. r = Inr x \<longrightarrow> True)"
    by (cases r) (simp_all add: handle_control_def)
qed

section \<open>The loop\<close>

text \<open>What the loop needs of its steps, for the inputs it may see.\<close>

locale loop_contract =
  fixes w :: world
    and I :: "runtime \<Rightarrow> bool"
    and R :: "runtime \<Rightarrow> runtime \<Rightarrow> bool"
    and allowed :: "loop_input \<Rightarrow> bool"
  assumes step_refl: "R s s"
    and step_trans: "R s t \<Longrightarrow> R t u \<Longrightarrow> R s u"
    and step_safe: "allowed i \<Longrightarrow> safe I R (loop_step w i) any"
begin

lemma run_loop_safe: "\<forall>i \<in> set is. allowed i \<Longrightarrow> safe I R (run_loop w is) any"
proof (induction "is")
  case Nil
  show ?case by (simp add: safe_def rt_return_def step_refl)
next
  case (Cons i "is")
  have stop: "safe I R (rt_return Break) any" by (simp add: safe_def rt_return_def step_refl)
  have "transp R" by (rule transpI) (rule step_trans)
  with Cons stop show ?case
    by (auto intro!: safe_bind [OF _ step_safe] split: loop_verdict.split)
qed

end

section \<open>The event path\<close>

text \<open>
  \<open>A\<close> describes the actions the engine plans, \<open>E\<close> the outcomes the executor returns for
  them.
\<close>

locale event_contract =
  fixes w :: world
    and I :: "runtime \<Rightarrow> bool"
    and R :: "runtime \<Rightarrow> runtime \<Rightarrow> bool"
    and A :: "action_spec \<Rightarrow> bool"
    and E :: "action_outcome \<Rightarrow> bool"
  assumes R_refl: "R s s"
    and R_trans: "R s t \<Longrightarrow> R t u \<Longrightarrow> R s u"
    and append_safe: "safe I R (rt_append w oe k ro payload) any"
    and completed_safe: "safe I R (rt_action_completed w e r action_hash) any"
    and record_safe: "safe I R (rt_record_action w e r action_hash status outcome) any"
    and handle_safe: "safe I R (rt_handle w ev) (\<lambda>plans. \<forall>p \<in> set plans. A (plan_action p))"
    and execute_safe: "A a \<Longrightarrow> safe I R (rt_execute w a ev) (\<lambda>res. \<forall>out. res = Inr out \<longrightarrow> E out)"
    and effect_safe: "E out \<Longrightarrow> out_success out \<Longrightarrow> \<not> out_dry_run out \<Longrightarrow> safe I R (apply_effect w (out_effect out)) any"
begin

lemma return_safe: "Q x \<Longrightarrow> safe I R (rt_return x) Q"
  by (simp add: safe_def rt_return_def R_refl)

lemma fail_safe: "safe I R (rt_fail e) Q"
  by (simp add: safe_def rt_fail_def R_refl)

lemma lift_safe: "(\<And>x. r = Inr x \<Longrightarrow> Q x) \<Longrightarrow> safe I R (rt_lift r) Q"
  by (simp add: safe_def rt_lift_def R_refl)

lemma get_safe: "safe I R rt_get I"
  by (simp add: safe_def rt_get_def R_refl)

lemma R_transp: "transp R"
  by (rule transpI) (rule R_trans)

lemmas bind_safe = safe_bind [OF R_transp]

lemma lift_bind_safe:
  "(\<And>x. r = Inr x \<Longrightarrow> safe I R (k x) Q) \<Longrightarrow> safe I R (rt_bind (rt_lift r) k) Q"
  by (rule bind_safe [where P = "\<lambda>x. r = Inr x"]) (auto intro: lift_safe)

lemma if_safe: "(b \<Longrightarrow> safe I R m Q) \<Longrightarrow> (\<not> b \<Longrightarrow> safe I R n Q) \<Longrightarrow> safe I R (if b then m else n) Q"
  by simp

lemma finish_plan_safe:
  assumes "\<forall>out. r = Inr out \<longrightarrow> E out"
  shows "safe I R (finish_plan w event_id plan action_hash r) any"
proof (cases r)
  case (Inl e)
  then show ?thesis
    by (auto simp: finish_plan_def Let_def intro!: bind_safe [OF record_safe] bind_safe [OF append_safe] return_safe)
next
  case (Inr out)
  with assms show ?thesis
    by (auto simp: finish_plan_def intro!: lift_bind_safe bind_safe [OF record_safe]
        bind_safe [OF append_safe] return_safe effect_safe)
qed

lemma execute_plan_safe: "A (plan_action plan) \<Longrightarrow> safe I R (execute_plan w ev plan) any"
  unfolding execute_plan_def Let_def
  by (intro lift_bind_safe bind_safe [OF completed_safe] if_safe return_safe bind_safe [OF record_safe]
      bind_safe [OF append_safe] bind_safe [OF execute_safe] finish_plan_safe TrueI)

lemma execute_plans_safe: "\<forall>p \<in> set plans. A (plan_action p) \<Longrightarrow> safe I R (execute_plans w ev plans) any"
proof (induction plans)
  case Nil
  show ?case by (simp add: return_safe)
next
  case (Cons plan plans)
  then show ?case by (auto intro!: bind_safe [OF execute_plan_safe])
qed

lemma process_event_safe: "safe I R (process_event w ev) any"
  unfolding process_event_def
  by (intro lift_bind_safe bind_safe [OF append_safe] bind_safe [OF handle_safe]
      bind_safe [OF execute_plans_safe] return_safe TrueI)

end

section \<open>The control path\<close>

text \<open>Every request but \<open>Reload\<close>, which replaces the configuration the invariant is about.\<close>

locale control_contract = event_contract +
  assumes set_mode_safe: "(\<exists>s. I s \<and> mode \<in> mode_name ` set (cfg_modes (rt_config s))) \<Longrightarrow>
      safe I R (rt_modify (\<lambda>s. s\<lparr>rt_engine := set_mode (rt_engine s) mode\<rparr>)) any"
    and recovery_safe: "safe I R (rt_modify (\<lambda>s. s\<lparr>rt_engine := set_recovery_mode (rt_engine s) enabled\<rparr>)) any"
    and state_safe: "key \<in> {''mode'', ''recovery_mode''} \<Longrightarrow> safe I R (rt_set_state w key value) any"
    and recent_safe: "safe I R (rt_recent w limit) any"
    and verify_safe: "safe I R (rt_verify w) any"
    and simulate_safe: "safe I R (rt_simulate w ev) any"
    and event_new_safe: "safe I R (rt_event_new w source kind) any"
begin

lemma control_result_safe: "request \<noteq> R_Reload \<Longrightarrow> safe I R (handle_control_result w request) any"
proof (cases request)
  case (R_SetMode mode)
  show ?thesis
    unfolding R_SetMode handle_control_result.simps
  proof (rule bind_safe [OF get_safe], rule if_safe)
    fix s
    assume "I s" and "\<not> \<not> list_ex (\<lambda>item. mode_name item = mode) (cfg_modes (rt_config s))"
    then have "safe I R (rt_modify (\<lambda>s. s\<lparr>rt_engine := set_mode (rt_engine s) mode\<rparr>)) any"
      by (intro set_mode_safe) (auto simp: list_ex_iff)
    then show "safe I R (rt_bind (rt_modify (\<lambda>s. s\<lparr>rt_engine := set_mode (rt_engine s) mode\<rparr>)) (\<lambda>_.
       rt_bind (rt_set_state w ''mode'' mode) (\<lambda>_.
       rt_bind (rt_append w None ''mode_changed'' None (J_Object [(''mode'', J_String mode)])) (\<lambda>_.
       rt_return (response_success ''security mode changed'' None))))) any"
      by (rule bind_safe) (intro bind_safe [OF state_safe] bind_safe [OF append_safe] return_safe, simp_all)
  qed (rule fail_safe)
next
  case (R_Recovery enabled)
  show ?thesis
    unfolding R_Recovery handle_control_result.simps
    by (intro bind_safe [OF recovery_safe] bind_safe [OF state_safe] bind_safe [OF append_safe] return_safe)
      simp_all
qed (auto intro!: bind_safe [OF get_safe] lift_bind_safe bind_safe [OF recent_safe]
    bind_safe [OF event_new_safe] bind_safe [OF process_event_safe] bind_safe [OF simulate_safe]
    bind_safe [OF verify_safe] return_safe)

lemma handle_control_safe: "request \<noteq> R_Reload \<Longrightarrow> safe I R (handle_control w request) any"
  by (intro handle_control_of_result control_result_safe)

lemma loop_step_safe:
  assumes "i \<noteq> In_Control (Some R_Reload)"
  shows "safe I R (loop_step w i) any"
proof (cases i)
  case (In_Event oev)
  show ?thesis
  proof (cases oev)
    case None
    with In_Event show ?thesis by (simp add: return_safe)
  next
    case (Some ev)
    show ?thesis
    proof (rule safeI)
      fix s
      assume "I s"
      with process_event_safe [of ev]
      obtain r s' where "process_event w ev s = Inr (r, s')" "I s'" "R s s'" by (rule safeE) blast
      with In_Event Some
      show "\<exists>r s'. loop_step w i s = Inr (r, s') \<and> I s' \<and> R s s' \<and> (\<forall>x. r = Inr x \<longrightarrow> True)" by simp
    qed
  qed
next
  case (In_Control request)
  with assms show ?thesis
    by (cases request) (auto intro: return_safe bind_safe [OF handle_control_safe])
qed (simp add: return_safe)

end

sublocale control_contract \<subseteq> loop: loop_contract w I R "\<lambda>i. i \<noteq> In_Control (Some R_Reload)"
  by unfold_locales (rule R_refl, erule (1) R_trans, rule loop_step_safe)

end
