(* ===== verification/Runtime_Invariant.thy ===== *)
theory Runtime_Invariant
  imports Runtime_Logic Actions_Spec Audit_Store Validation_Spec Engine_Properties
begin

text \<open>
  The invariant of the running daemon and the two interpretations of the runtime contracts:
  for the invariant with confinement of every effect, and for dry-run mode.
\<close>

section \<open>What executing an action returns\<close>

definition yields :: "('a \<Rightarrow> bool) \<Rightarrow> 'a act \<Rightarrow> bool" where
  "yields Q m \<longleftrightarrow> (\<forall>tr x. fst (m tr) = Inr x \<longrightarrow> Q x)"

lemma yields_bind: "(\<And>x. yields Q (k x)) \<Longrightarrow> yields Q (act_bind m k)"
  by (auto simp: yields_def act_bind_def split: prod.splits sum.splits)

lemma yields_fail: "yields Q (act_fail e)"
  by (simp add: yields_def act_fail_def)

lemma yields_return: "Q x \<Longrightarrow> yields Q (act_return x)"
  by (simp add: yields_def act_return_def)

lemma yields_if: "(b \<Longrightarrow> yields Q m) \<Longrightarrow> (\<not> b \<Longrightarrow> yields Q n) \<Longrightarrow> yields Q (if b then m else n)"
  by simp

text \<open>A real execution is not marked as dry, and changes the mode only for a \<open>set_mode\<close> action.\<close>

definition real_outcome :: "action_spec \<Rightarrow> action_outcome \<Rightarrow> bool" where
  "real_outcome action out \<longleftrightarrow>
     \<not> out_dry_run out \<and> (\<forall>mode. out_effect out = Set_Mode_Effect mode \<longrightarrow> action = A_SetMode mode)"

lemma yields_command: "yields (real_outcome action) (outcome_command h message result)"
  by (simp add: yields_def outcome_command_def real_outcome_def)

lemma yields_internal:
  "(\<And>mode. effect = Set_Mode_Effect mode \<Longrightarrow> action = A_SetMode mode) \<Longrightarrow>
   yields (real_outcome action) (outcome_internal h message effect)"
  by (simp add: yields_def outcome_internal_def real_outcome_def)

lemma yields_isolation:
  "yields (real_outcome action)
     (act_bind (outcome_command h message result) (\<lambda>outcome. act_return
        (if out_success outcome then outcome\<lparr>out_effect := Network_Isolation_Effect enabled\<rparr> else outcome)))"
  by (simp add: yields_def act_bind_def outcome_command_def act_return_def real_outcome_def)

lemma yields_execute_arm: "yields (real_outcome action) (execute_arm h ctx action ev)"
proof (cases action)
  case (A_NetworkIsolation enabled)
  show ?thesis
    unfolding A_NetworkIsolation execute_arm.simps by (intro yields_bind [of _ _ "run_tool _ _ _ _"] yields_isolation)
qed (auto simp: Let_def intro!: yields_bind yields_if yields_fail yields_command yields_internal)

lemma execute_outcome:
  assumes "execute show_action h ctx action ev tr = (Inr out, tr')"
  shows "out_dry_run out = ctx_dry_run ctx"
    and "out_effect out = Set_Mode_Effect mode \<Longrightarrow> action = A_SetMode mode"
    and "ctx_dry_run ctx \<Longrightarrow> tr' = tr"
  using assms yields_execute_arm [of action h ctx ev]
  by (auto simp: execute_def act_return_def outcome_dry_run_def yields_def real_outcome_def
      split: if_splits) (metis fst_conv)+

lemma execute_dry_run: "ctx_dry_run ctx \<Longrightarrow> snd (execute show_action h ctx action ev tr) = tr"
  by (simp add: execute_def act_return_def)

section \<open>The daemon invariant\<close>

definition mode_ok :: "config \<Rightarrow> string \<Rightarrow> bool" where
  "mode_ok cfg mode \<longleftrightarrow> cfg_modes cfg = [] \<or> mode \<in> mode_name ` set (cfg_modes cfg)"

definition current_mode :: "runtime \<Rightarrow> string" where
  "current_mode s = snap_mode (eng_snapshot (rt_engine s))"

definition daemon_inv :: "world \<Rightarrow> config \<Rightarrow> runtime \<Rightarrow> bool" where
  "daemon_inv w cfg s \<longleftrightarrow>
     config_ok (wl_regex w) (wl_hm w) cfg \<and> rt_config s = cfg \<and> rt_executor s = executor_for cfg \<and>
     wf_engine (rt_engine s) \<and> set (eng_rules (rt_engine s)) = set (cfg_rules cfg) \<and>
     mode_ok cfg (current_mode s) \<and> store_inv (wl_lib w) (rt_max_records s) (rt_db s)"

text \<open>Effects the daemon may have: those some validated action permits.\<close>

definition daemon_effect :: "world \<Rightarrow> config \<Rightarrow> effect \<Rightarrow> bool" where
  "daemon_effect w cfg fx \<longleftrightarrow>
     (\<exists>n action. action_ok cfg action \<and> permitted (wl_processes w n) (executor_for cfg) action fx)"

text \<open>A step only adds such effects; the clock of calls advances and the start options stay.\<close>

definition daemon_rel :: "world \<Rightarrow> config \<Rightarrow> runtime \<Rightarrow> runtime \<Rightarrow> bool" where
  "daemon_rel w cfg s s' \<longleftrightarrow>
     (\<exists>fx. rt_trace s' = rt_trace s @ fx \<and> list_all (daemon_effect w cfg) fx) \<and>
     rt_tick s \<le> rt_tick s' \<and> rt_config_path s' = rt_config_path s \<and> rt_allow_unsafe s' = rt_allow_unsafe s"

lemma daemon_rel_refl: "daemon_rel w cfg s s"
  by (simp add: daemon_rel_def)

lemma daemon_rel_trans: "daemon_rel w cfg s t \<Longrightarrow> daemon_rel w cfg t u \<Longrightarrow> daemon_rel w cfg s u"
  by (auto simp: daemon_rel_def)

lemma daemon_rel_transp: "transp (daemon_rel w cfg)"
  by (rule transpI) (rule daemon_rel_trans)

lemma daemon_rel_same:
  "rt_trace s' = rt_trace s \<Longrightarrow> rt_tick s \<le> rt_tick s' \<Longrightarrow> rt_config_path s' = rt_config_path s \<Longrightarrow>
   rt_allow_unsafe s' = rt_allow_unsafe s \<Longrightarrow> daemon_rel w cfg s s'"
  by (simp add: daemon_rel_def)

lemma daemon_inv_db:
  "daemon_inv w cfg s \<Longrightarrow> store_inv (wl_lib w) (rt_max_records s) db \<Longrightarrow>
   daemon_inv w cfg (s\<lparr>rt_db := db, rt_tick := n\<rparr>)"
  by (simp add: daemon_inv_def current_mode_def)

lemma daemon_inv_tick: "daemon_inv w cfg (s\<lparr>rt_tick := n\<rparr>) \<longleftrightarrow> daemon_inv w cfg s"
  by (simp add: daemon_inv_def current_mode_def)

lemma daemon_inv_trace: "daemon_inv w cfg (s\<lparr>rt_trace := tr, rt_tick := n\<rparr>) \<longleftrightarrow> daemon_inv w cfg s"
  by (simp add: daemon_inv_def current_mode_def)

text \<open>The database calls keep the store's invariant and touch nothing else.\<close>

lemma append_result:
  assumes "daemon_inv w cfg s"
  shows "\<exists>r db. rt_append w e k ru p s = Inr (r, s\<lparr>rt_db := db, rt_tick := rt_tick s + 1\<rparr>) \<and>
    store_inv (wl_lib w) (rt_max_records s) db \<and>
    (\<forall>key. key \<noteq> audit_anchor \<longrightarrow> db_state db key = db_state (rt_db s) key)"
proof -
  let ?a = "audit_append (wl_lib w) (wl_faults w (rt_tick s)) (wl_clock w (rt_tick s)) (rt_max_records s)
    (rt_db s) e k ru p"
  obtain r db where a: "?a = (r, db)" by fastforce
  have inv: "audit_wf (wl_lib w) (rt_db s)" "int (unat (rt_max_records s)) \<le> max_row_id"
    using assms by (simp_all add: daemon_inv_def store_inv_def)
  have "\<forall>key. key \<noteq> audit_anchor \<longrightarrow> db_state db key = db_state (rt_db s) key"
  proof (cases r)
    case (Inl err)
    with a show ?thesis using audit_append_Inl by blast
  next
    case (Inr rc)
    with audit_append_spec(7) [OF inv a [unfolded Inr]] show ?thesis by blast
  qed
  with a audit_append_wf [OF inv a] inv show ?thesis
    by (auto simp: rt_append_def Let_def store_inv_def)
qed

lemma set_state_result:
  assumes "daemon_inv w cfg s" and "key \<noteq> audit_anchor"
  shows "\<exists>r db. rt_set_state w key value s = Inr (r, s\<lparr>rt_db := db, rt_tick := rt_tick s + 1\<rparr>) \<and>
    store_inv (wl_lib w) (rt_max_records s) db"
proof -
  obtain r db where "set_state (wl_faults w (rt_tick s)) (rt_db s) key value = (r, db)" by fastforce
  with assms set_state_wf show ?thesis
    by (fastforce simp: rt_set_state_def Let_def daemon_inv_def store_inv_def)
qed

lemma record_result:
  assumes "daemon_inv w cfg s"
  shows "\<exists>r db. rt_record_action w e ru ah st out s = Inr (r, s\<lparr>rt_db := db, rt_tick := rt_tick s + 1\<rparr>) \<and>
    store_inv (wl_lib w) (rt_max_records s) db \<and> db_state db = db_state (rt_db s)"
proof -
  obtain r db where a: "record_action (wl_lib w) (wl_faults w (rt_tick s)) (wl_clock w (rt_tick s)) (rt_db s)
    e ru ah st out = (r, db)" by fastforce
  then have "db_state db = db_state (rt_db s)" by (auto simp: record_action_def split: option.splits)
  moreover have "audit_wf (wl_lib w) db"
    using record_action_wf [OF _ a] assms by (simp add: daemon_inv_def store_inv_def)
  ultimately show ?thesis
    using a assms by (auto simp: rt_record_action_def Let_def daemon_inv_def store_inv_def)
qed

lemma handle_runtime_result:
  assumes "daemon_inv w cfg s"
  shows "\<exists>e plans. handle h (rt_engine s) ev = Inr (e, plans) \<and>
    daemon_inv w cfg (s\<lparr>rt_engine := e, rt_tick := n\<rparr>) \<and>
    current_mode (s\<lparr>rt_engine := e, rt_tick := n\<rparr>) = current_mode s \<and>
    (\<forall>p \<in> set plans. action_ok cfg (plan_action p))"
proof -
  have wf: "wf_engine (rt_engine s)" using assms by (simp add: daemon_inv_def)
  obtain e plans where h: "handle h (rt_engine s) ev = Inr (e, plans)"
    using handle_spec [OF wf, of h ev] by metis
  note res = handle_result [OF wf h]
  have "action_ok cfg (plan_action p)" if p: "p \<in> set plans" for p
  proof (rule plan_origin [OF wf h p])
    fix r
    assume "r \<in> set (eng_rules (rt_engine s))"
      and origin: "plan_action p \<in> set (rule_actions r) \<or> (\<exists>t m u. plan_action p = A_Notify t m u)"
    with assms have "\<forall>a \<in> set (rule_actions r). action_ok cfg a"
      by (simp add: daemon_inv_def config_ok_def rule_ok_def)
    with origin show ?thesis by (elim disjE exE) simp_all
  qed
  with h assms res(1-3) show ?thesis
    by (simp add: daemon_inv_def current_mode_def)
qed

section \<open>The daemon keeps its invariant\<close>

lemma set_mode_inv:
  "daemon_inv w cfg s \<Longrightarrow> mode_ok cfg mode \<Longrightarrow> daemon_inv w cfg (s\<lparr>rt_engine := set_mode (rt_engine s) mode\<rparr>)"
  by (simp add: daemon_inv_def current_mode_def) (simp add: set_mode_def)

lemma set_recovery_snapshot [simp]: "eng_snapshot (set_recovery_mode e b) = eng_snapshot e"
  by (simp add: set_recovery_mode_def Let_def)

lemma set_recovery_inv:
  "daemon_inv w cfg s \<Longrightarrow> daemon_inv w cfg (s\<lparr>rt_engine := set_recovery_mode (rt_engine s) b\<rparr>)"
  by (simp add: daemon_inv_def current_mode_def set_recovery_mode_wf)

lemma daemon_keys: "''mode'' \<noteq> audit_anchor" "''recovery_mode'' \<noteq> audit_anchor" "''network_isolated'' \<noteq> audit_anchor"
  by (simp_all add: audit_anchor_def)

lemma safe_db_call:
  assumes "\<And>s. daemon_inv w cfg s \<Longrightarrow>
    \<exists>r db. m s = Inr (r, s\<lparr>rt_db := db, rt_tick := rt_tick s + 1\<rparr>) \<and> store_inv (wl_lib w) (rt_max_records s) db"
  shows "safe (daemon_inv w cfg) (daemon_rel w cfg) m any"
proof (rule safeI)
  fix s
  assume inv: "daemon_inv w cfg s"
  from assms [OF this] obtain r db where m: "m s = Inr (r, s\<lparr>rt_db := db, rt_tick := rt_tick s + 1\<rparr>)"
    and "store_inv (wl_lib w) (rt_max_records s) db" by blast
  from daemon_inv_db [OF inv this(2)] have "daemon_inv w cfg (s\<lparr>rt_db := db, rt_tick := rt_tick s + 1\<rparr>)" .
  moreover have "daemon_rel w cfg s (s\<lparr>rt_db := db, rt_tick := rt_tick s + 1\<rparr>)" by (rule daemon_rel_same) simp_all
  ultimately show "\<exists>r s'. m s = Inr (r, s') \<and> daemon_inv w cfg s' \<and> daemon_rel w cfg s s' \<and> (\<forall>x. r = Inr x \<longrightarrow> True)"
    using m by blast
qed

lemma daemon_set_state:
  "key \<noteq> audit_anchor \<Longrightarrow> safe (daemon_inv w cfg) (daemon_rel w cfg) (rt_set_state w key value) any"
  by (rule safe_db_call) (rule set_state_result)

lemma daemon_append: "safe (daemon_inv w cfg) (daemon_rel w cfg) (rt_append w e k ru p) any"
  by (rule safe_db_call) (use append_result in blast)

lemma daemon_record: "safe (daemon_inv w cfg) (daemon_rel w cfg) (rt_record_action w e ru ah st out) any"
  by (rule safe_db_call) (use record_result in blast)

lemma daemon_handle:
  "safe (daemon_inv w cfg) (daemon_rel w cfg) (rt_handle w ev) (\<lambda>plans. \<forall>p \<in> set plans. action_ok cfg (plan_action p))"
proof (rule safeI)
  fix s
  assume "daemon_inv w cfg s"
  from handle_runtime_result [OF this, of "wl_conditions w (rt_tick s)" ev "rt_tick s + 1"]
  obtain e plans where "handle (wl_conditions w (rt_tick s)) (rt_engine s) ev = Inr (e, plans)"
    "daemon_inv w cfg (s\<lparr>rt_engine := e, rt_tick := rt_tick s + 1\<rparr>)"
    "\<forall>p \<in> set plans. action_ok cfg (plan_action p)" by blast
  then show "\<exists>r s'. rt_handle w ev s = Inr (r, s') \<and> daemon_inv w cfg s' \<and> daemon_rel w cfg s s' \<and>
      (\<forall>x. r = Inr x \<longrightarrow> (\<forall>p \<in> set x. action_ok cfg (plan_action p)))"
    by (simp add: rt_handle_def Let_def daemon_rel_def)
qed

definition daemon_outcome :: "config \<Rightarrow> action_outcome \<Rightarrow> bool" where
  "daemon_outcome cfg out \<longleftrightarrow>
     (\<forall>mode. out_effect out = Set_Mode_Effect mode \<longrightarrow> mode \<in> mode_name ` set (cfg_modes cfg))"

lemma daemon_execute:
  assumes "action_ok cfg a"
  shows "safe (daemon_inv w cfg) (daemon_rel w cfg) (rt_execute w a ev)
    (\<lambda>r. \<forall>out. r = Inr out \<longrightarrow> daemon_outcome cfg out)"
proof (rule safeI)
  fix s
  assume inv: "daemon_inv w cfg s"
  let ?h = "wl_processes w (rt_tick s)"
  obtain r tr where x: "execute (wl_show_action w) ?h (rt_executor s) a ev (rt_trace s) = (r, tr)"
    by fastforce
  obtain fx where "tr = rt_trace s @ fx" "list_all (permitted ?h (rt_executor s) a) fx"
    using emits_execute [of ?h "rt_executor s" a "wl_show_action w" ev] x unfolding emits_def
    by (metis snd_conv)
  moreover have "rt_executor s = executor_for cfg" using inv by (simp add: daemon_inv_def)
  ultimately have "daemon_rel w cfg s (s\<lparr>rt_trace := tr, rt_tick := rt_tick s + 1\<rparr>)"
    using assms by (auto simp: daemon_rel_def daemon_effect_def list_all_iff)
  moreover have "daemon_outcome cfg out" if "r = Inr out" for out
    using execute_outcome(2) [OF x [unfolded that]] assms by (auto simp: daemon_outcome_def)
  ultimately show "\<exists>r s'. rt_execute w a ev s = Inr (r, s') \<and> daemon_inv w cfg s' \<and> daemon_rel w cfg s s' \<and>
      (\<forall>x. r = Inr x \<longrightarrow> (\<forall>out. x = Inr out \<longrightarrow> daemon_outcome cfg out))"
    using inv x by (simp add: rt_execute_def Let_def daemon_inv_trace)
qed

lemma safe_modify:
  assumes "\<And>s. I s \<Longrightarrow> I (f s) \<and> R s (f s)"
  shows "safe I R (rt_modify f) any"
  using assms by (simp add: safe_def rt_modify_def)

lemma daemon_set_mode:
  "mode_ok cfg mode \<Longrightarrow>
   safe (daemon_inv w cfg) (daemon_rel w cfg) (rt_modify (\<lambda>s. s\<lparr>rt_engine := set_mode (rt_engine s) mode\<rparr>)) any"
  by (rule safe_modify) (simp add: set_mode_inv daemon_rel_same)

lemma daemon_effect_safe:
  assumes "daemon_outcome cfg out"
  shows "safe (daemon_inv w cfg) (daemon_rel w cfg) (apply_effect w (out_effect out)) any"
proof (cases "out_effect out")
  case No_Effect
  then show ?thesis by (simp add: apply_effect_def safe_def rt_return_def daemon_rel_refl)
next
  case (Set_Mode_Effect mode)
  with assms have "mode_ok cfg mode" by (simp add: daemon_outcome_def mode_ok_def)
  from safe_bind [OF daemon_rel_transp daemon_set_mode [OF this] daemon_set_state [OF daemon_keys(1)]]
  show ?thesis using Set_Mode_Effect by (simp add: apply_effect_def)
next
  case (Network_Isolation_Effect b)
  then show ?thesis by (simp add: apply_effect_def daemon_set_state [OF daemon_keys(3)])
qed

lemma safe_query:
  assumes "\<And>s. m s = Inr (f s, s\<lparr>rt_tick := rt_tick s + 1\<rparr>)"
  shows "safe (daemon_inv w cfg) (daemon_rel w cfg) m any"
  using assms by (auto simp: safe_def daemon_inv_tick daemon_rel_def)

interpretation daemon: control_contract w "daemon_inv w cfg" "daemon_rel w cfg" "action_ok cfg"
  "daemon_outcome cfg" for w cfg
proof unfold_locales
  show "safe (daemon_inv w cfg) (daemon_rel w cfg) (rt_action_completed w e r action_hash) any" for e r action_hash
    by (rule safe_query) (simp add: rt_action_completed_def Let_def)
  show "safe (daemon_inv w cfg) (daemon_rel w cfg) (rt_recent w limit) any" for limit
    by (rule safe_query) (simp add: rt_recent_def Let_def)
  show "safe (daemon_inv w cfg) (daemon_rel w cfg) (rt_verify w) any"
    by (rule safe_query) (simp add: rt_verify_def Let_def)
  show "safe (daemon_inv w cfg) (daemon_rel w cfg) (rt_event_new w source kind) any" for source kind
    by (rule safe_query) (simp add: rt_event_new_def Let_def)
  show "safe (daemon_inv w cfg) (daemon_rel w cfg) (rt_simulate w ev) any" for ev
  proof (rule safeI)
    fix s
    assume inv: "daemon_inv w cfg s"
    from handle_runtime_result [OF this, of "wl_conditions w (rt_tick s)" ev 0]
    obtain e plans where "handle (wl_conditions w (rt_tick s)) (rt_engine s) ev = Inr (e, plans)" by blast
    then show "\<exists>r s'. rt_simulate w ev s = Inr (r, s') \<and> daemon_inv w cfg s' \<and> daemon_rel w cfg s s' \<and>
        (\<forall>x. r = Inr x \<longrightarrow> True)"
      using inv by (simp add: rt_simulate_def Let_def daemon_inv_tick daemon_rel_def)
  qed
  show "safe (daemon_inv w cfg) (daemon_rel w cfg) (rt_modify (\<lambda>s. s\<lparr>rt_engine := set_mode (rt_engine s) mode\<rparr>)) any"
    if "\<exists>s. daemon_inv w cfg s \<and> mode \<in> mode_name ` set (cfg_modes (rt_config s))" for mode
    by (rule daemon_set_mode) (use that in \<open>auto simp: daemon_inv_def mode_ok_def\<close>)
  show "safe (daemon_inv w cfg) (daemon_rel w cfg)
      (rt_modify (\<lambda>s. s\<lparr>rt_engine := set_recovery_mode (rt_engine s) enabled\<rparr>)) any" for enabled
    by (rule safe_modify) (simp add: set_recovery_inv daemon_rel_same)
  show "safe (daemon_inv w cfg) (daemon_rel w cfg) (rt_set_state w key v) any"
    if "key \<in> {''mode'', ''recovery_mode''}" for key v
    by (rule daemon_set_state) (use that daemon_keys in auto)
qed (rule daemon_rel_refl daemon_append daemon_record daemon_handle daemon_execute daemon_effect_safe |
    erule (1) daemon_rel_trans | assumption)+

section \<open>Dry-run mode\<close>

definition dry_inv :: "world \<Rightarrow> config \<Rightarrow> runtime \<Rightarrow> bool" where
  "dry_inv w cfg s \<longleftrightarrow> daemon_inv w cfg s \<and> dry_run (cfg_daemon cfg)"

definition dry_rel :: "runtime \<Rightarrow> runtime \<Rightarrow> bool" where
  "dry_rel s s' \<longleftrightarrow> rt_trace s' = rt_trace s"

text \<open>An event in dry-run mode leaves the mode and the stored state alone too.\<close>

definition dry_event_rel :: "runtime \<Rightarrow> runtime \<Rightarrow> bool" where
  "dry_event_rel s s' \<longleftrightarrow>
     rt_trace s' = rt_trace s \<and> current_mode s' = current_mode s \<and>
     (\<forall>key. key \<noteq> audit_anchor \<longrightarrow> db_state (rt_db s') key = db_state (rt_db s) key)"

lemma dry_safe:
  assumes "safe (daemon_inv w cfg) (daemon_rel w cfg) m Q"
    and "\<And>s r s'. dry_inv w cfg s \<Longrightarrow> m s = Inr (r, s') \<Longrightarrow> R s s'"
  shows "safe (dry_inv w cfg) R m Q"
proof (rule safeI)
  fix s
  assume dry: "dry_inv w cfg s"
  then have "daemon_inv w cfg s" by (simp add: dry_inv_def)
  with assms(1) obtain r s' where m: "m s = Inr (r, s')" "daemon_inv w cfg s'" "\<And>x. r = Inr x \<Longrightarrow> Q x"
    by (rule safeE) blast
  with assms(2) [OF dry m(1)] dry
  show "\<exists>r s'. m s = Inr (r, s') \<and> dry_inv w cfg s' \<and> R s s' \<and> (\<forall>x. r = Inr x \<longrightarrow> Q x)"
    by (simp add: dry_inv_def)
qed

lemma dry_execute_step:
  assumes "dry_inv w cfg s" and "rt_execute w a ev s = Inr (r, s')"
  shows "s' = s\<lparr>rt_tick := rt_tick s + 1\<rparr>" and "r = Inr (Inr out) \<Longrightarrow> out_dry_run out"
proof -
  have "ctx_dry_run (rt_executor s)" using assms(1) by (simp add: dry_inv_def daemon_inv_def executor_for_def)
  with assms(2) show "s' = s\<lparr>rt_tick := rt_tick s + 1\<rparr>" and "r = Inr (Inr out) \<Longrightarrow> out_dry_run out"
    by (auto simp: rt_execute_def execute_def act_return_def outcome_dry_run_def Let_def)
qed

lemma dry_execute:
  assumes "\<And>s n. R s (s\<lparr>rt_tick := n\<rparr>)"
  shows "safe (dry_inv w cfg) R (rt_execute w a ev) (\<lambda>r. \<forall>out. r = Inr out \<longrightarrow> out_dry_run out)"
proof (rule safeI)
  fix s
  assume dry: "dry_inv w cfg s"
  have "\<exists>r s'. rt_execute w a ev s = Inr (r, s')"
    by (simp add: rt_execute_def Let_def split: prod.splits)
  then obtain r s' where x: "rt_execute w a ev s = Inr (r, s')" by blast
  from dry_execute_step [OF dry x] dry assms have "dry_inv w cfg s'" "R s s'"
    "\<forall>x. r = Inr x \<longrightarrow> (\<forall>out. x = Inr out \<longrightarrow> out_dry_run out)"
    by (auto simp: dry_inv_def daemon_inv_tick)
  with x show "\<exists>r s'. rt_execute w a ev s = Inr (r, s') \<and> dry_inv w cfg s' \<and> R s s' \<and>
      (\<forall>x. r = Inr x \<longrightarrow> (\<forall>out. x = Inr out \<longrightarrow> out_dry_run out))" by blast
qed

lemma dry_append_step:
  assumes "dry_inv w cfg s" and "rt_append w e k ru p s = Inr (r, s')"
  shows "dry_event_rel s s'"
  using append_result [of w cfg s e k ru p] assms
  by (auto simp: dry_inv_def dry_event_rel_def current_mode_def)

lemma dry_record_step:
  assumes "dry_inv w cfg s" and "rt_record_action w e ru ah st out s = Inr (r, s')"
  shows "dry_event_rel s s'"
  using record_result [of w cfg s e ru ah st out] assms
  by (auto simp: dry_inv_def dry_event_rel_def current_mode_def)

lemma dry_handle_step:
  assumes "dry_inv w cfg s" and "rt_handle w ev s = Inr (r, s')"
  shows "dry_event_rel s s'"
  using handle_runtime_result [of w cfg s "wl_conditions w (rt_tick s)" ev "rt_tick s + 1"] assms
  by (auto simp: dry_inv_def dry_event_rel_def current_mode_def rt_handle_def Let_def split: sum.splits)

lemma dry_completed_step: "rt_action_completed w e r ah s = Inr (res, s') \<Longrightarrow> dry_event_rel s s'"
  by (auto simp: rt_action_completed_def dry_event_rel_def current_mode_def Let_def)

lemma dry_event_imp: "dry_event_rel s s' \<Longrightarrow> dry_rel s s'"
  by (simp add: dry_event_rel_def dry_rel_def)

lemmas dry_steps = dry_append_step dry_record_step dry_handle_step dry_completed_step

interpretation dry_event: event_contract w "dry_inv w cfg" dry_event_rel any out_dry_run for w cfg
proof unfold_locales
  show "safe (dry_inv w cfg) dry_event_rel (rt_append w oe k ro payload) any" for oe k ro payload
    by (rule dry_safe [OF daemon.append_safe]) (rule dry_append_step)
  show "safe (dry_inv w cfg) dry_event_rel (rt_action_completed w e r ah) any" for e r ah
    by (rule dry_safe [OF daemon.completed_safe]) (rule dry_completed_step)
  show "safe (dry_inv w cfg) dry_event_rel (rt_record_action w e r ah st out) any" for e r ah st out
    by (rule dry_safe [OF daemon.record_safe]) (rule dry_record_step)
  show "safe (dry_inv w cfg) dry_event_rel (rt_handle w ev) (\<lambda>plans. \<forall>p \<in> set plans. True)" for ev
    by (rule safe_weaken [OF dry_safe [OF daemon.handle_safe]]) (auto intro: dry_handle_step)
  show "safe (dry_inv w cfg) dry_event_rel (rt_execute w a ev) (\<lambda>r. \<forall>out. r = Inr out \<longrightarrow> out_dry_run out)"
    for a ev by (rule dry_execute) (simp add: dry_event_rel_def current_mode_def)
qed (auto simp: dry_event_rel_def)

interpretation dry: control_contract w "dry_inv w cfg" dry_rel any out_dry_run for w cfg
proof unfold_locales
  show "safe (dry_inv w cfg) dry_rel (rt_append w oe k ro payload) any" for oe k ro payload
    by (rule dry_safe [OF daemon.append_safe]) (blast intro: dry_event_imp dry_append_step)
  show "safe (dry_inv w cfg) dry_rel (rt_action_completed w e r ah) any" for e r ah
    by (rule dry_safe [OF daemon.completed_safe]) (blast intro: dry_event_imp dry_completed_step)
  show "safe (dry_inv w cfg) dry_rel (rt_record_action w e r ah st out) any" for e r ah st out
    by (rule dry_safe [OF daemon.record_safe]) (blast intro: dry_event_imp dry_record_step)
  show "safe (dry_inv w cfg) dry_rel (rt_handle w ev) (\<lambda>plans. \<forall>p \<in> set plans. True)" for ev
    by (rule safe_weaken [OF dry_safe [OF daemon.handle_safe]]) (blast intro: dry_event_imp dry_handle_step)+
  show "safe (dry_inv w cfg) dry_rel (rt_execute w a ev) (\<lambda>r. \<forall>out. r = Inr out \<longrightarrow> out_dry_run out)"
    for a ev by (rule dry_execute) (simp add: dry_rel_def)
  show "safe (dry_inv w cfg) dry_rel (rt_modify (\<lambda>s. s\<lparr>rt_engine := set_mode (rt_engine s) mode\<rparr>)) any"
    if "\<exists>s. dry_inv w cfg s \<and> mode \<in> mode_name ` set (cfg_modes (rt_config s))" for mode
    by (rule dry_safe [OF daemon.set_mode_safe])
      (use that in \<open>auto simp: dry_inv_def dry_rel_def rt_modify_def\<close>)
  show "safe (dry_inv w cfg) dry_rel (rt_modify (\<lambda>s. s\<lparr>rt_engine := set_recovery_mode (rt_engine s) b\<rparr>)) any" for b
    by (rule dry_safe [OF daemon.recovery_safe]) (auto simp: dry_rel_def rt_modify_def)
  show "safe (dry_inv w cfg) dry_rel (rt_set_state w key v) any"
    if "key \<in> {''mode'', ''recovery_mode''}" for key v
    by (rule dry_safe [OF daemon.state_safe [OF that]])
      (auto simp: dry_rel_def rt_set_state_def Let_def split: prod.splits)
  show "safe (dry_inv w cfg) dry_rel (rt_recent w limit) any" for limit
    by (rule dry_safe [OF daemon.recent_safe]) (auto simp: dry_rel_def rt_recent_def Let_def)
  show "safe (dry_inv w cfg) dry_rel (rt_verify w) any"
    by (rule dry_safe [OF daemon.verify_safe]) (auto simp: dry_rel_def rt_verify_def Let_def)
  show "safe (dry_inv w cfg) dry_rel (rt_simulate w ev) any" for ev
    by (rule dry_safe [OF daemon.simulate_safe])
      (auto simp: dry_rel_def rt_simulate_def Let_def split: sum.splits)
  show "safe (dry_inv w cfg) dry_rel (rt_event_new w source kind) any" for source kind
    by (rule dry_safe [OF daemon.event_new_safe]) (auto simp: dry_rel_def rt_event_new_def Let_def)
qed (auto simp: dry_rel_def)

end
