(* ===== verification/Runtime_Properties.thy ===== *)
theory Runtime_Properties
  imports Runtime_Invariant Validation_Properties Audit_Properties Actions_Properties
begin

text \<open>The properties of the running daemon, which span every component, with witnesses.\<close>

section \<open>Starting the daemon\<close>

lemma configured_mode_ok: "mode_ok cfg (configured_mode cfg)"
proof (cases "find mode_initial (cfg_modes cfg)")
  case None
  then show ?thesis by (cases "cfg_modes cfg") (simp_all add: configured_mode_def mode_ok_def)
next
  case (Some m)
  then have "m \<in> set (cfg_modes cfg)" by (auto simp: find_Some_iff in_set_conv_nth)
  with Some show ?thesis by (simp add: configured_mode_def mode_ok_def)
qed

lemma initial_mode_ok: "mode_ok cfg (initial_mode cfg stored)"
  using configured_mode_ok [of cfg]
  by (auto simp: initial_mode_def mode_ok_def list_ex_iff split: option.splits)

lemma runtime_new_inv:
  assumes "config_ok (wl_regex w) (wl_hm w) cfg" and "audit_wf (wl_lib w) db"
    and "int (unat (max_records (cfg_audit cfg))) \<le> max_row_id"
    and "runtime_new f f' now p unsafe cfg db handles = Inr s"
  shows "daemon_inv w cfg s" and "rt_trace s = []"
proof -
  have "wf_engine (engine_new now (cfg_rules cfg) mode)" for mode
    using assms(1) by (intro engine_new_wf) (simp add: config_ok_def)
  with assms show "daemon_inv w cfg s" and "rt_trace s = []"
    by (auto simp: runtime_new_def and_then_eq_Inr daemon_inv_def store_inv_def current_mode_def
        set_recovery_mode_wf initial_mode_ok engine_new_def Let_def)
qed

lemma runtime_new_total:
  "\<exists>s. runtime_new (\<lambda>_. None) (\<lambda>_. None) now p unsafe cfg db handles = Inr s"
  by (simp add: runtime_new_def get_state_def sql_def Let_def)

text \<open>Neither an event nor a request ends the loop with an error.\<close>

lemma loop_step_value: "loop_step w i s = Inr (r, s') \<Longrightarrow> \<exists>v. r = Inr v"
  by (cases "(w, i)" rule: loop_step.cases)
    (auto simp: rt_return_def rt_bind_def handle_control_def split: sum.splits prod.splits)

lemma run_loop_value: "run_loop w is s = Inr (r, s') \<Longrightarrow> \<exists>v. r = Inr v"
proof (induction "is" arbitrary: s)
  case Nil
  then show ?case by (auto simp: rt_return_def)
next
  case (Cons i "is")
  then show ?case
    by (auto simp: rt_bind_def rt_return_def split: sum.splits prod.splits loop_verdict.splits
        dest: loop_step_value)
qed

section \<open>Properties\<close>

definition demo_world :: world where
  "demo_world =
     \<lparr> wl_lib = demo_lib, wl_clock = (\<lambda>n. int n), wl_faults = (\<lambda>_. no_faults),
       wl_conditions = (\<lambda>_. demo_host), wl_processes = (\<lambda>_. demo_proc_host),
       wl_uuid = (\<lambda>_. ''e''), wl_show_action = (\<lambda>_. ''action''),
       wl_event_json = (\<lambda>_. Inr J_Null), wl_action_bytes = (\<lambda>_. Inr ''a''),
       wl_action_json = (\<lambda>_. Inr J_Null), wl_outcome_json = (\<lambda>_. Inr J_Null),
       wl_rules_json = (\<lambda>_. Inr J_Null), wl_records_json = (\<lambda>_. Inr J_Null),
       wl_snapshot_json = (\<lambda>_. J_Null), wl_plan_action_json = (\<lambda>_. J_Null),
       wl_regex = demo_regex, wl_hm = demo_hm,
       wl_loader = (\<lambda>_. \<lparr> lh_symlink_metadata = (\<lambda>_. Inl ''missing''), lh_metadata = (\<lambda>_. Inl ''missing''),
                         lh_read_to_string = (\<lambda>_. Inl ''missing''), lh_parse_toml = (\<lambda>_. Inl ''bad'') \<rparr>),
       wl_start_sensors = (\<lambda>_ _. Inr []), wl_pkg_version = ''0.1.0'' \<rparr>"

definition demo_runtime :: runtime where
  "demo_runtime =
     projr (runtime_new no_faults no_faults 0 ''/etc/kovert/kovert.toml'' False demo_config empty_db [])"

lemma demo_runtime_new:
  "runtime_new no_faults no_faults 0 ''/etc/kovert/kovert.toml'' False demo_config empty_db [] = Inr demo_runtime"
  by (simp add: demo_runtime_def no_faults_def runtime_new_def get_state_def sql_def Let_def)

lemma demo_world_facts:
  "wl_regex demo_world = demo_regex" "wl_hm demo_world = demo_hm" "wl_lib demo_world = demo_lib"
  by (simp_all add: demo_world_def)

lemma demo_fits_config: "int (unat (max_records (cfg_audit demo_config))) \<le> max_row_id"
  by (simp add: demo_config_def default_audit_config_def max_row_id_def)

lemma demo_validated: "validate_config (wl_regex demo_world) (wl_hm demo_world) demo_config = Inr ()"
  using demo_config_ok by (simp add: validate_config_iff demo_world_facts)

lemma demo_runtime_inv: "daemon_inv demo_world demo_config demo_runtime"
  by (rule runtime_new_inv(1) [OF _ _ demo_fits_config demo_runtime_new])
    (simp_all add: demo_world_facts demo_config_ok)



text \<open>
  In dry-run mode an event, whatever it plans, leaves the security mode and every stored
  state value except the chain anchor as they were.
\<close>

lemma dry_run_event_keeps_state:
  assumes "daemon_inv w cfg s" and "dry_run (cfg_daemon cfg)" and "process_event w ev s = Inr (r, s')"
  shows "current_mode s' = current_mode s \<and> rt_trace s' = rt_trace s \<and>
    (\<forall>key. key \<noteq> audit_anchor \<longrightarrow> db_state (rt_db s') key = db_state (rt_db s) key)"
proof -
  have "dry_inv w cfg s" using assms(1,2) by (simp add: dry_inv_def)
  with dry_event.process_event_safe [of w cfg ev] assms(3) show ?thesis
    by (auto simp: safe_def dry_event_rel_def)
qed

lemma demo_control:
  assumes "request \<noteq> R_Reload"
  shows "\<exists>r s'. handle_control demo_world request demo_runtime = Inr (r, s')"
  using daemon.handle_control_safe [OF assms] demo_runtime_inv by (rule safeE) blast

lemma demo_event_result:
  "\<exists>r s'. process_event demo_world (event_at (E_Hotkey ''panic'') 1) demo_runtime = Inr (r, s')"
  using daemon.process_event_safe demo_runtime_inv by (rule safeE) blast

text \<open>
  C30. A completed action is not repeated: if the ledger says that an action of a plan has
  succeeded for an event, executing the plan again starts nothing, writes nothing and changes
  neither the engine nor the configuration, even when the ledger cannot be read.
\<close>

theorem completed_action_not_repeated:
  assumes "wl_action_bytes w (plan_action plan) = Inr bytes"
    and "ledger_done (rt_db s) (ev_id ev, plan_rule_id plan, blake3_hex (wl_lib w) bytes)"
  shows "\<exists>r. execute_plan w ev plan s = Inr (r, s\<lparr>rt_tick := rt_tick s + 1\<rparr>)"
proof -
  let ?f = "wl_faults w (rt_tick s)"
  have "action_completed ?f (rt_db s) (ev_id ev) (plan_rule_id plan) (blake3_hex (wl_lib w) bytes) \<noteq> Inr False"
    using assms(2) by (auto simp: ledger_done_def action_completed_def sql_def split: option.splits)
  then show ?thesis
    using assms(1)
    by (cases "action_completed ?f (rt_db s) (ev_id ev) (plan_rule_id plan) (blake3_hex (wl_lib w) bytes)")
      (simp_all add: execute_plan_def rt_bind_def rt_lift_def rt_action_completed_def rt_return_def Let_def)
qed

definition demo_plan_lock :: action_plan where
  "demo_plan_lock = plan_of demo_rule (event_at (E_Hotkey ''panic'') 1) (A_LockVault ''documents'')"

definition demo_done_runtime :: runtime where
  "demo_done_runtime = demo_runtime\<lparr>rt_db := ledger_mark demo_lib 0 empty_db (''e'', ''night-usb'', ''a'') True\<rparr>"

theorem completed_action_not_repeated_witness:
  "\<exists>r. execute_plan demo_world (event_at (E_Hotkey ''panic'') 1) demo_plan_lock demo_done_runtime =
     Inr (r, demo_done_runtime\<lparr>rt_tick := rt_tick demo_done_runtime + 1\<rparr>)"
proof (rule completed_action_not_repeated)
  show "wl_action_bytes demo_world (plan_action demo_plan_lock) = Inr ''a''" by (simp add: demo_world_def)
  have "ledger_done (ledger_mark demo_lib 0 empty_db (''e'', ''night-usb'', ''a'') True) (''e'', ''night-usb'', ''a'')"
    by (rule ledger.get_put_same [THEN iffD2, OF TrueI])
  then show "ledger_done (rt_db demo_done_runtime)
      (ev_id (event_at (E_Hotkey ''panic'') 1), plan_rule_id demo_plan_lock, blake3_hex (wl_lib demo_world) ''a'')"
    by (simp add: demo_done_runtime_def demo_plan_lock_def plan_of_def event_at_def demo_rule_def
        demo_world_facts) (simp add: demo_lib_def)
qed

text \<open>
  C31. No unaudited reaction: when the journal cannot record an event, the event is not
  evaluated at all. The engine, the host and the database stay as they were.
\<close>

theorem unaudited_event_ignored:
  assumes "wl_event_json w ev = Inr payload"
    and "fst (audit_append (wl_lib w) (wl_faults w (rt_tick s)) (wl_clock w (rt_tick s)) (rt_max_records s)
          (rt_db s) (Some (ev_id ev)) ''event'' None payload) = Inl e"
  shows "process_event w ev s = Inr (Inl e, s\<lparr>rt_tick := rt_tick s + 1\<rparr>)"
proof -
  obtain db where a: "audit_append (wl_lib w) (wl_faults w (rt_tick s)) (wl_clock w (rt_tick s))
      (rt_max_records s) (rt_db s) (Some (ev_id ev)) ''event'' None payload = (Inl e, db)"
    using assms(2) by (metis prod.collapse)
  moreover have "db = rt_db s" by (rule audit_append_Inl [OF a])
  ultimately show ?thesis
    using assms(1) by (simp add: process_event_def rt_bind_def rt_lift_def rt_append_def Let_def)
qed

definition faulty_world :: world where
  "faulty_world = demo_world\<lparr>wl_faults := (\<lambda>_ _. Some ''disk I/O error'')\<rparr>"

theorem unaudited_event_ignored_witness:
  "process_event faulty_world (event_at (E_Hotkey ''panic'') 1) demo_runtime =
     Inr (Inl ''disk I/O error'', demo_runtime\<lparr>rt_tick := rt_tick demo_runtime + 1\<rparr>)"
  by (rule unaudited_event_ignored [where payload = J_Null])
    (simp_all add: faulty_world_def demo_world_def audit_append_def append_tx_def sql_def)

text \<open>
  C34. The read-only requests change nothing: \<open>status\<close>, \<open>rules\<close>, \<open>audit\<close>, \<open>verify-audit\<close>
  and \<open>simulate\<close> leave the configuration, the engine, the database, the sensors and the host as
  they were, whatever they answer. In particular a simulated event is invisible to later
  events.
\<close>

theorem read_only_requests_pure:
  assumes "handle_control w request s = Inr (r, s')"
    and "request \<in> {R_Status, R_Rules, R_VerifyAudit} \<union> range R_Audit \<union> range R_Simulate"
  shows "s' = s\<lparr>rt_tick := rt_tick s'\<rparr>"
  using assms
  by (auto simp: handle_control_def rt_bind_def rt_get_def rt_return_def rt_lift_def rt_recent_def
      rt_verify_def rt_simulate_def Let_def split: sum.splits prod.splits)

theorem read_only_requests_pure_witness:
  "\<exists>r s'. handle_control demo_world (R_Simulate (event_at (E_Hotkey ''panic'') 1)) demo_runtime = Inr (r, s') \<and>
     s' = demo_runtime\<lparr>rt_tick := rt_tick s'\<rparr>"
proof -
  obtain r s' where h: "handle_control demo_world (R_Simulate (event_at (E_Hotkey ''panic'') 1)) demo_runtime = Inr (r, s')"
    using demo_control [of "R_Simulate (event_at (E_Hotkey ''panic'') 1)"] by blast
  from read_only_requests_pure [OF h] h show ?thesis by blast
qed

lemma rt_bind_Inr:
  "rt_bind m k s = Inr (Inr y, s'') \<longleftrightarrow> (\<exists>x s'. m s = Inr (Inr x, s') \<and> k x s' = Inr (Inr y, s''))"
  by (auto simp: rt_bind_def split: sum.splits prod.splits)

lemma handle_control_ok:
  "handle_control w request s = Inr (Inr resp, s') \<Longrightarrow> resp_ok resp \<Longrightarrow>
   handle_control_result w request s = Inr (Inr resp, s')"
  by (auto simp: handle_control_def response_error_def split: sum.splits prod.splits)

text \<open>A stored value that is followed by an append is still there.\<close>

lemma stored_then_appended:
  assumes inv: "daemon_inv w cfg s" and key: "key \<noteq> audit_anchor"
    and set: "rt_set_state w key v s = Inr (Inr u, s1)" and app: "rt_append w e k ru p s1 = Inr (Inr rc, s2)"
  shows "db_state (rt_db s2) key = Some v"
proof -
  from set_state_result [OF inv key, of v] set obtain db where s1: "s1 = s\<lparr>rt_db := db, rt_tick := rt_tick s + 1\<rparr>"
    and "store_inv (wl_lib w) (rt_max_records s) db" by auto
  then have inv1: "daemon_inv w cfg s1" using daemon_inv_db [OF inv] by simp
  have "db_state (rt_db s1) key = Some v"
    using set by (auto simp: rt_set_state_def set_state_def Let_def split: option.splits)
  with append_result [OF inv1, of e k ru p] app key show ?thesis by auto
qed

lemma set_mode_stored:
  assumes "daemon_inv w cfg s" and "handle_control_result w (R_SetMode mode) s = Inr (Inr resp, s')"
  shows "db_state (rt_db s') ''mode'' = Some mode \<and> mode \<in> mode_name ` set (cfg_modes cfg)"
proof -
  have mode: "mode \<in> mode_name ` set (cfg_modes cfg)"
  proof (rule ccontr)
    assume "mode \<notin> mode_name ` set (cfg_modes cfg)"
    then have "\<not> list_ex (\<lambda>item. mode_name item = mode) (cfg_modes (rt_config s))"
      using assms(1) by (auto simp: daemon_inv_def list_ex_iff)
    with assms(2) show False by (simp add: rt_bind_def rt_get_def rt_fail_def)
  qed
  let ?s = "s\<lparr>rt_engine := set_mode (rt_engine s) mode\<rparr>"
  have inv: "daemon_inv w cfg ?s" by (rule set_mode_inv [OF assms(1)]) (use mode in \<open>simp add: mode_ok_def\<close>)
  from mode assms(1) have "list_ex (\<lambda>item. mode_name item = mode) (cfg_modes (rt_config s))"
    by (auto simp: daemon_inv_def list_ex_iff)
  with assms(2) obtain u s1 rc s2 where "rt_set_state w ''mode'' mode ?s = Inr (Inr u, s1)"
    and "rt_append w None ''mode_changed'' None (J_Object [(''mode'', J_String mode)]) s1 = Inr (Inr rc, s2)"
    and "s' = s2"
    by (auto simp: rt_bind_Inr rt_get_def rt_modify_def rt_return_def)
  with stored_then_appended [OF inv daemon_keys(1)] mode show ?thesis by blast
qed

lemma recovery_stored:
  assumes "daemon_inv w cfg s" and "handle_control_result w (R_Recovery b) s = Inr (Inr resp, s')"
  shows "db_state (rt_db s') ''recovery_mode'' = Some (bool_text b)"
proof -
  let ?s = "s\<lparr>rt_engine := set_recovery_mode (rt_engine s) b\<rparr>"
  from assms(2) obtain u s1 rc s2 where "rt_set_state w ''recovery_mode'' (bool_text b) ?s = Inr (Inr u, s1)"
    and "rt_append w None ''recovery_mode_changed'' None (J_Object [(''enabled'', J_Bool b)]) s1 = Inr (Inr rc, s2)"
    and "s' = s2"
    by (auto simp: rt_bind_Inr rt_modify_def rt_return_def)
  with stored_then_appended [OF set_recovery_inv [OF assms(1)] daemon_keys(2)] show ?thesis by blast
qed

text \<open>
  C33. Mode and recovery state survive a restart: when a \<open>set-mode\<close> or \<open>recovery\<close> request is
  answered with success, a daemon started afterwards on the same store and configuration comes
  up in that mode, or with recovery switched as requested.
\<close>

theorem control_state_survives_restart:
  assumes "daemon_inv w cfg s" and "handle_control w request s = Inr (Inr resp, s')" and "resp_ok resp"
    and "runtime_new (\<lambda>_. None) (\<lambda>_. None) now p unsafe cfg (rt_db s') handles = Inr s''"
  shows "case request of
      R_SetMode mode \<Rightarrow> current_mode s'' = mode
    | R_Recovery enabled \<Rightarrow> eng_recovery_mode (rt_engine s'') = enabled
    | _ \<Rightarrow> True"
proof (cases request)
  case (R_SetMode mode)
  from set_mode_stored [OF assms(1) handle_control_ok [OF assms(2,3), unfolded R_SetMode]]
  have "initial_mode cfg (db_state (rt_db s') ''mode'') = mode"
    by (auto simp: initial_mode_def list_ex_iff)
  with assms(4) R_SetMode show ?thesis
    by (auto simp: runtime_new_def get_state_def sql_def Let_def current_mode_def engine_new_def)
next
  case (R_Recovery b)
  from recovery_stored [OF assms(1) handle_control_ok [OF assms(2,3), unfolded R_Recovery]] assms(4) R_Recovery
  show ?thesis
    by (cases b)
      (auto simp: runtime_new_def get_state_def sql_def Let_def set_recovery_mode_def bool_text_def)
qed simp_all

lemma demo_recovery:
  "\<exists>resp s'. handle_control demo_world (R_Recovery True) demo_runtime = Inr (Inr resp, s') \<and> resp_ok resp"
proof -
  let ?s = "demo_runtime\<lparr>rt_engine := set_recovery_mode (rt_engine demo_runtime) True\<rparr>"
  let ?db = "empty_db\<lparr>db_state := [''recovery_mode'' \<mapsto> ''true'']\<rparr>"
  have wf: "audit_wf demo_lib ?db"
    by (simp add: audit_wf_def rows_ordered_def empty_db_def max_row_id_def)
  have db: "rt_db demo_runtime = empty_db" "rt_max_records demo_runtime = 10000" "rt_tick demo_runtime = 0"
    by (simp_all add: demo_runtime_def runtime_new_def no_faults_def get_state_def sql_def Let_def)
      (simp add: demo_config_def default_audit_config_def)
  have fits: "int (unat (10000 :: 64 word)) \<le> max_row_id" by (simp add: max_row_id_def)
  have "\<exists>rc db'. audit_append demo_lib (\<lambda>_. None) 1 10000 ?db None ''recovery_mode_changed'' None
      (J_Object [(''enabled'', J_Bool True)]) = (Inr rc, db')"
    by (rule audit_append_total [OF wf fits]) (simp_all add: empty_db_def max_row_id_def)
  then obtain rc db' where app: "audit_append demo_lib (\<lambda>_. None) 1 10000 ?db None
      ''recovery_mode_changed'' None (J_Object [(''enabled'', J_Bool True)]) = (Inr rc, db')"
    by (elim exE)
  have "set_state (\<lambda>_. None) empty_db ''recovery_mode'' ''true'' = (Inr (), ?db)"
    by (simp add: set_state_def empty_db_def)
  with app db show ?thesis
    by (simp add: handle_control_def rt_bind_def rt_modify_def rt_set_state_def rt_append_def Let_def
        rt_return_def bool_text_def response_success_def demo_world_def no_faults_def)
qed

theorem control_state_survives_restart_witness:
  "\<exists>resp s' s''. handle_control demo_world (R_Recovery True) demo_runtime = Inr (Inr resp, s') \<and>
     runtime_new (\<lambda>_. None) (\<lambda>_. None) 0 ''/etc/kovert/kovert.toml'' False demo_config (rt_db s') [] = Inr s'' \<and>
     eng_recovery_mode (rt_engine s'')"
proof -
  from demo_recovery obtain resp s' where
    h: "handle_control demo_world (R_Recovery True) demo_runtime = Inr (Inr resp, s')"
    and ok: "resp_ok resp" by (elim exE conjE)
  from runtime_new_total obtain s'' where
    new: "runtime_new (\<lambda>_. None) (\<lambda>_. None) 0 ''/etc/kovert/kovert.toml'' False demo_config
      (rt_db s') [] = Inr s''" by (rule exE)
  from control_state_survives_restart [OF demo_runtime_inv h ok new] have "eng_recovery_mode (rt_engine s'')"
    by simp
  with h new show ?thesis by blast
qed

lemma load_config_accepts:
  assumes "load_config rx hm h p unsafe = Inr cfg"
  shows "config_ok rx hm cfg" and "unsafe \<or> verify_permissions h p = Inr ()"
proof -
  from assms obtain parsed where perm: "(if \<not> unsafe then verify_permissions h p else Inr ()) = Inr ()"
    and last: "(case validate_config rx hm parsed of
        Inl errors \<Rightarrow> Inl (''configuration validation failed:'' @ [CHR 0x0A] @
          join_lines (map (\<lambda>e. ''- '' @ error_text e) errors))
      | Inr _ \<Rightarrow> Inr parsed) = Inr cfg"
    unfolding load_config_def and_then_eq_Inr by (elim exE conjE) simp
  from last have "validate_config rx hm cfg = Inr ()"
    by (cases "validate_config rx hm parsed") simp_all
  then show "config_ok rx hm cfg" by (simp add: validate_config_iff)
  from perm show "unsafe \<or> verify_permissions h p = Inr ()" by (simp split: if_splits)
qed



end
