(* ===== verification/Requirements.thy ===== *)
theory Requirements
  imports Config "HOL-Library.Option_ord"
begin

text \<open>
  What the configured rules need of the sensors: \<open>kovert-sensors/src/requirements.rs\<close>.

  A \<open>BTreeMap\<close> and a \<open>BTreeSet\<close> are the list of their entries in ascending order. Paths are
  ordered, and identified, by their components; an insertion that meets an equal key keeps
  the key and replaces the value.
\<close>

section \<open>Orders of the keys\<close>

text \<open>\<open>derive(Ord)\<close> on \<open>NetworkProtocol\<close> and \<open>Ord for Component\<close>: variants in order, then payload.\<close>

instantiation network_protocol :: linorder
begin

definition less_eq_network_protocol :: "network_protocol \<Rightarrow> network_protocol \<Rightarrow> bool" where
  "less_eq_network_protocol a b \<longleftrightarrow> a = Tcp \<or> b = Udp"

definition less_network_protocol :: "network_protocol \<Rightarrow> network_protocol \<Rightarrow> bool" where
  "less_network_protocol a b \<longleftrightarrow> a = Tcp \<and> b = Udp"

instance
proof
  fix x y z :: network_protocol
  show "(x < y) = (x \<le> y \<and> \<not> y \<le> x)" "x \<le> x" "x \<le> y \<or> y \<le> x"
    by (cases x; cases y; simp add: less_eq_network_protocol_def less_network_protocol_def)+
  show "x \<le> y \<Longrightarrow> y \<le> z \<Longrightarrow> x \<le> z" "x \<le> y \<Longrightarrow> y \<le> x \<Longrightarrow> x = y"
    by (cases x; cases y; cases z; simp add: less_eq_network_protocol_def)+
qed

end

fun component_rank :: "component \<Rightarrow> nat \<times> string" where
  "component_rank RootDir = (0, [])"
| "component_rank CurDir = (1, [])"
| "component_rank ParentDir = (2, [])"
| "component_rank (Normal s) = (3, s)"

lemma component_rank_inj: "component_rank a = component_rank b \<longleftrightarrow> a = b"
  by (cases a; cases b) auto

definition path_rank :: "path \<Rightarrow> (nat \<times> string) list" where
  "path_rank p = map component_rank (components p)"

lemma path_rank_eq: "path_rank p = path_rank q \<longleftrightarrow> path_eq p q"
proof -
  have "inj component_rank" by (rule injI) (simp add: component_rank_inj)
  then show ?thesis by (auto simp: path_rank_def path_eq_def dest: map_injective)
qed

section \<open>Ordered maps and sets\<close>

fun btree_insert :: "('k \<Rightarrow> 'o::linorder) \<Rightarrow> 'k \<Rightarrow> 'v \<Rightarrow> ('k \<times> 'v) list \<Rightarrow> ('k \<times> 'v) list" where
  "btree_insert rank k v [] = [(k, v)]"
| "btree_insert rank k v ((k', v') # xs) =
     (if rank k < rank k' then (k, v) # (k', v') # xs
      else if rank k = rank k' then (k', v) # xs
      else (k', v') # btree_insert rank k v xs)"

fun btree_get :: "('k \<Rightarrow> 'o) \<Rightarrow> ('k \<times> 'v) list \<Rightarrow> 'k \<Rightarrow> 'v option" where
  "btree_get rank [] k = None"
| "btree_get rank ((k', v) # xs) k = (if rank k = rank k' then Some v else btree_get rank xs k)"

definition btree_sorted :: "('k \<Rightarrow> 'o::linorder) \<Rightarrow> ('k \<times> 'v) list \<Rightarrow> bool" where
  "btree_sorted rank xs \<longleftrightarrow> sorted_wrt (<) (map (\<lambda>e. rank (fst e)) xs)"

lemma btree_get_insert:
  "btree_get rank (btree_insert rank k v xs) j = (if rank j = rank k then Some v else btree_get rank xs j)"
  by (induction xs) auto

lemma btree_insert_keys:
  "set (map (\<lambda>e. rank (fst e)) (btree_insert rank k v xs)) = insert (rank k) (set (map (\<lambda>e. rank (fst e)) xs))"
  by (induction rank k v xs rule: btree_insert.induct) auto

lemma btree_insert_sorted: "btree_sorted rank xs \<Longrightarrow> btree_sorted rank (btree_insert rank k v xs)"
proof (induction rank k v xs rule: btree_insert.induct)
  case (2 rank k v k' v' xs)
  have "\<forall>y \<in> set (map (\<lambda>e. rank (fst e)) (btree_insert rank k v xs)). rank k' < y" if "rank k' < rank k"
    using 2(2) that unfolding btree_insert_keys by (auto simp: btree_sorted_def)
  with 2 show ?case
    by (auto simp: btree_sorted_def not_less order.strict_iff_order dest: order.strict_trans)
qed (simp add: btree_sorted_def)

definition bset_insert :: "'a::linorder \<Rightarrow> 'a list \<Rightarrow> 'a list" where
  "bset_insert x xs = (if x \<in> set xs then xs else insort x xs)"

lemma set_bset_insert [simp]: "set (bset_insert x xs) = insert x (set xs)"
  by (auto simp: bset_insert_def set_insort_key)

lemma bset_insert_sorted: "sorted xs \<and> distinct xs \<Longrightarrow> sorted (bset_insert x xs) \<and> distinct (bset_insert x xs)"
  by (auto simp: bset_insert_def sorted_insort distinct_insort)

section \<open>Requirements\<close>

record sensor_requirements =
  file_watches :: "(path \<times> bool) list"
  req_wifi :: bool
  req_network :: bool
  req_usb :: bool
  req_mounts :: bool
  req_processes :: "string list"
  req_services :: "string list"
  req_ports :: "(network_protocol \<times> 16 word) list"
  req_sessions :: bool
  req_power :: bool
  req_integrity :: bool

definition no_requirements :: sensor_requirements where
  "no_requirements =
     \<lparr> file_watches = [], req_wifi = False, req_network = False, req_usb = False, req_mounts = False,
       req_processes = [], req_services = [], req_ports = [], req_sessions = False,
       req_power = False, req_integrity = False \<rparr>"

fun collect_trigger :: "trigger_spec \<Rightarrow> sensor_requirements \<Rightarrow> sensor_requirements" where
  "collect_trigger (T_File p _ recursive) q =
     q\<lparr>file_watches := btree_insert path_rank p recursive (file_watches q)\<rparr>"
| "collect_trigger (T_WifiChanged _ _ _) q = q\<lparr>req_wifi := True\<rparr>"
| "collect_trigger (T_NetworkChanged _ _ _) q = q\<lparr>req_network := True\<rparr>"
| "collect_trigger (T_Usb _ _ _ _) q = q\<lparr>req_usb := True\<rparr>"
| "collect_trigger (T_Mount _ _) q = q\<lparr>req_mounts := True\<rparr>"
| "collect_trigger (T_Process name _) q =
     (case name of Some n \<Rightarrow> q\<lparr>req_processes := bset_insert n (req_processes q)\<rparr> | None \<Rightarrow> q)"
| "collect_trigger (T_Service name _) q =
     (case name of Some n \<Rightarrow> q\<lparr>req_services := bset_insert n (req_services q)\<rparr> | None \<Rightarrow> q)"
| "collect_trigger (T_Port port _ protocol) q =
     (case port of
        Some n \<Rightarrow>
          (case protocol of
             Some pr \<Rightarrow> q\<lparr>req_ports := bset_insert (pr, n) (req_ports q)\<rparr>
           | None \<Rightarrow> q\<lparr>req_ports := bset_insert (Udp, n) (bset_insert (Tcp, n) (req_ports q))\<rparr>)
      | None \<Rightarrow> q)"
| "collect_trigger (T_Session _ _ _) q = q\<lparr>req_sessions := True\<rparr>"
| "collect_trigger (T_Power _ _ _) q = q\<lparr>req_power := True\<rparr>"
| "collect_trigger (T_All ts) q = fold collect_trigger ts q"
| "collect_trigger (T_Any ts) q = fold collect_trigger ts q"
| "collect_trigger (T_Sequence ts _) q = fold collect_trigger ts q"
| "collect_trigger (T_Not t) q = collect_trigger t q"
| "collect_trigger (T_IntegrityFailure _) q = q\<lparr>req_integrity := True\<rparr>"
| "collect_trigger _ q = q"

definition collect_sensor :: "string \<Rightarrow> sensor_requirements \<Rightarrow> sensor_requirements" where
  "collect_sensor sensor q =
     (if sensor = ''wifi'' then q\<lparr>req_wifi := True\<rparr>
      else if sensor = ''network'' then q\<lparr>req_network := True\<rparr>
      else if sensor = ''usb'' then q\<lparr>req_usb := True\<rparr>
      else if sensor = ''mounts'' then q\<lparr>req_mounts := True\<rparr>
      else if sensor = ''sessions'' then q\<lparr>req_sessions := True\<rparr>
      else if sensor = ''power'' then q\<lparr>req_power := True\<rparr>
      else if sensor \<in> {''integrity'', ''configuration'', ''binary''} then q\<lparr>req_integrity := True\<rparr>
      else q)"

fun collect_condition :: "condition_spec \<Rightarrow> sensor_requirements \<Rightarrow> sensor_requirements" where
  "collect_condition (C_Wifi _ _ _) q = q\<lparr>req_wifi := True\<rparr>"
| "collect_condition (C_Network _ _ _) q = q\<lparr>req_network := True\<rparr>"
| "collect_condition (C_Mounted _ _) q = q\<lparr>req_mounts := True\<rparr>"
| "collect_condition (C_Process name _) q = q\<lparr>req_processes := bset_insert name (req_processes q)\<rparr>"
| "collect_condition (C_Service name _) q = q\<lparr>req_services := bset_insert name (req_services q)\<rparr>"
| "collect_condition (C_Port port _ protocol) q = q\<lparr>req_ports := bset_insert (protocol, port) (req_ports q)\<rparr>"
| "collect_condition (C_Session _ _ _) q = q\<lparr>req_sessions := True\<rparr>"
| "collect_condition (C_Power _ _ _) q = q\<lparr>req_power := True\<rparr>"
| "collect_condition (C_All cs) q = fold collect_condition cs q"
| "collect_condition (C_Any cs) q = fold collect_condition cs q"
| "collect_condition (C_Not c) q = collect_condition c q"
| "collect_condition (C_SensorHealthy sensor _) q = collect_sensor sensor q"
| "collect_condition _ q = q"

definition collect_rule :: "rule \<Rightarrow> sensor_requirements \<Rightarrow> sensor_requirements" where
  "collect_rule r q =
     (let q' = collect_trigger (rule_trigger r) q
      in case rule_when r of Some c \<Rightarrow> collect_condition c q' | None \<Rightarrow> q')"

definition from_config :: "config \<Rightarrow> sensor_requirements" where
  "from_config cfg = fold collect_rule (cfg_rules cfg) no_requirements"

end
