(* ===== verification/Requirements_Spec.thy ===== *)
theory Requirements_Spec
  imports Requirements Matching Validation_Spec
begin

text \<open>
  The collected requirements are sufficient: every event a leaf of a rule's trigger can match
  comes from a sensor that is switched on for it. The recursive flag of a file watch is the
  exception: the last trigger on a path decides it.
\<close>

section \<open>Requirements only grow\<close>

datatype need =
    Need_Wifi | Need_Network | Need_Usb | Need_Mounts | Need_Sessions | Need_Power | Need_Integrity
  | Need_Process string | Need_Service string | Need_Port "network_protocol \<times> 16 word"
  | Need_Watch "(nat \<times> string) list"

fun needed :: "sensor_requirements \<Rightarrow> need \<Rightarrow> bool" where
  "needed q Need_Wifi = req_wifi q"
| "needed q Need_Network = req_network q"
| "needed q Need_Usb = req_usb q"
| "needed q Need_Mounts = req_mounts q"
| "needed q Need_Sessions = req_sessions q"
| "needed q Need_Power = req_power q"
| "needed q Need_Integrity = req_integrity q"
| "needed q (Need_Process n) = (n \<in> set (req_processes q))"
| "needed q (Need_Service n) = (n \<in> set (req_services q))"
| "needed q (Need_Port p) = (p \<in> set (req_ports q))"
| "needed q (Need_Watch p) = (p \<in> set (map (\<lambda>e. path_rank (fst e)) (file_watches q)))"

definition req_le :: "sensor_requirements \<Rightarrow> sensor_requirements \<Rightarrow> bool" where
  "req_le q q' \<longleftrightarrow> (\<forall>n. needed q n \<longrightarrow> needed q' n)"

lemma req_leI: "(\<And>n. needed q n \<Longrightarrow> needed q' n) \<Longrightarrow> req_le q q'"
  by (simp add: req_le_def)

lemma req_le_refl [simp]: "req_le q q"
  by (simp add: req_le_def)

lemma req_le_trans: "req_le q q' \<Longrightarrow> req_le q' q'' \<Longrightarrow> req_le q q''"
  by (simp add: req_le_def)

lemma fold_grows: "(\<And>x q. x \<in> set xs \<Longrightarrow> req_le q (f x q)) \<Longrightarrow> req_le q (fold f xs q)"
proof (induction xs arbitrary: q)
  case (Cons x xs)
  then have "req_le (f x q) (fold f xs (f x q))" by simp
  with Cons.prems [of x q] show ?case by (auto intro: req_le_trans)
qed simp

lemma collect_trigger_grows: "req_le q (collect_trigger t q)"
proof (induction t arbitrary: q)
  case (T_File p ops b)
  show ?case
  proof (rule req_leI)
    fix n
    assume "needed q n"
    then show "needed (collect_trigger (T_File p ops b) q) n"
      using btree_insert_keys [of path_rank p b "file_watches q"] by (cases n) auto
  qed
next
  case (T_All ts)
  then show ?case by (simp add: fold_grows)
next
  case (T_Any ts)
  then show ?case by (simp add: fold_grows)
next
  case (T_Sequence ts w)
  then show ?case by (simp add: fold_grows)
next
  case (T_Not t)
  then show ?case by simp
qed (rule req_leI; rename_tac n; case_tac n; auto split: option.split)+

lemma collect_sensor_grows: "req_le q (collect_sensor sensor q)"
proof (rule req_leI)
  fix n
  assume "needed q n"
  then show "needed (collect_sensor sensor q) n" by (cases n) (simp_all add: collect_sensor_def)
qed

lemma collect_condition_grows: "req_le q (collect_condition c q)"
proof (induction c arbitrary: q)
  case (C_All cs)
  then show ?case by (simp add: fold_grows)
next
  case (C_Any cs)
  then show ?case by (simp add: fold_grows)
next
  case (C_Not c)
  then show ?case by simp
next
  case (C_SensorHealthy sensor healthy)
  show ?case by (simp add: collect_sensor_grows)
qed (rule req_leI; rename_tac n; case_tac n; auto)+

lemma collect_rule_grows: "req_le q (collect_rule r q)"
  unfolding collect_rule_def Let_def
  by (cases "rule_when r") (auto intro: collect_trigger_grows collect_condition_grows req_le_trans)

section \<open>Leaves\<close>

fun trigger_leaves :: "trigger_spec \<Rightarrow> trigger_spec list" where
  "trigger_leaves (T_All ts) = concat (map trigger_leaves ts)"
| "trigger_leaves (T_Any ts) = concat (map trigger_leaves ts)"
| "trigger_leaves (T_Sequence ts _) = concat (map trigger_leaves ts)"
| "trigger_leaves (T_Not t) = trigger_leaves t"
| "trigger_leaves t = [t]"

fun is_leaf :: "trigger_spec \<Rightarrow> bool" where
  "is_leaf (T_All _) = False"
| "is_leaf (T_Any _) = False"
| "is_leaf (T_Sequence _ _) = False"
| "is_leaf (T_Not _) = False"
| "is_leaf _ = True"

lemma leaves_are_leaves: "l \<in> set (trigger_leaves t) \<Longrightarrow> is_leaf l"
  by (induction t) auto

text \<open>An event kind and the requirement that makes a sensor report it; file events apart.\<close>

fun sensed :: "sensor_requirements \<Rightarrow> event_kind \<Rightarrow> bool" where
  "sensed q (E_Wifi _ _ _) = req_wifi q"
| "sensed q (E_Network _ _ _) = req_network q"
| "sensed q (E_Usb _ _ _ _) = req_usb q"
| "sensed q (E_Mount _ _ _) = req_mounts q"
| "sensed q (E_Process name _ _) = (name \<in> set (req_processes q))"
| "sensed q (E_Service name _) = (name \<in> set (req_services q))"
| "sensed q (E_Port port protocol _) = ((protocol, port) \<in> set (req_ports q))"
| "sensed q (E_Session _ _ _) = req_sessions q"
| "sensed q (E_Power _ _ _) = req_power q"
| "sensed q (E_Integrity _ _ _) = req_integrity q"
| "sensed q _ = True"

lemma sensed_mono: "sensed q k \<Longrightarrow> req_le q q' \<Longrightarrow> sensed q' k"
  unfolding req_le_def by (cases k) (use needed.simps in \<open>simp; blast\<close>)+

lemma leaf_ok: "trigger_ok hk t \<Longrightarrow> l \<in> set (trigger_leaves t) \<Longrightarrow> trigger_ok hk l"
  by (induction t) (auto simp: list_all_iff)

lemma fold_covers:
  assumes "x \<in> set xs" and "\<And>q. sensed (f x q) k" and "\<And>y q. req_le q (f y q)"
  shows "sensed (fold f xs q) k"
proof -
  obtain ys zs where "xs = ys @ x # zs" using assms(1) by (meson split_list)
  moreover have "req_le (f x (fold f ys q)) (fold f zs (f x (fold f ys q)))"
    using assms(3) by (intro fold_grows)
  ultimately show ?thesis using assms(2) by (auto intro: sensed_mono)
qed

lemma leaf_covered:
  assumes "l \<in> set (trigger_leaves t)" and "\<And>q. sensed (collect_trigger l q) k"
  shows "sensed (collect_trigger t q) k"
  using assms(1)
proof (induction t arbitrary: q)
  case (T_All ts)
  then obtain t where "t \<in> set ts" "l \<in> set (trigger_leaves t)" by auto
  with T_All.IH show ?case by (auto intro!: fold_covers collect_trigger_grows)
next
  case (T_Any ts)
  then obtain t where "t \<in> set ts" "l \<in> set (trigger_leaves t)" by auto
  with T_Any.IH show ?case by (auto intro!: fold_covers collect_trigger_grows)
next
  case (T_Sequence ts w)
  then obtain t where "t \<in> set ts" "l \<in> set (trigger_leaves t)" by auto
  with T_Sequence.IH show ?case by (auto intro!: fold_covers collect_trigger_grows)
qed (use assms(2) in auto)

lemma matched_leaf_sensed:
  assumes "trigger_ok hk l" and "trigger_matches l k" and "is_leaf l"
  shows "sensed (collect_trigger l q) k"
proof (cases l)
  case (T_Process n b)
  with assms show ?thesis by (auto split: event_kind.splits)
next
  case (T_Service n b)
  with assms show ?thesis by (auto split: event_kind.splits)
next
  case (T_Port n b pr)
  have "pr' = Tcp \<or> pr' = Udp" for pr' by (cases pr') simp_all
  with T_Port assms show ?thesis by (cases pr) (auto split: event_kind.splits)
qed (use assms in \<open>auto split: event_kind.splits\<close>)

end
