(* ===== verification/Requirements_Properties.thy ===== *)
theory Requirements_Properties
  imports Requirements_Spec Validation_Properties
begin

text \<open>
  The sensors the hub starts are the ones the rules need: coverage of the triggers and the
  mode of every file watch.
\<close>

section \<open>File watches\<close>

text \<open>The recursive flags the file triggers among some leaves give a path, in order.\<close>

definition watch_flag :: "path \<Rightarrow> trigger_spec \<Rightarrow> bool list" where
  "watch_flag p l = (case l of T_File q _ b \<Rightarrow> if path_eq p q then [b] else [] | _ \<Rightarrow> [])"

definition watch_flags :: "path \<Rightarrow> trigger_spec list \<Rightarrow> bool list" where
  "watch_flags p ls = concat (map (watch_flag p) ls)"

definition last_or :: "'a option \<Rightarrow> 'a list \<Rightarrow> 'a option" where
  "last_or d xs = (if xs = [] then d else Some (last xs))"

lemma last_or_simps [simp]:
  "last_or d [] = d" "last_or (last_or d xs) ys = last_or d (xs @ ys)" "last_or d [x] = Some x"
  by (simp_all add: last_or_def)

lemma watch_flags_simps [simp]:
  "watch_flags p [] = []" "watch_flags p (l # ls) = watch_flag p l @ watch_flags p ls"
  "watch_flags p (ls @ ls') = watch_flags p ls @ watch_flags p ls'"
  by (simp_all add: watch_flags_def)

abbreviation watch_of :: "sensor_requirements \<Rightarrow> path \<Rightarrow> bool option" where
  "watch_of q \<equiv> btree_get path_rank (file_watches q)"

lemma fold_watch:
  assumes "\<And>x q. x \<in> set xs \<Longrightarrow> watch_of (f x q) p = last_or (watch_of q p) (watch_flags p (ls x))"
  shows "watch_of (fold f xs q) p = last_or (watch_of q p) (watch_flags p (concat (map ls xs)))"
  using assms by (induction xs arbitrary: q) simp_all

lemma collect_trigger_watch:
  "watch_of (collect_trigger t q) p = last_or (watch_of q p) (watch_flags p (trigger_leaves t))"
proof (induction t arbitrary: q)
  case (T_File w ops b)
  show ?case by (simp add: btree_get_insert path_rank_eq watch_flag_def)
next
  case (T_All ts)
  then show ?case by (simp add: fold_watch)
next
  case (T_Any ts)
  then show ?case by (simp add: fold_watch)
next
  case (T_Sequence ts within)
  then show ?case by (simp add: fold_watch)
qed (simp_all add: watch_flag_def split: option.split)

lemma collect_condition_watch: "file_watches (collect_condition c q) = file_watches q"
proof (induction c arbitrary: q)
  case (C_All cs)
  then have "file_watches (fold collect_condition cs q) = file_watches q"
    by (induction cs arbitrary: q) simp_all
  then show ?case by simp
next
  case (C_Any cs)
  then have "file_watches (fold collect_condition cs q) = file_watches q"
    by (induction cs arbitrary: q) simp_all
  then show ?case by simp
qed (simp_all add: collect_sensor_def)

abbreviation rule_leaves :: "rule \<Rightarrow> trigger_spec list" where
  "rule_leaves r \<equiv> trigger_leaves (rule_trigger r)"

lemma collect_rule_watch:
  "watch_of (collect_rule r q) p = last_or (watch_of q p) (watch_flags p (rule_leaves r))"
  by (cases "rule_when r") (simp_all add: collect_rule_def collect_condition_watch collect_trigger_watch)

lemma collect_rule_covers:
  assumes "l \<in> set (rule_leaves r)" and "trigger_ok hk (rule_trigger r)" and "trigger_matches l k"
  shows "sensed (collect_rule r q) k"
proof -
  have "trigger_ok hk l" "is_leaf l" using assms(1,2) leaf_ok leaves_are_leaves by auto
  then have "sensed (collect_trigger (rule_trigger r) q') k" for q'
    using assms(1,3) by (auto intro: leaf_covered matched_leaf_sensed)
  then show ?thesis
    unfolding collect_rule_def Let_def
    by (cases "rule_when r") (auto intro: sensed_mono collect_condition_grows)
qed


text \<open>
  Two rules watch the same directory, the first one recursively: both are accepted, and the
  directory is watched without its subdirectories.
\<close>

definition watch_rule :: "string \<Rightarrow> bool \<Rightarrow> rule" where
  "watch_rule name recursive =
     demo_rule\<lparr>rule_id := name, rule_trigger := T_File ''/srv/data'' [] recursive\<rparr>"

definition watch_config :: config where
  "watch_config = demo_config\<lparr>cfg_rules := [watch_rule ''deep'' True, watch_rule ''flat'' False]\<rparr>"

lemma watch_config_valid: "validate_config demo_regex demo_hm watch_config = Inr ()"
proof -
  have rule: "rule_ok demo_regex demo_hm demo_config demo_rule"
    using demo_config_ok by (simp add: config_ok_def demo_config_def)
  then have "rule_ok demo_regex demo_hm watch_config (watch_rule ''deep'' True)"
    and "rule_ok demo_regex demo_hm watch_config (watch_rule ''flat'' False)"
    by (simp_all add: rule_ok_def watch_rule_def watch_config_def demo_rule_def demo_config_def
        valid_identifier_def demo_regex_def identifier_char_def is_ascii_alphanumeric_def
        is_ascii_lowercase_def path_is_absolute_def)
  then show ?thesis
    using demo_config_ok unfolding validate_config_iff config_ok_def
    by (simp add: watch_config_def watch_rule_def demo_config_def demo_rule_def)
qed


text \<open>
  A file below a directory some rule watches recursively can match that rule's trigger while
  the directory is watched without its subdirectories.
\<close>

lemma recursive_watch_lost:
  "validate_config demo_regex demo_hm watch_config = Inr () \<and>
   watch_rule ''deep'' True \<in> set (cfg_rules watch_config) \<and>
   trigger_matches (rule_trigger (watch_rule ''deep'' True)) (E_File ''/srv/data/sub/x'' Create) \<and>
   from_config watch_config = no_requirements\<lparr>file_watches := [(''/srv/data'', False)]\<rparr>"
proof (intro conjI watch_config_valid)
  show "watch_rule ''deep'' True \<in> set (cfg_rules watch_config)" by (simp add: watch_config_def)
  show "trigger_matches (rule_trigger (watch_rule ''deep'' True)) (E_File ''/srv/data/sub/x'' Create)"
    by (simp add: watch_rule_def path_matches_def path_starts_with_def components_def
        component_of_def path_is_absolute_def)
  show "from_config watch_config = no_requirements\<lparr>file_watches := [(''/srv/data'', False)]\<rparr>"
    by (simp add: from_config_def watch_config_def watch_rule_def collect_rule_def demo_rule_def
        no_requirements_def)
qed

end
