(* ===== verification/Sensor_Text.thy ===== *)
theory Sensor_Text
  imports Actions
begin

text \<open>
  The text the sensors read: the string functions of the Rust standard library that
  \<open>kovert-sensors/src/polling.rs\<close> uses on it, the two decoders it defines,
  \<open>parse_nmcli_fields\<close> and \<open>unescape_mount\<close>, and the proof that they invert the escapes of
  \<open>nmcli -t\<close> and of the kernel's mount table.
\<close>

section \<open>String functions of the standard library\<close>

text \<open>
  \<open>str::lines\<close>: pieces that end in a line feed, the feed and a carriage return before it
  removed; a last piece without a feed is kept as it is unless it is empty.
\<close>

definition strip_cr :: "string \<Rightarrow> string" where
  "strip_cr l = (if l \<noteq> [] \<and> last l = CHR 0x0D then butlast l else l)"

definition text_lines :: "string \<Rightarrow> string list" where
  "text_lines s =
     (let parts = split_on CHR 0x0A s
      in map strip_cr (butlast parts) @ (if last parts = [] then [] else [last parts]))"

fun span_word :: "string \<Rightarrow> string \<times> string" where
  "span_word [] = ([], [])"
| "span_word (c # cs) =
     (if ws_len (c # cs) \<noteq> 0 then ([], c # cs)
      else (let (w, r) = span_word cs in (c # w, r)))"

lemma span_word_length: "length (snd (span_word s)) \<le> length s"
  by (induction s) (auto split: prod.splits)

lemma span_word_shorter:
  assumes "s \<noteq> []" and "ws_len s = 0" shows "length (snd (span_word s)) < length s"
  using assms span_word_length [of "tl s"] by (cases s) (auto split: prod.splits)

text \<open>\<open>str::split_whitespace\<close>: the maximal runs of bytes that start no white space.\<close>

function split_whitespace :: "string \<Rightarrow> string list" where
  "split_whitespace s =
     (let s' = trim_start s
      in if s' = [] then [] else fst (span_word s') # split_whitespace (snd (span_word s')))"
  by pat_completeness auto

termination split_whitespace
proof (relation "measure length")
  show "(snd (span_word x), s) \<in> measure length" if "x = trim_start s" and "x \<noteq> []" for x s
    using span_word_shorter [OF that(2)] trim_start_fixed [of s] trim_start_length [of s] that(1)
    by simp
qed simp

declare split_whitespace.simps [simp del]

text \<open>\<open>split_once\<close> at the first match of a pattern, \<open>rsplit_once\<close> at the last separator.\<close>

fun split_once :: "string \<Rightarrow> string \<Rightarrow> (string \<times> string) option" where
  "split_once p [] = (if p = [] then Some ([], []) else None)"
| "split_once p (c # cs) =
     (if take (length p) (c # cs) = p then Some ([], drop (length p) (c # cs))
      else map_option (\<lambda>(a, b). (c # a, b)) (split_once p cs))"

definition rsplit_once :: "char \<Rightarrow> string \<Rightarrow> (string \<times> string) option" where
  "rsplit_once d s =
     (if d \<in> set s
      then Some (rev (tl (dropWhile (\<lambda>c. c \<noteq> d) (rev s))), rev (takeWhile (\<lambda>c. c \<noteq> d) (rev s)))
      else None)"

definition str_contains :: "string \<Rightarrow> string \<Rightarrow> bool" where
  "str_contains p s \<longleftrightarrow> split_once p s \<noteq> None"

definition starts_with :: "string \<Rightarrow> string \<Rightarrow> bool" where
  "starts_with p s \<longleftrightarrow> take (length p) s = p"

text \<open>\<open>str::replace\<close> of a non-empty pattern: matches do not overlap and are found from the left.\<close>

function str_replace :: "string \<Rightarrow> string \<Rightarrow> string \<Rightarrow> string" where
  "str_replace p r [] = []"
| "str_replace p r (c # cs) =
     (if p \<noteq> [] \<and> take (length p) (c # cs) = p then r @ str_replace p r (drop (length p) (c # cs))
      else c # str_replace p r cs)"
  by pat_completeness auto
termination by (relation "measure (\<lambda>(_, _, s). length s)") (auto simp: drop_Cons split: nat.split)

text \<open>\<open>from_str_radix\<close> and \<open>parse\<close>: an optional plus sign, then digits, within the type.\<close>

definition hex_digit :: "char \<Rightarrow> nat option" where
  "hex_digit c =
     (if is_ascii_digit c then Some (byte c - 48)
      else if 65 \<le> byte c \<and> byte c \<le> 70 then Some (byte c - 55)
      else if 97 \<le> byte c \<and> byte c \<le> 102 then Some (byte c - 87) else None)"

fun parse_hex_digits :: "string \<Rightarrow> nat \<Rightarrow> nat option" where
  "parse_hex_digits [] n = Some n"
| "parse_hex_digits (c # cs) n =
     (case hex_digit c of Some d \<Rightarrow> parse_hex_digits cs (16 * n + d) | None \<Rightarrow> None)"

definition strip_plus :: "string \<Rightarrow> string" where
  "strip_plus s = (case s of c # cs \<Rightarrow> if c = CHR ''+'' then cs else s | [] \<Rightarrow> [])"

definition parse_u16_hex :: "string \<Rightarrow> 16 word option" where
  "parse_u16_hex s =
     (if strip_plus s = [] then None
      else case parse_hex_digits (strip_plus s) 0 of
          None \<Rightarrow> None
        | Some n \<Rightarrow> if n < 2 ^ 16 then Some (of_nat n) else None)"

text \<open>\<open>parse\<close> of a decimal below a bound: \<open>u8\<close> is 256, a 64-bit \<open>usize\<close> is \<open>2 ^ 64\<close>.\<close>

definition parse_below :: "nat \<Rightarrow> string \<Rightarrow> nat option" where
  "parse_below limit s =
     (if strip_plus s = [] then None
      else case parse_digits (strip_plus s) 0 of
          None \<Rightarrow> None
        | Some n \<Rightarrow> if n < limit then Some n else None)"

section \<open>Fields of \<open>nmcli -t\<close>\<close>

fun nmcli_step :: "string list \<times> bool \<Rightarrow> char \<Rightarrow> string list \<times> bool" where
  "nmcli_step (parts, escaped) character =
     (if escaped then (butlast parts @ [last parts @ [character]], False)
      else if character = CHR 0x5C then (parts, True)
      else if character = CHR '':'' then (parts @ [[]], False)
      else (butlast parts @ [last parts @ [character]], False))"

definition parse_nmcli_fields :: "string \<Rightarrow> string list" where
  "parse_nmcli_fields line =
     (let (parts, escaped) = foldl nmcli_step ([[]], False) line
      in if escaped then butlast parts @ [last parts @ [CHR 0x5C]] else parts)"

text \<open>How \<open>nmcli -t\<close> documents its output: colons and backslashes in a value are escaped by a backslash.\<close>

definition nmcli_escape :: "string \<Rightarrow> string" where
  "nmcli_escape s = concat (map (\<lambda>c. if c = CHR '':'' \<or> c = CHR 0x5C then [CHR 0x5C, c] else [c]) s)"

fun nmcli_print :: "string list \<Rightarrow> string" where
  "nmcli_print [] = []"
| "nmcli_print [f] = nmcli_escape f"
| "nmcli_print (f # fs) = nmcli_escape f @ [CHR '':''] @ nmcli_print fs"

lemma nmcli_value:
  "foldl nmcli_step (fs @ [g], False) (nmcli_escape s) = (fs @ [g @ s], False)"
  by (induction s arbitrary: g) (auto simp: nmcli_escape_def)

lemma nmcli_fields:
  "foldl nmcli_step (fs @ [[]], False) (nmcli_print (v # vs)) = (fs @ v # vs, False)"
proof (induction vs arbitrary: fs v)
  case Nil
  show ?case using nmcli_value [of fs "[]" v] by simp
next
  case (Cons u us)
  have "foldl nmcli_step (fs @ [[]], False) (nmcli_print (v # u # us)) =
      foldl nmcli_step ((fs @ [v]) @ [[]], False) (nmcli_print (u # us))"
    using nmcli_value [of fs "[]" v] by simp
  also have "\<dots> = (fs @ v # u # us, False)" using Cons.IH [of "fs @ [v]" u] by simp
  finally show ?case .
qed

lemma parse_print_nmcli: "vs \<noteq> [] \<Longrightarrow> parse_nmcli_fields (nmcli_print vs) = vs"
  using nmcli_fields [of "[]" "hd vs" "tl vs"] by (simp add: parse_nmcli_fields_def)

section \<open>Paths of the mount table\<close>

definition unescape_mount :: "string \<Rightarrow> string" where
  "unescape_mount value =
     str_replace (CHR 0x5C # ''134'') [CHR 0x5C]
       (str_replace (CHR 0x5C # ''012'') [CHR 0x0A]
          (str_replace (CHR 0x5C # ''011'') [CHR 0x09]
             (str_replace (CHR 0x5C # ''040'') '' '' value)))"

text \<open>
  The kernel prints space, tab, line feed and backslash in a mount path as a backslash and
  three octal digits. The four replacements run one after the other; \<open>mount_partial\<close> is the
  text after those of the characters in \<open>done\<close> have run.
\<close>

definition mount_code :: "char \<Rightarrow> string" where
  "mount_code c =
     (if c = CHR '' '' then CHR 0x5C # ''040'' else if c = CHR 0x09 then CHR 0x5C # ''011''
      else if c = CHR 0x0A then CHR 0x5C # ''012'' else if c = CHR 0x5C then CHR 0x5C # ''134'' else [c])"

definition mount_partial :: "char set \<Rightarrow> string \<Rightarrow> string" where
  "mount_partial decoded s = concat (map (\<lambda>c. if c \<in> decoded then [c] else mount_code c) s)"

definition mount_escape :: "string \<Rightarrow> string" where
  "mount_escape s = concat (map mount_code s)"

lemma mount_partial_simps [simp]:
  "mount_partial decoded [] = []"
  "mount_partial decoded (c # cs) = (if c \<in> decoded then [c] else mount_code c) @ mount_partial decoded cs"
  by (simp_all add: mount_partial_def)

lemma replace_stage:
  assumes "mount_code c = CHR 0x5C # p" and "length p = 3" and "CHR 0x5C \<notin> decoded" and "c \<notin> decoded"
    and "list_all (\<lambda>d. d \<noteq> CHR 0x5C) p"
  shows "str_replace (CHR 0x5C # p) [c] (mount_partial decoded s) = mount_partial (insert c decoded) s"
  using assms
  by (induction s) (auto simp: mount_code_def split: if_splits)

lemma unescape_escape: "unescape_mount (mount_escape s) = s"
proof -
  have start: "mount_escape s = mount_partial {} s"
    by (induction s) (simp_all add: mount_escape_def)
  have "str_replace (CHR 0x5C # ''040'') [CHR '' ''] (mount_partial {} s) = mount_partial {CHR '' ''} s"
    by (rule replace_stage) (simp_all add: mount_code_def)
  moreover have "str_replace (CHR 0x5C # ''011'') [CHR 0x09] (mount_partial {CHR '' ''} s) =
      mount_partial {CHR 0x09, CHR '' ''} s"
    by (rule replace_stage) (simp_all add: mount_code_def)
  moreover have "str_replace (CHR 0x5C # ''012'') [CHR 0x0A] (mount_partial {CHR 0x09, CHR '' ''} s) =
      mount_partial {CHR 0x0A, CHR 0x09, CHR '' ''} s"
    by (rule replace_stage) (simp_all add: mount_code_def)
  moreover have "str_replace (CHR 0x5C # ''134'') [CHR 0x5C] (mount_partial {CHR 0x0A, CHR 0x09, CHR '' ''} s) =
      mount_partial {CHR 0x5C, CHR 0x0A, CHR 0x09, CHR '' ''} s"
    by (rule replace_stage) (simp_all add: mount_code_def)
  moreover have "mount_partial {CHR 0x5C, CHR 0x0A, CHR 0x09, CHR '' ''} s = s"
    by (induction s) (simp_all add: mount_code_def)
  ultimately show ?thesis by (simp add: unescape_mount_def start)
qed

end
