(* ===== verification/Hotkey.thy ===== *)
theory Hotkey
  imports Validation_Spec Event Host
begin

text \<open>
  The hotkey sensor, \<open>kovert-sensors/src/hotkey.rs\<close>: key names to evdev codes and the
  recognizer of key sequences. The channel to the runtime is the list of what was sent and
  the answer to every further send; an event is sent as its source and kind, the identifier
  and time being drawn by \<open>Event::new\<close>.
\<close>

section \<open>The event channel\<close>

type_synonym draft = "string \<times> event_kind"

record channel =
  ch_sent :: "draft list"
  ch_accepts :: "nat \<Rightarrow> bool"

text \<open>\<open>Sender::send\<close>: an error when the receiver is gone; \<open>ch_accepts\<close> is asked for the n-th send.\<close>

definition chan_send :: "draft \<Rightarrow> channel \<Rightarrow> bool \<times> channel" where
  "chan_send d c =
     (if ch_accepts c (length (ch_sent c)) then (True, c\<lparr>ch_sent := ch_sent c @ [d]\<rparr>) else (False, c))"

definition sensor_failure :: "string \<Rightarrow> string \<Rightarrow> draft" where
  "sensor_failure sensor message = (sensor, E_SensorFailure sensor message)"

section \<open>Key names\<close>

definition key_codes :: "(string \<times> 16 word) list" where
  "key_codes =
     [(''ESC'', 1), (''1'', 2), (''2'', 3), (''3'', 4), (''4'', 5), (''5'', 6), (''6'', 7),
      (''7'', 8), (''8'', 9), (''9'', 10), (''0'', 11), (''Q'', 16), (''W'', 17), (''E'', 18),
      (''R'', 19), (''T'', 20), (''Y'', 21), (''U'', 22), (''I'', 23), (''O'', 24), (''P'', 25),
      (''ENTER'', 28), (''LEFTCTRL'', 29), (''CTRL'', 29), (''A'', 30), (''S'', 31), (''D'', 32),
      (''F'', 33), (''G'', 34), (''H'', 35), (''J'', 36), (''K'', 37), (''L'', 38),
      (''LEFTSHIFT'', 42), (''SHIFT'', 42), (''Z'', 44), (''X'', 45), (''C'', 46), (''V'', 47),
      (''B'', 48), (''N'', 49), (''M'', 50), (''LEFTALT'', 56), (''ALT'', 56), (''SPACE'', 57),
      (''F1'', 59), (''F2'', 60), (''F3'', 61), (''F4'', 62), (''F5'', 63), (''F6'', 64),
      (''F7'', 65), (''F8'', 66), (''F9'', 67), (''F10'', 68), (''F11'', 87), (''F12'', 88),
      (''RIGHTCTRL'', 97), (''RIGHTALT'', 100), (''HOME'', 102), (''UP'', 103), (''PAGEUP'', 104),
      (''LEFT'', 105), (''RIGHT'', 106), (''END'', 107), (''DOWN'', 108), (''PAGEDOWN'', 109),
      (''INSERT'', 110), (''DELETE'', 111), (''LEFTMETA'', 125), (''META'', 125),
      (''RIGHTMETA'', 126)]"

definition key_code :: "string \<Rightarrow> 16 word option" where
  "key_code name = map_of key_codes (normalize_key name)"

text \<open>The first key name without a code is the error of the whole sequence.\<close>

fun key_sequence :: "string list \<Rightarrow> (16 word list) result" where
  "key_sequence [] = Inr []"
| "key_sequence (key # keys) =
     and_then (ok_or (key_code key) (''unsupported key name: '' @ key)) (\<lambda>code.
       and_then (key_sequence keys) (\<lambda>codes. Inr (code # codes)))"

section \<open>The recognizer\<close>

text \<open>An evdev event with the \<open>Instant::now\<close> read after it; type 1 is \<open>EV_KEY\<close>, value 1 a press.\<close>

record input_event =
  in_type :: "16 word"
  in_code :: "16 word"
  in_value :: int
  in_at :: nat

definition is_press :: "input_event \<Rightarrow> bool" where
  "is_press ev \<longleftrightarrow> in_type ev = 1 \<and> in_value ev = 1"

type_synonym key_buffer = "(16 word \<times> nat) list"

text \<open>
  A press is pushed, the oldest presses are dropped while the buffer is longer than the
  sequence, then while the oldest is older than the window. A buffer that equals the
  sequence is cleared. \<open>duration_since\<close> saturates at zero.
\<close>

definition hotkey_press ::
  "hotkey_config \<Rightarrow> 16 word list \<Rightarrow> key_buffer \<Rightarrow> input_event \<Rightarrow> key_buffer \<times> bool" where
  "hotkey_press cfg codes buffer ev =
     (let now = in_at ev;
          pushed = buffer @ [(in_code ev, now)];
          trimmed = drop (length pushed - length codes) pushed;
          recent = dropWhile (\<lambda>(_, at). now - at > hotkey_within cfg) trimmed
      in if length recent = length codes \<and> map fst recent = codes then ([], True)
         else (recent, False))"

text \<open>The task on a finite stream of what \<open>next_event\<close> yields; at its end it waits for more.\<close>

fun hotkey_loop ::
  "hotkey_config \<Rightarrow> 16 word list \<Rightarrow> key_buffer \<Rightarrow> input_event result list \<Rightarrow> channel \<Rightarrow> channel" where
  "hotkey_loop cfg codes buffer [] c = c"
| "hotkey_loop cfg codes buffer (Inl error # _) c = snd (chan_send (sensor_failure ''hotkeys'' error) c)"
| "hotkey_loop cfg codes buffer (Inr ev # evs) c =
     (if \<not> is_press ev then hotkey_loop cfg codes buffer evs c
      else
        case hotkey_press cfg codes buffer ev of
          (buffer', False) \<Rightarrow> hotkey_loop cfg codes buffer' evs c
        | (buffer', True) \<Rightarrow>
            (case chan_send (''hotkeys'', E_Hotkey (hotkey_name cfg)) c of
               (False, c') \<Rightarrow> c'
             | (True, c') \<Rightarrow> hotkey_loop cfg codes buffer' evs c'))"

text \<open>
  \<open>spawn\<close> up to the task: the key codes, then the device, then its stream. The task is the
  sequence it was given.
\<close>

record input_host =
  ih_open :: "path \<Rightarrow> unit result"
  ih_stream :: "path \<Rightarrow> unit result"

definition hotkey_spawn :: "input_host \<Rightarrow> hotkey_config \<Rightarrow> (16 word list) result" where
  "hotkey_spawn h cfg =
     and_then (key_sequence (hotkey_sequence cfg)) (\<lambda>codes.
     and_then (with_context (ih_open h (hotkey_device cfg)) (''open input device '' @ hotkey_device cfg)) (\<lambda>_.
     and_then (with_context (ih_stream h (hotkey_device cfg)) ''create asynchronous input stream'') (\<lambda>_.
     Inr codes)))"

section \<open>Validation and the sensor agree on key names\<close>

lemma normalize_key_upper: "c \<in> set (normalize_key s) \<Longrightarrow> \<not> is_ascii_lowercase c"
proof -
  have up: "\<not> is_ascii_lowercase (to_ascii_upper d)" for d
    by (auto simp: to_ascii_upper_def is_ascii_lowercase_def)
  assume "c \<in> set (normalize_key s)"
  then have "c \<in> set (to_ascii_uppercase (trim s))"
    by (auto simp: normalize_key_def Let_def strip_prefix_def split: if_splits dest: in_set_dropD)
  with up show ?thesis by (auto simp: to_ascii_uppercase_def)
qed

lemma letter_has_code:
  assumes "is_ascii_alphanumeric c" and "\<not> is_ascii_lowercase c"
  shows "map_of key_codes [c] \<noteq> None"
proof -
  have "list_all (\<lambda>n. map_of key_codes [char_of n] \<noteq> None) ([48..<58] @ [65..<91])"
    by code_simp
  moreover have "byte c \<in> set ([48..<58] @ [65..<91])"
    using assms unfolding is_ascii_alphanumeric_def is_ascii_digit_def is_ascii_uppercase_def
    by (simp only: set_append set_upt Un_iff atLeastLessThan_iff) auto
  ultimately have "map_of key_codes [char_of (byte c)] \<noteq> None" unfolding list_all_iff by blast
  then show ?thesis by simp
qed

lemma coded_names:
  "list_all (\<lambda>(key, _). length key = 1 \<and> is_ascii_alphanumeric (key ! 0) \<or> key \<in> set key_names) key_codes"
  by code_simp

lemma named_keys_coded: "list_all (\<lambda>key. map_of key_codes key \<noteq> None) key_names"
  by code_simp

lemma valid_key_name_iff_code: "valid_key_name s \<longleftrightarrow> key_code s \<noteq> None"
proof
  assume "valid_key_name s"
  then consider (letter) c where "normalize_key s = [c]" "is_ascii_alphanumeric c"
    | (name) "normalize_key s \<in> set key_names"
    by (auto simp: valid_key_name_def Let_def length_Suc_conv)
  then show "key_code s \<noteq> None"
  proof cases
    case letter
    then show ?thesis
      using normalize_key_upper [of c s] letter_has_code [of c] by (simp add: key_code_def)
  next
    case name
    then show ?thesis using named_keys_coded by (auto simp: key_code_def list_all_iff)
  qed
next
  assume "key_code s \<noteq> None"
  then obtain code where "(normalize_key s, code) \<in> set key_codes"
    by (auto simp: key_code_def dest: map_of_SomeD)
  then show "valid_key_name s"
    using coded_names by (fastforce simp: list_all_iff valid_key_name_def Let_def)
qed

lemma key_sequence_valid:
  "list_all valid_key_name keys \<longleftrightarrow> (\<exists>codes. key_sequence keys = Inr codes)"
  by (induction keys) (auto simp: valid_key_name_iff_code ok_or_def result_elims split: option.splits)

lemma key_sequence_length: "key_sequence keys = Inr codes \<Longrightarrow> length codes = length keys"
  by (induction keys arbitrary: codes) (auto simp: result_elims)

end
