(* ===== verification/Polling.thy ===== *)
theory Polling
  imports Requirements Sensor_Text Hotkey
begin

text \<open>
  The polling sensor, \<open>kovert-sensors/src/polling.rs\<close>: the probes, the poll cycle that turns
  differences between two probes into events, and the polling task.

  The host is an argument: the files and directories the probes read, the tools they run,
  and the BLAKE3 hash. A directory entry is its name, whose \<open>to_string_lossy\<close> the probes use,
  or the error of reading it. A command yields whether it succeeded and what it wrote.
\<close>

section \<open>The host\<close>

record sensor_host =
  sh_is_file :: "path \<Rightarrow> bool"
  sh_exists :: "path \<Rightarrow> bool"
  sh_read_to_string :: "path \<Rightarrow> string result"
  sh_read :: "path \<Rightarrow> string result"
  sh_read_dir :: "path \<Rightarrow> (string result list) result"
  sh_output :: "path \<Rightarrow> string list \<Rightarrow> (bool \<times> string) result"
  sh_blake3 :: "string \<Rightarrow> string"

definition sensor_tool :: "sensor_host \<Rightarrow> string \<Rightarrow> path result" where
  "sensor_tool h name =
     ok_or (find (sh_is_file h)
              (map (\<lambda>directory. path_join directory name) [''/usr/bin'', ''/usr/sbin'', ''/bin'', ''/sbin'']))
       (''required sensor tool is unavailable: '' @ name)"

definition read_trimmed :: "sensor_host \<Rightarrow> path \<Rightarrow> string option" where
  "read_trimmed h p =
     (case sh_read_to_string h p of
        Inl _ \<Rightarrow> None
      | Inr text \<Rightarrow> if trim text = [] then None else Some (trim text))"

text \<open>\<open>fs::read_to_string(..).unwrap_or_default()\<close>.\<close>

definition read_or_default :: "sensor_host \<Rightarrow> path \<Rightarrow> string" where
  "read_or_default h p = (case sh_read_to_string h p of Inl _ \<Rightarrow> [] | Inr text \<Rightarrow> text)"

text \<open>A loop over directory entries: the first entry that cannot be read ends it with its error.\<close>

fun each_entry :: "(string \<Rightarrow> 'a \<Rightarrow> 'a) \<Rightarrow> string result list \<Rightarrow> 'a \<Rightarrow> 'a result" where
  "each_entry f [] acc = Inr acc"
| "each_entry f (Inl e # _) acc = Inl e"
| "each_entry f (Inr name # rest) acc = each_entry f rest (f name acc)"

section \<open>State\<close>

record wifi_state =
  ws_connected :: bool
  ws_ssid :: "string option"
  ws_bssid :: "string option"

record network_state =
  ns_online :: bool
  ns_interface :: "string option"
  ns_vpn :: bool

record usb_device =
  ud_vendor_id :: "string option"
  ud_product_id :: "string option"
  ud_serial :: "string option"

record session_info =
  si_state :: session_state
  si_user :: "string option"
  si_remote :: bool

record power_state =
  pw_on_ac :: "bool option"
  pw_battery_percent :: "8 word option"
  pw_lid_closed :: "bool option"

record poll_state =
  ps_initialized :: bool
  ps_wifi :: "wifi_state option"
  ps_network :: "network_state option"
  ps_usb :: "usb_device list"
  ps_mounts :: "(path \<times> string option) list"
  ps_processes :: "(string \<times> bool) list"
  ps_services :: "(string \<times> bool) list"
  ps_ports :: "(network_protocol \<times> 16 word) list"
  ps_session :: "session_info option"
  ps_power :: "power_state option"
  ps_config_hash :: "string option"
  ps_binary_hash :: "string option"
  ps_failed :: "string set"

definition default_poll_state :: poll_state where
  "default_poll_state =
     \<lparr> ps_initialized = False, ps_wifi = None, ps_network = None, ps_usb = [], ps_mounts = [],
       ps_processes = [], ps_services = [], ps_ports = [], ps_session = None, ps_power = None,
       ps_config_hash = None, ps_binary_hash = None, ps_failed = {} \<rparr>"

text \<open>\<open>derive(Ord)\<close> on \<open>UsbDevice\<close>: its fields in order, an absent one first.\<close>

definition usb_rank :: "usb_device \<Rightarrow> string option \<times> string option \<times> string option" where
  "usb_rank d = (ud_vendor_id d, ud_product_id d, ud_serial d)"

definition usb_insert :: "usb_device \<Rightarrow> usb_device list \<Rightarrow> usb_device list" where
  "usb_insert d ds = (if d \<in> set ds then ds else insort_key usb_rank d ds)"

section \<open>Probes\<close>

definition nth_field :: "string list \<Rightarrow> nat \<Rightarrow> string option" where
  "nth_field fs i = (if i < length fs then Some (fs ! i) else None)"

definition nonempty_field :: "string list \<Rightarrow> nat \<Rightarrow> string option" where
  "nonempty_field fs i = (if i < length fs \<and> fs ! i \<noteq> [] then Some (fs ! i) else None)"

definition no_wifi :: wifi_state where
  "no_wifi = \<lparr> ws_connected = False, ws_ssid = None, ws_bssid = None \<rparr>"

fun active_wifi :: "string list \<Rightarrow> wifi_state" where
  "active_wifi [] = no_wifi"
| "active_wifi (line # lines) =
     (let fs = parse_nmcli_fields line
      in if nth_field fs 0 \<noteq> Some ''yes'' then active_wifi lines
         else \<lparr> ws_connected = True, ws_ssid = nonempty_field fs 1, ws_bssid = nonempty_field fs 2 \<rparr>)"

definition probe_wifi :: "sensor_host \<Rightarrow> wifi_state result" where
  "probe_wifi h =
     and_then (sensor_tool h ''nmcli'') (\<lambda>nmcli.
     and_then (with_context (sh_output h nmcli [''-t'', ''-f'', ''ACTIVE,SSID,BSSID'', ''device'', ''wifi''])
       ''run nmcli'') (\<lambda>(success, stdout).
     if \<not> success then Inl ''nmcli failed''
     else Inr (active_wifi (text_lines (from_utf8_lossy stdout)))))"

definition is_vpn_name :: "string \<Rightarrow> bool" where
  "is_vpn_name name \<longleftrightarrow>
     starts_with ''tun'' name \<or> starts_with ''tap'' name \<or> starts_with ''wg'' name \<or> starts_with ''vpn'' name"

definition network_entry :: "sensor_host \<Rightarrow> string \<Rightarrow> network_state \<Rightarrow> network_state" where
  "network_entry h raw n =
     (let name = from_utf8_lossy raw in
      if name = ''lo'' then n
      else if trim (read_or_default h (path_join (path_join ''/sys/class/net'' raw) ''operstate'')) = ''up''
      then \<lparr> ns_online = True,
             ns_interface = (if ns_interface n = None then Some name else ns_interface n),
             ns_vpn = (ns_vpn n \<or> is_vpn_name name) \<rparr>
      else n)"

definition probe_network :: "sensor_host \<Rightarrow> network_state result" where
  "probe_network h =
     and_then (with_context (sh_read_dir h ''/sys/class/net'') ''read network interfaces'') (\<lambda>entries.
     each_entry (network_entry h) entries \<lparr> ns_online = False, ns_interface = None, ns_vpn = False \<rparr>)"

definition usb_entry :: "sensor_host \<Rightarrow> string \<Rightarrow> usb_device list \<Rightarrow> usb_device list" where
  "usb_entry h name devices =
     (let p = path_join ''/sys/bus/usb/devices'' name;
          vendor = read_trimmed h (path_join p ''idVendor'');
          product = read_trimmed h (path_join p ''idProduct'')
      in if vendor = None \<and> product = None then devices
         else usb_insert \<lparr> ud_vendor_id = vendor, ud_product_id = product,
                           ud_serial = read_trimmed h (path_join p ''serial'') \<rparr> devices)"

definition probe_usb :: "sensor_host \<Rightarrow> usb_device list result" where
  "probe_usb h =
     and_then (with_context (sh_read_dir h ''/sys/bus/usb/devices'') ''read USB devices'') (\<lambda>entries.
     each_entry (usb_entry h) entries [])"

definition mount_line :: "string \<Rightarrow> (path \<times> string option) list \<Rightarrow> (path \<times> string option) list" where
  "mount_line line mounts =
     (case split_once '' - '' line of
        None \<Rightarrow> mounts
      | Some (left, right) \<Rightarrow>
          (let fs = split_whitespace left; gs = split_whitespace right
           in if length fs < 5 then mounts
              else btree_insert path_rank (unescape_mount (fs ! 4))
                     (map_option unescape_mount (nth_field gs 1)) mounts))"

definition probe_mounts :: "sensor_host \<Rightarrow> (path \<times> string option) list result" where
  "probe_mounts h =
     and_then (with_context (sh_read_to_string h ''/proc/self/mountinfo'') ''read mountinfo'') (\<lambda>text.
     Inr (fold mount_line (text_lines text) []))"

definition process_entry :: "sensor_host \<Rightarrow> string \<Rightarrow> (string \<times> bool) list \<Rightarrow> (string \<times> bool) list" where
  "process_entry h raw found =
     (if parse_u32 (from_utf8_lossy raw) = None then found
      else let name = trim (read_or_default h (path_join (path_join ''/proc'' raw) ''comm''))
           in map (\<lambda>(n, running). (n, running \<or> n = name)) found)"

definition probe_processes :: "sensor_host \<Rightarrow> string list \<Rightarrow> (string \<times> bool) list result" where
  "probe_processes h names =
     and_then (with_context (sh_read_dir h ''/proc'') ''read /proc'') (\<lambda>entries.
     each_entry (process_entry h) entries (map (\<lambda>name. (name, False)) names))"

fun query_services :: "sensor_host \<Rightarrow> path \<Rightarrow> string list \<Rightarrow> (string \<times> bool) list result" where
  "query_services h systemctl [] = Inr []"
| "query_services h systemctl (name # names) =
     and_then (with_context (sh_output h systemctl [''is-active'', ''--quiet'', name])
       (''query service '' @ name)) (\<lambda>(success, _).
     and_then (query_services h systemctl names) (\<lambda>rest. Inr ((name, success) # rest)))"

definition probe_services :: "sensor_host \<Rightarrow> string list \<Rightarrow> (string \<times> bool) list result" where
  "probe_services h names =
     and_then (sensor_tool h ''systemctl'') (\<lambda>systemctl. query_services h systemctl names)"

definition port_line ::
  "network_protocol \<Rightarrow> (network_protocol \<times> 16 word) list \<Rightarrow> string \<Rightarrow>
   (network_protocol \<times> 16 word) list \<Rightarrow> (network_protocol \<times> 16 word) list" where
  "port_line protocol required line open_ports =
     (let fs = split_whitespace line in
      case Option.bind (nth_field fs 1) (rsplit_once CHR '':'') of
        None \<Rightarrow> open_ports
      | Some (_, port_text) \<Rightarrow>
          (case parse_u16_hex port_text of
             None \<Rightarrow> open_ports
           | Some port \<Rightarrow>
               if (protocol = Udp \<or> nth_field fs 3 = Some ''0A'') \<and> (protocol, port) \<in> set required
               then bset_insert (protocol, port) open_ports else open_ports))"

definition port_table ::
  "sensor_host \<Rightarrow> (network_protocol \<times> 16 word) list \<Rightarrow> path \<times> network_protocol \<Rightarrow>
   (network_protocol \<times> 16 word) list \<Rightarrow> (network_protocol \<times> 16 word) list" where
  "port_table h required source open_ports =
     (case sh_read_to_string h (fst source) of
        Inl _ \<Rightarrow> open_ports
      | Inr text \<Rightarrow> fold (port_line (snd source) required) (drop 1 (text_lines text)) open_ports)"

definition probe_ports ::
  "sensor_host \<Rightarrow> (network_protocol \<times> 16 word) list \<Rightarrow> (network_protocol \<times> 16 word) list result" where
  "probe_ports h required =
     Inr (fold (port_table h required)
       [(''/proc/net/tcp'', Tcp), (''/proc/net/tcp6'', Tcp), (''/proc/net/udp'', Udp), (''/proc/net/udp6'', Udp)]
       [])"

definition probe_session :: "sensor_host \<Rightarrow> session_info result" where
  "probe_session h =
     and_then (sensor_tool h ''loginctl'') (\<lambda>loginctl.
     and_then (with_context (sh_output h loginctl [''list-sessions'', ''--no-legend''])
       ''list login sessions'') (\<lambda>(success, stdout).
     if \<not> success then Inl ''loginctl list-sessions failed''
     else case text_lines (from_utf8_lossy stdout) of
         [] \<Rightarrow> Inr \<lparr> si_state = LoggedOut, si_user = None, si_remote = False \<rparr>
       | line # _ \<Rightarrow>
           (let fs = split_whitespace line in
            and_then (ok_or (nth_field fs 0) ''invalid loginctl output'') (\<lambda>session_id.
            and_then (with_context (sh_output h loginctl
                [''show-session'', session_id, ''--property=LockedHint'', ''--property=Remote'', ''--value''])
              ''query login session'') (\<lambda>(success', properties).
            if \<not> success' then Inl ''loginctl show-session failed''
            else
              let values = text_lines (from_utf8_lossy properties);
                  locked = is_some_and (\<lambda>value. value = ''yes'') (nth_field values 0);
                  remote = is_some_and (\<lambda>value. value = ''yes'') (nth_field values 1)
              in Inr \<lparr> si_state = (if locked then Locked else Unlocked),
                       si_user = nth_field fs 2, si_remote = remote \<rparr>)))))"

definition power_entry ::
  "sensor_host \<Rightarrow> string \<Rightarrow> bool option \<times> 8 word option \<Rightarrow> bool option \<times> 8 word option" where
  "power_entry h name acc =
     (let p = path_join ''/sys/class/power_supply'' name;
          kind = unwrap_or (read_trimmed h (path_join p ''type'')) [];
          (on_ac, battery) = acc
      in if kind = ''Mains'' \<or> kind = ''USB'' \<or> kind = ''USB_C''
         then (case Option.bind (read_trimmed h (path_join p ''online'')) (parse_below 256) of
                 None \<Rightarrow> acc
               | Some n \<Rightarrow> (Some (unwrap_or on_ac False \<or> n = 1), battery))
         else if kind = ''Battery'' \<and> battery = None
         then (on_ac, map_option of_nat
                 (Option.bind (read_trimmed h (path_join p ''capacity'')) (parse_below 256)))
         else acc)"

definition probe_lid :: "sensor_host \<Rightarrow> bool option" where
  "probe_lid h =
     (case sh_read_dir h ''/proc/acpi/button/lid'' of
        Inr (Inr name # _) \<Rightarrow>
          map_option (\<lambda>text. str_contains ''closed'' (to_ascii_lowercase text))
            (read_trimmed h (path_join (path_join ''/proc/acpi/button/lid'' name) ''state''))
      | _ \<Rightarrow> None)"

definition probe_power :: "sensor_host \<Rightarrow> power_state result" where
  "probe_power h =
     and_then
       (if sh_exists h ''/sys/class/power_supply''
        then and_then (with_context (sh_read_dir h ''/sys/class/power_supply'') ''read power supplies'')
               (\<lambda>entries. each_entry (power_entry h) entries (None, None))
        else Inr (None, None)) (\<lambda>(on_ac, battery).
     Inr \<lparr> pw_on_ac = on_ac, pw_battery_percent = battery, pw_lid_closed = probe_lid h \<rparr>)"

end
