(* ===== verification/Poll_Cycle.thy ===== *)
theory Poll_Cycle
  imports Polling
begin

text \<open>
  \<open>poll_cycle\<close> and the polling task of \<open>kovert-sensors/src/polling.rs\<close>. Every sensor is a
  step from the state of the previous cycle to the events it adds and the next state; the
  cycle runs the steps of the required sensors in the order of the source.
\<close>

section \<open>Steps\<close>

type_synonym poll_step = "poll_state \<Rightarrow> draft list \<times> poll_state"

definition poll_then :: "poll_step \<Rightarrow> poll_step \<Rightarrow> poll_step" where
  "poll_then f g = (\<lambda>s. let (evs, s') = f s; (evs', s'') = g s' in (evs @ evs', s''))"

definition probe_value :: "string \<Rightarrow> 'a result \<Rightarrow> poll_state \<Rightarrow> 'a option \<times> draft list \<times> poll_state" where
  "probe_value sensor r s =
     (case r of
        Inr value \<Rightarrow> (Some value, [], s\<lparr>ps_failed := ps_failed s - {sensor}\<rparr>)
      | Inl error \<Rightarrow>
          (None, if sensor \<in> ps_failed s then [] else [sensor_failure sensor error],
           s\<lparr>ps_failed := insert sensor (ps_failed s)\<rparr>))"

text \<open>\<open>if required { if let Some(value) = probe_value(..) { .. } }\<close>.\<close>

definition polled :: "bool \<Rightarrow> string \<Rightarrow> 'a result \<Rightarrow> ('a \<Rightarrow> poll_step) \<Rightarrow> poll_step" where
  "polled required sensor r use =
     (\<lambda>s. if \<not> required then ([], s)
          else case probe_value sensor r s of
              (None, evs, s') \<Rightarrow> (evs, s')
            | (Some value, evs, s') \<Rightarrow> (let (evs', s'') = use value s' in (evs @ evs', s'')))"

definition wifi_step :: "bool \<Rightarrow> wifi_state \<Rightarrow> poll_step" where
  "wifi_step first value s =
     (if first \<or> ps_wifi s \<noteq> Some value
      then [(''wifi'', E_Wifi (ws_connected value) (ws_ssid value) (ws_bssid value))] else [],
      s\<lparr>ps_wifi := Some value\<rparr>)"

definition network_step :: "bool \<Rightarrow> network_state \<Rightarrow> poll_step" where
  "network_step first value s =
     (if first \<or> ps_network s \<noteq> Some value
      then [(''network'', E_Network (ns_online value) (ns_interface value) (ns_vpn value))] else [],
      s\<lparr>ps_network := Some value\<rparr>)"

definition usb_event :: "device_action \<Rightarrow> usb_device \<Rightarrow> draft" where
  "usb_event action device =
     (''usb'', E_Usb action (ud_vendor_id device) (ud_product_id device) (ud_serial device))"

definition usb_step :: "bool \<Rightarrow> usb_device list \<Rightarrow> poll_step" where
  "usb_step first value s =
     (if first then map (usb_event Added) value
      else map (usb_event Added) (filter (\<lambda>d. d \<notin> set (ps_usb s)) value) @
           map (usb_event Removed) (filter (\<lambda>d. d \<notin> set value) (ps_usb s)),
      s\<lparr>ps_usb := value\<rparr>)"

definition mount_event :: "device_action \<Rightarrow> path \<times> string option \<Rightarrow> draft" where
  "mount_event action entry = (''mounts'', E_Mount action (fst entry) (snd entry))"

definition contains_mount :: "(path \<times> string option) list \<Rightarrow> path \<times> string option \<Rightarrow> bool" where
  "contains_mount mounts entry \<longleftrightarrow> btree_get path_rank mounts (fst entry) \<noteq> None"

definition mounts_step :: "bool \<Rightarrow> (path \<times> string option) list \<Rightarrow> poll_step" where
  "mounts_step first value s =
     (if first then map (mount_event Added) value
      else map (mount_event Added) (filter (\<lambda>e. \<not> contains_mount (ps_mounts s) e) value) @
           map (mount_event Removed) (filter (\<lambda>e. \<not> contains_mount value e) (ps_mounts s)),
      s\<lparr>ps_mounts := value\<rparr>)"

definition processes_step :: "bool \<Rightarrow> (string \<times> bool) list \<Rightarrow> poll_step" where
  "processes_step first value s =
     (map (\<lambda>(name, running). (''processes'', E_Process name running None))
        (filter (\<lambda>(name, running). first \<or> map_of (ps_processes s) name \<noteq> Some running) value),
      s\<lparr>ps_processes := value\<rparr>)"

definition services_step :: "bool \<Rightarrow> (string \<times> bool) list \<Rightarrow> poll_step" where
  "services_step first value s =
     (map (\<lambda>(name, active). (''services'', E_Service name active))
        (filter (\<lambda>(name, active). first \<or> map_of (ps_services s) name \<noteq> Some active) value),
      s\<lparr>ps_services := value\<rparr>)"

definition port_event ::
  "(network_protocol \<times> 16 word) list \<Rightarrow> network_protocol \<times> 16 word \<Rightarrow> draft" where
  "port_event value item = (''ports'', E_Port (snd item) (fst item) (item \<in> set value))"

text \<open>\<open>symmetric_difference\<close> yields the differing elements of both sets in ascending order.\<close>

definition ports_step ::
  "bool \<Rightarrow> (network_protocol \<times> 16 word) list \<Rightarrow> (network_protocol \<times> 16 word) list \<Rightarrow> poll_step" where
  "ports_step first required value s =
     (map (port_event value)
        (if first then required
         else sort (filter (\<lambda>p. p \<notin> set (ps_ports s)) value @ filter (\<lambda>p. p \<notin> set value) (ps_ports s))),
      s\<lparr>ps_ports := value\<rparr>)"

definition session_event :: "session_state \<Rightarrow> session_info \<Rightarrow> draft" where
  "session_event state value = (''sessions'', E_Session state (si_user value) (si_remote value))"

definition sessions_step :: "bool \<Rightarrow> session_info \<Rightarrow> poll_step" where
  "sessions_step first value s =
     (if first \<or> ps_session s \<noteq> Some value
      then (if si_state value \<noteq> LoggedOut \<and>
               (first \<or> is_some_and (\<lambda>previous. si_state previous = LoggedOut) (ps_session s))
            then [session_event LoggedIn value] else []) @ [session_event (si_state value) value]
      else [],
      s\<lparr>ps_session := Some value\<rparr>)"

definition power_step :: "bool \<Rightarrow> power_state \<Rightarrow> poll_step" where
  "power_step first value s =
     (if first \<or> ps_power s \<noteq> Some value
      then [(''power'', E_Power (pw_on_ac value) (pw_battery_percent value) (pw_lid_closed value))] else [],
      s\<lparr>ps_power := Some value\<rparr>)"

section \<open>Integrity\<close>

definition check_integrity ::
  "sensor_host \<Rightarrow> string \<Rightarrow> path \<Rightarrow> string option \<Rightarrow> draft list \<times> string option" where
  "check_integrity h part p slot =
     (case sh_read h p of
        Inr bytes \<Rightarrow>
          (if slot \<noteq> None \<and> slot \<noteq> Some (sh_blake3 h bytes)
           then [(''integrity'', E_Integrity part False (Some (p @ '' changed on disk'')))] else [],
           Some (sh_blake3 h bytes))
      | Inl error \<Rightarrow>
          ([(''integrity'', E_SensorFailure ''integrity'' (''read '' @ p @ '': '' @ error))], slot))"

definition probe_integrity :: "sensor_host \<Rightarrow> path \<Rightarrow> path \<Rightarrow> poll_step" where
  "probe_integrity h config_path executable s =
     (let (evs, config_hash) = check_integrity h ''configuration'' config_path (ps_config_hash s);
          (evs', binary_hash) = check_integrity h ''binary'' executable (ps_binary_hash s)
      in (evs @ evs', s\<lparr>ps_config_hash := config_hash, ps_binary_hash := binary_hash\<rparr>))"

section \<open>The cycle\<close>

definition poll_steps ::
  "sensor_host \<Rightarrow> sensor_requirements \<Rightarrow> path \<Rightarrow> path \<Rightarrow> bool \<Rightarrow> poll_step list" where
  "poll_steps h q config_path executable first =
     [polled (req_wifi q) ''wifi'' (probe_wifi h) (wifi_step first),
      polled (req_network q) ''network'' (probe_network h) (network_step first),
      polled (req_usb q) ''usb'' (probe_usb h) (usb_step first),
      polled (req_mounts q) ''mounts'' (probe_mounts h) (mounts_step first),
      polled (req_processes q \<noteq> []) ''processes'' (probe_processes h (req_processes q)) (processes_step first),
      polled (req_services q \<noteq> []) ''services'' (probe_services h (req_services q)) (services_step first),
      polled (req_ports q \<noteq> []) ''ports'' (probe_ports h (req_ports q)) (ports_step first (req_ports q)),
      polled (req_sessions q) ''sessions'' (probe_session h) (sessions_step first),
      polled (req_power q) ''power'' (probe_power h) (power_step first),
      (\<lambda>s. if req_integrity q then probe_integrity h config_path executable s else ([], s)),
      (\<lambda>s. ([], s\<lparr>ps_initialized := True\<rparr>))]"

definition poll_cycle :: "sensor_host \<Rightarrow> sensor_requirements \<Rightarrow> path \<Rightarrow> path \<Rightarrow> poll_step" where
  "poll_cycle h q config_path executable s =
     foldr poll_then (poll_steps h q config_path executable (\<not> ps_initialized s)) (\<lambda>s. ([], s)) s"

section \<open>The task\<close>

text \<open>
  \<open>spawn_blocking\<close> yields the result of the cycle or, when the cycle panicked, its join
  error; the poll state is then gone and a fresh one replaces it. A send that fails ends the
  task. Its ticks are a finite stream of what the host answers in each.
\<close>

datatype blocking = Completed sensor_host | Panicked string

fun send_all :: "draft list \<Rightarrow> channel \<Rightarrow> bool \<times> channel" where
  "send_all [] c = (True, c)"
| "send_all (d # ds) c =
     (case chan_send d c of (False, c') \<Rightarrow> (False, c') | (True, c') \<Rightarrow> send_all ds c')"

fun polling_loop ::
  "sensor_requirements \<Rightarrow> path \<Rightarrow> path \<Rightarrow> poll_state \<Rightarrow> blocking list \<Rightarrow> channel \<Rightarrow> poll_state \<times> channel" where
  "polling_loop q config_path executable s [] c = (s, c)"
| "polling_loop q config_path executable s (b # bs) c =
     (case chan_send (''time'', E_Tick) c of
        (False, c') \<Rightarrow> (s, c')
      | (True, c') \<Rightarrow>
          (case b of
             Completed h \<Rightarrow>
               (let (evs, s') = poll_cycle h q config_path executable s
                in case send_all evs c' of
                    (False, c'') \<Rightarrow> (s', c'')
                  | (True, c'') \<Rightarrow> polling_loop q config_path executable s' bs c'')
           | Panicked error \<Rightarrow>
               (case chan_send (sensor_failure ''polling'' error) c' of
                  (False, c'') \<Rightarrow> (s, c'')
                | (True, c'') \<Rightarrow> polling_loop q config_path executable default_poll_state bs c'')))"

definition polling_spawn :: "path result \<Rightarrow> path result" where
  "polling_spawn current_exe = with_context current_exe ''resolve current executable''"

end
