(* ===== verification/Sensors.thy ===== *)
theory Sensors
  imports Poll_Cycle
begin

text \<open>
  The file-system sensor, \<open>kovert-sensors/src/filesystem.rs\<close>, and the hub that starts the
  sensors, \<open>SensorHub::start\<close> of \<open>kovert-sensors/src/lib.rs\<close>. The \<open>notify\<close> crate, threads and
  input devices are arguments; a started task is the data it was started with.
\<close>

section \<open>The file-system sensor\<close>

text \<open>\<open>notify::EventKind\<close> and \<open>ModifyKind\<close>, without the details the sensor ignores.\<close>

datatype modify_kind = Modify_Any | Modify_Data | Modify_Metadata | Modify_Name | Modify_Other

datatype notify_kind =
    Notify_Any | Notify_Access | Notify_Create | Notify_Modify modify_kind | Notify_Remove | Notify_Other

record notify_event =
  ne_kind :: notify_kind
  ne_paths :: "path list"

fun map_operation :: "notify_kind \<Rightarrow> file_operation" where
  "map_operation Notify_Create = Create"
| "map_operation Notify_Remove = Delete"
| "map_operation (Notify_Modify Modify_Name) = Rename"
| "map_operation (Notify_Modify Modify_Metadata) = Metadata"
| "map_operation (Notify_Modify _) = Modify"
| "map_operation Notify_Access = Access"
| "map_operation _ = Other"

text \<open>The watcher's callback: one event per path, stopping when the runtime is gone.\<close>

definition watch_callback :: "notify_event result \<Rightarrow> channel \<Rightarrow> channel" where
  "watch_callback r c =
     (case r of
        Inr ev \<Rightarrow> snd (send_all (map (\<lambda>p. (''filesystem'', E_File p (map_operation (ne_kind ev)))) (ne_paths ev)) c)
      | Inl error \<Rightarrow> snd (chan_send (sensor_failure ''filesystem'' error) c))"

record notify_host =
  nh_thread :: "unit result"
  nh_watcher :: "unit result"
  nh_watch :: "path \<Rightarrow> bool \<Rightarrow> unit result"

fun watch_paths :: "notify_host \<Rightarrow> (path \<times> bool) list \<Rightarrow> unit result" where
  "watch_paths h [] = Inr ()"
| "watch_paths h ((p, recursive) # rest) =
     (case nh_watch h p recursive of
        Inl error \<Rightarrow> Inl (''watch '' @ p @ '': '' @ error)
      | Inr _ \<Rightarrow> watch_paths h rest)"

definition filesystem_spawn :: "notify_host \<Rightarrow> (path \<times> bool) list \<Rightarrow> unit result" where
  "filesystem_spawn h paths =
     and_then (with_context (nh_thread h) ''spawn filesystem sensor'') (\<lambda>_.
     and_then (nh_watcher h) (\<lambda>_. watch_paths h paths))"

section \<open>The hub\<close>

datatype sensor_task =
    Task_Filesystem "(path \<times> bool) list"
  | Task_Hotkey hotkey_config "16 word list"
  | Task_Polling sensor_requirements duration path path

text \<open>A hotkey that cannot start is reported as a sensor failure; \<open>try_send\<close>'s result is ignored.\<close>

fun start_hotkeys ::
  "input_host \<Rightarrow> hotkey_config list \<Rightarrow> sensor_task list \<times> channel \<Rightarrow> sensor_task list \<times> channel" where
  "start_hotkeys h [] acc = acc"
| "start_hotkeys h (k # ks) (tasks, c) =
     (case hotkey_spawn h k of
        Inr codes \<Rightarrow> start_hotkeys h ks (tasks @ [Task_Hotkey k codes], c)
      | Inl error \<Rightarrow> start_hotkeys h ks (tasks, snd (chan_send (sensor_failure ''hotkeys'' error) c)))"

definition hub_start ::
  "notify_host \<Rightarrow> input_host \<Rightarrow> path result \<Rightarrow> config \<Rightarrow> path \<Rightarrow> channel \<Rightarrow> sensor_task list result \<times> channel" where
  "hub_start nh ih current_exe cfg config_path c =
     (let q = from_config cfg in
      case (if file_watches q = [] then Inr []
            else and_then (filesystem_spawn nh (file_watches q)) (\<lambda>_. Inr [Task_Filesystem (file_watches q)])) of
        Inl error \<Rightarrow> (Inl error, c)
      | Inr tasks \<Rightarrow>
          (let (tasks', c') = start_hotkeys ih (cfg_hotkeys cfg) (tasks, c) in
           (and_then (polling_spawn current_exe) (\<lambda>executable.
              Inr (tasks' @ [Task_Polling q (poll_interval (cfg_daemon cfg)) config_path executable])), c')))"

end
