(* ===== verification/Poll_Spec.thy ===== *)
theory Poll_Spec
  imports Poll_Cycle
begin

text \<open>
  The poll state and the engine's snapshot describe the same host. Each polled sensor is an
  interpretation of the locale \<open>sensor_step\<close>: its part of the snapshot changes only by its
  own events, and the events of one step take that part from agreeing with the previous
  probe to agreeing with the new one. The facts of one step lift to a whole cycle because
  the other steps are silent for the sensor.
\<close>

section \<open>Whose event it is\<close>

datatype sensor_tag =
  Tag_Wifi | Tag_Network | Tag_Mounts | Tag_Processes | Tag_Services | Tag_Ports | Tag_Sessions | Tag_Power

fun origin :: "event_kind \<Rightarrow> sensor_tag option" where
  "origin (E_Wifi _ _ _) = Some Tag_Wifi"
| "origin (E_Network _ _ _) = Some Tag_Network"
| "origin (E_Mount _ _ _) = Some Tag_Mounts"
| "origin (E_Process _ _ _) = Some Tag_Processes"
| "origin (E_Service _ _) = Some Tag_Services"
| "origin (E_Port _ _ _) = Some Tag_Ports"
| "origin (E_Session _ _ _) = Some Tag_Sessions"
| "origin (E_Power _ _ _) = Some Tag_Power"
| "origin _ = None"

abbreviation mine :: "sensor_tag \<Rightarrow> event_kind list \<Rightarrow> event_kind list" where
  "mine tag ks \<equiv> filter (\<lambda>k. origin k = Some tag) ks"

abbreviation kinds_of :: "draft list \<Rightarrow> event_kind list" where
  "kinds_of ds \<equiv> map snd ds"

section \<open>Silent steps\<close>

definition silent :: "sensor_tag \<Rightarrow> (poll_state \<Rightarrow> 'f) \<Rightarrow> poll_step \<Rightarrow> bool" where
  "silent tag slot f \<longleftrightarrow> (\<forall>s. mine tag (kinds_of (fst (f s))) = [] \<and> slot (snd (f s)) = slot s)"

lemma poll_then_eq:
  "fst (poll_then f g s) = fst (f s) @ fst (g (snd (f s)))" "snd (poll_then f g s) = snd (g (snd (f s)))"
  by (simp_all add: poll_then_def split: prod.split)

abbreviation run_steps :: "poll_step list \<Rightarrow> poll_step" where
  "run_steps fs \<equiv> foldr poll_then fs (\<lambda>s. ([], s))"

lemma silent_run: "list_all (silent tag slot) fs \<Longrightarrow> silent tag slot (run_steps fs)"
  by (induction fs) (simp_all add: silent_def poll_then_eq)

lemma cycle_isolates:
  assumes "list_all (silent tag slot) before" and "list_all (silent tag slot) after"
  shows "\<exists>s0. slot s0 = slot s \<and>
     mine tag (kinds_of (fst (run_steps (before @ f # after) s))) = mine tag (kinds_of (fst (f s0))) \<and>
     slot (snd (run_steps (before @ f # after) s)) = slot (snd (f s0))"
  using assms(1)
proof (induction before arbitrary: s)
  case Nil
  have "silent tag slot (run_steps after)" using assms(2) by (rule silent_run)
  then show ?case by (auto simp: poll_then_eq silent_def)
next
  case (Cons g gs)
  then have "mine tag (kinds_of (fst (g s))) = []" and "slot (snd (g s)) = slot s"
    by (simp_all add: silent_def)
  with Cons.IH [of "snd (g s)"] Cons.prems show ?case by (simp add: poll_then_eq)
qed

lemma silent_polled:
  assumes "\<And>s F. slot (s\<lparr>ps_failed := F\<rparr>) = slot s"
    and "\<And>v. silent tag slot (use v)"
  shows "silent tag slot (polled required sensor r use)"
  using assms unfolding silent_def polled_def probe_value_def sensor_failure_def
  by (auto split: sum.split prod.split)

lemma silentI:
  assumes "\<And>s d. d \<in> set (fst (f s)) \<Longrightarrow> origin (snd d) \<noteq> Some tag"
    and "\<And>s. slot (snd (f s)) = slot s"
  shows "silent tag slot f"
  using assms by (auto simp: silent_def filter_empty_conv)

section \<open>The contract of a polled sensor\<close>

locale tracker =
  fixes tag :: sensor_tag
    and view :: "snapshot \<Rightarrow> 'w"
    and effect :: "event_kind \<Rightarrow> 'w \<Rightarrow> 'w"
  assumes own: "origin (ev_kind ev) = Some tag \<Longrightarrow>
      view (snapshot_apply snap ev) = effect (ev_kind ev) (view snap)"
    and foreign: "origin (ev_kind ev) \<noteq> Some tag \<Longrightarrow> view (snapshot_apply snap ev) = view snap"
begin

lemma view_run:
  "view (foldl snapshot_apply snap evs) = fold effect (mine tag (map ev_kind evs)) (view snap)"
  by (induction evs arbitrary: snap) (auto simp: own foreign)

end

locale sensor_step = tracker tag view effect
  for tag :: sensor_tag and view :: "snapshot \<Rightarrow> 'w" and effect :: "event_kind \<Rightarrow> 'w \<Rightarrow> 'w" +
  fixes slot :: "poll_state \<Rightarrow> 'f"
    and agree :: "'f \<Rightarrow> 'w \<Rightarrow> bool"
    and initial :: 'f
    and wf :: "'v \<Rightarrow> bool"
    and put :: "'v \<Rightarrow> 'f"
    and step :: "bool \<Rightarrow> 'v \<Rightarrow> poll_step"
  assumes stores: "slot (snd (step first v s)) = put v"
    and emits: "d \<in> set (fst (step first v s)) \<Longrightarrow> origin (snd d) = Some tag"
    and updates: "wf v \<Longrightarrow> agree (slot s) w \<Longrightarrow> (first \<Longrightarrow> slot s = initial) \<Longrightarrow>
      agree (put v) (fold effect (kinds_of (fst (step first v s))) w)"
    and unfailed: "slot (s\<lparr>ps_failed := F\<rparr>) = slot s"
begin

lemma own_events: "mine tag (kinds_of (fst (step first v s))) = kinds_of (fst (step first v s))"
  using emits by (auto intro!: filter_True)

lemma polled_agrees:
  assumes "agree (slot s) (view snap)" and "first \<Longrightarrow> slot s = initial" and "\<And>v. r = Inr v \<Longrightarrow> wf v"
    and "mine tag (map ev_kind evs) = mine tag (kinds_of (fst (polled required sensor r (step first) s)))"
  shows "agree (slot (snd (polled required sensor r (step first) s))) (view (foldl snapshot_apply snap evs))"
proof (cases "required")
  case False
  with assms(1,4) show ?thesis by (simp add: view_run polled_def)
next
  case True
  show ?thesis
  proof (cases r)
    case (Inl e)
    with True assms(1,4) show ?thesis
      by (auto simp: view_run polled_def probe_value_def sensor_failure_def unfailed)
  next
    case (Inr v)
    let ?s = "s\<lparr>ps_failed := ps_failed s - {sensor}\<rparr>"
    have out: "polled required sensor r (step first) s = step first v ?s"
      using True Inr by (simp add: polled_def probe_value_def)
    have "agree (put v) (fold effect (kinds_of (fst (step first v ?s))) (view snap))"
      using assms(1-3) Inr by (intro updates) (simp_all add: unfailed)
    then show ?thesis using assms(4) by (simp add: out view_run own_events stores)
  qed
qed

lemma polled_stores: "required \<Longrightarrow> r = Inr v \<Longrightarrow> slot (snd (polled required sensor r (step first) s)) = put v"
  by (simp add: polled_def probe_value_def stores)

text \<open>A whole cycle in which every other step is silent for the sensor.\<close>

lemma cycle_agrees:
  assumes "list_all (silent tag slot) before" and "list_all (silent tag slot) after"
    and "steps = before @ polled required sensor r (step first) # after"
    and "agree (slot s) (view snap)" and "first \<Longrightarrow> slot s = initial" and "\<And>v. r = Inr v \<Longrightarrow> wf v"
    and "mine tag (map ev_kind evs) = mine tag (kinds_of (fst (run_steps steps s)))"
  shows "agree (slot (snd (run_steps steps s))) (view (foldl snapshot_apply snap evs)) \<and>
         (\<forall>v. required \<and> r = Inr v \<longrightarrow> slot (snd (run_steps steps s)) = put v)"
proof -
  obtain s0 where s0: "slot s0 = slot s"
    and kinds: "mine tag (kinds_of (fst (run_steps steps s))) =
        mine tag (kinds_of (fst (polled required sensor r (step first) s0)))"
    and stored: "slot (snd (run_steps steps s)) = slot (snd (polled required sensor r (step first) s0))"
    using cycle_isolates [OF assms(1,2)] unfolding assms(3) by blast
  have "agree (slot (snd (polled required sensor r (step first) s0))) (view (foldl snapshot_apply snap evs))"
    using assms(4-7) s0 kinds by (intro polled_agrees) simp_all
  then show ?thesis unfolding stored using polled_stores by blast
qed

end

end
