(* ===== verification/Poll_Tracking.thy ===== *)
theory Poll_Tracking
  imports Poll_Spec
begin

text \<open>
  The eight polled sensors with a place in the snapshot as interpretations of
  \<open>sensor_step\<close>, and the steps of the others as silent ones.
\<close>

section \<open>Sensors with one value\<close>

text \<open>A sensor that has no value yet agrees with every snapshot.\<close>

definition shows_value :: "('v \<Rightarrow> 'w) \<Rightarrow> 'v option \<Rightarrow> 'w \<Rightarrow> bool" where
  "shows_value look slot w \<longleftrightarrow> (\<forall>v. slot = Some v \<longrightarrow> w = look v)"

lemma shows_value_simps [simp]: "shows_value look None w" "shows_value look (Some v) w \<longleftrightarrow> w = look v"
  by (simp_all add: shows_value_def)

definition wifi_view :: "snapshot \<Rightarrow> wifi_state" where
  "wifi_view snap =
     \<lparr> ws_connected = wifi_connected snap, ws_ssid = wifi_ssid snap, ws_bssid = wifi_bssid snap \<rparr>"

fun wifi_effect :: "event_kind \<Rightarrow> wifi_state \<Rightarrow> wifi_state" where
  "wifi_effect (E_Wifi c s b) w = \<lparr> ws_connected = c, ws_ssid = s, ws_bssid = b \<rparr>"
| "wifi_effect _ w = w"

interpretation wifi: sensor_step Tag_Wifi wifi_view wifi_effect ps_wifi "shows_value id" None
  "\<lambda>_. True" Some wifi_step
proof
  fix ev :: event and snap :: snapshot
  show "origin (ev_kind ev) = Some Tag_Wifi \<Longrightarrow>
      wifi_view (snapshot_apply snap ev) = wifi_effect (ev_kind ev) (wifi_view snap)"
    by (cases "ev_kind ev") (simp_all add: snapshot_apply_def wifi_view_def)
  show "origin (ev_kind ev) \<noteq> Some Tag_Wifi \<Longrightarrow> wifi_view (snapshot_apply snap ev) = wifi_view snap"
    by (cases "ev_kind ev") (simp_all add: snapshot_apply_def wifi_view_def split: device_action.split)
qed (auto simp: wifi_step_def split: if_splits)

definition network_view :: "snapshot \<Rightarrow> network_state" where
  "network_view snap =
     \<lparr> ns_online = network_online snap, ns_interface = active_interface snap, ns_vpn = vpn_active snap \<rparr>"

fun network_effect :: "event_kind \<Rightarrow> network_state \<Rightarrow> network_state" where
  "network_effect (E_Network c s b) w = \<lparr> ns_online = c, ns_interface = s, ns_vpn = b \<rparr>"
| "network_effect _ w = w"

interpretation network: sensor_step Tag_Network network_view network_effect ps_network "shows_value id" None
  "\<lambda>_. True" Some network_step
proof
  fix ev :: event and snap :: snapshot
  show "origin (ev_kind ev) = Some Tag_Network \<Longrightarrow>
      network_view (snapshot_apply snap ev) = network_effect (ev_kind ev) (network_view snap)"
    by (cases "ev_kind ev") (simp_all add: snapshot_apply_def network_view_def)
  show "origin (ev_kind ev) \<noteq> Some Tag_Network \<Longrightarrow> network_view (snapshot_apply snap ev) = network_view snap"
    by (cases "ev_kind ev") (simp_all add: snapshot_apply_def network_view_def split: device_action.split)
qed (auto simp: network_step_def split: if_splits)

text \<open>The snapshot has no session until the first session event.\<close>

definition session_view :: "snapshot \<Rightarrow> session_state option \<times> string option \<times> bool" where
  "session_view snap = (snap_session_state snap, session_user snap, session_remote snap)"

definition session_look :: "session_info \<Rightarrow> session_state option \<times> string option \<times> bool" where
  "session_look v = (Some (si_state v), si_user v, si_remote v)"

fun session_effect ::
  "event_kind \<Rightarrow> session_state option \<times> string option \<times> bool \<Rightarrow> session_state option \<times> string option \<times> bool" where
  "session_effect (E_Session state user remote) w = (Some state, user, remote)"
| "session_effect _ w = w"

interpretation sessions: sensor_step Tag_Sessions session_view session_effect ps_session
  "shows_value session_look" None "\<lambda>_. True" Some sessions_step
proof
  fix ev :: event and snap :: snapshot
  show "origin (ev_kind ev) = Some Tag_Sessions \<Longrightarrow>
      session_view (snapshot_apply snap ev) = session_effect (ev_kind ev) (session_view snap)"
    by (cases "ev_kind ev") (simp_all add: snapshot_apply_def session_view_def)
  show "origin (ev_kind ev) \<noteq> Some Tag_Sessions \<Longrightarrow> session_view (snapshot_apply snap ev) = session_view snap"
    by (cases "ev_kind ev") (simp_all add: snapshot_apply_def session_view_def split: device_action.split)
qed (auto simp: sessions_step_def session_event_def session_look_def split: if_splits)

definition power_view :: "snapshot \<Rightarrow> power_state" where
  "power_view snap =
     \<lparr> pw_on_ac = snap_on_ac snap, pw_battery_percent = snap_battery_percent snap,
       pw_lid_closed = snap_lid_closed snap \<rparr>"

fun power_effect :: "event_kind \<Rightarrow> power_state \<Rightarrow> power_state" where
  "power_effect (E_Power a b l) w = \<lparr> pw_on_ac = a, pw_battery_percent = b, pw_lid_closed = l \<rparr>"
| "power_effect _ w = w"

interpretation power: sensor_step Tag_Power power_view power_effect ps_power "shows_value id" None
  "\<lambda>_. True" Some power_step
proof
  fix ev :: event and snap :: snapshot
  show "origin (ev_kind ev) = Some Tag_Power \<Longrightarrow>
      power_view (snapshot_apply snap ev) = power_effect (ev_kind ev) (power_view snap)"
    by (cases "ev_kind ev") (simp_all add: snapshot_apply_def power_view_def)
  show "origin (ev_kind ev) \<noteq> Some Tag_Power \<Longrightarrow> power_view (snapshot_apply snap ev) = power_view snap"
    by (cases "ev_kind ev") (simp_all add: snapshot_apply_def power_view_def split: device_action.split)
qed (auto simp: power_step_def split: if_splits)

section \<open>Sensors with many values\<close>

text \<open>Every value of a list is written into the set by one event, as present or absent.\<close>

lemma fold_toggle:
  assumes "\<And>x w. x \<in> set xs \<Longrightarrow> f x w = (if g x \<in> V then insert (g x) w else w - {g x})"
  shows "fold f xs w = {y. if y \<in> g ` set xs then y \<in> V else y \<in> w}"
  using assms
proof (induction xs arbitrary: w)
  case (Cons x xs)
  then show ?case by auto
qed simp

fun mount_effect :: "event_kind \<Rightarrow> component list set \<Rightarrow> component list set" where
  "mount_effect (E_Mount action p _) w =
     (if action = Removed then w - {components p} else insert (components p) w)"
| "mount_effect _ w = w"

definition mount_points :: "(path \<times> string option) list \<Rightarrow> component list set" where
  "mount_points ms = (\<lambda>e. components (fst e)) ` set ms"

lemma contains_mount_iff: "contains_mount ms e \<longleftrightarrow> components (fst e) \<in> mount_points ms"
proof -
  have "btree_get path_rank ms p \<noteq> None \<longleftrightarrow> components p \<in> mount_points ms" for p
    by (induction ms) (auto simp: mount_points_def path_rank_eq path_eq_def)
  then show ?thesis by (simp add: contains_mount_def)
qed

lemma mounts_added: "fold mount_effect (kinds_of (map (mount_event Added) es)) w = w \<union> mount_points es"
  by (induction es arbitrary: w) (auto simp: mount_event_def mount_points_def)

lemma mounts_removed: "fold mount_effect (kinds_of (map (mount_event Removed) es)) w = w - mount_points es"
  by (induction es arbitrary: w) (auto simp: mount_event_def mount_points_def)

lemma mount_points_filter:
  "mount_points (filter (\<lambda>e. \<not> contains_mount ms e) es) = mount_points es - mount_points ms"
  by (auto simp: mount_points_def contains_mount_iff)

interpretation mounts: sensor_step Tag_Mounts snap_mounts mount_effect ps_mounts
  "\<lambda>ms w. w = mount_points ms" "[]" "\<lambda>_. True" "\<lambda>ms. ms" mounts_step
proof
  fix ev :: event and snap :: snapshot
  show "origin (ev_kind ev) = Some Tag_Mounts \<Longrightarrow>
      snap_mounts (snapshot_apply snap ev) = mount_effect (ev_kind ev) (snap_mounts snap)"
    by (cases "ev_kind ev") (simp_all add: snapshot_apply_def split: device_action.split)
  show "origin (ev_kind ev) \<noteq> Some Tag_Mounts \<Longrightarrow> snap_mounts (snapshot_apply snap ev) = snap_mounts snap"
    by (cases "ev_kind ev") (simp_all add: snapshot_apply_def)
next
  fix first v w and s :: poll_state
  assume "w = mount_points (ps_mounts s)" and "first \<Longrightarrow> ps_mounts s = []"
  then show "fold mount_effect (kinds_of (fst (mounts_step first v s))) w = mount_points v"
    by (cases first)
      (auto simp: mounts_step_def fold_append mounts_added mounts_removed mount_points_filter
        simp del: map_map simp: mount_points_def [of "[]"])
qed (auto simp: mounts_step_def mount_event_def split: if_splits)

text \<open>A list of named flags is well formed when its names are the polled ones, each once.\<close>

definition flags_ok :: "string list \<Rightarrow> (string \<times> bool) list \<Rightarrow> bool" where
  "flags_ok names fs \<longleftrightarrow> map fst fs = names \<and> distinct names"

lemma flags_ok_lookup: "flags_ok names fs \<Longrightarrow> (n, b) \<in> set fs \<longleftrightarrow> map_of fs n = Some b"
  unfolding flags_ok_def by (metis map_of_eq_Some_iff)

definition on_flags :: "(string \<times> bool) list \<Rightarrow> string set" where
  "on_flags fs = {n. map_of fs n = Some True}"

definition shows_processes :: "string list \<Rightarrow> (string \<times> bool) list \<Rightarrow> string set \<Rightarrow> bool" where
  "shows_processes names fs w \<longleftrightarrow> w = on_flags fs \<and> (fs = [] \<or> flags_ok names fs)"

fun process_effect :: "event_kind \<Rightarrow> string set \<Rightarrow> string set" where
  "process_effect (E_Process n running _) w = (if running then insert n w else w - {n})"
| "process_effect _ w = w"

lemma processes_update:
  assumes "flags_ok names v" and "shows_processes names (ps_processes s) w"
  shows "fold process_effect (kinds_of (fst (processes_step first v s))) w = on_flags v"
proof -
  let ?old = "ps_processes s"
  let ?out = "filter (\<lambda>(n, b). first \<or> map_of ?old n \<noteq> Some b) v"
  have "kinds_of (fst (processes_step first v s)) = map (\<lambda>(n, b). E_Process n b None) ?out"
    by (auto simp: processes_step_def)
  then have "fold process_effect (kinds_of (fst (processes_step first v s))) w =
      fold (\<lambda>e. process_effect (E_Process (fst e) (snd e) None)) ?out w"
    by (simp add: fold_map comp_def case_prod_beta)
  also have "\<dots> = {n. if n \<in> fst ` set ?out then n \<in> on_flags v else n \<in> w}"
    using assms(1) by (intro fold_toggle) (auto simp: flags_ok_lookup on_flags_def)
  also have "\<dots> = on_flags v"
  proof -
    have same: "map_of v n = map_of ?old n" if "n \<notin> fst ` set ?out" for n
    proof (cases "map_of v n")
      case None
      then have "n \<notin> set names" using assms(1) by (auto simp: flags_ok_def map_of_eq_None_iff)
      with assms(2) have "map_of ?old n = None"
        by (force simp: shows_processes_def flags_ok_def map_of_eq_None_iff)
      with None show ?thesis by simp
    next
      case (Some b)
      then have "(n, b) \<in> set v" by (rule map_of_SomeD)
      with that have "map_of ?old n = Some b" by force
      with Some show ?thesis by simp
    qed
    have "w = on_flags ?old" using assms(2) by (simp add: shows_processes_def)
    with same show ?thesis by (auto simp: on_flags_def)
  qed
  finally show ?thesis .
qed

interpretation processes: sensor_step Tag_Processes snap_processes process_effect ps_processes
  "shows_processes names" "[]" "flags_ok names" "\<lambda>v. v" processes_step for names
proof
  fix ev :: event and snap :: snapshot
  show "origin (ev_kind ev) = Some Tag_Processes \<Longrightarrow>
      snap_processes (snapshot_apply snap ev) = process_effect (ev_kind ev) (snap_processes snap)"
    by (cases "ev_kind ev") (simp_all add: snapshot_apply_def)
  show "origin (ev_kind ev) \<noteq> Some Tag_Processes \<Longrightarrow> snap_processes (snapshot_apply snap ev) = snap_processes snap"
    by (cases "ev_kind ev") (simp_all add: snapshot_apply_def split: device_action.split)
next
  fix first v w and s :: poll_state
  assume "flags_ok names v" and "shows_processes names (ps_processes s) w"
  then show "shows_processes names v (fold process_effect (kinds_of (fst (processes_step first v s))) w)"
    using processes_update by (simp add: shows_processes_def)
qed (auto simp: processes_step_def)

definition shows_services :: "string list \<Rightarrow> (string \<times> bool) list \<Rightarrow> (string \<rightharpoonup> bool) \<Rightarrow> bool" where
  "shows_services names fs w \<longleftrightarrow> (\<forall>n b. map_of fs n = Some b \<longrightarrow> w n = Some b)"

fun service_effect :: "event_kind \<Rightarrow> (string \<rightharpoonup> bool) \<Rightarrow> (string \<rightharpoonup> bool)" where
  "service_effect (E_Service n active) w = w(n \<mapsto> active)"
| "service_effect _ w = w"

lemma fold_service_events:
  "distinct (map fst fs) \<Longrightarrow>
   fold service_effect (map (\<lambda>(n, b). E_Service n b) fs) w n =
     (case map_of fs n of Some b \<Rightarrow> Some b | None \<Rightarrow> w n)"
proof (induction fs arbitrary: w)
  case (Cons f fs)
  obtain m b where f: "f = (m, b)" by fastforce
  with Cons.prems have "map_of fs m = None" by (simp add: map_of_eq_None_iff)
  with Cons f show ?case by (simp split: option.split)
qed simp

interpretation services: sensor_step Tag_Services snap_services service_effect ps_services
  "shows_services names" "[]" "flags_ok names" "\<lambda>v. v" services_step for names
proof
  fix ev :: event and snap :: snapshot
  show "origin (ev_kind ev) = Some Tag_Services \<Longrightarrow>
      snap_services (snapshot_apply snap ev) = service_effect (ev_kind ev) (snap_services snap)"
    by (cases "ev_kind ev") (simp_all add: snapshot_apply_def)
  show "origin (ev_kind ev) \<noteq> Some Tag_Services \<Longrightarrow> snap_services (snapshot_apply snap ev) = snap_services snap"
    by (cases "ev_kind ev") (simp_all add: snapshot_apply_def split: device_action.split)
next
  fix first v w and s :: poll_state
  assume v: "flags_ok names v" and old: "shows_services names (ps_services s) w"
  let ?out = "filter (\<lambda>(n, b). first \<or> map_of (ps_services s) n \<noteq> Some b) v"
  have kinds: "kinds_of (fst (services_step first v s)) = map (\<lambda>(n, b). E_Service n b) ?out"
    by (auto simp: services_step_def)
  have out: "distinct (map fst ?out)" using v by (simp add: flags_ok_def distinct_map_filter)
  have "fold service_effect (map (\<lambda>(n, b). E_Service n b) ?out) w n = Some b" if "map_of v n = Some b" for n b
  proof (cases "map_of ?out n")
    case None
    then have "(n, b) \<notin> set ?out" unfolding map_of_eq_None_iff by force
    then have "map_of (ps_services s) n = Some b" using map_of_SomeD [OF that] by auto
    with old None out show ?thesis by (simp add: fold_service_events shows_services_def)
  next
    case (Some b')
    then have "(n, b') \<in> set v" by (auto dest: map_of_SomeD)
    with that v have "b' = b" by (simp add: flags_ok_lookup)
    with Some out show ?thesis by (simp add: fold_service_events)
  qed
  then show "shows_services names v (fold service_effect (kinds_of (fst (services_step first v s))) w)"
    by (simp add: kinds shows_services_def)
qed (auto simp: services_step_def)

fun port_effect ::
  "event_kind \<Rightarrow> (network_protocol \<times> 16 word) set \<Rightarrow> (network_protocol \<times> 16 word) set" where
  "port_effect (E_Port port protocol is_open) w =
     (if is_open then insert (protocol, port) w else w - {(protocol, port)})"
| "port_effect _ w = w"

lemma fold_port_events:
  "fold port_effect (kinds_of (map (port_event v) ps)) w = {p. if p \<in> set ps then p \<in> set v else p \<in> w}"
proof -
  have "fold port_effect (kinds_of (map (port_event v) ps)) w = fold (\<lambda>p. port_effect (snd (port_event v p))) ps w"
    by (simp add: fold_map comp_def)
  also have "\<dots> = {p. if p \<in> id ` set ps then p \<in> set v else p \<in> w}"
    by (rule fold_toggle) (simp add: port_event_def)
  finally show ?thesis by simp
qed

interpretation ports: sensor_step Tag_Ports snap_ports port_effect ps_ports
  "\<lambda>ps w. w = set ps" "[]" "\<lambda>v. set v \<subseteq> set required" "\<lambda>v. v" "\<lambda>first. ports_step first required" for required
proof
  fix ev :: event and snap :: snapshot
  show "origin (ev_kind ev) = Some Tag_Ports \<Longrightarrow>
      snap_ports (snapshot_apply snap ev) = port_effect (ev_kind ev) (snap_ports snap)"
    by (cases "ev_kind ev") (simp_all add: snapshot_apply_def)
  show "origin (ev_kind ev) \<noteq> Some Tag_Ports \<Longrightarrow> snap_ports (snapshot_apply snap ev) = snap_ports snap"
    by (cases "ev_kind ev") (simp_all add: snapshot_apply_def split: device_action.split)
next
  fix first v w and s :: poll_state
  assume "set v \<subseteq> set required" and "w = set (ps_ports s)" and "first \<Longrightarrow> ps_ports s = []"
  then show "fold port_effect (kinds_of (fst (ports_step first required v s))) w = set v"
    unfolding ports_step_def fst_conv fold_port_events by auto
qed (auto simp: ports_step_def port_event_def)

end
