(* ===== verification/Poll_Refinement.thy ===== *)
theory Poll_Refinement
  imports Poll_Tracking Engine_Temporal
begin

text \<open>
  From one sensor to the whole poll cycle, and from one cycle to every history of cycles:
  the snapshot the engine evaluates conditions on is the host the probes saw.
\<close>

section \<open>What the probes return\<close>

lemma process_entry_names: "map fst (process_entry h raw found) = map fst found"
  by (auto simp: process_entry_def Let_def case_prod_beta)

lemma each_entry_keeps:
  "each_entry f es acc = Inr acc' \<Longrightarrow> (\<And>n a. g (f n a) = g a) \<Longrightarrow> g acc' = g acc"
proof (induction es arbitrary: acc)
  case (Cons e es)
  then show ?case by (cases e) auto
qed simp

lemma probe_processes_ok: "distinct names \<Longrightarrow> probe_processes h names = Inr v \<Longrightarrow> flags_ok names v"
  by (auto simp: probe_processes_def result_elims flags_ok_def comp_def
      dest!: each_entry_keeps [where g = "map fst"] intro: process_entry_names)

lemma query_services_names: "query_services h tool names = Inr v \<Longrightarrow> map fst v = names"
  by (induction names arbitrary: v) (auto simp: result_elims split: prod.splits)

lemma probe_services_ok: "distinct names \<Longrightarrow> probe_services h names = Inr v \<Longrightarrow> flags_ok names v"
  by (auto simp: probe_services_def result_elims flags_ok_def query_services_names)

lemma port_line_subset: "set ports \<subseteq> set required \<Longrightarrow> set (port_line pr required line ports) \<subseteq> set required"
  by (auto simp: port_line_def Let_def split: option.splits if_splits)

lemma fold_subset: "(\<And>x a. set a \<subseteq> S \<Longrightarrow> set (f x a) \<subseteq> S) \<Longrightarrow> set a \<subseteq> S \<Longrightarrow> set (fold f xs a) \<subseteq> S"
  by (induction xs arbitrary: a) simp_all

lemma port_table_subset: "set ports \<subseteq> set required \<Longrightarrow> set (port_table h required source ports) \<subseteq> set required"
  unfolding port_table_def by (auto split: sum.split intro!: fold_subset port_line_subset del: subsetI)

lemma probe_ports_ok: "probe_ports h required = Inr v \<Longrightarrow> set v \<subseteq> set required"
  unfolding probe_ports_def by (auto intro!: fold_subset port_table_subset del: subsetI)

section \<open>Steps of other sensors\<close>

lemma silent_steps:
  "tag \<noteq> Tag_Wifi \<Longrightarrow> (\<And>s x. slot (s\<lparr>ps_wifi := x\<rparr>) = slot s) \<Longrightarrow> silent tag slot (wifi_step first v1)"
  "tag \<noteq> Tag_Network \<Longrightarrow> (\<And>s x. slot (s\<lparr>ps_network := x\<rparr>) = slot s) \<Longrightarrow> silent tag slot (network_step first v2)"
  "(\<And>s x. slot (s\<lparr>ps_usb := x\<rparr>) = slot s) \<Longrightarrow> silent tag slot (usb_step first v3)"
  "tag \<noteq> Tag_Mounts \<Longrightarrow> (\<And>s x. slot (s\<lparr>ps_mounts := x\<rparr>) = slot s) \<Longrightarrow> silent tag slot (mounts_step first v4)"
  "tag \<noteq> Tag_Processes \<Longrightarrow> (\<And>s x. slot (s\<lparr>ps_processes := x\<rparr>) = slot s) \<Longrightarrow> silent tag slot (processes_step first v5)"
  "tag \<noteq> Tag_Services \<Longrightarrow> (\<And>s x. slot (s\<lparr>ps_services := x\<rparr>) = slot s) \<Longrightarrow> silent tag slot (services_step first v6)"
  "tag \<noteq> Tag_Ports \<Longrightarrow> (\<And>s x. slot (s\<lparr>ps_ports := x\<rparr>) = slot s) \<Longrightarrow> silent tag slot (ports_step first req v7)"
  "tag \<noteq> Tag_Sessions \<Longrightarrow> (\<And>s x. slot (s\<lparr>ps_session := x\<rparr>) = slot s) \<Longrightarrow> silent tag slot (sessions_step first v8)"
  "tag \<noteq> Tag_Power \<Longrightarrow> (\<And>s x. slot (s\<lparr>ps_power := x\<rparr>) = slot s) \<Longrightarrow> silent tag slot (power_step first v9)"
  by (rule silentI;
      auto simp: wifi_step_def network_step_def usb_step_def mounts_step_def processes_step_def
        services_step_def ports_step_def sessions_step_def power_step_def usb_event_def mount_event_def
        port_event_def session_event_def split: if_splits)+

lemma check_integrity_origin: "d \<in> set (fst (check_integrity h part p slot)) \<Longrightarrow> origin (snd d) = None"
  by (auto simp: check_integrity_def split: sum.splits if_splits)

lemma probe_integrity_eq:
  "probe_integrity h config_path executable s =
     (fst (check_integrity h ''configuration'' config_path (ps_config_hash s)) @
      fst (check_integrity h ''binary'' executable (ps_binary_hash s)),
      s\<lparr>ps_config_hash := snd (check_integrity h ''configuration'' config_path (ps_config_hash s)),
        ps_binary_hash := snd (check_integrity h ''binary'' executable (ps_binary_hash s))\<rparr>)"
  by (simp add: probe_integrity_def split: prod.split)

lemma silent_integrity:
  assumes "\<And>s x y. slot (s\<lparr>ps_config_hash := x, ps_binary_hash := y\<rparr>) = slot s"
  shows "silent tag slot (\<lambda>s. if req then probe_integrity h config_path executable s else ([], s))"
  using assms by (intro silentI) (auto simp: probe_integrity_eq dest: check_integrity_origin split: if_splits)

lemma silent_done:
  "(\<And>s x. slot (s\<lparr>ps_initialized := x\<rparr>) = slot s) \<Longrightarrow> silent tag slot (\<lambda>s. ([], s\<lparr>ps_initialized := True\<rparr>))"
  by (rule silentI) simp_all

lemmas silents = silent_polled silent_steps silent_integrity silent_done

section \<open>One cycle\<close>

text \<open>What the state of the last cycle says about the snapshot.\<close>

definition mirrors :: "sensor_requirements \<Rightarrow> poll_state \<Rightarrow> snapshot \<Rightarrow> bool" where
  "mirrors q s snap \<longleftrightarrow>
     shows_value id (ps_wifi s) (wifi_view snap) \<and>
     shows_value id (ps_network s) (network_view snap) \<and>
     snap_mounts snap = mount_points (ps_mounts s) \<and>
     shows_processes (req_processes q) (ps_processes s) (snap_processes snap) \<and>
     shows_services (req_services q) (ps_services s) (snap_services snap) \<and>
     snap_ports snap = set (ps_ports s) \<and>
     shows_value session_look (ps_session s) (session_view snap) \<and>
     shows_value id (ps_power s) (power_view snap)"

text \<open>The values of the required sensors whose probes succeeded are the state after the cycle.\<close>

definition probed :: "sensor_host \<Rightarrow> sensor_requirements \<Rightarrow> poll_state \<Rightarrow> bool" where
  "probed h q s \<longleftrightarrow>
     (\<forall>v. req_wifi q \<and> probe_wifi h = Inr v \<longrightarrow> ps_wifi s = Some v) \<and>
     (\<forall>v. req_network q \<and> probe_network h = Inr v \<longrightarrow> ps_network s = Some v) \<and>
     (\<forall>v. req_mounts q \<and> probe_mounts h = Inr v \<longrightarrow> ps_mounts s = v) \<and>
     (\<forall>v. req_processes q \<noteq> [] \<and> probe_processes h (req_processes q) = Inr v \<longrightarrow> ps_processes s = v) \<and>
     (\<forall>v. req_services q \<noteq> [] \<and> probe_services h (req_services q) = Inr v \<longrightarrow> ps_services s = v) \<and>
     (\<forall>v. req_ports q \<noteq> [] \<and> probe_ports h (req_ports q) = Inr v \<longrightarrow> ps_ports s = v) \<and>
     (\<forall>v. req_sessions q \<and> probe_session h = Inr v \<longrightarrow> ps_session s = Some v) \<and>
     (\<forall>v. req_power q \<and> probe_power h = Inr v \<longrightarrow> ps_power s = Some v)"

lemma poll_cycle_run: "poll_cycle h q c x s = run_steps (poll_steps h q c x (\<not> ps_initialized s)) s"
  by (simp add: poll_cycle_def)

text \<open>The requirements of a configuration list every name and port once.\<close>

definition requirements_ok :: "sensor_requirements \<Rightarrow> bool" where
  "requirements_ok q \<longleftrightarrow> distinct (req_processes q) \<and> distinct (req_services q) \<and> distinct (req_ports q)"

text \<open>
  The events the engine handles while a cycle is delivered: those of the cycle in order,
  among others no poll produces.
\<close>

definition delivered :: "draft list \<Rightarrow> event list \<Rightarrow> bool" where
  "delivered ds evs \<longleftrightarrow>
     filter (\<lambda>k. origin k \<noteq> None) (map ev_kind evs) = filter (\<lambda>k. origin k \<noteq> None) (kinds_of ds)"

lemma delivered_mine: "delivered ds evs \<Longrightarrow> mine tag (map ev_kind evs) = mine tag (kinds_of ds)"
proof -
  have "mine tag ks = mine tag (filter (\<lambda>k. origin k \<noteq> None) ks)" for ks
    by (induction ks) auto
  then show "delivered ds evs \<Longrightarrow> mine tag (map ev_kind evs) = mine tag (kinds_of ds)"
    unfolding delivered_def by metis
qed

lemma cycle_mirrors:
  assumes "requirements_ok q" and "mirrors q s snap" and "\<not> ps_initialized s \<Longrightarrow> s = default_poll_state"
    and "poll_cycle h q c x s = (ds, s')" and "delivered ds evs"
  shows "mirrors q s' (foldl snapshot_apply snap evs) \<and> probed h q s'"
proof -
  let ?S = "poll_steps h q c x (\<not> ps_initialized s)" and ?snap = "foldl snapshot_apply snap evs"
  have run: "fst (run_steps ?S s) = ds" "snd (run_steps ?S s) = s'"
    using assms(4) by (simp_all add: poll_cycle_run)
  have mine: "mine tag (map ev_kind evs) = mine tag (kinds_of (fst (run_steps ?S s)))" for tag
    using assms(5) by (simp add: run delivered_mine)
  have start: "\<not> ps_initialized s \<Longrightarrow> ps_wifi s = None \<and> ps_network s = None \<and> ps_mounts s = [] \<and>
      ps_processes s = [] \<and> ps_services s = [] \<and> ps_ports s = [] \<and> ps_session s = None \<and> ps_power s = None"
    using assms(3) by (simp add: default_poll_state_def)
  note old = assms(2) [unfolded mirrors_def]
  have wifi: "shows_value id (ps_wifi s') (wifi_view ?snap) \<and>
      (\<forall>v. req_wifi q \<and> probe_wifi h = Inr v \<longrightarrow> ps_wifi s' = Some v)"
    using old start assms(1) unfolding run(2) [symmetric]
    by (intro wifi.cycle_agrees [OF _ _ _ _ _ _ mine, where before = "take 0 ?S" and after = "drop 1 ?S"
          and sensor = "''wifi''" and first = "\<not> ps_initialized s"])
      (simp_all add: poll_steps_def silents requirements_ok_def)
  have network: "shows_value id (ps_network s') (network_view ?snap) \<and>
      (\<forall>v. req_network q \<and> probe_network h = Inr v \<longrightarrow> ps_network s' = Some v)"
    using old start assms(1) unfolding run(2) [symmetric]
    by (intro network.cycle_agrees [OF _ _ _ _ _ _ mine, where before = "take 1 ?S" and after = "drop 2 ?S"
          and sensor = "''network''" and first = "\<not> ps_initialized s"])
      (simp_all add: poll_steps_def silents requirements_ok_def)
  have mounts: "snap_mounts ?snap = mount_points (ps_mounts s') \<and>
      (\<forall>v. req_mounts q \<and> probe_mounts h = Inr v \<longrightarrow> ps_mounts s' = v)"
    using old start assms(1) unfolding run(2) [symmetric]
    by (intro mounts.cycle_agrees [OF _ _ _ _ _ _ mine, where before = "take 3 ?S" and after = "drop 4 ?S"
          and sensor = "''mounts''" and first = "\<not> ps_initialized s"])
      (simp_all add: poll_steps_def silents requirements_ok_def)
  have processes: "shows_processes (req_processes q) (ps_processes s') (snap_processes ?snap) \<and>
      (\<forall>v. (req_processes q \<noteq> []) \<and> probe_processes h (req_processes q) = Inr v \<longrightarrow> ps_processes s' = v)"
    using old start assms(1) unfolding run(2) [symmetric]
    by (intro processes.cycle_agrees [OF _ _ _ _ _ _ mine, where before = "take 4 ?S" and after = "drop 5 ?S"
          and sensor = "''processes''" and first = "\<not> ps_initialized s"])
      (simp_all add: poll_steps_def silents requirements_ok_def probe_processes_ok)
  have services: "shows_services (req_services q) (ps_services s') (snap_services ?snap) \<and>
      (\<forall>v. (req_services q \<noteq> []) \<and> probe_services h (req_services q) = Inr v \<longrightarrow> ps_services s' = v)"
    using old start assms(1) unfolding run(2) [symmetric]
    by (intro services.cycle_agrees [OF _ _ _ _ _ _ mine, where before = "take 5 ?S" and after = "drop 6 ?S"
          and sensor = "''services''" and first = "\<not> ps_initialized s"])
      (simp_all add: poll_steps_def silents requirements_ok_def probe_services_ok)
  have ports: "snap_ports ?snap = set (ps_ports s') \<and>
      (\<forall>v. (req_ports q \<noteq> []) \<and> probe_ports h (req_ports q) = Inr v \<longrightarrow> ps_ports s' = v)"
    using old start assms(1) unfolding run(2) [symmetric]
    by (intro ports.cycle_agrees [OF _ _ _ _ _ _ mine, where before = "take 6 ?S" and after = "drop 7 ?S"
          and sensor = "''ports''" and first = "\<not> ps_initialized s"])
      (auto simp: poll_steps_def silents requirements_ok_def dest: subsetD [OF probe_ports_ok])
  have sessions: "shows_value session_look (ps_session s') (session_view ?snap) \<and>
      (\<forall>v. req_sessions q \<and> probe_session h = Inr v \<longrightarrow> ps_session s' = Some v)"
    using old start assms(1) unfolding run(2) [symmetric]
    by (intro sessions.cycle_agrees [OF _ _ _ _ _ _ mine, where before = "take 7 ?S" and after = "drop 8 ?S"
          and sensor = "''sessions''" and first = "\<not> ps_initialized s"])
      (simp_all add: poll_steps_def silents requirements_ok_def)
  have power: "shows_value id (ps_power s') (power_view ?snap) \<and>
      (\<forall>v. req_power q \<and> probe_power h = Inr v \<longrightarrow> ps_power s' = Some v)"
    using old start assms(1) unfolding run(2) [symmetric]
    by (intro power.cycle_agrees [OF _ _ _ _ _ _ mine, where before = "take 8 ?S" and after = "drop 9 ?S"
          and sensor = "''power''" and first = "\<not> ps_initialized s"])
      (simp_all add: poll_steps_def silents requirements_ok_def)
  show ?thesis
    using wifi network mounts processes services ports sessions power by (simp add: mirrors_def probed_def)
qed

section \<open>The engine's snapshot along a run\<close>

lemma snapshot_apply_set_mode:
  "snapshot_apply (snap\<lparr>snap_mode := m\<rparr>) ev = (snapshot_apply snap ev)\<lparr>snap_mode := m\<rparr>"
  by (cases "ev_kind ev") (auto simp: snapshot_apply_def split: device_action.split)

lemma foldl_set_mode:
  "foldl snapshot_apply (snap\<lparr>snap_mode := m\<rparr>) evs = (foldl snapshot_apply snap evs)\<lparr>snap_mode := m\<rparr>"
  by (induction evs arbitrary: snap) (simp_all add: snapshot_apply_set_mode)

lemma handle_snapshot: "handle h e ev = Inr (e', ps) \<Longrightarrow> eng_snapshot e' = snapshot_apply (eng_snapshot e) ev"
  by (auto simp: handle_def Let_def split: if_splits sum.splits)

lemma run_snapshot:
  assumes "run_ops engine_step e ops = Inr e'"
  shows "\<exists>m. eng_snapshot e' = (foldl snapshot_apply (eng_snapshot e) (events_of ops))\<lparr>snap_mode := m\<rparr>"
  using assms
proof (induction ops arbitrary: e)
  case Nil
  then show ?case by (auto intro!: exI [of _ "snap_mode (eng_snapshot e')"])
next
  case (Cons x ops)
  then obtain e1 where e1: "engine_step e x = Inr e1" and rest: "run_ops engine_step e1 ops = Inr e'"
    by (auto split: sum.splits)
  from Cons.IH [OF rest] obtain m where
    m: "eng_snapshot e' = (foldl snapshot_apply (eng_snapshot e1) (events_of ops))\<lparr>snap_mode := m\<rparr>" ..
  show ?case
  proof (cases x)
    case (Op_Event h ev)
    with e1 obtain ps where "handle h e ev = Inr (e1, ps)" by (cases "handle h e ev") auto
    then have "eng_snapshot e1 = snapshot_apply (eng_snapshot e) ev" by (rule handle_snapshot)
    with m Op_Event show ?thesis by auto
  next
    case (Op_SetMode mode)
    with e1 have "eng_snapshot e1 = (eng_snapshot e)\<lparr>snap_mode := mode\<rparr>" by (auto simp: set_mode_def)
    with m Op_SetMode show ?thesis by (auto simp: foldl_set_mode)
  next
    case (Op_Recovery b)
    with e1 have "eng_snapshot e1 = eng_snapshot e" by (auto simp: set_recovery_mode_def Let_def)
    with m Op_Recovery show ?thesis by auto
  qed
qed

lemma mirrors_start: "mirrors q default_poll_state (default_snapshot now)"
  by (simp add: mirrors_def default_poll_state_def default_snapshot_def mount_points_def
      shows_processes_def on_flags_def shows_services_def)

lemma mirrors_mode: "mirrors q s (snap\<lparr>snap_mode := mode\<rparr>) = mirrors q s snap"
  by (simp add: mirrors_def wifi_view_def network_view_def session_view_def power_view_def)

lemma run_steps_last: "snd (run_steps (fs @ [\<lambda>s. ([], s\<lparr>ps_initialized := True\<rparr>)]) s) =
    (snd (run_steps fs s))\<lparr>ps_initialized := True\<rparr>"
  by (induction fs arbitrary: s) (simp_all add: poll_then_eq)

lemma poll_cycle_initialized: "poll_cycle h q c x s = (ds, s') \<Longrightarrow> ps_initialized s'"
proof -
  assume "poll_cycle h q c x s = (ds, s')"
  then have "s' = snd (run_steps (butlast (poll_steps h q c x (\<not> ps_initialized s)) @
      [\<lambda>s. ([], s\<lparr>ps_initialized := True\<rparr>)]) s)"
    by (simp add: poll_cycle_run poll_steps_def)
  then show "ps_initialized s'" unfolding run_steps_last by simp
qed

section \<open>The task and the engine\<close>

text \<open>Delivering the drafts of two cycles is delivering those of the first, then those of the second.\<close>

lemma filter_append_split:
  "filter P xs = us @ vs \<Longrightarrow> \<exists>ys zs. xs = ys @ zs \<and> filter P ys = us \<and> filter P zs = vs"
proof (induction us arbitrary: xs)
  case Nil
  then show ?case by (intro exI [of _ "[]"] exI [of _ xs]) simp
next
  case (Cons u us)
  then obtain ys xs' where xs: "xs = ys @ u # xs'" and "\<forall>y \<in> set ys. \<not> P y" and "P u"
    and "filter P xs' = us @ vs"
    by (auto dest!: filter_eq_ConsD)
  with Cons.IH [of xs'] obtain ys' zs where "xs' = ys' @ zs" "filter P ys' = us" "filter P zs = vs" by blast
  with \<open>\<forall>y \<in> set ys. \<not> P y\<close> \<open>P u\<close> show ?case
    unfolding xs by (intro exI [of _ "ys @ u # ys'"] exI [of _ zs]) simp
qed

lemma delivered_append:
  assumes "delivered (ds @ ds') evs"
  shows "\<exists>evs1 evs2. evs = evs1 @ evs2 \<and> delivered ds evs1 \<and> delivered ds' evs2"
proof -
  from assms obtain ks1 ks2 where ks: "map ev_kind evs = ks1 @ ks2"
    and "filter (\<lambda>k. origin k \<noteq> None) ks1 = filter (\<lambda>k. origin k \<noteq> None) (kinds_of ds)"
    and "filter (\<lambda>k. origin k \<noteq> None) ks2 = filter (\<lambda>k. origin k \<noteq> None) (kinds_of ds')"
    unfolding delivered_def by (auto dest: filter_append_split)
  moreover from ks obtain evs1 evs2 where "evs = evs1 @ evs2" "map ev_kind evs1 = ks1" "map ev_kind evs2 = ks2"
    by (auto simp: map_eq_append_conv)
  ultimately show ?thesis unfolding delivered_def by blast
qed

lemma send_all_accepted:
  "\<forall>n. ch_accepts c n \<Longrightarrow> send_all ds c = (True, c\<lparr>ch_sent := ch_sent c @ ds\<rparr>)"
  by (induction ds arbitrary: c) (simp_all add: chan_send_def)

lemma mirrors_foreign: "origin (ev_kind ev) = None \<Longrightarrow> mirrors q s (snapshot_apply snap ev) = mirrors q s snap"
  by (cases "ev_kind ev")
    (auto simp: snapshot_apply_def mirrors_def wifi_view_def network_view_def session_view_def power_view_def
      split: device_action.split)

lemma delivered_nothing:
  "delivered [] evs \<Longrightarrow> mirrors q s (foldl snapshot_apply snap evs) = mirrors q s snap"
  by (induction evs arbitrary: snap) (auto simp: delivered_def mirrors_foreign split: if_splits)

lemma delivered_tick: "delivered ((t, E_Tick) # ds) evs = delivered ds evs"
  by (simp add: delivered_def)

text \<open>
  As long as the channel accepts, every history of completed cycles has sent drafts which,
  delivered in order, leave the snapshot showing what the probes of the last cycle returned.
\<close>

lemma polling_loop_mirrors:
  assumes "requirements_ok q" and "\<forall>n. ch_accepts ch n"
    and "polling_loop q c x s (map Completed hs) ch = (s', ch')"
    and "\<not> ps_initialized s \<longrightarrow> s = default_poll_state"
  shows "\<exists>ds. ch_sent ch' = ch_sent ch @ ds \<and> (\<forall>snap evs. mirrors q s snap \<longrightarrow> delivered ds evs \<longrightarrow>
    mirrors q s' (foldl snapshot_apply snap evs) \<and> (hs \<noteq> [] \<longrightarrow> probed (last hs) q s'))"
  using assms(2-)
proof (induction hs arbitrary: s ch)
  case Nil
  then show ?case by (simp add: delivered_nothing)
next
  case (Cons h hs)
  obtain ds s1 where cyc: "poll_cycle h q c x s = (ds, s1)" by fastforce
  let ?ch = "ch\<lparr>ch_sent := ch_sent ch @ (''time'', E_Tick) # ds\<rparr>"
  have accepts: "\<forall>n. ch_accepts ?ch n" using Cons.prems(1) by simp
  have loop: "polling_loop q c x s1 (map Completed hs) ?ch = (s', ch')"
    using Cons.prems(1,2) by (simp add: chan_send_def send_all_accepted cyc)
  have one: "mirrors q s1 (foldl snapshot_apply snap evs) \<and> probed h q s1"
    if "mirrors q s snap" and "delivered ds evs" for snap evs
    using cycle_mirrors [OF assms(1) that(1) _ cyc that(2)] Cons.prems(3) by blast
  have "\<not> ps_initialized s1 \<longrightarrow> s1 = default_poll_state"
    using poll_cycle_initialized [OF cyc] by simp
  then obtain ds' where sent: "ch_sent ch' = ch_sent ?ch @ ds'"
    and rest: "\<And>snap evs. mirrors q s1 snap \<Longrightarrow> delivered ds' evs \<Longrightarrow>
      mirrors q s' (foldl snapshot_apply snap evs) \<and> (hs \<noteq> [] \<longrightarrow> probed (last hs) q s')"
    using Cons.IH [OF accepts loop] by blast
  have "mirrors q s' (foldl snapshot_apply snap evs) \<and> probed (last (h # hs)) q s'"
    if old: "mirrors q s snap" and sent: "delivered ((''time'', E_Tick) # ds @ ds') evs" for snap evs
  proof -
    obtain evs1 evs2 where evs: "evs = evs1 @ evs2" "delivered ds evs1" "delivered ds' evs2"
      using sent unfolding delivered_tick by (blast dest: delivered_append)
    note first = one [OF old evs(2)]
    have "hs = [] \<Longrightarrow> s' = s1" using loop by simp
    with first rest [OF conjunct1 [OF first] evs(3)] show ?thesis by (auto simp: evs(1))
  qed
  with sent show ?case by (intro exI [of _ "(''time'', E_Tick) # ds @ ds'"]) simp
qed

text \<open>The same from the start of the daemon, for the snapshot of the engine.\<close>

lemma polling_engine:
  assumes "requirements_ok q" and "\<forall>n. ch_accepts ch n" and "ch_sent ch = []" and "hs \<noteq> []"
    and "polling_loop q c x default_poll_state (map Completed hs) ch = (s', ch')"
    and "run_ops engine_step (engine_new now rules mode) ops = Inr e'"
    and "delivered (ch_sent ch') (events_of ops)"
  shows "mirrors q s' (eng_snapshot e') \<and> probed (last hs) q s'"
proof -
  have start: "mirrors q default_poll_state (eng_snapshot (engine_new now rules mode))"
    by (simp add: engine_new_def Let_def mirrors_mode mirrors_start)
  obtain m where "eng_snapshot e' =
      (foldl snapshot_apply (eng_snapshot (engine_new now rules mode)) (events_of ops))\<lparr>snap_mode := m\<rparr>"
    using run_snapshot [OF assms(6)] ..
  moreover have "mirrors q s' (foldl snapshot_apply (eng_snapshot (engine_new now rules mode)) (events_of ops)) \<and>
      probed (last hs) q s'"
    using polling_loop_mirrors [OF assms(1,2,5)] start assms(3,4,7) by auto
  ultimately show ?thesis by (simp add: mirrors_mode)
qed

section \<open>The requirements of a configuration\<close>

lemma bset_insert_distinct: "distinct xs \<Longrightarrow> distinct (bset_insert x xs)"
  by (simp add: bset_insert_def distinct_insort)

lemma fold_keeps: "(\<And>x q. x \<in> set xs \<Longrightarrow> P q \<Longrightarrow> P (f x q)) \<Longrightarrow> P q \<Longrightarrow> P (fold f xs q)"
  by (induction xs arbitrary: q) simp_all

lemma collect_trigger_ok: "requirements_ok q \<Longrightarrow> requirements_ok (collect_trigger t q)"
proof (induction t arbitrary: q)
  case (T_All ts)
  then show ?case by (auto intro: fold_keeps [where P = requirements_ok])
next
  case (T_Any ts)
  then show ?case by (auto intro: fold_keeps [where P = requirements_ok])
next
  case (T_Sequence ts w)
  then show ?case by (auto intro: fold_keeps [where P = requirements_ok])
qed (auto simp: requirements_ok_def bset_insert_distinct split: option.split)

lemma collect_condition_ok: "requirements_ok q \<Longrightarrow> requirements_ok (collect_condition t q)"
proof (induction t arbitrary: q)
  case (C_All ts)
  then show ?case by (auto intro: fold_keeps [where P = requirements_ok])
next
  case (C_Any ts)
  then show ?case by (auto intro: fold_keeps [where P = requirements_ok])
qed (auto simp: requirements_ok_def bset_insert_distinct collect_sensor_def)

lemma no_requirements_ok: "requirements_ok no_requirements"
  by (simp add: requirements_ok_def no_requirements_def)

lemma from_config_ok: "requirements_ok (from_config cfg)"
  unfolding from_config_def
  by (rule fold_keeps [where P = requirements_ok])
    (auto simp: collect_rule_def Let_def collect_trigger_ok collect_condition_ok
      no_requirements_ok split: option.split)

end
