(* ===== verification/Hotkey_Spec.thy ===== *)
theory Hotkey_Spec
  imports Hotkey
begin

text \<open>
  The hotkey recognizer keeps at most as many presses as the sequence has keys. It
  recognizes what a recognizer that remembers every press since its last success does.
\<close>

section \<open>The reference recognizer\<close>

definition last_n :: "nat \<Rightarrow> 'a list \<Rightarrow> 'a list" where
  "last_n n xs = drop (length xs - n) xs"

text \<open>The presses since the last success end in the sequence, pressed within the window.\<close>

definition completes :: "nat \<Rightarrow> 16 word list \<Rightarrow> key_buffer \<Rightarrow> bool" where
  "completes within codes presses \<longleftrightarrow>
     (let w = last_n (length codes) presses in map fst w = codes \<and> snd (last w) - snd (hd w) \<le> within)"

fun recognized :: "nat \<Rightarrow> 16 word list \<Rightarrow> key_buffer \<Rightarrow> key_buffer \<Rightarrow> nat" where
  "recognized within codes since [] = 0"
| "recognized within codes since (p # ps) =
     (if completes within codes (since @ [p]) then 1 + recognized within codes [] ps
      else recognized within codes (since @ [p]) ps)"

definition presses_of :: "input_event list \<Rightarrow> key_buffer" where
  "presses_of evs = map (\<lambda>ev. (in_code ev, in_at ev)) (filter is_press evs)"

section \<open>The bounded buffer\<close>

abbreviation expired :: "nat \<Rightarrow> nat \<Rightarrow> 16 word \<times> nat \<Rightarrow> bool" where
  "expired within now \<equiv> (\<lambda>(_, at). now - at > within)"

lemma expired_mono: "expired within t p \<Longrightarrow> t \<le> now \<Longrightarrow> expired within now p"
  by (cases p) auto

lemma last_n_append: "last_n n (xs @ ys) = last_n (n - length ys) xs @ last_n n ys"
  by (cases "length ys \<le> n") (simp_all add: last_n_def)

lemma last_n_last_n: "m \<le> n \<Longrightarrow> last_n m (last_n n xs) = last_n m xs"
  by (auto simp: last_n_def intro!: arg_cong [where f = "\<lambda>i. drop i xs"])

lemma length_last_n [simp]: "length (last_n n xs) = min n (length xs)"
  by (simp add: last_n_def)

lemma last_n_all [simp]: "length xs \<le> n \<Longrightarrow> last_n n xs = xs"
  by (simp add: last_n_def)

lemma ball_last_n: "\<forall>x \<in> set xs. P x \<Longrightarrow> \<forall>x \<in> set (last_n n xs). P x"
  by (auto simp: last_n_def dest: in_set_dropD)

lemma buffer_step:
  fixes history :: key_buffer
  assumes "t \<le> now" and "0 < n"
  shows "dropWhile (expired within now)
           (last_n n (dropWhile (expired within t) (last_n n history) @ [(code, now)])) =
         dropWhile (expired within now) (last_n n (history @ [(code, now)]))"
proof -
  let ?x = "last_n n history"
  let ?b = "dropWhile (expired within t) ?x" and ?d = "takeWhile (expired within t) ?x"
  have old: "\<forall>p \<in> set ?d. expired within now p"
    using assms(1) by (metis expired_mono set_takeWhileD)
  have x: "?x = ?d @ ?b" by simp
  have "last_n (n - 1) history = last_n (n - 1) (?d @ ?b)"
    using last_n_last_n [of "n - 1" n history] x by simp
  also have "\<dots> = last_n (n - 1 - length ?b) ?d @ last_n (n - 1) ?b"
    by (rule last_n_append)
  finally have "last_n (n - 1) history = last_n (n - 1 - length ?b) ?d @ last_n (n - 1) ?b" .
  moreover have "\<forall>p \<in> set (last_n (n - 1 - length ?b) ?d). expired within now p"
    using old by (rule ball_last_n)
  ultimately have "dropWhile (expired within now) (last_n (n - 1) history @ [(code, now)]) =
      dropWhile (expired within now) (last_n (n - 1) ?b @ [(code, now)])"
    by (simp add: dropWhile_append2)
  moreover have "last_n n (xs @ [(code, now)]) = last_n (n - 1) xs @ [(code, now)]" for xs
    using assms(2) by (simp add: last_n_append)
  ultimately show ?thesis by simp
qed

lemma full_window:
  assumes "n = length codes" and "0 < n"
  shows "length (dropWhile (expired within now) (last_n n ps)) = n \<and>
           map fst (dropWhile (expired within now) (last_n n ps)) = codes \<longleftrightarrow>
         map fst (last_n n ps) = codes \<and> now - snd (hd (last_n n ps)) \<le> within"
proof (cases "last_n n ps")
  case Nil
  with assms show ?thesis by auto
next
  case (Cons p qs)
  have "length (dropWhile (expired within now) qs) \<le> length qs" by (rule length_dropWhile_le)
  moreover have "Suc (length qs) \<le> n" using arg_cong [OF Cons, of length] by simp
  ultimately show ?thesis
    using assms Cons by (cases p) (auto dest: arg_cong [where f = length])
qed

lemma hotkey_press_spec:
  assumes "t \<le> in_at ev" and "codes \<noteq> []"
    and "buffer = dropWhile (expired (hotkey_within cfg) t) (last_n (length codes) history)"
  shows "hotkey_press cfg codes buffer ev =
     (let now = in_at ev; history' = history @ [(in_code ev, now)] in
      if completes (hotkey_within cfg) codes history' then ([], True)
      else (dropWhile (expired (hotkey_within cfg) now) (last_n (length codes) history'), False))"
proof -
  let ?h = "history @ [(in_code ev, in_at ev)]"
  let ?n = "length codes"
  have n: "0 < ?n" using assms(2) by simp
  have recent: "dropWhile (expired (hotkey_within cfg) (in_at ev))
      (drop (length (buffer @ [(in_code ev, in_at ev)]) - ?n) (buffer @ [(in_code ev, in_at ev)])) =
      dropWhile (expired (hotkey_within cfg) (in_at ev)) (last_n ?n ?h)"
    using buffer_step [OF assms(1) n, of "hotkey_within cfg" history "in_code ev"]
    unfolding assms(3) last_n_def .
  have last: "last (last_n ?n ?h) = (in_code ev, in_at ev)"
    using assms(2) by (simp add: last_n_append Suc_le_eq)
  show ?thesis
    unfolding hotkey_press_def Let_def recent full_window [OF refl n] completes_def last by simp
qed

section \<open>The loop\<close>

lemma hotkey_loop_spec:
  assumes "codes \<noteq> []" and "\<forall>n. ch_accepts c n" and "sorted (map in_at evs)"
    and "\<forall>ev \<in> set evs. t \<le> in_at ev"
    and "buffer = dropWhile (expired (hotkey_within cfg) t) (last_n (length codes) history)"
  shows "ch_sent (hotkey_loop cfg codes buffer (map Inr evs) c) =
     ch_sent c @ replicate (recognized (hotkey_within cfg) codes history (presses_of evs))
       (''hotkeys'', E_Hotkey (hotkey_name cfg))"
  using assms(2-)
proof (induction evs arbitrary: buffer history t c)
  case Nil
  show ?case by (simp add: presses_of_def)
next
  case (Cons ev evs)
  let ?within = "hotkey_within cfg"
  show ?case
  proof (cases "is_press ev")
    case False
    with Cons show ?thesis by (simp add: presses_of_def)
  next
    case True
    let ?h = "history @ [(in_code ev, in_at ev)]"
    have presses: "presses_of (ev # evs) = (in_code ev, in_at ev) # presses_of evs"
      using True by (simp add: presses_of_def)
    have later: "sorted (map in_at evs)" "\<forall>e \<in> set evs. in_at ev \<le> in_at e"
      using Cons.prems(2) by auto
    have step: "hotkey_press cfg codes buffer ev =
        (if completes ?within codes ?h then ([], True)
         else (dropWhile (expired ?within (in_at ev)) (last_n (length codes) ?h), False))"
      using hotkey_press_spec [OF _ assms(1) Cons.prems(4), of ev] Cons.prems(3) by (simp add: Let_def)
    show ?thesis
    proof (cases "completes ?within codes ?h")
      case True
      let ?c = "c\<lparr>ch_sent := ch_sent c @ [(''hotkeys'', E_Hotkey (hotkey_name cfg))]\<rparr>"
      have "ch_sent (hotkey_loop cfg codes [] (map Inr evs) ?c) =
          ch_sent ?c @ replicate (recognized ?within codes [] (presses_of evs))
            (''hotkeys'', E_Hotkey (hotkey_name cfg))"
        using Cons.IH [of ?c "in_at ev" "[]" "[]"] Cons.prems(1) later by simp
      with True \<open>is_press ev\<close> Cons.prems(1) show ?thesis
        by (simp add: presses step chan_send_def)
    next
      case False
      with \<open>is_press ev\<close> Cons.IH [OF Cons.prems(1) later refl, of ?h] show ?thesis
        by (simp add: presses step)
    qed
  qed
qed

end
