(* ===== verification/Sensors_Properties.thy ===== *)
theory Sensors_Properties
  imports Sensors Poll_Refinement Hotkey_Spec Validation_Properties
begin

text \<open>
  What the sensors guarantee: hotkeys of a validated configuration are recognized, the
  decoders invert the documented escapes, and the snapshot follows the host.
\<close>

section \<open>Hotkeys\<close>

lemma key_sequence_codes: "key_sequence keys = Inr codes \<Longrightarrow> map Some codes = map key_code keys"
  by (induction keys arbitrary: codes) (auto simp: result_elims)

text \<open>
  C23. A hotkey of a validated configuration works on any device that opens: no key name is
  rejected, and on every stream of input events with non-decreasing times exactly one hotkey
  event is sent for each time the presses since the last one end in the configured sequence
  within the window, although the sensor keeps only as many presses as the sequence has keys.
\<close>

theorem validated_hotkey_recognized:
  assumes "validate_config rx hm cfg = Inr ()" and "k \<in> set (cfg_hotkeys cfg)"
    and "ih_open h (hotkey_device k) = Inr ()" and "ih_stream h (hotkey_device k) = Inr ()"
  shows "\<exists>codes. hotkey_spawn h k = Inr codes \<and> map Some codes = map key_code (hotkey_sequence k) \<and>
     (\<forall>evs c. sorted (map in_at evs) \<longrightarrow> (\<forall>n. ch_accepts c n) \<longrightarrow>
        ch_sent (hotkey_loop k codes [] (map Inr evs) c) =
          ch_sent c @ replicate (recognized (hotkey_within k) codes [] (presses_of evs))
            (''hotkeys'', E_Hotkey (hotkey_name k)))"
proof -
  have "hotkey_ok rx k"
    using assms(1,2) by (simp add: validate_config_iff config_ok_def list_all_iff)
  then have keys: "list_all valid_key_name (hotkey_sequence k)" and len: "hotkey_sequence k \<noteq> []"
    by (auto simp: hotkey_ok_def list_all_iff)
  then obtain codes where codes: "key_sequence (hotkey_sequence k) = Inr codes"
    using key_sequence_valid by blast
  with len have "codes \<noteq> []" using key_sequence_length by fastforce
  then have "ch_sent (hotkey_loop k codes [] (map Inr evs) c) =
      ch_sent c @ replicate (recognized (hotkey_within k) codes [] (presses_of evs))
        (''hotkeys'', E_Hotkey (hotkey_name k))"
    if "sorted (map in_at evs)" and "\<forall>n. ch_accepts c n" for evs c
    using hotkey_loop_spec [of codes c evs 0 "[]" k "[]"] that by simp
  with codes assms(3,4) key_sequence_codes show ?thesis by (simp add: hotkey_spawn_def)
qed

definition press :: "16 word \<Rightarrow> nat \<Rightarrow> input_event" where
  "press code at = \<lparr> in_type = 1, in_code = code, in_value = 1, in_at = at \<rparr>"

definition demo_hotkey :: hotkey_config where
  "demo_hotkey = hd (cfg_hotkeys demo_config)"

text \<open>Control, then L within the window: one event, for a noisy prefix and a repeated press too.\<close>

theorem validated_hotkey_recognized_witness:
  "ch_sent (hotkey_loop demo_hotkey [29, 38] [] (map Inr [press 30 1, press 29 2, press 38 3, press 38 4])
     \<lparr> ch_sent = [], ch_accepts = (\<lambda>_. True) \<rparr>) = [(''hotkeys'', E_Hotkey ''panic'')]"
proof -
  have valid: "validate_config demo_regex demo_hm demo_config = Inr ()"
    using demo_config_ok by (simp add: validate_config_iff)
  have k: "demo_hotkey \<in> set (cfg_hotkeys demo_config)" by (simp add: demo_hotkey_def demo_config_def)
  have fields: "hotkey_name demo_hotkey = ''panic''" "hotkey_within demo_hotkey = from_secs 3"
    "hotkey_sequence demo_hotkey = [''CTRL'', ''KEY_L'']"
    by (simp_all add: demo_hotkey_def demo_config_def)
  have codes: "key_code ''CTRL'' = Some 29" "key_code ''KEY_L'' = Some 38" by code_simp+
  have rec: "recognized (from_secs 3) [29, 38] []
      (presses_of [press 30 1, press 29 2, press 38 3, press 38 4]) = 1"
    by (simp add: presses_of_def press_def is_press_def completes_def last_n_def from_secs_def Let_def)
  let ?h = "\<lparr> ih_open = (\<lambda>_. Inr ()), ih_stream = (\<lambda>_. Inr ()) \<rparr>"
  let ?evs = "[press 30 1, press 29 2, press 38 3, press 38 4]"
  let ?c = "\<lparr> ch_sent = [], ch_accepts = (\<lambda>_. True) \<rparr>"
  have order: "sorted (map in_at ?evs)" by (simp add: press_def)
  obtain cs where cs: "map Some cs = map key_code (hotkey_sequence demo_hotkey)"
    and run: "\<forall>evs c. sorted (map in_at evs) \<longrightarrow> (\<forall>n. ch_accepts c n) \<longrightarrow>
        ch_sent (hotkey_loop demo_hotkey cs [] (map Inr evs) c) =
          ch_sent c @ replicate (recognized (hotkey_within demo_hotkey) cs [] (presses_of evs))
            (''hotkeys'', E_Hotkey (hotkey_name demo_hotkey))"
    using validated_hotkey_recognized [OF valid k, of ?h] by auto
  have "cs = [29, 38]" using cs codes by (auto simp: fields map_eq_Cons_conv)
  with run [rule_format, OF order, of ?c] rec show ?thesis by (simp add: fields del: hotkey_loop.simps)
qed

section \<open>Decoders\<close>

text \<open>
  C27. The decoders invert what they decode: splitting a line of \<open>nmcli -t\<close> gives back the
  values it was printed from, colons and backslashes included, and \<open>unescape_mount\<close> gives
  back every path from the kernel's escape of it, also when the path itself contains text
  that looks like an escape.
\<close>

theorem decoders_invert_escapes:
  "parse_nmcli_fields (nmcli_print (v # vs)) = v # vs \<and> unescape_mount (mount_escape p) = p"
  by (simp add: parse_print_nmcli unescape_escape)

text \<open>
  The kernel's escapes do not cover the other white space of Unicode, on which the probe
  splits: a mount point with a no-break space in its name is reported by the part before it.
\<close>

lemma unicode_space_splits_mount:
  "mount_line (''36 35 98:0 / /mnt/a'' @ [CHR 0xC2, CHR 0xA0] @ ''b rw - ext4 /dev/sda1 rw'') [] =
     [(''/mnt/a'', Some ''/dev/sda1'')]"
  by code_simp

section \<open>Polling\<close>

text \<open>
  C20. The snapshot follows the host. The poll task, started with the daemon, runs any number of
  cycles on a changing host and hands its events to a channel that accepts them. Once the engine
  has handled what was sent, in order, among events of other sensors, mode changes and recovery
  switches, its snapshot shows, for every sensor the configuration requires whose probe succeeded
  in the last cycle, exactly what that probe returned.
\<close>

theorem snapshot_follows_host:
  assumes "\<forall>n. ch_accepts ch n" and "ch_sent ch = []"
    and "polling_loop (from_config cfg) c x default_poll_state (map Completed (hs @ [h])) ch = (s', ch')"
    and "run_ops engine_step (engine_new now (cfg_rules cfg) mode) ops = Inr e'"
    and "delivered (ch_sent ch') (events_of ops)"
  shows "let q = from_config cfg; snap = eng_snapshot e' in
    (\<forall>v. req_wifi q \<and> probe_wifi h = Inr v \<longrightarrow> wifi_view snap = v) \<and>
    (\<forall>v. req_network q \<and> probe_network h = Inr v \<longrightarrow> network_view snap = v) \<and>
    (\<forall>v. req_mounts q \<and> probe_mounts h = Inr v \<longrightarrow> snap_mounts snap = mount_points v) \<and>
    (\<forall>v. req_processes q \<noteq> [] \<and> probe_processes h (req_processes q) = Inr v \<longrightarrow>
       snap_processes snap = {n. map_of v n = Some True}) \<and>
    (\<forall>v n b. req_services q \<noteq> [] \<and> probe_services h (req_services q) = Inr v \<and> map_of v n = Some b \<longrightarrow>
       snap_services snap n = Some b) \<and>
    (\<forall>v. req_ports q \<noteq> [] \<and> probe_ports h (req_ports q) = Inr v \<longrightarrow> snap_ports snap = set v) \<and>
    (\<forall>v. req_sessions q \<and> probe_session h = Inr v \<longrightarrow>
       session_view snap = (Some (si_state v), si_user v, si_remote v)) \<and>
    (\<forall>v. req_power q \<and> probe_power h = Inr v \<longrightarrow> power_view snap = v)"
proof -
  have "mirrors (from_config cfg) s' (eng_snapshot e')" and "probed h (from_config cfg) s'"
    using polling_engine [OF from_config_ok assms(1,2) _ assms(3-5)] by simp_all
  then show ?thesis
    unfolding mirrors_def probed_def Let_def
    by (auto simp: shows_processes_def on_flags_def shows_services_def session_look_def)
qed

text \<open>A host with one interface that is up, and a configuration that watches the network.\<close>

definition demo_sensor_host :: sensor_host where
  "demo_sensor_host =
     \<lparr> sh_is_file = (\<lambda>_. False), sh_exists = (\<lambda>_. False), sh_read_to_string = (\<lambda>_. Inr ''up''),
       sh_read = (\<lambda>_. Inl ''denied''), sh_read_dir = (\<lambda>_. Inr [Inr ''lo'', Inr ''wg0'']),
       sh_output = (\<lambda>_ _. Inl ''missing''), sh_blake3 = (\<lambda>s. s) \<rparr>"

definition network_config :: config where
  "network_config =
     demo_config\<lparr>cfg_rules := [demo_rule\<lparr>rule_trigger := T_NetworkChanged None None None\<rparr>]\<rparr>"

lemma network_requirements: "from_config network_config = no_requirements\<lparr>req_network := True\<rparr>"
  by (simp add: from_config_def network_config_def collect_rule_def demo_rule_def no_requirements_def)

lemma demo_probe_network:
  "probe_network demo_sensor_host = Inr \<lparr> ns_online = True, ns_interface = Some ''wg0'', ns_vpn = True \<rparr>"
proof -
  have strings: "from_utf8_lossy ''lo'' = ''lo''" "from_utf8_lossy ''wg0'' = ''wg0''" "trim ''up'' = ''up''"
    "is_vpn_name ''wg0''"
    by code_simp+
  show ?thesis
    by (simp add: probe_network_def demo_sensor_host_def network_entry_def read_or_default_def strings Let_def)
qed

lemma demo_cycle:
  "fst (poll_cycle demo_sensor_host (from_config network_config) c x default_poll_state) =
     [(''network'', E_Network True (Some ''wg0'') True)]"
  by (simp add: poll_cycle_def poll_steps_def network_requirements no_requirements_def polled_def
      probe_value_def demo_probe_network network_step_def default_poll_state_def poll_then_def)

theorem snapshot_follows_host_witness:
  "\<exists>e'. run_ops engine_step (engine_new 0 (cfg_rules network_config) ''normal'')
        [Op_Recovery True, Op_Event test_host (event_at (E_Network True (Some ''wg0'') True) 1)] = Inr e' \<and>
     network_view (eng_snapshot e') = \<lparr> ns_online = True, ns_interface = Some ''wg0'', ns_vpn = True \<rparr>"
proof -
  let ?ops = "[Op_Recovery True, Op_Event test_host (event_at (E_Network True (Some ''wg0'') True) 1)]"
  let ?ch = "\<lparr> ch_sent = [], ch_accepts = (\<lambda>_. True) \<rparr>"
  obtain e' where run: "run_ops engine_step (engine_new 0 (cfg_rules network_config) ''normal'') ?ops = Inr e'"
    by (simp add: handle_def set_recovery_mode_def Let_def)
  obtain s' where cyc: "poll_cycle demo_sensor_host (from_config network_config) [] [] default_poll_state =
      ([(''network'', E_Network True (Some ''wg0'') True)], s')"
    using demo_cycle [of "[]" "[]"] by (metis prod.collapse)
  obtain ch' where loop: "polling_loop (from_config network_config) [] [] default_poll_state
      (map Completed ([] @ [demo_sensor_host])) ?ch = (s', ch')"
    and sent: "ch_sent ch' = [(''time'', E_Tick), (''network'', E_Network True (Some ''wg0'') True)]"
    by (simp add: cyc chan_send_def)
  then have del: "delivered (ch_sent ch') (events_of ?ops)"
    by (simp add: delivered_def event_at_def event_new_def)
  have "network_view (eng_snapshot e') = \<lparr> ns_online = True, ns_interface = Some ''wg0'', ns_vpn = True \<rparr>"
    using snapshot_follows_host [OF _ _ loop run del]
    by (simp add: Let_def network_requirements demo_probe_network)
  with run show ?thesis by blast
qed

text \<open>
  A sensor that failed and works again with the value it had before produces no event, so
  the snapshot keeps it marked unhealthy: the failure marked it, and only an event would
  clear the mark.
\<close>

lemma recovered_sensor_stays_unhealthy:
  assumes "ps_initialized s" and "ps_wifi s = Some v" and "probe_wifi h = Inr v"
  shows "poll_cycle h (no_requirements\<lparr>req_wifi := True\<rparr>) c x s =
     ([], s\<lparr>ps_failed := ps_failed s - {''wifi''}\<rparr>)"
  using assms
  by (simp add: poll_cycle_def poll_steps_def no_requirements_def polled_def probe_value_def
      wifi_step_def poll_then_def)

end
