(* ===== verification/Server.thy ===== *)
theory Server
  imports Ipc
begin

text \<open>
  The control server, \<open>kovert-daemon/src/server.rs\<close>: preparing the socket, the accept loop
  with its client limit, and one client connection.

  What the server does to the file system is a list of effects; the answers of the host may
  depend on the effects so far. Reading and printing JSON is serde's and an argument. A
  connection is what the client sends until it closes its side and whether writing to it
  works. Logging is left out.
\<close>

section \<open>Limits\<close>

definition max_request_size :: nat where
  "max_request_size = 1024 * 1024"

definition max_clients :: nat where
  "max_clients = 64"

definition client_timeout :: duration where
  "client_timeout = from_secs 20"

section \<open>Preparing the socket\<close>

datatype socket_effect =
    Sx_CreateDir path
  | Sx_Remove path
  | Sx_Bind path
  | Sx_Mode path "32 word"
  | Sx_Group path "32 word"

record socket_host =
  so_create_dir_all :: "path \<Rightarrow> unit result"
  so_symlink_metadata :: "socket_effect list \<Rightarrow> path \<Rightarrow> metadata result"
  so_remove_file :: "socket_effect list \<Rightarrow> path \<Rightarrow> unit result"
  so_bind :: "socket_effect list \<Rightarrow> path \<Rightarrow> unit result"
  so_set_permissions :: "path \<Rightarrow> 32 word \<Rightarrow> unit result"
  so_group :: "string \<Rightarrow> (32 word option) result"
  so_chown :: "path \<Rightarrow> 32 word \<Rightarrow> unit result"

type_synonym 'a socket_op = "socket_effect list \<Rightarrow> 'a result \<times> socket_effect list"

definition sock_bind :: "'a socket_op \<Rightarrow> ('a \<Rightarrow> 'b socket_op) \<Rightarrow> 'b socket_op" where
  "sock_bind m k = (\<lambda>fx. case m fx of (Inl e, fx') \<Rightarrow> (Inl e, fx') | (Inr x, fx') \<Rightarrow> k x fx')"

definition sock_pure :: "'a result \<Rightarrow> 'a socket_op" where
  "sock_pure r = (\<lambda>fx. (r, fx))"

text \<open>A call that changes the file system when it succeeds.\<close>

definition sock_do :: "(socket_effect list \<Rightarrow> unit result) \<Rightarrow> socket_effect \<Rightarrow> unit socket_op" where
  "sock_do call effect = (\<lambda>fx. case call fx of Inl e \<Rightarrow> (Inl e, fx) | Inr _ \<Rightarrow> (Inr (), fx @ [effect]))"

definition socket_parent_ok :: "metadata \<Rightarrow> bool" where
  "socket_parent_ok m \<longleftrightarrow>
     \<not> (meta_type m = Symlink \<or> meta_type m \<noteq> Directory \<or> meta_uid m \<noteq> 0 \<or> group_or_world_writable m)"

definition check_parent :: "socket_host \<Rightarrow> path \<Rightarrow> bool \<Rightarrow> unit socket_op" where
  "check_parent h parent allow_unsafe =
     (\<lambda>fx. if allow_unsafe then (Inr (), fx)
           else (and_then (with_context (so_symlink_metadata h fx parent) (''inspect socket directory '' @ parent))
                   (\<lambda>m. ensure (socket_parent_ok m)
                      (''socket directory must be root-owned and not group/world writable: '' @ parent)), fx))"

definition remove_stale :: "socket_host \<Rightarrow> path \<Rightarrow> unit socket_op" where
  "remove_stale h p =
     (\<lambda>fx. case so_symlink_metadata h fx p of
        Inl _ \<Rightarrow> (Inr (), fx)
      | Inr m \<Rightarrow>
          if meta_type m \<noteq> Socket then (Inl (''refusing to replace non-socket path: '' @ p), fx)
          else sock_do (\<lambda>fx. with_context (so_remove_file h fx p) ''remove stale control socket'') (Sx_Remove p) fx)"

definition prepare_socket :: "socket_host \<Rightarrow> path \<Rightarrow> bool \<Rightarrow> unit socket_op" where
  "prepare_socket h p allow_unsafe =
     sock_bind (sock_pure (ok_or (path_parent p) ''control socket has no parent directory'')) (\<lambda>parent.
     sock_bind (sock_do (\<lambda>_. with_context (so_create_dir_all h parent) (''create socket directory '' @ parent))
                  (Sx_CreateDir parent)) (\<lambda>_.
     sock_bind (check_parent h parent allow_unsafe) (\<lambda>_.
     remove_stale h p)))"

text \<open>\<open>serve\<close> up to its loop: \<open>0o600\<close> is 384 and \<open>0o660\<close> is 432.\<close>

definition open_socket :: "socket_host \<Rightarrow> path \<Rightarrow> string \<Rightarrow> bool \<Rightarrow> unit socket_op" where
  "open_socket h p grp allow_unsafe =
     sock_bind (prepare_socket h p allow_unsafe) (\<lambda>_.
     sock_bind (sock_do (\<lambda>fx. with_context (so_bind h fx p) (''bind control socket '' @ p)) (Sx_Bind p)) (\<lambda>_.
     if allow_unsafe then sock_do (\<lambda>_. so_set_permissions h p 384) (Sx_Mode p 384)
     else
       sock_bind (sock_do (\<lambda>_. so_set_permissions h p 432) (Sx_Mode p 432)) (\<lambda>_.
       sock_bind (sock_pure (and_then (with_context (so_group h grp) ''resolve socket group'')
                    (\<lambda>g. ok_or g (''socket group does not exist: '' @ grp)))) (\<lambda>gid.
       sock_do (\<lambda>_. with_context (so_chown h p gid) ''set control socket group'') (Sx_Group p gid)))))"

section \<open>One client\<close>

record codec =
  cd_parse_envelope :: "string \<Rightarrow> request_envelope result"
  cd_print_response :: "response \<Rightarrow> string result"

record connection =
  cn_peer :: "32 word result"
  cn_input :: "string result"
  cn_write :: "string \<Rightarrow> unit result"
  cn_shutdown :: "unit result"

text \<open>The bytes written to the client are the second component; a failed write counts as none.\<close>

definition write_response :: "codec \<Rightarrow> connection \<Rightarrow> response \<Rightarrow> unit result \<times> string" where
  "write_response cd cn resp =
     (case cd_print_response cd resp of
        Inl e \<Rightarrow> (Inl e, [])
      | Inr bytes \<Rightarrow>
          (case cn_write cn (bytes @ [CHR 0x0A]) of
             Inl e \<Rightarrow> (Inl e, [])
           | Inr _ \<Rightarrow> (cn_shutdown cn, bytes @ [CHR 0x0A])))"

text \<open>
  A connection up to the point where it hands a request to the runtime: it is over, with
  what it wrote, or it asks.
\<close>

datatype conn_outcome = Conn_Done "unit result" string | Conn_Ask request

definition read_request :: "codec \<Rightarrow> connection \<Rightarrow> conn_outcome" where
  "read_request cd cn =
     (case with_context (cn_peer cn) ''read peer credentials'' of
        Inl e \<Rightarrow> Conn_Done (Inl e) []
      | Inr peer_uid \<Rightarrow>
     (case with_context (map_sum id (take (max_request_size + 1)) (cn_input cn)) ''read control request'' of
        Inl e \<Rightarrow> Conn_Done (Inl e) []
      | Inr input \<Rightarrow>
          if length input > max_request_size
          then case write_response cd cn (response_error ''request exceeds 1 MiB'') of
              (Inl e, out) \<Rightarrow> Conn_Done (Inl e) out
            | (Inr _, out) \<Rightarrow> Conn_Done (Inl (''oversized request from uid '' @ show_nat (unat peer_uid))) out
          else
     (case with_context (cd_parse_envelope cd input) ''parse control request'' of
        Inl e \<Rightarrow> Conn_Done (Inl e) []
      | Inr envelope \<Rightarrow>
          if env_version envelope \<noteq> ipc_version
          then case write_response cd cn (response_error
                 (''unsupported protocol version '' @ show_nat (unat (env_version envelope)) @
                  ''; daemon supports '' @ show_nat (unat ipc_version))) of
              (Inl e, out) \<Rightarrow> Conn_Done (Inl e) out
            | (Inr _, out) \<Rightarrow> Conn_Done (Inr ()) out
          else Conn_Ask (env_request envelope))))"

text \<open>The answer is an error when the control channel is closed or the runtime drops the reply.\<close>

definition handle_connection ::
  "codec \<Rightarrow> connection \<Rightarrow> (request \<Rightarrow> response result) \<Rightarrow> unit result \<times> string" where
  "handle_connection cd cn runtime_answer =
     (case read_request cd cn of
        Conn_Done r out \<Rightarrow> (r, out)
      | Conn_Ask request \<Rightarrow>
          (case runtime_answer request of
             Inl e \<Rightarrow> (Inl e, [])
           | Inr resp \<Rightarrow> write_response cd cn resp))"

section \<open>The accept loop\<close>

text \<open>
  What the loop sees: the shutdown channel, an accepted client or the error of accepting,
  and the end of a client's task (served, failed, or cut off after \<^const>\<open>client_timeout\<close>),
  which returns its permit. The state is the number of permits taken; a client without a
  permit is dropped.
\<close>

datatype server_input = Sv_Shutdown "bool option" | Sv_Accept "unit result" | Sv_Finished

datatype server_verdict = Sv_Continue | Sv_Spawned | Sv_Rejected | Sv_Stop | Sv_Error string

fun server_step :: "nat \<Rightarrow> server_input \<Rightarrow> server_verdict \<times> nat" where
  "server_step active (Sv_Shutdown changed) =
     (if is_none_or (\<lambda>value. value) changed then Sv_Stop else Sv_Continue, active)"
| "server_step active (Sv_Accept accepted) =
     (case with_context accepted ''accept control client'' of
        Inl e \<Rightarrow> (Sv_Error e, active)
      | Inr _ \<Rightarrow> if active < max_clients then (Sv_Spawned, active + 1) else (Sv_Rejected, active))"
| "server_step active Sv_Finished = (Sv_Continue, active - 1)"

fun server_loop :: "nat \<Rightarrow> server_input list \<Rightarrow> server_verdict list \<times> nat" where
  "server_loop active [] = ([], active)"
| "server_loop active (i # is) =
     (case server_step active i of
        (Sv_Stop, active') \<Rightarrow> ([Sv_Stop], active')
      | (Sv_Error e, active') \<Rightarrow> ([Sv_Error e], active')
      | (v, active') \<Rightarrow> (let (vs, n) = server_loop active' is in (v # vs, n)))"

text \<open>
  The whole of \<open>serve\<close> on a finite stream of inputs: a stopped loop removes the socket
  (ignoring an error), a failing accept leaves it; at the end of the stream it waits.
\<close>

definition serve ::
  "socket_host \<Rightarrow> path \<Rightarrow> string \<Rightarrow> bool \<Rightarrow> server_input list \<Rightarrow> server_verdict list socket_op" where
  "serve h p grp allow_unsafe inputs =
     sock_bind (open_socket h p grp allow_unsafe) (\<lambda>_ fx.
       let (vs, _) = server_loop 0 inputs in
       case vs of
         [] \<Rightarrow> (Inr vs, fx)
       | _ \<Rightarrow>
         (case last vs of
            Sv_Error e \<Rightarrow> (Inl e, fx)
          | Sv_Stop \<Rightarrow> (Inr vs, case so_remove_file h fx p of Inr _ \<Rightarrow> fx @ [Sx_Remove p] | Inl _ \<Rightarrow> fx)
          | _ \<Rightarrow> (Inr vs, fx)))"

end
