(* ===== verification/Daemon.thy ===== *)
theory Daemon
  imports Runtime Sensors Server
begin

text \<open>
  The daemon's entry point, \<open>run\<close> of \<open>kovert-daemon/src/main.rs\<close>: the order in which it checks
  its privileges, loads the configuration, opens and verifies the store, starts the sensors
  and builds the runtime, and how it ends. Command-line parsing and the set-up of logging are
  libraries; whether logging could be set up is an argument.
\<close>

section \<open>Start\<close>

record boot =
  bt_config :: path
  bt_allow_unsafe :: bool
  bt_tracing :: "unit result"
  bt_is_root :: bool
  bt_loader :: load_host
  bt_store :: open_host
  bt_verify_faults :: sql_faults
  bt_mode_faults :: sql_faults
  bt_recovery_faults :: sql_faults
  bt_now :: timestamp
  bt_notify :: notify_host
  bt_input :: input_host
  bt_current_exe :: "path result"
  bt_channel :: channel
  bt_max_permits :: nat

text \<open>Up to the channels: the privileges, the configuration and the verified store.\<close>

definition daemon_prepare :: "world \<Rightarrow> boot \<Rightarrow> (config \<times> audit_db) result" where
  "daemon_prepare w b =
     and_then (bt_tracing b) (\<lambda>_.
     and_then (ensure (bt_allow_unsafe b \<or> bt_is_root b)
       ''kovert-daemon must run as root; use --allow-unsafe-dev only for development'') (\<lambda>_.
     and_then (load_config (wl_regex w) (wl_hm w) (bt_loader b) (bt_config b) (bt_allow_unsafe b)) (\<lambda>cfg.
     and_then (audit_open (bt_store b) (state_path (cfg_daemon cfg)) (bt_allow_unsafe b)) (\<lambda>db.
     and_then (if verify_on_start (cfg_audit cfg)
               then with_context (verify (wl_lib w) (bt_verify_faults b) db) ''audit chain verification failed''
               else Inr 0) (\<lambda>_.
     Inr (cfg, db))))))"

text \<open>
  \<open>mpsc::channel\<close> panics on a capacity of zero or above the limit of tokio's semaphore, which is
  an argument. The task handles of the sensors are numbered in the order they are started.
\<close>

definition daemon_start :: "world \<Rightarrow> boot \<Rightarrow> panic + runtime result" where
  "daemon_start w b =
     (case daemon_prepare w b of
        Inl e \<Rightarrow> Inr (Inl e)
      | Inr (cfg, db) \<Rightarrow>
          if event_buffer (cfg_daemon cfg) = 0 \<or> bt_max_permits b < event_buffer (cfg_daemon cfg)
          then Inl (ChannelCapacity (event_buffer (cfg_daemon cfg)))
          else Inr (
            and_then (with_context
              (fst (hub_start (bt_notify b) (bt_input b) (bt_current_exe b) cfg (bt_config b) (bt_channel b)))
              ''start sensors'') (\<lambda>tasks.
            runtime_new (bt_mode_faults b) (bt_recovery_faults b) (bt_now b) (bt_config b) (bt_allow_unsafe b)
              cfg db [0..<length tasks])))"

section \<open>End\<close>

text \<open>
  What ends the daemon: the wait for a signal, the runtime's task or the server's task; a
  task that panicked or was cancelled has no result of its own.
\<close>

datatype daemon_end =
    End_Signal "unit result"
  | End_Runtime "unit result result"
  | End_Server "unit result result"

datatype daemon_stop = Stop_Requested | Server_Aborted | Runtime_Aborted

definition joined :: "unit result result \<Rightarrow> string \<Rightarrow> unit result" where
  "joined r message = and_then (with_context r message) (\<lambda>x. x)"

definition wait_for_shutdown :: "unit result \<Rightarrow> unit result option \<Rightarrow> unit result" where
  "wait_for_shutdown install ctrl_c =
     and_then (with_context install ''install SIGTERM handler'') (\<lambda>_.
     case ctrl_c of Some r \<Rightarrow> with_context r ''wait for Ctrl-C'' | None \<Rightarrow> Inr ())"

fun daemon_finish ::
  "daemon_end \<Rightarrow> unit result result \<Rightarrow> unit result result \<Rightarrow> unit result \<times> daemon_stop list" where
  "daemon_finish (End_Signal (Inl e)) runtime server = (Inl e, [])"
| "daemon_finish (End_Signal (Inr _)) runtime server =
     (and_then (joined runtime ''join runtime'') (\<lambda>_. joined server ''join control server''), [Stop_Requested])"
| "daemon_finish (End_Runtime r) runtime server = (joined r ''join runtime'', [Stop_Requested, Server_Aborted])"
| "daemon_finish (End_Server r) runtime server = (joined r ''join control server'', [Stop_Requested, Runtime_Aborted])"

text \<open>The status the process exits with.\<close>

definition exit_code :: "unit result \<Rightarrow> nat" where
  "exit_code r = (case r of Inl _ \<Rightarrow> 1 | Inr _ \<Rightarrow> 0)"

end
