(* ===== verification/Cli.thy ===== *)
theory Cli
  imports Server Config_Loader Sensor_Text
begin

text \<open>
  The command-line client, \<open>kovert-cli/src/main.rs\<close>: commands to requests, one exchange with
  the daemon, local validation, and the interactive shell. Argument parsing is clap's; the
  parsed command is an argument. Files, standard input, the socket and JSON are arguments;
  what the client prints is a list of lines.
\<close>

section \<open>Commands\<close>

datatype recovery_state = On | Off

datatype cli_command =
    Cmd_Status
  | Cmd_Rules
  | Cmd_Audit nat
  | Cmd_Validate path
  | Cmd_Reload
  | Cmd_Trigger string
  | Cmd_Simulate path
  | Cmd_Mode string
  | Cmd_Recovery recovery_state
  | Cmd_VerifyAudit
  | Cmd_Repl

datatype cli_output = Stdout string | Stderr string

text \<open>
  One exchange with the daemon: connecting, sending the bytes, closing the sending side, and
  what the daemon sends until it closes; \<open>lk_timeout\<close> says that the 20 seconds of
  \<open>REQUEST_TIMEOUT\<close> pass first.
\<close>

record link =
  lk_connect :: "path \<Rightarrow> unit result"
  lk_write :: "string \<Rightarrow> unit result"
  lk_shutdown :: "unit result"
  lk_read :: "string \<Rightarrow> string result"
  lk_timeout :: bool

record cli_host =
  cl_read_file :: "path \<Rightarrow> string result"
  cl_stdin :: "string result"
  cl_flush :: "unit result"
  cl_link :: "nat \<Rightarrow> link"
  cl_parse_event :: "string \<Rightarrow> event result"
  cl_parse_toml :: "string \<Rightarrow> config result"
  cl_print_envelope :: "request_envelope \<Rightarrow> string result"
  cl_parse_response :: "string \<Rightarrow> response result"
  cl_pretty_response :: "response \<Rightarrow> string result"
  cl_pretty_json :: "json \<Rightarrow> string result"
  cl_json_text :: "json \<Rightarrow> string"

definition max_response_size :: nat where
  "max_response_size = 8 * 1024 * 1024"

definition request_timeout :: duration where
  "request_timeout = from_secs 20"

definition read_event :: "cli_host \<Rightarrow> path \<Rightarrow> event result" where
  "read_event h p =
     and_then (if path_eq p ''-'' then cl_stdin h
               else with_context (cl_read_file h p) (''read event '' @ p)) (\<lambda>text.
     with_context (cl_parse_event h text) ''parse event JSON'')"

fun request_from_command :: "cli_host \<Rightarrow> cli_command \<Rightarrow> request result" where
  "request_from_command h Cmd_Status = Inr R_Status"
| "request_from_command h Cmd_Rules = Inr R_Rules"
| "request_from_command h (Cmd_Audit limit) = Inr (R_Audit limit)"
| "request_from_command h Cmd_Reload = Inr R_Reload"
| "request_from_command h (Cmd_Trigger name) = Inr (R_Trigger name)"
| "request_from_command h (Cmd_Simulate p) = and_then (read_event h p) (\<lambda>ev. Inr (R_Simulate ev))"
| "request_from_command h (Cmd_Mode name) = Inr (R_SetMode name)"
| "request_from_command h (Cmd_Recovery state) = Inr (R_Recovery (state = On))"
| "request_from_command h Cmd_VerifyAudit = Inr R_VerifyAudit"
| "request_from_command h (Cmd_Validate _) = Inl ''command is handled locally''"
| "request_from_command h Cmd_Repl = Inl ''command is handled locally''"

section \<open>An exchange with the daemon\<close>

definition send_inner :: "cli_host \<Rightarrow> link \<Rightarrow> path \<Rightarrow> request \<Rightarrow> response result" where
  "send_inner h lk socket request =
     and_then (with_context (lk_connect lk socket) (''connect to '' @ socket)) (\<lambda>_.
     and_then (cl_print_envelope h (envelope_new request)) (\<lambda>bytes.
     and_then (with_context (lk_write lk bytes) ''write request'') (\<lambda>_.
     and_then (with_context (lk_shutdown lk) ''finish request'') (\<lambda>_.
     and_then (with_context (map_sum id (take (max_response_size + 1)) (lk_read lk bytes)) ''read response'')
       (\<lambda>response.
     if length response > max_response_size then Inl ''daemon response exceeds 8 MiB''
     else
       and_then (with_context (cl_parse_response h response) ''parse daemon response'') (\<lambda>resp.
       if resp_version resp \<noteq> ipc_version
       then Inl (''unsupported daemon protocol version '' @ show_nat (unat (resp_version resp)) @
                 ''; CLI supports '' @ show_nat (unat ipc_version))
       else Inr resp))))))"

definition send :: "cli_host \<Rightarrow> link \<Rightarrow> path \<Rightarrow> request \<Rightarrow> response result" where
  "send h lk socket request =
     (if lk_timeout lk then Inl ''daemon request timed out'' else send_inner h lk socket request)"

definition print_response :: "cli_host \<Rightarrow> response \<Rightarrow> bool \<Rightarrow> unit result \<times> cli_output list" where
  "print_response h resp json_mode =
     (if json_mode
      then case cl_pretty_response h resp of Inl e \<Rightarrow> (Inl e, []) | Inr text \<Rightarrow> (Inr (), [Stdout text])
      else case resp_data resp of
          None \<Rightarrow> (Inr (), [Stdout (resp_message resp)])
        | Some data \<Rightarrow>
            (case cl_pretty_json h data of
               Inl e \<Rightarrow> (Inl e, [Stdout (resp_message resp)])
             | Inr text \<Rightarrow> (Inr (), [Stdout (resp_message resp), Stdout text])))"

section \<open>Local validation\<close>

definition cli_validate ::
  "regex_lib \<Rightarrow> hm_parser \<Rightarrow> cli_host \<Rightarrow> path \<Rightarrow> bool \<Rightarrow> unit result \<times> cli_output list" where
  "cli_validate rx hm h p json_mode =
     (case and_then (with_context (cl_read_file h p) (''read configuration '' @ p)) (\<lambda>text.
             with_context (cl_parse_toml h text) (''parse configuration '' @ p)) of
        Inl e \<Rightarrow> (Inl e, [])
      | Inr cfg \<Rightarrow>
          (case validate_config rx hm cfg of
             Inr _ \<Rightarrow>
               (Inr (),
                [Stdout (if json_mode
                   then cl_json_text h (J_Object [(''ok'', J_Bool True),
                          (''rules'', J_Number (int (length (cfg_rules cfg))))])
                   else ''valid configuration: '' @ show_nat (length (cfg_rules cfg)) @ '' rule(s)'')])
           | Inl errors \<Rightarrow>
               (Inl (''configuration is invalid:'' @ [CHR 0x0A] @
                     join_lines (map (\<lambda>e. ''- '' @ error_text e) errors)),
                if json_mode
                then [Stdout (cl_json_text h (J_Object [(''ok'', J_Bool False),
                        (''errors'', J_Array (map (\<lambda>e. J_String (error_text e)) errors))]))]
                else [])))"

section \<open>The interactive shell\<close>

definition required :: "string list \<Rightarrow> nat \<Rightarrow> string \<Rightarrow> string result" where
  "required words index name = ok_or (if index < length words then Some (words ! index) else None) (''missing '' @ name)"

text \<open>What one line makes the shell do.\<close>

datatype repl_line =
    Line_Quit
  | Line_Skip "cli_output list"
  | Line_Fail string
  | Line_Request request

definition fail_or :: "'a result \<Rightarrow> ('a \<Rightarrow> repl_line) \<Rightarrow> repl_line" where
  "fail_or r k = (case r of Inl e \<Rightarrow> Line_Fail e | Inr x \<Rightarrow> k x)"

definition help_text :: string where
  "help_text = ''status | rules | audit [limit] | reload | trigger <name> | mode <name> | recovery <on|off> | verify-audit | quit''"

definition repl_parse :: "string \<Rightarrow> repl_line" where
  "repl_parse line =
     (let words = split_whitespace line in
      case words of
        [] \<Rightarrow> Line_Skip []
      | command # _ \<Rightarrow>
          if command = ''quit'' \<or> command = ''exit'' then Line_Quit
          else if command = ''help'' then Line_Skip [Stdout help_text]
          else if command = ''status'' then Line_Request R_Status
          else if command = ''rules'' then Line_Request R_Rules
          else if command = ''audit''
          then Line_Request (R_Audit (unwrap_or
                 (if 1 < length words then parse_below (2 ^ 64) (words ! 1) else None) 50))
          else if command = ''reload'' then Line_Request R_Reload
          else if command = ''trigger''
          then fail_or (required words 1 ''trigger name'') (\<lambda>name. Line_Request (R_Trigger name))
          else if command = ''mode''
          then fail_or (required words 1 ''mode name'') (\<lambda>name. Line_Request (R_SetMode name))
          else if command = ''recovery''
          then fail_or (required words 1 ''on or off'') (\<lambda>state.
                 if state = ''on'' then Line_Request (R_Recovery True)
                 else if state = ''off'' then Line_Request (R_Recovery False)
                 else Line_Skip [Stderr (''expected '' @ [CHR 0x27] @ ''on'' @ [CHR 0x27] @ '' or '' @
                                         [CHR 0x27] @ ''off'' @ [CHR 0x27])])
          else if command = ''verify-audit'' then Line_Request R_VerifyAudit
          else Line_Skip [Stderr (''unknown command: '' @ command)])"

text \<open>
  The loop on the lines of standard input; the end of the list, or an empty line read, is
  the end of the input. The n-th request uses the n-th exchange.
\<close>

fun repl_loop ::
  "cli_host \<Rightarrow> path \<Rightarrow> bool \<Rightarrow> nat \<Rightarrow> string result list \<Rightarrow> unit result \<times> cli_output list" where
  "repl_loop h socket json_mode n [] = (cl_flush h, [Stdout ''kovert> ''])"
| "repl_loop h socket json_mode n (r # rs) =
     (let prompt = Stdout ''kovert> '' in
      case and_then (cl_flush h) (\<lambda>_. r) of
        Inl e \<Rightarrow> (Inl e, [prompt])
      | Inr line \<Rightarrow>
          if line = [] then (Inr (), [prompt])
          else
            (case repl_parse line of
               Line_Quit \<Rightarrow> (Inr (), [prompt])
             | Line_Skip out \<Rightarrow>
                 (let (res, rest) = repl_loop h socket json_mode n rs in (res, [prompt] @ out @ rest))
             | Line_Fail e \<Rightarrow> (Inl e, [prompt])
             | Line_Request request \<Rightarrow>
                 (case send h (cl_link h n) socket request of
                    Inl e \<Rightarrow>
                      (let (res, rest) = repl_loop h socket json_mode (n + 1) rs
                       in (res, [prompt, Stderr (''error: '' @ e)] @ rest))
                  | Inr resp \<Rightarrow>
                      (case print_response h resp json_mode of
                         (Inl e, out) \<Rightarrow> (Inl e, [prompt] @ out)
                       | (Inr _, out) \<Rightarrow>
                           (let (res, rest) = repl_loop h socket json_mode (n + 1) rs
                            in (res, [prompt] @ out @ rest))))))"

definition repl :: "cli_host \<Rightarrow> path \<Rightarrow> bool \<Rightarrow> string result list \<Rightarrow> unit result \<times> cli_output list" where
  "repl h socket json_mode stdin_lines =
     (let (res, out) = repl_loop h socket json_mode 0 stdin_lines
      in (res, Stdout (''Kovert interactive shell. Type '' @ [CHR 0x27] @ ''help'' @ [CHR 0x27] @
           '' for commands; '' @ [CHR 0x27] @ ''quit'' @ [CHR 0x27] @ '' to exit.'') # out))"

section \<open>The program\<close>

definition cli_run ::
  "regex_lib \<Rightarrow> hm_parser \<Rightarrow> cli_host \<Rightarrow> path \<Rightarrow> bool \<Rightarrow> cli_command option \<Rightarrow> string result list \<Rightarrow>
   unit result \<times> cli_output list" where
  "cli_run rx hm h socket json_mode parsed stdin_lines =
     (case unwrap_or parsed Cmd_Repl of
        Cmd_Validate p \<Rightarrow> cli_validate rx hm h p json_mode
      | Cmd_Repl \<Rightarrow> repl h socket json_mode stdin_lines
      | command \<Rightarrow>
          (case and_then (request_from_command h command) (send h (cl_link h 0) socket) of
             Inl e \<Rightarrow> (Inl e, [])
           | Inr resp \<Rightarrow>
               (case print_response h resp json_mode of
                  (Inl e, out) \<Rightarrow> (Inl e, out)
                | (Inr _, out) \<Rightarrow> (if resp_ok resp then Inr () else Inl (resp_message resp), out))))"

end
