(* ===== verification/Runtime_Reload.thy ===== *)
theory Runtime_Reload
  imports Runtime_Properties
begin

text \<open>
  Reloading the configuration of a running daemon: what the new configuration has to keep
  of the old one for the daemon to stay safe, and the safety of runs with reloads.

  A reload hands the runtime of a rule to the new rule with the same id, cursor included, and
  keeps the current mode. So it is safe when no sequence gets shorter than the one whose
  cursor it inherits and no configured mode disappears.
\<close>

section \<open>Compatible configurations\<close>

definition sequence_kept :: "rule \<Rightarrow> rule \<Rightarrow> bool" where
  "sequence_kept r r' \<longleftrightarrow>
     (case rule_trigger r' of
        T_Sequence steps' _ \<Rightarrow>
          (case rule_trigger r of T_Sequence steps _ \<Rightarrow> length steps \<le> length steps' | _ \<Rightarrow> False)
      | _ \<Rightarrow> True)"

definition modes_kept :: "config \<Rightarrow> config \<Rightarrow> bool" where
  "modes_kept c c' \<longleftrightarrow>
     cfg_modes c' = [] \<or> cfg_modes c \<noteq> [] \<and> mode_name ` set (cfg_modes c) \<subseteq> mode_name ` set (cfg_modes c')"

definition reload_compatible :: "config \<Rightarrow> config \<Rightarrow> bool" where
  "reload_compatible c c' \<longleftrightarrow>
     modes_kept c c' \<and>
     (\<forall>r \<in> set (cfg_rules c). \<forall>r' \<in> set (cfg_rules c'). rule_id r' = rule_id r \<longrightarrow> sequence_kept r r')"

lemma mode_ok_kept: "modes_kept c c' \<Longrightarrow> mode_ok c mode \<Longrightarrow> mode_ok c' mode"
  by (auto simp: modes_kept_def mode_ok_def)

lemma cursor_ok_kept:
  assumes "trigger_ok hotkeys (rule_trigger r)" and "sequence_kept r r'" and "cursor_ok r rt"
  shows "cursor_ok r' rt"
  using assms by (auto simp: sequence_kept_def cursor_ok_def split: trigger_spec.splits)

text \<open>
  What the loader may return at the given call or a later one. Every configuration is
  compatible with the later ones.
\<close>

definition loads :: "world \<Rightarrow> path \<Rightarrow> bool \<Rightarrow> nat \<Rightarrow> config \<Rightarrow> bool" where
  "loads w p unsafe n c \<longleftrightarrow> load_config (wl_regex w) (wl_hm w) (wl_loader w n) p unsafe = Inr c"

definition reloads_ok :: "world \<Rightarrow> path \<Rightarrow> bool \<Rightarrow> config \<Rightarrow> bool" where
  "reloads_ok w p unsafe cfg \<longleftrightarrow>
     (\<forall>n c. loads w p unsafe n c \<longrightarrow> reload_compatible cfg c) \<and>
     (\<forall>n m c c'. n < m \<and> loads w p unsafe n c \<and> loads w p unsafe m c' \<longrightarrow> reload_compatible c c')"

section \<open>One reload\<close>

lemma replace_rules_kept:
  assumes "config_ok rx hm c" and "config_ok rx hm c'" and "reload_compatible c c'"
    and "wf_engine e" and "set (eng_rules e) = set (cfg_rules c)"
  shows "wf_engine (replace_rules e (cfg_rules c'))"
proof (rule replace_rules_wf)
  show "distinct (map rule_id (cfg_rules c'))" using assms(2) by (simp add: config_ok_def)
  fix r'
  assume r': "r' \<in> set (cfg_rules c')"
  show "cursor_ok r' (runtime_of (eng_runtime e) r')"
  proof (cases "\<exists>r \<in> set (cfg_rules c). rule_id r = rule_id r'")
    case True
    then obtain r where r: "r \<in> set (cfg_rules c)" "rule_id r = rule_id r'" by blast
    then have "cursor_ok r (runtime_of (eng_runtime e) r)" using wf_engineD(3) [OF assms(4)] assms(5) by simp
    then have "cursor_ok r (runtime_of (eng_runtime e) r')" using r(2) by (simp add: runtime_of_def)
    moreover have "sequence_kept r r'" using assms(3) r r' by (simp add: reload_compatible_def)
    moreover have "trigger_ok (hotkey_name ` set (cfg_hotkeys c)) (rule_trigger r)"
      using assms(1) r(1) by (simp add: config_ok_def rule_ok_def)
    ultimately show ?thesis by (rule_tac cursor_ok_kept)
  next
    case False
    then have "rule_id r' \<notin> rule_id ` set (cfg_rules c)" by (metis imageE)
    then have "rule_id r' \<notin> dom (eng_runtime e)" using wf_engineD(4) [OF assms(4)] assms(5) by (metis subsetD)
    then show ?thesis by (simp add: runtime_of_def domIff)
  qed
qed

text \<open>
  The configuration in force is the first one or one that was loaded, and the daemon's
  invariant holds for it; what may still be loaded is compatible with it.
\<close>

definition in_force :: "world \<Rightarrow> path \<Rightarrow> bool \<Rightarrow> config \<Rightarrow> config \<Rightarrow> bool" where
  "in_force w p unsafe cfg c \<longleftrightarrow> c = cfg \<or> (\<exists>n. loads w p unsafe n c)"

definition live_inv :: "world \<Rightarrow> path \<Rightarrow> bool \<Rightarrow> config \<Rightarrow> runtime \<Rightarrow> bool" where
  "live_inv w p unsafe cfg s \<longleftrightarrow>
     reloads_ok w p unsafe cfg \<and> rt_config_path s = p \<and> rt_allow_unsafe s = unsafe \<and>
     daemon_inv w (rt_config s) s \<and> in_force w p unsafe cfg (rt_config s) \<and>
     (\<forall>m c. rt_tick s \<le> m \<and> loads w p unsafe m c \<longrightarrow> reload_compatible (rt_config s) c)"

definition live_effect :: "world \<Rightarrow> path \<Rightarrow> bool \<Rightarrow> config \<Rightarrow> effect \<Rightarrow> bool" where
  "live_effect w p unsafe cfg fx \<longleftrightarrow>
     (\<exists>c. config_ok (wl_regex w) (wl_hm w) c \<and> in_force w p unsafe cfg c \<and> daemon_effect w c fx)"

definition live_rel :: "world \<Rightarrow> path \<Rightarrow> bool \<Rightarrow> config \<Rightarrow> runtime \<Rightarrow> runtime \<Rightarrow> bool" where
  "live_rel w p unsafe cfg s s' \<longleftrightarrow>
     (\<exists>fx. rt_trace s' = rt_trace s @ fx \<and> list_all (live_effect w p unsafe cfg) fx)"

lemma live_start:
  assumes "daemon_inv w cfg s" and "reloads_ok w (rt_config_path s) (rt_allow_unsafe s) cfg"
  shows "live_inv w (rt_config_path s) (rt_allow_unsafe s) cfg s"
  using assms by (auto simp: live_inv_def in_force_def reloads_ok_def daemon_inv_def)

text \<open>A step under the configuration in force.\<close>

lemma live_step:
  assumes "live_inv w p unsafe cfg s" and "daemon_inv w (rt_config s) s'" and "daemon_rel w (rt_config s) s s'"
  shows "live_inv w p unsafe cfg s' \<and> live_rel w p unsafe cfg s s'"
proof -
  have c: "rt_config s' = rt_config s" using assms(2) by (simp add: daemon_inv_def)
  have tick: "rt_tick s \<le> rt_tick s'" and opts: "rt_config_path s' = rt_config_path s"
    "rt_allow_unsafe s' = rt_allow_unsafe s" using assms(3) by (simp_all add: daemon_rel_def)
  have "live_inv w p unsafe cfg s'"
    using assms(1,2) le_trans [OF tick] unfolding live_inv_def c opts by blast
  moreover have "live_effect w p unsafe cfg fx" if "daemon_effect w (rt_config s) fx" for fx
    using assms(1) that by (auto simp: live_effect_def live_inv_def daemon_inv_def)
  then have "live_rel w p unsafe cfg s s'"
    using assms(3) by (auto simp: live_rel_def daemon_rel_def list_all_iff)
  ultimately show ?thesis ..
qed

lemma live_safe:
  assumes "\<And>c. safe (daemon_inv w c) (daemon_rel w c) m any"
  shows "safe (live_inv w p unsafe cfg) (live_rel w p unsafe cfg) m any"
proof (rule safeI)
  fix s
  assume live: "live_inv w p unsafe cfg s"
  then have "daemon_inv w (rt_config s) s" by (simp add: live_inv_def)
  with assms obtain r s' where m: "m s = Inr (r, s')"
    and "daemon_inv w (rt_config s) s'" "daemon_rel w (rt_config s) s s'" by (rule safeE) blast
  with live_step [OF live] show "\<exists>r s'. m s = Inr (r, s') \<and> live_inv w p unsafe cfg s' \<and>
      live_rel w p unsafe cfg s s' \<and> (\<forall>x. r = Inr x \<longrightarrow> True)" by blast
qed

text \<open>The state right after the new configuration is installed.\<close>

definition installed :: "config \<Rightarrow> nat list \<Rightarrow> runtime \<Rightarrow> runtime" where
  "installed c handles s =
     s\<lparr>rt_tick := rt_tick s + 2, rt_aborted := rt_aborted s @ rt_sensor_handles s,
       rt_sensor_handles := handles, rt_engine := replace_rules (rt_engine s) (cfg_rules c),
       rt_executor := executor_for c, rt_config := c\<rparr>"

lemma reload_cases:
  assumes "\<not> (\<exists>c handles. loads w (rt_config_path s) (rt_allow_unsafe s) (rt_tick s) c \<and>
      wl_start_sensors w (rt_tick s + 1) c = Inr handles)"
  shows "\<exists>e k. reload w s = Inr (Inl e, s\<lparr>rt_tick := rt_tick s + k\<rparr>)"
proof (cases "load_config (wl_regex w) (wl_hm w) (wl_loader w (rt_tick s)) (rt_config_path s) (rt_allow_unsafe s)")
  case (Inl e)
  then show ?thesis by (auto simp: reload_def rt_bind_def rt_load_def Let_def intro: exI [of _ 1])
next
  case (Inr c)
  with assms obtain e where "wl_start_sensors w (rt_tick s + 1) c = Inl e"
    by (cases "wl_start_sensors w (rt_tick s + 1) c") (auto simp: loads_def)
  with Inr show ?thesis
    by (auto simp: reload_def rt_bind_def rt_load_def rt_start_sensors_def Let_def with_context_def intro: exI [of _ 2])
qed

lemma reload_installs:
  assumes "loads w (rt_config_path s) (rt_allow_unsafe s) (rt_tick s) c"
    and "wl_start_sensors w (rt_tick s + 1) c = Inr handles"
  shows "reload w s = rt_bind (rt_append w None ''configuration_reloaded'' None
      (J_Object [(''rules'', J_Number (int (length (cfg_rules c))))])) (\<lambda>_. rt_return ()) (installed c handles s)"
  using assms
  by (simp add: reload_def rt_bind_def rt_load_def rt_start_sensors_def rt_modify_def rt_get_def loads_def
      installed_def replace_rules_def sort_rules_def Let_def with_context_def)

lemma installed_live:
  assumes "live_inv w p unsafe cfg s" and "loads w p unsafe (rt_tick s) c"
  shows "live_inv w p unsafe cfg (installed c handles s)"
proof -
  let ?e = "replace_rules (rt_engine s) (cfg_rules c)"
  have inv: "daemon_inv w (rt_config s) s" and compat: "reload_compatible (rt_config s) c"
    using assms by (auto simp: live_inv_def)
  have old: "config_ok (wl_regex w) (wl_hm w) (rt_config s)" and new: "config_ok (wl_regex w) (wl_hm w) c"
    using inv assms(2) load_config_accepts(1) by (auto simp: daemon_inv_def loads_def)
  have "wf_engine ?e" using replace_rules_kept [OF old new compat] inv by (simp add: daemon_inv_def)
  moreover have "mode_ok c (current_mode s)"
    using compat inv mode_ok_kept by (auto simp: daemon_inv_def reload_compatible_def)
  moreover have "set (eng_rules ?e) = set (cfg_rules c)" "eng_snapshot ?e = eng_snapshot (rt_engine s)"
    by (simp_all add: replace_rules_def Let_def)
  ultimately have "daemon_inv w c (installed c handles s)"
    using inv new by (simp add: daemon_inv_def installed_def current_mode_def)
  moreover have "reload_compatible c c'" if "rt_tick s + 2 \<le> m" "loads w p unsafe m c'" for m c'
  proof -
    have "rt_tick s < m" using that(1) by simp
    with assms that(2) show ?thesis unfolding live_inv_def reloads_ok_def by blast
  qed
  ultimately show ?thesis
    using assms unfolding live_inv_def in_force_def by (auto simp: installed_def)
qed

lemma reload_live: "safe (live_inv w p unsafe cfg) (live_rel w p unsafe cfg) (reload w) any"
proof (rule safeI)
  fix s
  assume live: "live_inv w p unsafe cfg s"
  then have opts: "rt_config_path s = p" "rt_allow_unsafe s = unsafe" by (simp_all add: live_inv_def)
  show "\<exists>r s'. reload w s = Inr (r, s') \<and> live_inv w p unsafe cfg s' \<and>
      live_rel w p unsafe cfg s s' \<and> (\<forall>x. r = Inr x \<longrightarrow> True)"
  proof (cases "\<exists>c handles. loads w p unsafe (rt_tick s) c \<and> wl_start_sensors w (rt_tick s + 1) c = Inr handles")
    case False
    with reload_cases [of w s] opts obtain e k where "reload w s = Inr (Inl e, s\<lparr>rt_tick := rt_tick s + k\<rparr>)" by auto
    moreover have "daemon_inv w (rt_config s) (s\<lparr>rt_tick := rt_tick s + k\<rparr>)"
      using live by (simp add: live_inv_def daemon_inv_tick)
    then have "live_inv w p unsafe cfg (s\<lparr>rt_tick := rt_tick s + k\<rparr>) \<and>
        live_rel w p unsafe cfg s (s\<lparr>rt_tick := rt_tick s + k\<rparr>)"
      using live_step [OF live] by (simp add: daemon_rel_same)
    ultimately show ?thesis by simp
  next
    case True
    then obtain c handles where c: "loads w p unsafe (rt_tick s) c"
      and h: "wl_start_sensors w (rt_tick s + 1) c = Inr handles" by blast
    let ?m = "rt_bind (rt_append w None ''configuration_reloaded'' None
      (J_Object [(''rules'', J_Number (int (length (cfg_rules c))))])) (\<lambda>_. rt_return ())"
    have "safe (live_inv w p unsafe cfg) (live_rel w p unsafe cfg) ?m any"
      by (rule live_safe) (intro daemon.bind_safe [OF daemon.append_safe] daemon.return_safe TrueI)
    from safeE [OF this installed_live [OF live c, of handles]] obtain r s' where
      "?m (installed c handles s) = Inr (r, s')" "live_inv w p unsafe cfg s'"
      "live_rel w p unsafe cfg (installed c handles s) s'" by blast
    moreover have "rt_trace (installed c handles s) = rt_trace s" by (simp add: installed_def)
    ultimately show ?thesis
      using reload_installs [of w s c handles] c h opts by (simp add: live_rel_def)
  qed
qed

section \<open>The loop\<close>

lemma live_rel_refl: "live_rel w p unsafe cfg s s"
  by (simp add: live_rel_def)

lemma live_rel_trans: "live_rel w p unsafe cfg s t \<Longrightarrow> live_rel w p unsafe cfg t u \<Longrightarrow> live_rel w p unsafe cfg s u"
  by (auto simp: live_rel_def)

lemma live_rel_transp: "transp (live_rel w p unsafe cfg)"
  by (rule transpI) (rule live_rel_trans)

lemma live_return: "safe (live_inv w p unsafe cfg) (live_rel w p unsafe cfg) (rt_return x) any"
  by (simp add: safe_def rt_return_def live_rel_refl)

interpretation live: loop_contract w "live_inv w p unsafe cfg" "live_rel w p unsafe cfg" "\<lambda>_. True"
  for w p unsafe cfg
proof unfold_locales
  show "live_rel w p unsafe cfg s s" for s by (rule live_rel_refl)
  show "live_rel w p unsafe cfg s u" if "live_rel w p unsafe cfg s t" "live_rel w p unsafe cfg t u" for s t u
    using that by (rule live_rel_trans)
  show "safe (live_inv w p unsafe cfg) (live_rel w p unsafe cfg) (loop_step w i) any" for i
  proof (cases "i = In_Control (Some R_Reload)")
    case False
    then show ?thesis by (intro live_safe daemon.loop_step_safe)
  next
    case True
    have "safe (live_inv w p unsafe cfg) (live_rel w p unsafe cfg) (handle_control_result w R_Reload) any"
      by (simp add: safe_bind [OF live_rel_transp reload_live] live_return)
    then show ?thesis
      unfolding True loop_step.simps
      by (intro safe_bind [OF live_rel_transp handle_control_of_result] live_return)
  qed
qed

section \<open>Properties\<close>

text \<open>
  C1. The daemon is safe end to end. Started with a validated configuration on a well-formed
  store, whatever events and requests arrive, whatever database statements fail and whatever the
  host answers: the engine never panics and nothing ends the loop with an error, the journal
  verifies in full, the configuration in force is validated and defines the current mode, and
  every process started, signal sent and file created is permitted by an action of a
  configuration that passed validation. When requests to reload are among the inputs, every
  configuration that can be loaded has to keep the modes and not shorten the sequences of those
  before it; without such a request the configuration stays the first one.
\<close>

theorem daemon_run_safe:
  assumes "validate_config (wl_regex w) (wl_hm w) cfg = Inr ()" and "audit_wf (wl_lib w) db"
    and "int (unat (max_records (cfg_audit cfg))) \<le> max_row_id"
    and "runtime_new f f' now p unsafe cfg db handles = Inr s"
    and "In_Control (Some R_Reload) \<in> set inputs \<Longrightarrow> reloads_ok w p unsafe cfg"
  shows "\<exists>v s'. run_loop w inputs s = Inr (Inr v, s') \<and>
    verify (wl_lib w) (\<lambda>_. None) (rt_db s') = Inr (length (db_audit (rt_db s'))) \<and>
    validate_config (wl_regex w) (wl_hm w) (rt_config s') = Inr () \<and>
    mode_ok (rt_config s') (current_mode s') \<and> list_all (live_effect w p unsafe cfg) (rt_trace s') \<and>
    (In_Control (Some R_Reload) \<notin> set inputs \<longrightarrow> rt_config s' = cfg)"
proof -
  have ok: "config_ok (wl_regex w) (wl_hm w) cfg" using assms(1) by (simp add: validate_config_iff)
  note new = runtime_new_inv [OF this assms(2-4)]
  obtain r s' where run: "run_loop w inputs s = Inr (r, s')" and inv: "daemon_inv w (rt_config s') s'"
    and rel: "live_rel w p unsafe cfg s s'" and cfg: "In_Control (Some R_Reload) \<notin> set inputs \<Longrightarrow> rt_config s' = cfg"
  proof (cases "In_Control (Some R_Reload) \<in> set inputs")
    case True
    have "rt_config_path s = p" "rt_allow_unsafe s = unsafe"
      using assms(4) by (auto simp: runtime_new_def and_then_eq_Inr Let_def)
    with live_start [OF new(1)] assms(5) [OF True] have "live_inv w p unsafe cfg s" by simp
    moreover have "safe (live_inv w p unsafe cfg) (live_rel w p unsafe cfg) (run_loop w inputs) any"
      by (rule live.run_loop_safe) simp
    ultimately show ?thesis using True that by (metis safeE live_inv_def)
  next
    case False
    then have "\<forall>i \<in> set inputs. i \<noteq> In_Control (Some R_Reload)" by blast
    from safeE [OF daemon.loop.run_loop_safe [OF this] new(1)] obtain r s' where
      "run_loop w inputs s = Inr (r, s')" "daemon_inv w cfg s'" "daemon_rel w cfg s s'" by blast
    moreover from this(3) ok have "live_rel w p unsafe cfg s s'"
      by (auto simp: live_rel_def daemon_rel_def live_effect_def in_force_def list_all_iff)
    ultimately show ?thesis using that by (simp add: daemon_inv_def)
  qed
  moreover from run_loop_value [OF run] obtain v where "r = Inr v" by blast
  moreover from inv have "verify (wl_lib w) (\<lambda>_. None) (rt_db s') = Inr (length (db_audit (rt_db s')))"
    by (intro verify_wf) (simp add: daemon_inv_def store_inv_def)
  moreover have "list_all (live_effect w p unsafe cfg) (rt_trace s')"
    using rel new(2) by (auto simp: live_rel_def)
  ultimately show ?thesis by (auto simp: validate_config_iff daemon_inv_def)
qed

text \<open>A daemon whose file loads the same configuration again at every reload.\<close>

definition reload_loader :: load_host where
  "reload_loader =
     \<lparr> lh_symlink_metadata = (\<lambda>_. Inr \<lparr> meta_type = Regular_File, meta_uid = 0, meta_mode = 0x180, meta_len = 0 \<rparr>),
       lh_metadata = (\<lambda>_. Inr \<lparr> meta_type = Directory, meta_uid = 0, meta_mode = 0x1C0, meta_len = 0 \<rparr>),
       lh_read_to_string = (\<lambda>_. Inr []), lh_parse_toml = (\<lambda>_. Inr demo_config) \<rparr>"

definition reload_world :: world where
  "reload_world = demo_world\<lparr>wl_loader := (\<lambda>_. reload_loader), wl_start_sensors := (\<lambda>_ _. Inr [0])\<rparr>"

lemma reload_world_facts:
  "wl_regex reload_world = demo_regex" "wl_hm reload_world = demo_hm" "wl_lib reload_world = demo_lib"
  by (simp_all add: reload_world_def demo_world_facts)

lemma reload_loads: "loads reload_world p unsafe n c \<longleftrightarrow> c = demo_config"
  using demo_validated
  by (auto simp: loads_def load_config_def verify_permissions_def reload_world_def reload_loader_def
      group_or_world_writable_def demo_world_facts ensure_def split: option.split)

lemma demo_reloads_ok: "reloads_ok reload_world p unsafe demo_config"
  by (auto simp: reloads_ok_def reload_loads reload_compatible_def modes_kept_def sequence_kept_def
      demo_config_def demo_rule_def split: trigger_spec.split)

theorem daemon_run_safe_witness:
  "\<exists>v s'. run_loop reload_world [In_Control (Some R_Reload), In_Event (Some (event_at (E_Hotkey ''panic'') 1)),
       In_Control (Some (R_SetMode ''lockdown'')), In_Control (Some R_Reload)] demo_runtime = Inr (Inr v, s') \<and>
     mode_ok (rt_config s') (current_mode s')"
  using daemon_run_safe [OF _ _ demo_fits_config demo_runtime_new demo_reloads_ok,
      of "[In_Control (Some R_Reload), In_Event (Some (event_at (E_Hotkey ''panic'') 1)),
       In_Control (Some (R_SetMode ''lockdown'')), In_Control (Some R_Reload)]"]
    demo_validated by (auto simp: reload_world_facts demo_world_facts)

text \<open>
  Without the condition on modes a reload leaves the daemon in a mode that its configuration
  does not define, while a start replaces such a stored mode by the initial one.
\<close>

lemma reload_keeps_unknown_mode:
  assumes "loads w (rt_config_path s) (rt_allow_unsafe s) (rt_tick s) c"
    and "wl_start_sensors w (rt_tick s + 1) c = Inr handles" and "\<not> mode_ok c (current_mode s)"
  shows "\<exists>r s'. reload w s = Inr (r, s') \<and> rt_config s' = c \<and> \<not> mode_ok c (current_mode s')"
proof -
  have "current_mode (installed c handles s) = current_mode s"
    by (simp add: installed_def current_mode_def replace_rules_def Let_def)
  then show ?thesis
    unfolding reload_installs [OF assms(1,2)] using assms(3)
    by (simp add: rt_bind_def rt_append_def rt_return_def Let_def current_mode_def split: prod.split sum.split)
      (simp add: installed_def)
qed

end
