(* ===== verification/Control_Properties.thy ===== *)
theory Control_Properties
  imports Daemon Cli Runtime_Reload
begin

text \<open>
  The properties of the daemon's edges: starting, the control socket, the requests it admits,
  and the way of a request from the command line to the runtime and back.
\<close>

section \<open>The control socket\<close>

lemma sock_bind_Inr:
  "sock_bind m k fx = (Inr y, fx') \<longleftrightarrow> (\<exists>x fx1. m fx = (Inr x, fx1) \<and> k x fx1 = (Inr y, fx'))"
  by (auto simp: sock_bind_def split: prod.splits sum.splits)

lemma sock_do_Inr: "sock_do call effect fx = (Inr u, fx') \<longleftrightarrow> call fx = Inr () \<and> fx' = fx @ [effect]"
  by (auto simp: sock_do_def split: sum.splits)

lemma sock_pure_Inr: "sock_pure r fx = (Inr y, fx') \<longleftrightarrow> r = Inr y \<and> fx' = fx"
  by (auto simp: sock_pure_def)

lemmas sock_elims = sock_bind_Inr sock_do_Inr sock_pure_Inr result_elims

text \<open>Effects on the socket's path and its directory only, and no removal of anything but a socket.\<close>

fun socket_effect_ok :: "socket_host \<Rightarrow> path \<Rightarrow> socket_effect list \<Rightarrow> socket_effect \<Rightarrow> bool" where
  "socket_effect_ok h p fx (Sx_CreateDir d) = (path_parent p = Some d)"
| "socket_effect_ok h p fx (Sx_Remove q) =
     (q = p \<and> (Sx_Bind p \<in> set fx \<or> (\<exists>m. so_symlink_metadata h fx p = Inr m \<and> meta_type m = Socket)))"
| "socket_effect_ok h p fx (Sx_Bind q) = (q = p)"
| "socket_effect_ok h p fx (Sx_Mode q mode) = (q = p \<and> (mode = 384 \<or> mode = 432))"
| "socket_effect_ok h p fx (Sx_Group q _) = (q = p)"

inductive effects_ok :: "socket_host \<Rightarrow> path \<Rightarrow> socket_effect list \<Rightarrow> bool" for h p where
  none: "effects_ok h p []"
| more: "effects_ok h p fx \<Longrightarrow> socket_effect_ok h p fx e \<Longrightarrow> effects_ok h p (fx @ [e])"

definition keeps_ok :: "socket_host \<Rightarrow> path \<Rightarrow> 'a socket_op \<Rightarrow> bool" where
  "keeps_ok h p m \<longleftrightarrow> (\<forall>fx. effects_ok h p fx \<longrightarrow> effects_ok h p (snd (m fx)))"

lemma keeps_bind: "keeps_ok h p m \<Longrightarrow> (\<And>x. keeps_ok h p (k x)) \<Longrightarrow> keeps_ok h p (sock_bind m k)"
  by (fastforce simp: keeps_ok_def sock_bind_def split: prod.splits sum.splits)

lemma sock_bind_pure [simp]:
  "sock_bind (sock_pure (Inl e)) k = sock_pure (Inl e)" "sock_bind (sock_pure (Inr x)) k = k x"
  by (simp_all add: sock_bind_def sock_pure_def)

lemma keeps_pure: "keeps_ok h p (sock_pure r)"
  by (simp add: keeps_ok_def sock_pure_def)

lemma keeps_do: "(\<And>fx. socket_effect_ok h p fx e) \<Longrightarrow> keeps_ok h p (sock_do call e)"
  by (auto simp: keeps_ok_def sock_do_def intro: effects_ok.more split: sum.split)

lemma keeps_check: "keeps_ok h p (check_parent h d unsafe)"
  by (simp add: keeps_ok_def check_parent_def)

lemma keeps_remove: "keeps_ok h p (remove_stale h p)"
  by (auto simp: keeps_ok_def remove_stale_def sock_do_def intro: effects_ok.more split: sum.split)

lemma prepare_keeps: "keeps_ok h p (prepare_socket h p unsafe)"
  unfolding prepare_socket_def
  by (cases "path_parent p")
    (auto simp: ok_or_def intro!: keeps_pure keeps_bind keeps_do keeps_check keeps_remove)

lemma open_keeps: "keeps_ok h p (open_socket h p grp unsafe)"
  unfolding open_socket_def
  by (auto intro!: keeps_bind prepare_keeps keeps_do keeps_pure)

text \<open>A socket that was opened has been bound, and its directory was checked right before.\<close>

lemma prepare_socket_parent:
  assumes "prepare_socket h p False [] = (Inr (), fx)"
  shows "\<exists>d m. path_parent p = Some d \<and> so_symlink_metadata h [Sx_CreateDir d] d = Inr m \<and>
    meta_type m = Directory \<and> root_controlled m"
  using assms
  by (auto simp: prepare_socket_def sock_elims check_parent_def socket_parent_ok_def root_controlled_def)

lemma open_socket_result:
  assumes "open_socket h p grp unsafe [] = (Inr (), fx)"
  shows "Sx_Bind p \<in> set fx" and "\<exists>fx1. prepare_socket h p unsafe [] = (Inr (), fx1)"
  using assms by (auto simp: open_socket_def sock_elims split: if_splits)

lemma serve_effects: "effects_ok h p (snd (serve h p grp unsafe inputs []))"
proof -
  obtain o1 fx1 where open1: "open_socket h p grp unsafe [] = (o1, fx1)" by fastforce
  then have ok: "effects_ok h p fx1"
    using open_keeps [of h p grp unsafe] effects_ok.none by (auto simp: keeps_ok_def dest: spec [of _ "[]"])
  show ?thesis
  proof (cases o1)
    case (Inl e)
    with open1 ok show ?thesis by (simp add: serve_def sock_bind_def)
  next
    case (Inr u)
    with open1 have "Sx_Bind p \<in> set fx1" using open_socket_result(1) by (cases u) simp
    then have "effects_ok h p (fx1 @ [Sx_Remove p])" using ok by (auto intro: effects_ok.more)
    with open1 ok Inr show ?thesis
      by (auto simp: serve_def sock_bind_def split: prod.splits list.splits server_verdict.splits sum.splits)
  qed
qed

section \<open>The client limit\<close>

lemma server_step_limit: "n \<le> max_clients \<Longrightarrow> snd (server_step n i) \<le> max_clients"
  by (cases i) (auto split: sum.split)

lemma server_loop_limit: "n \<le> max_clients \<Longrightarrow> snd (server_loop n is) \<le> max_clients"
proof (induction "is" arbitrary: n)
  case (Cons i "is")
  obtain v n' where step: "server_step n i = (v, n')" by fastforce
  with server_step_limit [OF Cons.prems, of i] have "n' \<le> max_clients" by simp
  with Cons.IH [of n'] step show ?case by (cases v) (auto split: prod.splits)
qed simp

text \<open>
  C25. The control socket is guarded. Whatever the host answers, serving creates nothing but
  the socket's directory, changes nothing but the socket, and removes only a path that is a
  socket or that it has bound itself. Outside development mode it binds only when the
  directory is a root-owned directory that group and others cannot write. At every moment at
  most 64 clients are served.
\<close>

theorem control_socket_guarded:
  "effects_ok h p (snd (serve h p grp unsafe inputs [])) \<and>
   (\<forall>fx. open_socket h p grp False [] = (Inr (), fx) \<longrightarrow>
      (\<exists>d m. path_parent p = Some d \<and> so_symlink_metadata h [Sx_CreateDir d] d = Inr m \<and>
        meta_type m = Directory \<and> root_controlled m)) \<and>
   snd (server_loop 0 inputs) \<le> max_clients"
proof (intro conjI allI impI)
  show "\<exists>d m. path_parent p = Some d \<and> so_symlink_metadata h [Sx_CreateDir d] d = Inr m \<and>
      meta_type m = Directory \<and> root_controlled m"
    if "open_socket h p grp False [] = (Inr (), fx)" for fx
    using open_socket_result(2) [OF that] prepare_socket_parent by blast
qed (simp_all add: serve_effects server_loop_limit)

definition demo_socket_host :: socket_host where
  "demo_socket_host =
     \<lparr> so_create_dir_all = (\<lambda>_. Inr ()),
       so_symlink_metadata = (\<lambda>_ p. Inr \<lparr> meta_type = (if p = ''/run/kovert'' then Directory else Socket),
         meta_uid = 0, meta_mode = 0x1E8, meta_len = 0 \<rparr>),
       so_remove_file = (\<lambda>_ _. Inr ()), so_bind = (\<lambda>_ _. Inr ()), so_set_permissions = (\<lambda>_ _. Inr ()),
       so_group = (\<lambda>_. Inr (Some 990)), so_chown = (\<lambda>_ _. Inr ()) \<rparr>"

definition demo_socket :: path where
  "demo_socket = ''/run/kovert/kovert.sock''"

lemma demo_open_socket:
  "open_socket demo_socket_host demo_socket ''kovert'' False [] =
     (Inr (), [Sx_CreateDir ''/run/kovert'', Sx_Remove demo_socket, Sx_Bind demo_socket,
        Sx_Mode demo_socket 432, Sx_Group demo_socket 990])"
proof -
  have parent: "path_parent demo_socket = Some ''/run/kovert''" by code_simp
  have "demo_socket \<noteq> ''/run/kovert''" by code_simp
  then show ?thesis
    by (simp add: open_socket_def prepare_socket_def parent ok_or_def sock_bind_def sock_do_def check_parent_def
        remove_stale_def demo_socket_host_def socket_parent_ok_def group_or_world_writable_def ensure_def
        sock_pure_def)
qed

theorem control_socket_guarded_witness:
  "path_parent demo_socket = Some ''/run/kovert'' \<and>
   (\<exists>m. so_symlink_metadata demo_socket_host [Sx_CreateDir ''/run/kovert''] ''/run/kovert'' = Inr m \<and>
      root_controlled m) \<and>
   effects_ok demo_socket_host demo_socket
     (snd (serve demo_socket_host demo_socket ''kovert'' False [Sv_Accept (Inr ()), Sv_Shutdown None] []))"
proof -
  have parent: "path_parent demo_socket = Some ''/run/kovert''" by code_simp
  from control_socket_guarded [of demo_socket_host demo_socket "''kovert''" False
      "[Sv_Accept (Inr ()), Sv_Shutdown None]"] demo_open_socket parent show ?thesis by fastforce
qed

section \<open>Requests\<close>

lemma read_request_ask:
  "read_request cd cn = Conn_Ask q \<longleftrightarrow>
     (\<exists>uid input env. cn_peer cn = Inr uid \<and> cn_input cn = Inr input \<and> length input \<le> max_request_size \<and>
        cd_parse_envelope cd input = Inr env \<and> env_version env = ipc_version \<and> q = env_request env)"
proof (cases "cn_peer cn"; cases "cn_input cn")
  fix uid input
  assume "cn_peer cn = Inr uid" and "cn_input cn = Inr input"
  then show ?thesis
    by (cases "length input \<le> max_request_size"; cases "cd_parse_envelope cd input")
      (auto simp: read_request_def with_context_def split: prod.splits sum.splits)
qed (auto simp: read_request_def)

lemma read_request_oversized:
  assumes "cn_peer cn = Inr uid" and "cn_input cn = Inr input" and "length input > max_request_size"
  shows "handle_connection cd cn answer =
    (case write_response cd cn (response_error ''request exceeds 1 MiB'') of
       (Inl e, out) \<Rightarrow> (Inl e, out)
     | (Inr _, out) \<Rightarrow> (Inl (''oversized request from uid '' @ show_nat (unat uid)), out))"
  using assms
  by (auto simp: handle_connection_def read_request_def split: prod.split sum.split)

text \<open>
  C26. The runtime sees a request exactly when a client with known credentials sent at most
  1 MiB that parse as an envelope of the supported protocol version, and it sees the request
  of that envelope. For a larger input the answer does not depend on the runtime: the
  client gets the size error and the connection fails.
\<close>

theorem control_request_admitted:
  "(read_request cd cn = Conn_Ask q \<longleftrightarrow>
     (\<exists>uid input env. cn_peer cn = Inr uid \<and> cn_input cn = Inr input \<and> length input \<le> max_request_size \<and>
        cd_parse_envelope cd input = Inr env \<and> env_version env = ipc_version \<and> q = env_request env)) \<and>
   (\<forall>uid input. cn_peer cn = Inr uid \<and> cn_input cn = Inr input \<and> length input > max_request_size \<longrightarrow>
      (\<exists>e. fst (handle_connection cd cn answer) = Inl e) \<and>
      snd (handle_connection cd cn answer) =
        snd (write_response cd cn (response_error ''request exceeds 1 MiB'')))"
proof (intro conjI allI impI; (elim conjE)?)
  fix uid input
  assume "cn_peer cn = Inr uid" and "cn_input cn = Inr input" and "length input > max_request_size"
  note big = read_request_oversized [OF this]
  show "\<exists>e. fst (handle_connection cd cn answer) = Inl e"
    and "snd (handle_connection cd cn answer) =
        snd (write_response cd cn (response_error ''request exceeds 1 MiB''))"
    unfolding big by (auto split: prod.split sum.split)
qed (rule read_request_ask)

definition demo_codec :: codec where
  "demo_codec =
     \<lparr> cd_parse_envelope = (\<lambda>s. if s = ''status'' then Inr (envelope_new R_Status) else Inl ''bad''),
       cd_print_response = (\<lambda>r. Inr (resp_message r)) \<rparr>"

definition demo_connection :: "string \<Rightarrow> connection" where
  "demo_connection input =
     \<lparr> cn_peer = Inr 1000, cn_input = Inr input, cn_write = (\<lambda>_. Inr ()), cn_shutdown = Inr () \<rparr>"

theorem control_request_admitted_witness:
  "read_request demo_codec (demo_connection ''status'') = Conn_Ask R_Status \<and>
   snd (handle_connection demo_codec (demo_connection (replicate (max_request_size + 1) CHR ''x'')) (\<lambda>_. Inl []))
     = ''request exceeds 1 MiB'' @ [CHR 0x0A]"
proof
  show "read_request demo_codec (demo_connection ''status'') = Conn_Ask R_Status"
    using control_request_admitted [of demo_codec "demo_connection ''status''" R_Status "\<lambda>_. Inl []"]
    by (auto simp: demo_codec_def demo_connection_def max_request_size_def envelope_new_def)
  let ?cn = "demo_connection (replicate (max_request_size + 1) CHR ''x'')"
  have "cn_peer ?cn = Inr 1000 \<and> cn_input ?cn = Inr (replicate (max_request_size + 1) CHR ''x'') \<and>
      length (replicate (max_request_size + 1) CHR ''x'') > max_request_size"
    by (simp add: demo_connection_def)
  with control_request_admitted [of demo_codec ?cn R_Status "\<lambda>_. Inl []"]
  have "snd (handle_connection demo_codec ?cn (\<lambda>_. Inl [])) =
      snd (write_response demo_codec ?cn (response_error ''request exceeds 1 MiB''))" by blast
  then show "snd (handle_connection demo_codec ?cn (\<lambda>_. Inl [])) = ''request exceeds 1 MiB'' @ [CHR 0x0A]"
    by (simp add: write_response_def demo_codec_def demo_connection_def response_error_def)
qed

section \<open>From the command line to the runtime and back\<close>

lemma rt_bind_response:
  "rt_bind m k s = Inr (Inr r, s') \<Longrightarrow> \<exists>x s1. m s = Inr (Inr x, s1) \<and> k x s1 = Inr (Inr r, s')"
  by (auto simp: rt_bind_def split: sum.splits prod.splits)

lemma response_versions [simp]:
  "resp_version (response_success message data) = ipc_version" "resp_version (response_error message) = ipc_version"
  by (simp_all add: response_success_def response_error_def)

lemma control_result_version:
  "handle_control_result w q s = Inr (Inr r, s') \<Longrightarrow> resp_version r = ipc_version"
  by (cases q) (auto simp: rt_return_def rt_fail_def split: if_splits dest!: rt_bind_response)

lemma handle_control_version:
  "handle_control w q s = Inr (Inr r, s') \<Longrightarrow> resp_version r = ipc_version"
  by (auto simp: handle_control_def dest: control_result_version split: sum.splits)

lemma handle_control_value: "handle_control w q s = Inr (r, s') \<Longrightarrow> \<exists>resp. r = Inr resp"
  by (auto simp: handle_control_def split: sum.splits)

text \<open>
  C22. A request of the command-line client is answered. The running daemon answers every
  request but a reload without a panic and keeps its invariant; and when the connection
  works and serde reads back what it printed within the size limits, the server hands the
  runtime exactly the request of the client, and the client receives exactly the runtime's
  response.
\<close>

theorem cli_request_answered:
  assumes "daemon_inv w cfg s" and "q \<noteq> R_Reload"
    and "cl_print_envelope h (envelope_new q) = Inr bytes" and "length bytes \<le> max_request_size"
    and "cd_parse_envelope cd bytes = Inr (envelope_new q)"
    and "cn_peer cn = Inr uid" and "cn_input cn = Inr bytes" and "\<forall>out. cn_write cn out = Inr ()"
    and "\<not> lk_timeout lk" and "lk_connect lk socket = Inr ()" and "lk_write lk bytes = Inr ()"
    and "lk_shutdown lk = Inr ()"
  shows "read_request cd cn = Conn_Ask q \<and>
    (\<exists>r s'. handle_control w q s = Inr (Inr r, s') \<and> daemon_inv w cfg s' \<and>
      (\<forall>out. cd_print_response cd r = Inr out \<and> length out < max_response_size \<and>
         cl_parse_response h (out @ [CHR 0x0A]) = Inr r \<and>
         lk_read lk bytes = Inr (snd (handle_connection cd cn (\<lambda>_. Inr r))) \<longrightarrow>
       send h lk socket q = Inr r))"
proof -
  have ask: "read_request cd cn = Conn_Ask q"
    unfolding read_request_ask using assms(4-7) by (auto simp: envelope_new_def)
  have "daemon_inv w cfg s" by (rule assms(1))
  with daemon.handle_control_safe [OF assms(2)] obtain r0 s' where
    c: "handle_control w q s = Inr (r0, s')" and inv: "daemon_inv w cfg s'" by (rule safeE) blast
  from handle_control_value [OF c] obtain r where r: "r0 = Inr r" ..
  have version: "resp_version r = ipc_version" using c r by (auto dest: handle_control_version)
  have "send h lk socket q = Inr r"
    if "cd_print_response cd r = Inr out" "length out < max_response_size"
      "cl_parse_response h (out @ [CHR 0x0A]) = Inr r"
      "lk_read lk bytes = Inr (snd (handle_connection cd cn (\<lambda>_. Inr r)))" for out
    using that assms(3,8-12) version
    by (simp add: send_def send_inner_def handle_connection_def ask write_response_def)
  with ask c r inv show ?thesis by blast
qed

text \<open>A client of the fixture daemon, for one request and the response it gets.\<close>

definition demo_cli :: "response \<Rightarrow> cli_host" where
  "demo_cli r =
     \<lparr> cl_read_file = (\<lambda>_. Inl ''missing''), cl_stdin = Inr [], cl_flush = Inr (),
       cl_link = (\<lambda>_. undefined), cl_parse_event = (\<lambda>_. Inl ''bad''), cl_parse_toml = (\<lambda>_. Inl ''bad''),
       cl_print_envelope = (\<lambda>_. Inr ''status''), cl_parse_response = (\<lambda>_. Inr r),
       cl_pretty_response = (\<lambda>_. Inr []), cl_pretty_json = (\<lambda>_. Inr []), cl_json_text = (\<lambda>_. []) \<rparr>"

definition demo_link :: "response \<Rightarrow> link" where
  "demo_link r =
     \<lparr> lk_connect = (\<lambda>_. Inr ()), lk_write = (\<lambda>_. Inr ()), lk_shutdown = Inr (),
       lk_read = (\<lambda>bytes. Inr (snd (handle_connection demo_codec (demo_connection bytes) (\<lambda>_. Inr r)))),
       lk_timeout = False \<rparr>"

lemma demo_status:
  "\<exists>data. handle_control demo_world R_Status demo_runtime =
     Inr (Inr (response_success ''Kovert is running'' (Some data)), demo_runtime)"
  by (simp add: handle_control_def rt_bind_def rt_get_def rt_return_def) blast

theorem cli_request_answered_witness:
  "\<exists>data. send (demo_cli (response_success ''Kovert is running'' (Some data)))
       (demo_link (response_success ''Kovert is running'' (Some data))) demo_socket R_Status =
     Inr (response_success ''Kovert is running'' (Some data))"
proof -
  obtain data where st: "handle_control demo_world R_Status demo_runtime =
      Inr (Inr (response_success ''Kovert is running'' (Some data)), demo_runtime)"
    using demo_status ..
  let ?r = "response_success ''Kovert is running'' (Some data)"
  have "\<exists>r s'. handle_control demo_world R_Status demo_runtime = Inr (Inr r, s') \<and>
      daemon_inv demo_world demo_config s' \<and>
      (\<forall>out. cd_print_response demo_codec r = Inr out \<and> length out < max_response_size \<and>
         cl_parse_response (demo_cli ?r) (out @ [CHR 0x0A]) = Inr r \<and>
         lk_read (demo_link ?r) ''status'' =
           Inr (snd (handle_connection demo_codec (demo_connection ''status'') (\<lambda>_. Inr r))) \<longrightarrow>
       send (demo_cli ?r) (demo_link ?r) demo_socket R_Status = Inr r)"
    by (rule conjunct2 [OF cli_request_answered [OF demo_runtime_inv]])
      (simp_all add: demo_cli_def demo_link_def demo_connection_def demo_codec_def max_request_size_def)
  with st have "send (demo_cli ?r) (demo_link ?r) demo_socket R_Status = Inr ?r"
    by (auto simp: demo_codec_def demo_cli_def demo_link_def max_response_size_def response_success_def)
  then show ?thesis ..
qed

text \<open>
  The interactive shell reports most mistakes and goes on, but a command without its argument
  ends it with an error, whatever lines follow.
\<close>

lemma repl_missing_argument_exits:
  assumes "cl_flush h = Inr ()"
  shows "repl_loop h socket json_mode n (Inr (''trigger'' @ [CHR 0x0A]) # later) =
    (Inl ''missing trigger name'', [Stdout ''kovert> ''])"
proof -
  have "repl_parse (''trigger'' @ [CHR 0x0A]) = Line_Fail ''missing trigger name''" by code_simp
  with assms show ?thesis by simp
qed

section \<open>Starting the daemon\<close>

text \<open>What the checks before the start establish outside development mode.\<close>

lemma verify_permissions_ok:
  assumes "verify_permissions h p = Inr ()"
  shows "\<exists>m. lh_symlink_metadata h p = Inr m \<and> meta_type m = Regular_File \<and> root_controlled m"
  using assms
  by (auto simp: verify_permissions_def result_elims root_controlled_def split: if_splits)

definition demo_boot :: boot where
  "demo_boot =
     \<lparr> bt_config = ''/kovert.toml'', bt_allow_unsafe = False, bt_tracing = Inr (), bt_is_root = True,
       bt_loader = \<lparr> lh_symlink_metadata = (\<lambda>_. Inr \<lparr> meta_type = Regular_File, meta_uid = 0, meta_mode = 0x180, meta_len = 0 \<rparr>),
                     lh_metadata = (\<lambda>_. Inr \<lparr> meta_type = Directory, meta_uid = 0, meta_mode = 0x1C0, meta_len = 0 \<rparr>),
                     lh_read_to_string = (\<lambda>_. Inr []), lh_parse_toml = (\<lambda>_. Inr demo_config) \<rparr>,
       bt_store = demo_open_host, bt_verify_faults = no_faults, bt_mode_faults = no_faults,
       bt_recovery_faults = no_faults, bt_now = 0,
       bt_notify = \<lparr> nh_thread = Inr (), nh_watcher = Inr (), nh_watch = (\<lambda>_ _. Inr ()) \<rparr>,
       bt_input = \<lparr> ih_open = (\<lambda>_. Inl ''no device''), ih_stream = (\<lambda>_. Inr ()) \<rparr>,
       bt_current_exe = Inr ''/usr/sbin/kovert-daemon'',
       bt_channel = \<lparr> ch_sent = [], ch_accepts = (\<lambda>_. True) \<rparr>,
       bt_max_permits = 2 ^ 61 - 1 \<rparr>"

lemma hub_start_total:
  "file_watches (from_config cfg) = [] \<Longrightarrow> \<exists>tasks. fst (hub_start nh ih (Inr exe) cfg p c) = Inr tasks"
  by (simp add: hub_start_def polling_spawn_def Let_def split: prod.split)

lemma demo_start: "\<exists>s. daemon_start demo_world demo_boot = Inr (Inr s) \<and> rt_config s = demo_config"
proof -
  have watches: "file_watches (from_config demo_config) = []"
    by (simp add: from_config_def demo_config_def demo_rule_def collect_rule_def no_requirements_def)
  have load: "load_config demo_regex demo_hm (bt_loader demo_boot) ''/kovert.toml'' False = Inr demo_config"
    using demo_validated
    by (simp add: load_config_def verify_permissions_def demo_boot_def group_or_world_writable_def
        demo_world_facts ensure_def split: option.split)
  have store: "audit_open demo_open_host ''/var/lib/kovert/state.db'' False = Inr empty_db"
    by (rule demo_open)
  obtain tasks where hub: "fst (hub_start (bt_notify demo_boot) (bt_input demo_boot)
      (Inr ''/usr/sbin/kovert-daemon'') demo_config ''/kovert.toml'' (bt_channel demo_boot)) = Inr tasks"
    using hub_start_total [OF watches] by blast
  have state: "state_path (cfg_daemon demo_config) = ''/var/lib/kovert/state.db''"
    by (simp add: demo_config_def default_daemon_config_def)
  have boot: "bt_tracing demo_boot = Inr ()" "bt_is_root demo_boot" "\<not> bt_allow_unsafe demo_boot"
    "bt_config demo_boot = ''/kovert.toml''" "bt_store demo_boot = demo_open_host"
    "bt_verify_faults demo_boot = no_faults" "bt_current_exe demo_boot = Inr ''/usr/sbin/kovert-daemon''"
    "bt_mode_faults demo_boot = no_faults" "bt_recovery_faults demo_boot = no_faults"
    by (simp_all add: demo_boot_def)
  have capacity: "event_buffer (cfg_daemon demo_config) = 1024" "bt_max_permits demo_boot = 2 ^ 61 - 1"
    by (simp_all add: demo_boot_def demo_config_def default_daemon_config_def)
  have checked: "verify demo_lib no_faults empty_db = Inr 0"
    unfolding no_faults_def using verify_wf [OF empty_db_wf, of demo_lib] by (simp add: empty_db_def)
  show ?thesis
    unfolding daemon_start_def daemon_prepare_def
    by (simp add: boot capacity demo_world_facts ensure_def load state store checked checked [unfolded no_faults_def] hub runtime_new_def get_state_def
        sql_def no_faults_def Let_def)
qed

section \<open>Local validation\<close>

text \<open>
  The client's local validation predicts the daemon: on the same file it succeeds exactly
  when the daemon, permissions aside, loads the configuration.
\<close>

lemma cli_validate_predicts_load:
  assumes "cl_read_file h p = lh_read_to_string d p" and "\<And>text. cl_parse_toml h text = lh_parse_toml d text"
  shows "(fst (cli_validate rx hm h p json_mode) = Inr ()) = (\<exists>cfg. load_config rx hm d p True = Inr cfg)"
  using assms
  by (auto simp: cli_validate_def load_config_def with_context_def and_then_def split: sum.splits)

end
