(* ===== verification/System.thy ===== *)
theory System
  imports Daemon
begin

text \<open>
  The running daemon as a system of tasks: \<open>run\<close> of \<open>kovert-daemon/src/main.rs\<close> after its start,
  with the loop of \<open>runtime.rs\<close>, the accept loop and the client tasks of \<open>server.rs\<close>, and the
  channels between them.

  The tasks interleave at the points where the source awaits. The step relations say what a
  task does next (\<open>task_step\<close>) and what the outside does (\<open>env_step\<close>): sensors that send,
  clients that connect, finish their request or run into the time limit, and the signal that
  ends the daemon. The channels of tokio are bounded queues: a sender waits for room, a
  receiver takes the oldest message, and a closed end is an error for the other.
\<close>

section \<open>State\<close>

definition control_capacity :: nat where
  "control_capacity = 64"

text \<open>
  The runtime task runs, has ended with its result, or has panicked, which ends the process.
  A client task reads the request, waits for room in the control channel, waits for the
  response, writes it, and is over; or it is cut off by its time limit.
\<close>

datatype runtime_phase = Running runtime | Ended "unit result" runtime | Crashed panic

datatype server_phase = Serving | Closed "unit result"

datatype client_phase =
    Reading
  | Asking request
  | Waiting request
  | Replying response
  | Served "unit result" string
  | Cut_Off

record client =
  ct_connection :: connection
  ct_phase :: client_phase

text \<open>
  A control message carries the client whose task holds the other end of its response channel.
  The last two fields record the history: what the runtime's loop received, and the answers it
  gave.
\<close>

record system =
  sy_runtime :: runtime_phase
  sy_events :: "event list"
  sy_event_capacity :: nat
  sy_control :: "(nat \<times> request) list"
  sy_clients :: "client list"
  sy_server :: server_phase
  sy_shutdown :: bool
  sy_exit :: "unit result option"
  sy_inputs :: "loop_input list"
  sy_answers :: "(nat \<times> request \<times> response) list"

definition system_new :: "world \<Rightarrow> runtime \<Rightarrow> system" where
  "system_new w s =
     \<lparr> sy_runtime =
         (case start_runtime w s of
            Inl p \<Rightarrow> Crashed p
          | Inr (Inl e, s') \<Rightarrow> Ended (Inl e) s'
          | Inr (Inr _, s') \<Rightarrow> Running s'),
       sy_events = [], sy_event_capacity = event_buffer (cfg_daemon (rt_config s)), sy_control = [],
       sy_clients = [], sy_server = Serving, sy_shutdown = False, sy_exit = None,
       sy_inputs = [], sy_answers = [] \<rparr>"

section \<open>Clients\<close>

definition phase :: "system \<Rightarrow> nat \<Rightarrow> client_phase" where
  "phase st i = ct_phase (sy_clients st ! i)"

definition connection_of :: "system \<Rightarrow> nat \<Rightarrow> connection" where
  "connection_of st i = ct_connection (sy_clients st ! i)"

definition set_phase :: "nat \<Rightarrow> client_phase \<Rightarrow> system \<Rightarrow> system" where
  "set_phase i ph st = st\<lparr>sy_clients := (sy_clients st)[i := (sy_clients st ! i)\<lparr>ct_phase := ph\<rparr>]\<rparr>"

text \<open>A client task holds its permit and its end of the control channel until it is over.\<close>

fun active_phase :: "client_phase \<Rightarrow> bool" where
  "active_phase (Served _ _) = False"
| "active_phase Cut_Off = False"
| "active_phase _ = True"

definition active_clients :: "system \<Rightarrow> nat" where
  "active_clients st = length (filter (\<lambda>c. active_phase (ct_phase c)) (sy_clients st))"

fun after_read :: "conn_outcome \<Rightarrow> client_phase" where
  "after_read (Conn_Done r out) = Served r out"
| "after_read (Conn_Ask q) = Asking q"

text \<open>The response goes to the client's task; one that is over has dropped its end.\<close>

definition deliver :: "nat \<Rightarrow> response \<Rightarrow> system \<Rightarrow> system" where
  "deliver i resp st =
     (case phase st i of Waiting _ \<Rightarrow> set_phase i (Replying resp) st | _ \<Rightarrow> st)"

definition take_client :: "connection \<Rightarrow> system \<Rightarrow> system" where
  "take_client cn st =
     (case server_step (active_clients st) (Sv_Accept (Inr ())) of
        (Sv_Spawned, _) \<Rightarrow> st\<lparr>sy_clients := sy_clients st @ [\<lparr> ct_connection = cn, ct_phase = Reading \<rparr>]\<rparr>
      | _ \<Rightarrow> st)"

section \<open>Steps of the tasks\<close>

text \<open>What makes the runtime leave its loop: the shutdown, or the end of all who can ask it.\<close>

inductive break_input :: "system \<Rightarrow> loop_input \<Rightarrow> bool" where
  shutdown_seen: "sy_shutdown st \<Longrightarrow> break_input st (In_Shutdown (Some True))"
| control_closed: "sy_server st = Closed r \<Longrightarrow> active_clients st = 0 \<Longrightarrow> sy_control st = [] \<Longrightarrow>
     break_input st (In_Control None)"

inductive task_step :: "world \<Rightarrow> codec \<Rightarrow> system \<Rightarrow> system \<Rightarrow> bool" for w cd where
  take_event:
    "sy_runtime st = Running s \<Longrightarrow> sy_events st = ev # evs \<Longrightarrow>
     loop_step w (In_Event (Some ev)) s = Inr (Inr Continue, s') \<Longrightarrow>
     task_step w cd st (st\<lparr>sy_runtime := Running s', sy_events := evs,
       sy_inputs := sy_inputs st @ [In_Event (Some ev)]\<rparr>)"
| event_crash:
    "sy_runtime st = Running s \<Longrightarrow> sy_events st = ev # evs \<Longrightarrow>
     loop_step w (In_Event (Some ev)) s = Inl p \<Longrightarrow>
     task_step w cd st (st\<lparr>sy_runtime := Crashed p, sy_events := evs,
       sy_inputs := sy_inputs st @ [In_Event (Some ev)]\<rparr>)"
| take_control:
    "sy_runtime st = Running s \<Longrightarrow> sy_control st = (i, q) # qs \<Longrightarrow>
     handle_control w q s = Inr (Inr resp, s') \<Longrightarrow>
     task_step w cd st (deliver i resp (st\<lparr>sy_runtime := Running s', sy_control := qs,
       sy_inputs := sy_inputs st @ [In_Control (Some q)],
       sy_answers := sy_answers st @ [(i, q, resp)]\<rparr>))"
| control_crash:
    "sy_runtime st = Running s \<Longrightarrow> sy_control st = (i, q) # qs \<Longrightarrow>
     handle_control w q s = Inl p \<Longrightarrow>
     task_step w cd st (st\<lparr>sy_runtime := Crashed p, sy_control := qs,
       sy_inputs := sy_inputs st @ [In_Control (Some q)]\<rparr>)"
| runtime_stops:
    "sy_runtime st = Running s \<Longrightarrow> break_input st i \<Longrightarrow> stop_runtime w s = Inr (r, s') \<Longrightarrow>
     task_step w cd st (st\<lparr>sy_runtime := Ended r s', sy_control := [],
       sy_inputs := sy_inputs st @ [i]\<rparr>)"
| send_request:
    "i < length (sy_clients st) \<Longrightarrow> phase st i = Asking q \<Longrightarrow> sy_runtime st = Running s \<Longrightarrow>
     length (sy_control st) < control_capacity \<Longrightarrow>
     task_step w cd st ((set_phase i (Waiting q) st)\<lparr>sy_control := sy_control st @ [(i, q)]\<rparr>)"
| send_closed:
    "i < length (sy_clients st) \<Longrightarrow> phase st i = Asking q \<Longrightarrow> sy_runtime st = Ended r s \<Longrightarrow>
     task_step w cd st (set_phase i (Served (Inl ''runtime control channel closed'') []) st)"
| response_dropped:
    "i < length (sy_clients st) \<Longrightarrow> phase st i = Waiting q \<Longrightarrow> sy_runtime st = Ended r s \<Longrightarrow>
     task_step w cd st (set_phase i (Served (Inl ''runtime response dropped'') []) st)"
| write_reply:
    "i < length (sy_clients st) \<Longrightarrow> phase st i = Replying resp \<Longrightarrow>
     write_response cd (connection_of st i) resp = (r, out) \<Longrightarrow>
     task_step w cd st (set_phase i (Served r out) st)"
| server_stops:
    "sy_server st = Serving \<Longrightarrow> sy_shutdown st \<Longrightarrow>
     task_step w cd st (st\<lparr>sy_server := Closed (Inr ())\<rparr>)"

section \<open>Steps of the outside\<close>

text \<open>
  A signal reaches the main task, which announces the shutdown. The server may fail while it
  opens its socket or accepts a client.
\<close>

inductive env_step :: "codec \<Rightarrow> system \<Rightarrow> system \<Rightarrow> bool" for cd where
  sensor_sends:
    "sy_runtime st = Running s \<Longrightarrow> length (sy_events st) < sy_event_capacity st \<Longrightarrow>
     env_step cd st (st\<lparr>sy_events := sy_events st @ [ev]\<rparr>)"
| client_connects: "sy_server st = Serving \<Longrightarrow> env_step cd st (take_client cn st)"
| client_finishes_request:
    "i < length (sy_clients st) \<Longrightarrow> phase st i = Reading \<Longrightarrow>
     env_step cd st (set_phase i (after_read (read_request cd (connection_of st i))) st)"
| client_timeout:
    "i < length (sy_clients st) \<Longrightarrow> active_phase (phase st i) \<Longrightarrow> env_step cd st (set_phase i Cut_Off st)"
| server_error: "sy_server st = Serving \<Longrightarrow> env_step cd st (st\<lparr>sy_server := Closed (Inl e)\<rparr>)"
| signal: "env_step cd st (st\<lparr>sy_shutdown := True\<rparr>)"

section \<open>The main task\<close>

text \<open>
  The main task waits for the signal, the runtime or the server. After a signal it waits for
  the runtime and then for the server, and a failed runtime ends it at once.
\<close>

inductive main_step :: "system \<Rightarrow> system \<Rightarrow> bool" where
  signal_fails:
    "\<not> sy_shutdown st \<Longrightarrow> main_step st (st\<lparr>sy_exit := Some (fst (daemon_finish (End_Signal (Inl e)) r r'))\<rparr>)"
| runtime_ends:
    "\<not> sy_shutdown st \<Longrightarrow> sy_runtime st = Ended r s \<Longrightarrow>
     main_step st (st\<lparr>sy_exit := Some (fst (daemon_finish (End_Runtime (Inr r)) r' r''))\<rparr>)"
| server_ends:
    "\<not> sy_shutdown st \<Longrightarrow> sy_server st = Closed r \<Longrightarrow>
     main_step st (st\<lparr>sy_exit := Some (fst (daemon_finish (End_Server (Inr r)) r' r''))\<rparr>)"
| runtime_failed:
    "sy_shutdown st \<Longrightarrow> sy_runtime st = Ended (Inl e) s \<Longrightarrow>
     main_step st (st\<lparr>sy_exit := Some (fst (daemon_finish (End_Signal (Inr ())) (Inr (Inl e)) r'))\<rparr>)"
| both_end:
    "sy_shutdown st \<Longrightarrow> sy_runtime st = Ended r s \<Longrightarrow> sy_server st = Closed r' \<Longrightarrow>
     main_step st (st\<lparr>sy_exit := Some (fst (daemon_finish (End_Signal (Inr ())) (Inr r) (Inr r')))\<rparr>)"

text \<open>The process is alive until the main task returns or the runtime panics.\<close>

definition alive :: "system \<Rightarrow> bool" where
  "alive st \<longleftrightarrow> sy_exit st = None \<and> (\<forall>p. sy_runtime st \<noteq> Crashed p)"

inductive system_step :: "world \<Rightarrow> codec \<Rightarrow> system \<Rightarrow> system \<Rightarrow> bool" for w cd where
  task: "alive st \<Longrightarrow> task_step w cd st st' \<Longrightarrow> system_step w cd st st'"
| env: "alive st \<Longrightarrow> env_step cd st st' \<Longrightarrow> system_step w cd st st'"
| main: "alive st \<Longrightarrow> main_step st st' \<Longrightarrow> system_step w cd st st'"

inductive reachable :: "world \<Rightarrow> codec \<Rightarrow> runtime \<Rightarrow> system \<Rightarrow> bool" for w cd s where
  start: "reachable w cd s (system_new w s)"
| step: "reachable w cd s st \<Longrightarrow> system_step w cd st st' \<Longrightarrow> reachable w cd s st'"

end
