(* ===== verification/System_Invariant.thy ===== *)
theory System_Invariant
  imports System
begin

text \<open>
  Invariants of the interleaved daemon: its history is a run of the runtime's task, every
  answer is the runtime's answer to the request of that client, and the queues stay within
  their bounds.
\<close>

section \<open>Clients\<close>

lemma length_set_phase [simp]: "length (sy_clients (set_phase i ph st)) = length (sy_clients st)"
  by (simp add: set_phase_def)

lemma phase_set_phase:
  "i < length (sy_clients st) \<Longrightarrow> phase (set_phase i ph st) j = (if j = i then ph else phase st j)"
  by (simp add: phase_def set_phase_def nth_list_update)

lemma connection_set_phase [simp]: "connection_of (set_phase i ph st) j = connection_of st j"
  by (cases "i < length (sy_clients st)")
    (auto simp: connection_of_def set_phase_def nth_list_update list_update_beyond)

lemma set_phase_fields [simp]:
  "sy_runtime (set_phase i ph st) = sy_runtime st" "sy_events (set_phase i ph st) = sy_events st"
  "sy_event_capacity (set_phase i ph st) = sy_event_capacity st"
  "sy_control (set_phase i ph st) = sy_control st" "sy_server (set_phase i ph st) = sy_server st"
  "sy_shutdown (set_phase i ph st) = sy_shutdown st" "sy_exit (set_phase i ph st) = sy_exit st"
  "sy_inputs (set_phase i ph st) = sy_inputs st" "sy_answers (set_phase i ph st) = sy_answers st"
  by (simp_all add: set_phase_def)

text \<open>A client's phase and connection depend on the list of clients only.\<close>

lemma client_frame [simp]:
  "phase (st\<lparr>sy_runtime := x0\<rparr>) = phase st" "phase (st\<lparr>sy_events := x1\<rparr>) = phase st"
  "phase (st\<lparr>sy_control := x2\<rparr>) = phase st" "phase (st\<lparr>sy_server := x3\<rparr>) = phase st"
  "phase (st\<lparr>sy_shutdown := x4\<rparr>) = phase st" "phase (st\<lparr>sy_exit := x5\<rparr>) = phase st"
  "phase (st\<lparr>sy_inputs := x6\<rparr>) = phase st" "phase (st\<lparr>sy_answers := x7\<rparr>) = phase st"
  "connection_of (st\<lparr>sy_runtime := x0\<rparr>) = connection_of st" "connection_of (st\<lparr>sy_events := x1\<rparr>) = connection_of st"
  "connection_of (st\<lparr>sy_control := x2\<rparr>) = connection_of st" "connection_of (st\<lparr>sy_server := x3\<rparr>) = connection_of st"
  "connection_of (st\<lparr>sy_shutdown := x4\<rparr>) = connection_of st" "connection_of (st\<lparr>sy_exit := x5\<rparr>) = connection_of st"
  "connection_of (st\<lparr>sy_inputs := x6\<rparr>) = connection_of st" "connection_of (st\<lparr>sy_answers := x7\<rparr>) = connection_of st"
  "active_clients (st\<lparr>sy_runtime := x0\<rparr>) = active_clients st" "active_clients (st\<lparr>sy_events := x1\<rparr>) = active_clients st"
  "active_clients (st\<lparr>sy_control := x2\<rparr>) = active_clients st" "active_clients (st\<lparr>sy_server := x3\<rparr>) = active_clients st"
  "active_clients (st\<lparr>sy_shutdown := x4\<rparr>) = active_clients st" "active_clients (st\<lparr>sy_exit := x5\<rparr>) = active_clients st"
  "active_clients (st\<lparr>sy_inputs := x6\<rparr>) = active_clients st" "active_clients (st\<lparr>sy_answers := x7\<rparr>) = active_clients st"
  by (simp_all add: phase_def connection_of_def active_clients_def fun_eq_iff)

lemma filter_update_le: "(P x \<Longrightarrow> P (xs ! i)) \<Longrightarrow> length (filter P (xs[i := x])) \<le> length (filter P xs)"
proof (induction xs arbitrary: i)
  case (Cons y ys)
  then show ?case by (cases i) (auto simp: le_SucI)
qed simp

lemma active_set_phase_le:
  "(active_phase ph \<Longrightarrow> active_phase (phase st i)) \<Longrightarrow> active_clients (set_phase i ph st) \<le> active_clients st"
  unfolding active_clients_def set_phase_def phase_def
  by (simp del: length_filter_le) (rule filter_update_le, simp)

lemma deliver_fields [simp]:
  "sy_runtime (deliver i resp st) = sy_runtime st" "sy_events (deliver i resp st) = sy_events st"
  "sy_event_capacity (deliver i resp st) = sy_event_capacity st"
  "sy_control (deliver i resp st) = sy_control st" "sy_inputs (deliver i resp st) = sy_inputs st"
  "sy_answers (deliver i resp st) = sy_answers st" "sy_server (deliver i resp st) = sy_server st"
  "sy_shutdown (deliver i resp st) = sy_shutdown st" "sy_exit (deliver i resp st) = sy_exit st"
  "length (sy_clients (deliver i resp st)) = length (sy_clients st)"
  "connection_of (deliver i resp st) j = connection_of st j"
  by (simp_all add: deliver_def split: client_phase.split)

lemma phase_deliver:
  "i < length (sy_clients st) \<Longrightarrow> phase (deliver i resp st) j =
     (if j = i \<and> (\<exists>q. phase st i = Waiting q) then Replying resp else phase st j)"
  by (auto simp: deliver_def phase_set_phase split: client_phase.splits)

lemma active_deliver_le: "active_clients (deliver i resp st) \<le> active_clients st"
  by (auto simp: deliver_def intro: active_set_phase_le split: client_phase.split)

lemma take_client_cases:
  obtains "take_client cn st = st"
  | "active_clients st < max_clients"
    "take_client cn st = st\<lparr>sy_clients := sy_clients st @ [\<lparr> ct_connection = cn, ct_phase = Reading \<rparr>]\<rparr>"
  by (cases "active_clients st < max_clients") (simp_all add: take_client_def)

section \<open>Bounds\<close>

definition bounded :: "system \<Rightarrow> bool" where
  "bounded st \<longleftrightarrow>
     active_clients st \<le> max_clients \<and> length (sy_control st) \<le> control_capacity \<and>
     length (sy_events st) \<le> sy_event_capacity st"

lemma bounded_new: "bounded (system_new w s)"
  by (simp add: bounded_def system_new_def active_clients_def)

lemma bounded_less:
  "bounded st \<Longrightarrow> active_clients st' \<le> active_clients st \<Longrightarrow> length (sy_control st') \<le> length (sy_control st) \<Longrightarrow>
   length (sy_events st') \<le> length (sy_events st) \<Longrightarrow> sy_event_capacity st' = sy_event_capacity st \<Longrightarrow> bounded st'"
  by (auto simp: bounded_def)

lemma bounded_task:
  assumes "task_step w cd st st'" and "bounded st"
  shows "bounded st'"
  using assms(1)
proof cases
  case (take_control s i q qs resp s')
  show ?thesis
    using assms(2) unfolding take_control
    by (rule bounded_less) (simp_all add: take_control(3) order_trans [OF active_deliver_le])
next
  case (send_request i q s)
  have "active_clients (set_phase i (Waiting q) st) \<le> active_clients st"
    by (rule active_set_phase_le) (simp add: send_request)
  with assms(2) send_request(5) show ?thesis
    unfolding send_request(1) by (simp add: bounded_def)
qed (use assms(2) in \<open>auto elim!: bounded_less intro!: active_set_phase_le\<close>)

lemma bounded_env:
  assumes "env_step cd st st'" and "bounded st"
  shows "bounded st'"
  using assms(1)
proof cases
  case (client_connects cn)
  then show ?thesis
    using assms(2) by (cases rule: take_client_cases [of cn st]) (auto simp: bounded_def active_clients_def)
next
  case (sensor_sends s ev)
  then show ?thesis using assms(2) by (simp add: bounded_def)
qed (use assms(2) in \<open>auto elim!: bounded_less intro!: active_set_phase_le\<close>)

section \<open>History\<close>

text \<open>The start of the task and its loop on the inputs so far.\<close>

definition loops :: "world \<Rightarrow> loop_input list \<Rightarrow> loop_verdict rt" where
  "loops w inputs = rt_bind (start_runtime w) (\<lambda>_. run_loop w inputs)"

lemma run_loops: "run w inputs s = rt_bind (loops w inputs) (\<lambda>v. case v of Continue \<Rightarrow> rt_return () | Break \<Rightarrow> stop_runtime w) s"
  by (simp add: run_def loops_def rt_bind_def split: sum.splits prod.splits)

lemma run_loop_snoc:
  "run_loop w is s = Inr (Inr Continue, t) \<Longrightarrow> run_loop w (is @ [i]) s = run_loop w [i] t"
proof (induction "is" arbitrary: s)
  case (Cons j "is")
  then show ?case
    by (auto simp: rt_bind_def rt_return_def split: sum.splits prod.splits loop_verdict.splits)
qed (simp add: rt_return_def)

lemma loops_snoc:
  assumes "loops w is s = Inr (Inr Continue, t)"
  shows "loops w (is @ [i]) s = loop_step w i t"
proof -
  from assms obtain s1 where "start_runtime w s = Inr (Inr (), s1)" and "run_loop w is s1 = Inr (Inr Continue, t)"
    by (auto simp: loops_def rt_bind_def split: sum.splits prod.splits)
  then have "loops w (is @ [i]) s = run_loop w [i] t" by (simp add: loops_def rt_bind_def run_loop_snoc)
  also have "\<dots> = loop_step w i t"
    by (auto simp: rt_bind_def rt_return_def split: sum.splits prod.splits loop_verdict.splits)
  finally show ?thesis .
qed

fun phase_result :: "runtime_phase \<Rightarrow> panic + (unit result \<times> runtime)" where
  "phase_result (Running t) = Inr (Inr (), t)"
| "phase_result (Ended r t) = Inr (r, t)"
| "phase_result (Crashed p) = Inl p"

definition history_ok :: "world \<Rightarrow> runtime \<Rightarrow> system \<Rightarrow> bool" where
  "history_ok w s st \<longleftrightarrow>
     (case sy_runtime st of
        Running t \<Rightarrow> loops w (sy_inputs st) s = Inr (Inr Continue, t)
      | ended \<Rightarrow> run w (sy_inputs st) s = phase_result ended)"

lemma history_run: "history_ok w s st \<Longrightarrow> run w (sy_inputs st) s = phase_result (sy_runtime st)"
  by (cases "sy_runtime st") (simp_all add: history_ok_def run_loops rt_bind_def rt_return_def)

lemma history_same:
  "history_ok w s st \<Longrightarrow> sy_runtime st' = sy_runtime st \<Longrightarrow> sy_inputs st' = sy_inputs st \<Longrightarrow> history_ok w s st'"
  by (simp add: history_ok_def split: runtime_phase.splits)

lemma history_new: "history_ok w s (system_new w s)"
  by (auto simp: history_ok_def system_new_def loops_def run_def rt_bind_def rt_return_def
      split: sum.split prod.split)

lemma history_task:
  assumes "task_step w cd st st'" and "history_ok w s st"
  shows "history_ok w s st'"
  using assms(1)
proof cases
  case (take_event t ev evs t')
  with assms(2) loops_snoc [of w "sy_inputs st" s t "In_Event (Some ev)"] show ?thesis
    by (simp add: history_ok_def)
next
  case (event_crash t ev evs p)
  with assms(2) loops_snoc [of w "sy_inputs st" s t "In_Event (Some ev)"] show ?thesis
    by (simp add: history_ok_def run_loops rt_bind_def)
next
  case (take_control t i q qs resp t')
  with assms(2) loops_snoc [of w "sy_inputs st" s t "In_Control (Some q)"] show ?thesis
    by (simp add: history_ok_def rt_bind_def rt_return_def)
next
  case (control_crash t i q qs p)
  with assms(2) loops_snoc [of w "sy_inputs st" s t "In_Control (Some q)"] show ?thesis
    by (simp add: history_ok_def run_loops rt_bind_def)
next
  case (runtime_stops t i r t')
  then have "loop_step w i t = Inr (Inr Break, t)" by (auto simp: rt_return_def elim: break_input.cases)
  with runtime_stops assms(2) loops_snoc [of w "sy_inputs st" s t i] show ?thesis
    by (simp add: history_ok_def run_loops rt_bind_def)
qed (use assms(2) in \<open>auto elim: history_same\<close>)

lemma take_client_fields [simp]:
  "sy_runtime (take_client cn st) = sy_runtime st" "sy_inputs (take_client cn st) = sy_inputs st"
  "sy_control (take_client cn st) = sy_control st" "sy_answers (take_client cn st) = sy_answers st"
  by (cases rule: take_client_cases [of cn st], simp_all)+

lemma history_env: "env_step cd st st' \<Longrightarrow> history_ok w s st \<Longrightarrow> history_ok w s st'"
  by (erule env_step.cases) (auto elim: history_same)

section \<open>Answers\<close>

definition asked :: "system \<Rightarrow> nat set" where
  "asked st = fst ` set (sy_control st) \<union> fst ` set (sy_answers st)"

definition asks :: "codec \<Rightarrow> system \<Rightarrow> nat \<Rightarrow> request \<Rightarrow> bool" where
  "asks cd st i q \<longleftrightarrow> read_request cd (connection_of st i) = Conn_Ask q"

text \<open>
  What the phase of a client says: it has asked at most once, its request is the one it was
  read to make, a waiting client's request is queued, and what it was served is what the
  connection gives for an answer the runtime gave to this client.
\<close>

definition client_ok :: "codec \<Rightarrow> system \<Rightarrow> nat \<Rightarrow> bool" where
  "client_ok cd st i \<longleftrightarrow>
     (case phase st i of
        Reading \<Rightarrow> i \<notin> asked st
      | Asking q \<Rightarrow> i \<notin> asked st \<and> asks cd st i q
      | Waiting q \<Rightarrow> asks cd st i q \<and> (\<forall>t. sy_runtime st = Running t \<longrightarrow> (i, q) \<in> set (sy_control st))
      | Replying resp \<Rightarrow> \<exists>q. asks cd st i q \<and> (i, q, resp) \<in> set (sy_answers st)
      | Served r out \<Rightarrow>
          (\<exists>ans. handle_connection cd (connection_of st i) ans = (r, out) \<and>
             (\<forall>q resp. ans q = Inr resp \<longrightarrow> (i, q, resp) \<in> set (sy_answers st)))
      | Cut_Off \<Rightarrow> True)"

definition clients_ok :: "codec \<Rightarrow> system \<Rightarrow> bool" where
  "clients_ok cd st \<longleftrightarrow>
     distinct (map fst (sy_control st) @ map fst (sy_answers st)) \<and>
     asked st \<subseteq> {..<length (sy_clients st)} \<and>
     (\<forall>r t. sy_runtime st = Ended r t \<longrightarrow> sy_control st = []) \<and>
     (\<forall>i q. (i, q) \<in> set (sy_control st) \<longrightarrow> asks cd st i q \<and> phase st i \<in> {Waiting q, Cut_Off}) \<and>
     (\<forall>i q resp. (i, q, resp) \<in> set (sy_answers st) \<longrightarrow> asks cd st i q) \<and>
     (\<forall>i < length (sy_clients st). client_ok cd st i)"

lemma clients_okD: "clients_ok cd st \<Longrightarrow> i < length (sy_clients st) \<Longrightarrow> client_ok cd st i"
  by (simp add: clients_ok_def)

lemma clients_ended: "clients_ok cd st \<Longrightarrow> sy_runtime st = Ended r t \<Longrightarrow> sy_control st = []"
  by (simp add: clients_ok_def)

lemma clients_new: "clients_ok cd (system_new w s)"
  by (simp add: clients_ok_def system_new_def asked_def)

text \<open>A step that only moves one client, without touching the channel or the answers.\<close>

lemma clients_move:
  assumes "clients_ok cd st" and "i < length (sy_clients st)" and "client_ok cd (set_phase i ph st) i"
    and "\<And>q. (i, q) \<in> set (sy_control st) \<Longrightarrow> ph = Cut_Off"
  shows "clients_ok cd (set_phase i ph st)"
proof -
  have same: "asked (set_phase i ph st) = asked st" "asks cd (set_phase i ph st) = asks cd st"
    by (simp_all add: asked_def asks_def fun_eq_iff)
  have "client_ok cd (set_phase i ph st) j" if "j < length (sy_clients st)" for j
  proof (cases "j = i")
    case False
    have "client_ok cd st j" using assms(1) that by (simp add: clients_ok_def)
    with False assms(2) show ?thesis by (simp add: client_ok_def same phase_set_phase split: client_phase.splits)
  qed (simp add: assms(3))
  moreover have "phase (set_phase i ph st) j \<in> {Waiting q, Cut_Off}" if "(j, q) \<in> set (sy_control st)" for j q
    using that assms(1,2,4) by (auto simp: phase_set_phase clients_ok_def)
  ultimately show ?thesis using assms(1) unfolding clients_ok_def same by simp
qed

lemma not_queued: "clients_ok cd st \<Longrightarrow> phase st i \<noteq> Cut_Off \<Longrightarrow> \<forall>q. phase st i \<noteq> Waiting q \<Longrightarrow> (i, q) \<notin> set (sy_control st)"
  unfolding clients_ok_def by (metis insertE singletonD)

text \<open>A step that leaves the clients and the answers alone, and the channel unless the runtime ends.\<close>

lemma clients_same:
  assumes "clients_ok cd st" and "sy_clients st' = sy_clients st" and "sy_answers st' = sy_answers st"
    and "sy_control st' = drop n (sy_control st)"
    and "\<And>t. sy_runtime st' = Running t \<Longrightarrow> n = 0 \<and> (\<exists>t. sy_runtime st = Running t)"
    and "\<And>r t. sy_runtime st' = Ended r t \<Longrightarrow> sy_control st' = []"
  shows "clients_ok cd st'"
proof -
  have same: "asks cd st' = asks cd st" "phase st' = phase st" "connection_of st' = connection_of st"
    using assms(2) by (simp_all add: asks_def phase_def connection_of_def fun_eq_iff)
  have sub: "set (sy_control st') \<subseteq> set (sy_control st)" by (simp add: assms(4) set_drop_subset)
  then have asked: "asked st' \<subseteq> asked st" by (auto simp: asked_def assms(3))
  have "distinct (map fst (sy_control st'))"
    using assms(1) by (simp add: clients_ok_def assms(4) flip: drop_map)
  moreover have "fst ` set (sy_control st') \<inter> fst ` set (sy_answers st') = {}"
    using assms(1) image_mono [OF sub, of fst] unfolding clients_ok_def assms(3) by auto
  ultimately have "distinct (map fst (sy_control st') @ map fst (sy_answers st'))"
    using assms(1) by (simp add: clients_ok_def assms(3))
  moreover have "client_ok cd st' i" if "client_ok cd st i" for i
    using that asked assms(3-5) by (auto simp: client_ok_def same split: client_phase.splits)
  ultimately show ?thesis
    using assms(1,2,3,6) asked sub unfolding clients_ok_def same by (simp add: subset_iff)
qed

lemma clients_frame:
  "clients_ok cd st \<Longrightarrow> sy_clients st' = sy_clients st \<Longrightarrow> sy_answers st' = sy_answers st \<Longrightarrow>
   sy_control st' = sy_control st \<Longrightarrow> sy_runtime st' = sy_runtime st \<Longrightarrow> clients_ok cd st'"
  by (rule clients_same [where n = 0]) (auto simp: clients_ended dest: sym)

lemma clients_send:
  assumes "clients_ok cd st" and "i < length (sy_clients st)" and "phase st i = Asking q"
    and "sy_runtime st = Running s"
    and st': "sy_control st' = sy_control st @ [(i, q)]" "sy_answers st' = sy_answers st"
    "sy_runtime st' = sy_runtime st" "length (sy_clients st') = length (sy_clients st)"
    "connection_of st' = connection_of st" and phase: "\<And>j. phase st' j = (if j = i then Waiting q else phase st j)"
  shows "clients_ok cd st'"
proof -
  have ok: "client_ok cd st i" using assms(1,2) by (simp add: clients_ok_def)
  then have fresh: "i \<notin> asked st" and q: "asks cd st i q" using assms(3) by (simp_all add: client_ok_def)
  have asked: "asked st' = insert i (asked st)" by (auto simp: asked_def st')
  have asks: "asks cd st' = asks cd st" by (simp add: asks_def fun_eq_iff st')
  have "client_ok cd st' j" if "j < length (sy_clients st)" for j
  proof (cases "j = i")
    case True
    then show ?thesis using q by (simp add: client_ok_def phase asks st')
  next
    case False
    have "client_ok cd st j" using assms(1) that by (simp add: clients_ok_def)
    with False show ?thesis by (auto simp: client_ok_def phase asks asked st' split: client_phase.splits)
  qed
  moreover have "distinct (map fst (sy_control st') @ map fst (sy_answers st'))"
    using assms(1) fresh by (auto simp: clients_ok_def asked_def st')
  moreover have "j \<noteq> i" if "(j, q') \<in> set (sy_control st)" for j q'
    using that fresh by (force simp: asked_def)
  ultimately show ?thesis
    using assms(1,2,4) q unfolding clients_ok_def asked asks phase st' by auto
qed

lemma clients_answer:
  assumes "clients_ok cd st" and "sy_control st = (i, q) # qs" and "sy_runtime st = Running s"
    and st': "sy_control st' = qs" "sy_answers st' = sy_answers st @ [(i, q, resp)]" "sy_runtime st' = Running s'"
    "length (sy_clients st') = length (sy_clients st)" "connection_of st' = connection_of st"
    and phase: "\<And>j. phase st' j = (if j = i \<and> (\<exists>q. phase st i = Waiting q) then Replying resp else phase st j)"
  shows "clients_ok cd st'"
proof -
  have q: "asks cd st i q" and ph: "phase st i \<in> {Waiting q, Cut_Off}"
    and d: "distinct (map fst (sy_control st) @ map fst (sy_answers st))"
    using assms(1,2) by (auto simp: clients_ok_def)
  have asked: "asked st' = asked st" using assms(2) by (auto simp: asked_def st')
  have asks: "asks cd st' = asks cd st" by (simp add: asks_def fun_eq_iff st')
  have other: "j \<noteq> i" if "(j, q') \<in> set qs" for j q'
    using d that assms(2) by (force simp: image_iff)
  have "client_ok cd st' j" if "j < length (sy_clients st)" for j
  proof (cases "j = i")
    case True
    then show ?thesis using q ph by (auto simp: client_ok_def phase asks st')
  next
    case False
    have "client_ok cd st j" using assms(1) that by (simp add: clients_ok_def)
    with False assms(2,3) show ?thesis
      by (auto simp: client_ok_def phase asks asked st' split: client_phase.splits)
  qed
  moreover have "distinct (map fst (sy_control st') @ map fst (sy_answers st'))"
    using d assms(2) by (auto simp: st')
  moreover have "asks cd st j q' \<and> phase st j \<in> {Waiting q', Cut_Off}" if "(j, q') \<in> set qs" for j q'
    using assms(1,2) that by (simp add: clients_ok_def)
  ultimately show ?thesis
    using assms(1) q other unfolding clients_ok_def asked asks phase st' by auto
qed

lemma clients_task:
  assumes "task_step w cd st st'" and "clients_ok cd st"
  shows "clients_ok cd st'"
  using assms(1)
proof cases
  case (take_control s i q qs resp s')
  have "i < length (sy_clients st)" using assms(2) take_control(3) by (auto simp: clients_ok_def asked_def)
  with take_control show ?thesis
    by (intro clients_answer [OF assms(2) take_control(3,2), where resp = resp and s' = s'])
      (auto simp: phase_deliver)
next
  case (send_request i q s)
  then show ?thesis
    by (intro clients_send [OF assms(2) send_request(2-4)]) (simp_all add: phase_set_phase fun_eq_iff)
next
  case (send_closed i q r s)
  have "asks cd st i q" using assms(2) send_closed by (auto simp: clients_ok_def client_ok_def)
  then have "client_ok cd st' i"
    unfolding send_closed(1) client_ok_def using send_closed(2)
    by (auto simp: phase_set_phase asks_def handle_connection_def
        intro: exI [of _ "\<lambda>_. Inl ''runtime control channel closed''"])
  with assms(2) send_closed not_queued [OF assms(2), of i] show ?thesis by (auto intro!: clients_move)
next
  case (response_dropped i q r s)
  have "asks cd st i q" and "sy_control st = []"
    using assms(2) response_dropped by (auto simp: clients_ok_def client_ok_def)
  moreover from this(1) have "client_ok cd st' i"
    unfolding response_dropped(1) client_ok_def using response_dropped(2)
    by (auto simp: phase_set_phase asks_def handle_connection_def
        intro: exI [of _ "\<lambda>_. Inl ''runtime response dropped''"])
  ultimately show ?thesis using assms(2) response_dropped by (auto intro!: clients_move)
next
  case (write_reply i resp r out)
  then obtain q where "asks cd st i q" and "(i, q, resp) \<in> set (sy_answers st)"
    using clients_okD [OF assms(2), of i] by (auto simp: client_ok_def)
  with write_reply have "client_ok cd st' i"
    unfolding write_reply(1) client_ok_def
    by (auto simp: phase_set_phase asks_def handle_connection_def
        intro!: exI [of _ "\<lambda>q'. if q' = q then Inr resp else Inl []"] split: if_splits)
  with assms(2) write_reply not_queued [OF assms(2), of i] show ?thesis by (auto intro!: clients_move)
next
  case (control_crash s i q qs p)
  then show ?thesis using assms(2) by (auto elim!: clients_same [where n = 1])
next
  case (runtime_stops s i r s')
  then show ?thesis using assms(2) by (auto elim!: clients_same [where n = "length (sy_control st)"])
qed (use assms(2) in \<open>auto elim: clients_frame intro: clients_same [where n = 0]\<close>)

lemma clients_env:
  assumes "env_step cd st st'" and "clients_ok cd st"
  shows "clients_ok cd st'"
  using assms(1)
proof cases
  case (client_connects cn)
  show ?thesis
  proof (cases rule: take_client_cases [of cn st])
    case 1
    then show ?thesis using assms(2) client_connects by simp
  next
    case 2
    have new: "asked st' = asked st" "\<And>i. i < length (sy_clients st) \<Longrightarrow> asks cd st' i = asks cd st i"
      "\<And>i. i < length (sy_clients st) \<Longrightarrow> phase st' i = phase st i"
      "\<And>i. i < length (sy_clients st) \<Longrightarrow> connection_of st' i = connection_of st i"
      "phase st' (length (sy_clients st)) = Reading"
      by (simp_all add: client_connects(1) 2 asked_def asks_def phase_def connection_of_def nth_append fun_eq_iff)
    have st': "sy_control st' = sy_control st" "sy_answers st' = sy_answers st" "sy_runtime st' = sy_runtime st"
      "length (sy_clients st') = Suc (length (sy_clients st))"
      by (simp_all add: client_connects(1) 2)
    have inside: "i < length (sy_clients st)" if "i \<in> asked st" for i
      using that assms(2) by (auto simp: clients_ok_def)
    then have fresh: "length (sy_clients st) \<notin> asked st" by blast
    have "client_ok cd st' i" if "i < length (sy_clients st)" for i
      using that assms(2) by (auto simp: clients_ok_def client_ok_def new st' split: client_phase.splits)
    moreover have "client_ok cd st' (length (sy_clients st))" using fresh by (simp add: client_ok_def new)
    ultimately have "client_ok cd st' i" if "i < Suc (length (sy_clients st))" for i
      using that less_SucE by blast
    moreover have "i < length (sy_clients st)" if "(i, q) \<in> set (sy_control st)" for i q
      using that by (intro inside) (force simp: asked_def)
    moreover have "i < length (sy_clients st)" if "(i, q, resp) \<in> set (sy_answers st)" for i q resp
      using that by (intro inside) (force simp: asked_def)
    ultimately show ?thesis
      using assms(2) inside unfolding clients_ok_def st' new(1) by (auto simp: new less_SucI)
  qed
next
  case (client_finishes_request i)
  have fresh: "i \<notin> asked st" using assms(2) client_finishes_request by (auto simp: clients_ok_def client_ok_def)
  have "client_ok cd st' i"
  proof (cases "read_request cd (connection_of st i)")
    case (Conn_Done r out)
    with client_finishes_request show ?thesis
      by (auto simp: client_ok_def phase_set_phase handle_connection_def intro: exI [of _ "\<lambda>_. Inl []"])
  next
    case (Conn_Ask q)
    with client_finishes_request fresh show ?thesis
      by (simp add: client_ok_def phase_set_phase asked_def asks_def)
  qed
  moreover have "(i, q) \<notin> set (sy_control st)" for q using fresh by (force simp: asked_def)
  ultimately show ?thesis using assms(2) client_finishes_request by (auto intro!: clients_move)
next
  case (client_timeout i)
  then have "client_ok cd st' i" by (simp add: client_ok_def phase_set_phase)
  with client_timeout assms(2) show ?thesis by (auto intro!: clients_move)
qed (use assms(2) in \<open>auto elim: clients_frame\<close>)

section \<open>The log of answers\<close>

text \<open>
  The answers are those to the requests the loop received, in this order, and each is what the
  runtime answers in the state the inputs before it led to.
\<close>

fun requests_of :: "loop_input list \<Rightarrow> request list" where
  "requests_of [] = []"
| "requests_of (In_Control (Some q) # is) = q # requests_of is"
| "requests_of (_ # is) = requests_of is"

lemma requests_of_append: "requests_of (is @ js) = requests_of is @ requests_of js"
  by (induction "is" rule: requests_of.induct) simp_all

definition answered :: "world \<Rightarrow> runtime \<Rightarrow> loop_input list \<Rightarrow> request \<Rightarrow> response \<Rightarrow> bool" where
  "answered w s inputs q resp \<longleftrightarrow>
     (\<exists>before after t t'. inputs = before @ In_Control (Some q) # after \<and>
        loops w before s = Inr (Inr Continue, t) \<and> handle_control w q t = Inr (Inr resp, t'))"

lemma answered_mono: "answered w s inputs q resp \<Longrightarrow> answered w s (inputs @ [i]) q resp"
  unfolding answered_def by (metis append.assoc append_Cons)

definition log_ok :: "world \<Rightarrow> runtime \<Rightarrow> system \<Rightarrow> bool" where
  "log_ok w s st \<longleftrightarrow>
     ((\<forall>p. sy_runtime st \<noteq> Crashed p) \<longrightarrow> requests_of (sy_inputs st) = map (fst \<circ> snd) (sy_answers st)) \<and>
     (\<forall>(i, q, resp) \<in> set (sy_answers st). answered w s (sy_inputs st) q resp)"

lemma log_new: "log_ok w s (system_new w s)"
  by (simp add: log_ok_def system_new_def)

lemma log_same:
  "log_ok w s st \<Longrightarrow> sy_runtime st' = sy_runtime st \<Longrightarrow> sy_inputs st' = sy_inputs st \<Longrightarrow>
   sy_answers st' = sy_answers st \<Longrightarrow> log_ok w s st'"
  by (simp add: log_ok_def)

lemma log_input:
  assumes "log_ok w s st" and "sy_runtime st = Running t" and "sy_inputs st' = sy_inputs st @ [i]"
    and "sy_answers st' = sy_answers st" and "requests_of [i] = [] \<or> (\<exists>p. sy_runtime st' = Crashed p)"
  shows "log_ok w s st'"
  using assms by (auto simp: log_ok_def requests_of_append intro: answered_mono)

lemma log_task:
  assumes "task_step w cd st st'" and "log_ok w s st" and "history_ok w s st"
  shows "log_ok w s st'"
  using assms(1)
proof cases
  case (take_control t i q qs resp t')
  have "answered w s (sy_inputs st @ [In_Control (Some q)]) q resp"
    using assms(3) take_control by (auto simp: answered_def history_ok_def)
  with take_control assms(2) show ?thesis
    by (auto simp: log_ok_def requests_of_append intro: answered_mono)
next
  case (runtime_stops t i r t')
  then show ?thesis
    using assms(2) by (auto elim!: log_input break_input.cases)
qed (use assms(2) in \<open>auto intro: log_same log_input\<close>)

section \<open>Every reachable state\<close>

lemma alive_not_crashed: "alive st \<Longrightarrow> sy_runtime st \<noteq> Crashed p"
  by (simp add: alive_def)

definition system_ok :: "world \<Rightarrow> codec \<Rightarrow> runtime \<Rightarrow> system \<Rightarrow> bool" where
  "system_ok w cd s st \<longleftrightarrow> history_ok w s st \<and> log_ok w s st \<and> clients_ok cd st \<and> bounded st"

lemma system_ok_step:
  assumes "system_step w cd st st'" and "system_ok w cd s st"
  shows "system_ok w cd s st'"
  using assms(1)
proof cases
  case task
  with assms(2) show ?thesis
    by (simp add: system_ok_def history_task log_task clients_task bounded_task)
next
  case env
  have "log_ok w s st'"
    using env(2) assms(2) by cases (auto simp: system_ok_def intro: log_same)
  with env assms(2) show ?thesis
    by (simp add: system_ok_def history_env [of cd] clients_env bounded_env)
next
  case main
  then have "\<exists>x. st' = st\<lparr>sy_exit := x\<rparr>" by (auto elim!: main_step.cases)
  with assms(2) show ?thesis
    by (auto simp: system_ok_def bounded_def intro: history_same log_same clients_frame)
qed

lemma reachable_ok: "reachable w cd s st \<Longrightarrow> system_ok w cd s st"
proof (induction rule: reachable.induct)
  case start
  show ?case by (simp add: system_ok_def history_new log_new clients_new bounded_new)
next
  case (step st st')
  then show ?case by (rule_tac system_ok_step)
qed

end
