(* ===== verification/System_Progress.thy ===== *)
theory System_Progress
  imports System_Invariant
begin

text \<open>
  The tasks of the daemon always come to rest: every step of a task reduces the work left, and
  when no task can step, nobody waits for the runtime and its queues are empty.
\<close>

section \<open>Work\<close>

fun phase_weight :: "client_phase \<Rightarrow> nat" where
  "phase_weight (Asking _) = 3"
| "phase_weight (Waiting _) = 1"
| "phase_weight (Replying _) = 1"
| "phase_weight _ = 0"

definition client_work :: "system \<Rightarrow> nat" where
  "client_work st = sum_list (map (phase_weight \<circ> ct_phase) (sy_clients st))"

fun runtime_weight :: "runtime_phase \<Rightarrow> nat" where
  "runtime_weight (Running _) = 1"
| "runtime_weight _ = 0"

definition work :: "system \<Rightarrow> nat" where
  "work st = client_work st + length (sy_control st) + length (sy_events st) +
     runtime_weight (sy_runtime st) + (if sy_server st = Serving then 1 else 0)"

lemma client_work_frame [simp]:
  "client_work (st\<lparr>sy_runtime := x0\<rparr>) = client_work st" "client_work (st\<lparr>sy_events := x1\<rparr>) = client_work st"
  "client_work (st\<lparr>sy_control := x2\<rparr>) = client_work st" "client_work (st\<lparr>sy_server := x3\<rparr>) = client_work st"
  "client_work (st\<lparr>sy_inputs := x4\<rparr>) = client_work st" "client_work (st\<lparr>sy_answers := x5\<rparr>) = client_work st"
  by (simp_all add: client_work_def)

lemma sum_list_update_plus:
  fixes f :: "'a \<Rightarrow> nat"
  shows "i < length xs \<Longrightarrow> sum_list (map f (xs[i := x])) + f (xs ! i) = sum_list (map f xs) + f x"
proof (induction xs arbitrary: i)
  case (Cons y ys)
  then show ?case by (cases i) auto
qed simp

lemma client_work_set_phase:
  assumes "i < length (sy_clients st)"
  shows "client_work (set_phase i ph st) + phase_weight (phase st i) = client_work st + phase_weight ph"
  using sum_list_update_plus [OF assms, of "phase_weight \<circ> ct_phase"]
  by (simp add: client_work_def set_phase_def phase_def)

lemma client_work_deliver:
  assumes "i < length (sy_clients st)"
  shows "client_work (deliver i resp st) = client_work st"
  using client_work_set_phase [OF assms, of "Replying resp"]
  by (auto simp: deliver_def split: client_phase.split)

lemma task_step_work:
  assumes "task_step w cd st st'" and "clients_ok cd st"
  shows "work st' < work st"
  using assms(1)
proof cases
  case (take_control s i q qs resp s')
  have "i < length (sy_clients st)" using assms(2) take_control(3) by (auto simp: clients_ok_def asked_def)
  with take_control show ?thesis by (simp add: work_def client_work_deliver)
next
  case (send_request i q s)
  with client_work_set_phase [of i st "Waiting q"] show ?thesis by (simp add: work_def)
next
  case (send_closed i q r s)
  with client_work_set_phase [of i st "Served (Inl ''runtime control channel closed'') []"]
  show ?thesis by (simp add: work_def)
next
  case (response_dropped i q r s)
  with client_work_set_phase [of i st "Served (Inl ''runtime response dropped'') []"]
  show ?thesis by (simp add: work_def)
next
  case (write_reply i resp r out)
  with client_work_set_phase [of i st "Served r out"] show ?thesis by (simp add: work_def)
qed (simp_all add: work_def)

text \<open>No infinite run of the tasks alone.\<close>

lemma tasks_ok: "(task_step w cd)\<^sup>*\<^sup>* st st' \<Longrightarrow> clients_ok cd st \<Longrightarrow> clients_ok cd st'"
  by (induction rule: rtranclp_induct) (auto intro: clients_task)

lemma tasks_terminate:
  assumes "clients_ok cd (f 0)"
  shows "\<not> (\<forall>n. task_step w cd (f n) (f (Suc n)))"
proof
  assume steps: "\<forall>n. task_step w cd (f n) (f (Suc n))"
  have "clients_ok cd (f n)" for n
    by (induction n) (use assms steps clients_task in blast)+
  with steps have "(f (Suc n), f n) \<in> measure work" for n by (auto intro: task_step_work)
  then show False using wf_measure [of work] unfolding wf_iff_no_infinite_down_chain by blast
qed

definition at_rest :: "world \<Rightarrow> codec \<Rightarrow> system \<Rightarrow> bool" where
  "at_rest w cd st \<longleftrightarrow> \<not> (\<exists>st'. task_step w cd st st')"

lemma tasks_come_to_rest:
  "clients_ok cd st \<Longrightarrow> \<exists>st'. (task_step w cd)\<^sup>*\<^sup>* st st' \<and> at_rest w cd st'"
proof (induction st rule: measure_induct_rule [of work])
  case (less st)
  show ?case
  proof (cases "at_rest w cd st")
    case False
    then obtain st1 where step: "task_step w cd st st1" by (auto simp: at_rest_def)
    with less.prems have "work st1 < work st" "clients_ok cd st1" by (auto intro: task_step_work clients_task)
    with less.IH obtain st' where "(task_step w cd)\<^sup>*\<^sup>* st1 st'" "at_rest w cd st'" by blast
    with step show ?thesis by (meson converse_rtranclp_into_rtranclp)
  qed blast
qed

section \<open>At rest\<close>

lemma loop_event_cases:
  obtains p where "loop_step w (In_Event (Some ev)) s = Inl p"
  | s' where "loop_step w (In_Event (Some ev)) s = Inr (Inr Continue, s')"
  by (cases "process_event w ev s") auto

lemma handle_control_cases:
  obtains p where "handle_control w q s = Inl p"
  | resp s' where "handle_control w q s = Inr (Inr resp, s')"
proof (cases "handle_control_result w q s")
  case (Inr rs)
  then show ?thesis using that by (cases rs; cases "fst rs") (auto simp: handle_control_def)
qed (use that in \<open>auto simp: handle_control_def\<close>)

lemma rest_queues:
  assumes "at_rest w cd st" and "sy_runtime st = Running s"
  shows "sy_events st = []" and "sy_control st = []"
proof -
  show "sy_events st = []"
  proof (rule ccontr)
    assume "sy_events st \<noteq> []"
    then obtain ev evs where ev: "sy_events st = ev # evs" by (cases "sy_events st") auto
    show False
      by (cases rule: loop_event_cases [of w ev s])
        (use assms ev task_step.take_event task_step.event_crash in \<open>unfold at_rest_def, blast+\<close>)
  qed
  show "sy_control st = []"
  proof (rule ccontr)
    assume "sy_control st \<noteq> []"
    then obtain i q qs where q: "sy_control st = (i, q) # qs" by (cases "sy_control st") auto
    show False
      by (cases rule: handle_control_cases [of w q s])
        (use assms q task_step.take_control task_step.control_crash in \<open>unfold at_rest_def, blast+\<close>)
  qed
qed

fun settled :: "client_phase \<Rightarrow> bool" where
  "settled Reading = True"
| "settled (Served _ _) = True"
| "settled Cut_Off = True"
| "settled _ = False"

lemma rest_clients:
  assumes "at_rest w cd st" and "clients_ok cd st" and "\<forall>p. sy_runtime st \<noteq> Crashed p"
    and "i < length (sy_clients st)"
  shows "settled (phase st i)"
proof (cases "phase st i")
  case (Asking q)
  show ?thesis
  proof (cases "sy_runtime st")
    case (Running s)
    with rest_queues(2) [OF assms(1)] have "length (sy_control st) < control_capacity"
      by (simp add: control_capacity_def)
    with task_step.send_request [OF assms(4) Asking Running] assms(1) show ?thesis by (auto simp: at_rest_def)
  next
    case (Ended r s)
    with task_step.send_closed [OF assms(4) Asking] assms(1) show ?thesis by (auto simp: at_rest_def)
  qed (use assms(3) in simp)
next
  case (Waiting q)
  show ?thesis
  proof (cases "sy_runtime st")
    case (Running s)
    with clients_okD [OF assms(2,4)] Waiting rest_queues(2) [OF assms(1)] show ?thesis
      by (simp add: client_ok_def)
  next
    case (Ended r s)
    with task_step.response_dropped [OF assms(4) Waiting] assms(1) show ?thesis by (auto simp: at_rest_def)
  qed (use assms(3) in simp)
next
  case (Replying resp)
  obtain r out where "write_response cd (connection_of st i) resp = (r, out)" by fastforce
  from task_step.write_reply [OF assms(4) Replying this] assms(1) show ?thesis unfolding at_rest_def by blast
qed simp_all

end
