(* ===== verification/System_Properties.thy ===== *)
theory System_Properties
  imports System_Progress Runtime_Reload Control_Properties
begin

text \<open>
  What holds in every state the interleaved daemon can reach: it refines the runtime's task, it
  is safe and within its bounds, every client gets the answer to its own request, and the tasks
  come to rest with nobody waiting.
\<close>

section \<open>The task is safe\<close>

lemma live_append: "safe (live_inv w p unsafe cfg) (live_rel w p unsafe cfg) (rt_append w e k ru payload) any"
  by (rule live_safe) (rule daemon.append_safe)

lemma live_start_runtime: "safe (live_inv w p unsafe cfg) (live_rel w p unsafe cfg) (start_runtime w) any"
proof -
  have "safe (live_inv w p unsafe cfg) (live_rel w p unsafe cfg) rt_get any"
    by (simp add: safe_def rt_get_def live_rel_refl)
  then show ?thesis
    unfolding start_runtime_def
    by (rule safe_bind [OF live_rel_transp]) (intro safe_bind [OF live_rel_transp live_append] live_return)
qed

lemma live_stop_runtime: "safe (live_inv w p unsafe cfg) (live_rel w p unsafe cfg) (stop_runtime w) any"
proof -
  have "safe (live_inv w p unsafe cfg) (live_rel w p unsafe cfg)
      (rt_modify (\<lambda>s. s\<lparr>rt_aborted := rt_aborted s @ rt_sensor_handles s\<rparr>)) any"
    by (rule safe_modify) (simp add: live_inv_def live_rel_def daemon_inv_def current_mode_def)
  then show ?thesis
    unfolding stop_runtime_def
    by (rule safe_bind [OF live_rel_transp]) (intro safe_bind [OF live_rel_transp live_append] live_return)
qed

lemma live_run: "safe (live_inv w p unsafe cfg) (live_rel w p unsafe cfg) (run w inputs) any"
  unfolding run_def
  by (intro safe_bind [OF live_rel_transp live_start_runtime]
      safe_bind [OF live_rel_transp live.run_loop_safe])
    (auto intro: live_return live_stop_runtime split: loop_verdict.split)

section \<open>One client\<close>

text \<open>A run that serves a single client from its connection to the end.\<close>

lemma serves_one_client:
  assumes "start_runtime w s = Inr (Inr (), s1)" and "read_request cd cn = Conn_Ask q"
    and "handle_control w q s1 = Inr (Inr resp, s2)" and "write_response cd cn resp = (r, out)"
  shows "\<exists>st. reachable w cd s st \<and> sy_runtime st = Running s2 \<and> sy_inputs st = [In_Control (Some q)] \<and>
    sy_answers st = [(0, q, resp)] \<and> sy_clients st = [\<lparr> ct_connection = cn, ct_phase = Served r out \<rparr>]"
proof -
  let ?at = "\<lambda>ph. [\<lparr> ct_connection = cn, ct_phase = ph \<rparr>]"
  let ?st0 = "system_new w s"
  let ?st1 = "?st0\<lparr>sy_clients := ?at Reading\<rparr>"
  let ?st2 = "?st0\<lparr>sy_clients := ?at (Asking q)\<rparr>"
  let ?st3 = "?st0\<lparr>sy_clients := ?at (Waiting q), sy_control := [(0, q)]\<rparr>"
  let ?st4 = "?st0\<lparr>sy_runtime := Running s2, sy_control := [], sy_inputs := [In_Control (Some q)],
    sy_answers := [(0, q, resp)], sy_clients := ?at (Replying resp)\<rparr>"
  let ?st5 = "?st4\<lparr>sy_clients := ?at (Served r out)\<rparr>"
  have new: "sy_runtime ?st0 = Running s1" "sy_clients ?st0 = []" "sy_server ?st0 = Serving" "sy_control ?st0 = []"
    "sy_exit ?st0 = None" "sy_inputs ?st0 = []" "sy_answers ?st0 = []"
    by (simp_all add: system_new_def assms(1))
  have "env_step cd ?st0 ?st1"
    using env_step.client_connects [OF new(3), of cd cn]
    by (simp add: take_client_def active_clients_def max_clients_def new)
  moreover have "env_step cd ?st1 ?st2"
    using env_step.client_finishes_request [of 0 ?st1 cd]
    by (simp add: phase_def connection_of_def set_phase_def assms(2))
  moreover have "task_step w cd ?st2 ?st3"
    using task_step.send_request [of 0 ?st2 q s1 w cd]
    by (simp add: phase_def set_phase_def control_capacity_def new)
  moreover have "task_step w cd ?st3 ?st4"
    using task_step.take_control [of ?st3 s1 0 q "[]" w resp s2 cd]
    by (simp add: deliver_def phase_def set_phase_def new assms(3))
  moreover have "task_step w cd ?st4 ?st5"
    using task_step.write_reply [of 0 ?st4 resp cd r out w]
    by (simp add: phase_def connection_of_def set_phase_def assms(4))
  moreover have "alive ?st0" "alive ?st1" "alive ?st2" "alive ?st3" "alive ?st4"
    by (simp_all add: alive_def new)
  ultimately have "reachable w cd s ?st5"
    by (meson reachable.intros system_step.intros)
  then show ?thesis by (intro exI [of _ ?st5]) simp
qed

section \<open>Refinement\<close>

text \<open>
  C2. The interleaved daemon refines its runtime task. In every state that sensors, clients,
  timeouts, signals and the scheduler can lead to, the runtime is where the sequential task is
  after the inputs it received, ended or panicked exactly when that task does, and the answers
  given are the answers to the requests among those inputs, one for one and in order.
\<close>

theorem interleaving_refines_run:
  assumes "reachable w cd s st"
  shows "run w (sy_inputs st) s = phase_result (sy_runtime st) \<and>
    ((\<forall>p. sy_runtime st \<noteq> Crashed p) \<longrightarrow>
       requests_of (sy_inputs st) = map (fst \<circ> snd) (sy_answers st))"
proof -
  have "history_ok w s st" and "log_ok w s st" using reachable_ok [OF assms] by (simp_all add: system_ok_def)
  then show ?thesis by (simp add: history_run log_ok_def)
qed

text \<open>A client of the fixture daemon that asks for its status.\<close>

lemma demo_start_runtime: "\<exists>s1. start_runtime reload_world demo_runtime = Inr (Inr (), s1)"
proof -
  have db: "rt_db demo_runtime = empty_db" "rt_max_records demo_runtime = 10000" "rt_tick demo_runtime = 0"
    by (simp_all add: demo_runtime_def runtime_new_def no_faults_def get_state_def sql_def Let_def)
      (simp add: demo_config_def default_audit_config_def)
  have wf: "audit_wf demo_lib empty_db" by simp
  have fits: "int (unat (10000 :: 64 word)) \<le> max_row_id" by (simp add: max_row_id_def)
  have app: "\<exists>rc db'. audit_append demo_lib (\<lambda>_. None) 0 10000 empty_db None kind None payload = (Inr rc, db')"
    for kind payload
    by (rule audit_append_total [OF wf fits]) (simp_all add: empty_db_def max_row_id_def)
  obtain rc db' where "audit_append demo_lib (\<lambda>_. None) 0 10000 empty_db None ''daemon_started'' None (J_Object
       [(''version'', J_String (wl_pkg_version demo_world)),
        (''dry_run'', J_Bool (dry_run (cfg_daemon (rt_config demo_runtime)))),
        (''recovery_mode'', J_Bool (eng_recovery_mode (rt_engine demo_runtime)))]) = (Inr rc, db')"
    using app by blast
  then show ?thesis
    by (simp add: start_runtime_def rt_bind_def rt_get_def rt_append_def Let_def rt_return_def db
        reload_world_def demo_world_def no_faults_def)
qed

lemma demo_system:
  "\<exists>st resp t. reachable reload_world demo_codec demo_runtime st \<and> sy_runtime st = Running t \<and>
     sy_inputs st = [In_Control (Some R_Status)] \<and> sy_answers st = [(0, R_Status, resp)] \<and>
     sy_clients st = [\<lparr> ct_connection = demo_connection ''status'',
       ct_phase = Served (Inr ()) (''Kovert is running'' @ [CHR 0x0A]) \<rparr>]"
proof -
  obtain s1 where start: "start_runtime reload_world demo_runtime = Inr (Inr (), s1)"
    using demo_start_runtime ..
  have ask: "read_request demo_codec (demo_connection ''status'') = Conn_Ask R_Status"
    by (simp add: read_request_def demo_codec_def demo_connection_def max_request_size_def envelope_new_def)
  obtain data where h: "handle_control reload_world R_Status s1 =
      Inr (Inr (response_success ''Kovert is running'' (Some data)), s1)"
    by (simp add: handle_control_def rt_bind_def rt_get_def rt_return_def)
  have wr: "write_response demo_codec (demo_connection ''status'')
      (response_success ''Kovert is running'' (Some data)) = (Inr (), ''Kovert is running'' @ [CHR 0x0A])"
    by (simp add: write_response_def demo_codec_def demo_connection_def response_success_def)
  from serves_one_client [OF start ask h wr] show ?thesis by blast
qed

theorem interleaving_refines_run_witness:
  "\<exists>st t. reachable reload_world demo_codec demo_runtime st \<and> sy_runtime st = Running t \<and>
     run reload_world [In_Control (Some R_Status)] demo_runtime = Inr (Inr (), t)"
proof -
  from demo_system obtain st resp t where st: "reachable reload_world demo_codec demo_runtime st"
    "sy_runtime st = Running t" "sy_inputs st = [In_Control (Some R_Status)]" by blast
  with interleaving_refines_run [OF st(1)] show ?thesis by auto
qed

section \<open>Safety\<close>

lemma capacity_constant: "reachable w cd s st \<Longrightarrow> sy_event_capacity st = event_buffer (cfg_daemon (rt_config s))"
proof (induction rule: reachable.induct)
  case (step st st')
  have "sy_event_capacity (take_client cn st) = sy_event_capacity st" for cn
    by (cases rule: take_client_cases [of cn st]) simp_all
  with step(2,3) show ?case
    by (auto elim!: system_step.cases task_step.cases env_step.cases main_step.cases)
qed (simp add: system_new_def)

lemma reachable_live:
  assumes "live_inv w p unsafe cfg s" and "reachable w cd s st"
  obtains t where "sy_runtime st = Running t \<or> (\<exists>r. sy_runtime st = Ended r t)"
    and "live_inv w p unsafe cfg t" and "live_rel w p unsafe cfg s t"
proof -
  from safeE [OF live_run assms(1)] obtain r t where run: "run w (sy_inputs st) s = Inr (r, t)"
    and t: "live_inv w p unsafe cfg t" "live_rel w p unsafe cfg s t" by metis
  have "history_ok w s st" using reachable_ok [OF assms(2)] by (simp add: system_ok_def)
  with run have "phase_result (sy_runtime st) = Inr (r, t)" by (simp add: history_run)
  then have "sy_runtime st = Running t \<or> (\<exists>r. sy_runtime st = Ended r t)" by (cases "sy_runtime st") auto
  with t that show ?thesis by blast
qed

lemma live_verifies:
  "live_inv w p unsafe cfg t \<Longrightarrow> verify (wl_lib w) (\<lambda>_. None) (rt_db t) = Inr (length (db_audit (rt_db t)))"
  by (intro verify_wf) (simp add: live_inv_def daemon_inv_def store_inv_def)

text \<open>
  C3. Every interleaving is safe. From a validated configuration and a well-formed store, with
  compatible reloads, in every reachable state the runtime has not panicked, the journal verifies
  in full, the current mode is configured and every effect on the host is permitted by a
  validated action; never are more than 64 clients served at a time, and the control channel and
  the event channel keep within their capacity.
\<close>

theorem system_safe:
  assumes "validate_config (wl_regex w) (wl_hm w) cfg = Inr ()" and "audit_wf (wl_lib w) db"
    and "int (unat (max_records (cfg_audit cfg))) \<le> max_row_id"
    and "runtime_new f f' now p unsafe cfg db handles = Inr s"
    and "reloads_ok w p unsafe cfg" and "reachable w cd s st"
  shows "(\<exists>t. (sy_runtime st = Running t \<or> (\<exists>r. sy_runtime st = Ended r t)) \<and>
      verify (wl_lib w) (\<lambda>_. None) (rt_db t) = Inr (length (db_audit (rt_db t))) \<and>
      mode_ok (rt_config t) (current_mode t) \<and> list_all (live_effect w p unsafe cfg) (rt_trace t)) \<and>
    active_clients st \<le> 64 \<and> length (sy_control st) \<le> 64 \<and>
    length (sy_events st) \<le> event_buffer (cfg_daemon cfg)"
proof -
  have "config_ok (wl_regex w) (wl_hm w) cfg" using assms(1) by (simp add: validate_config_iff)
  note new = runtime_new_inv [OF this assms(2-4)]
  have opts: "rt_config_path s = p" "rt_allow_unsafe s = unsafe" "rt_config s = cfg"
    using assms(4) by (auto simp: runtime_new_def and_then_eq_Inr Let_def)
  with live_start [OF new(1)] assms(5) have "live_inv w p unsafe cfg s" by simp
  from reachable_live [OF this assms(6)] obtain t where
    t: "sy_runtime st = Running t \<or> (\<exists>r. sy_runtime st = Ended r t)" and inv: "live_inv w p unsafe cfg t"
    and "live_rel w p unsafe cfg s t" .
  from this(3) have "list_all (live_effect w p unsafe cfg) (rt_trace t)" using new(2) by (auto simp: live_rel_def)
  moreover have "mode_ok (rt_config t) (current_mode t)" using inv by (simp add: live_inv_def daemon_inv_def)
  moreover have "bounded st" using reachable_ok [OF assms(6)] by (simp add: system_ok_def)
  ultimately show ?thesis
    using t live_verifies [OF inv] capacity_constant [OF assms(6)]
    by (auto simp: bounded_def opts max_clients_def control_capacity_def)
qed

theorem system_safe_witness:
  "\<exists>st. reachable reload_world demo_codec demo_runtime st \<and> sy_answers st \<noteq> [] \<and>
     active_clients st \<le> 64 \<and> length (sy_control st) \<le> 64"
proof -
  from demo_system obtain st resp where reach: "reachable reload_world demo_codec demo_runtime st"
    and "sy_answers st = [(0, R_Status, resp)]" by blast
  then have st: "reachable reload_world demo_codec demo_runtime st" "sy_answers st \<noteq> []" by simp_all
  have valid: "validate_config (wl_regex reload_world) (wl_hm reload_world) demo_config = Inr ()"
    "audit_wf (wl_lib reload_world) empty_db"
    using demo_validated by (simp_all add: reload_world_facts demo_world_facts)
  note safe = system_safe [OF valid demo_fits_config demo_runtime_new demo_reloads_ok st(1), THEN conjunct2]
  from safe [THEN conjunct1] safe [THEN conjunct2, THEN conjunct1] st show ?thesis by blast
qed

section \<open>From the start\<close>

text \<open>The steps a successful start has taken.\<close>

lemma daemon_startE:
  assumes "daemon_start w b = Inr (Inr s)"
  obtains cfg db n handles where "bt_allow_unsafe b \<or> bt_is_root b"
    and "load_config (wl_regex w) (wl_hm w) (bt_loader b) (bt_config b) (bt_allow_unsafe b) = Inr cfg"
    and "audit_open (bt_store b) (state_path (cfg_daemon cfg)) (bt_allow_unsafe b) = Inr db"
    and "(if verify_on_start (cfg_audit cfg)
        then with_context (verify (wl_lib w) (bt_verify_faults b) db) ''audit chain verification failed''
        else Inr 0) = Inr n"
    and "runtime_new (bt_mode_faults b) (bt_recovery_faults b) (bt_now b) (bt_config b) (bt_allow_unsafe b)
        cfg db handles = Inr s"
proof -
  from assms obtain cfg db tasks where prepared: "daemon_prepare w b = Inr (cfg, db)"
    and new: "runtime_new (bt_mode_faults b) (bt_recovery_faults b) (bt_now b) (bt_config b) (bt_allow_unsafe b)
        cfg db [0..<length (tasks :: sensor_task list)] = Inr s"
    by (auto simp: daemon_start_def result_elims split: sum.splits if_splits)
  from prepared show thesis unfolding daemon_prepare_def result_elims using that new by auto
qed

text \<open>
  The start panics only on an \<open>event_buffer\<close> above the channel's limit: validation rules out the
  small capacities and sets no upper bound.
\<close>

lemma start_panics_iff:
  "daemon_start w b = Inl p \<longleftrightarrow>
     (\<exists>cfg db. daemon_prepare w b = Inr (cfg, db) \<and> bt_max_permits b < event_buffer (cfg_daemon cfg) \<and>
        p = ChannelCapacity (event_buffer (cfg_daemon cfg)))"
proof -
  have "16 \<le> event_buffer (cfg_daemon cfg)" if "daemon_prepare w b = Inr (cfg, db)" for cfg db
    using that load_config_accepts(1) unfolding daemon_prepare_def result_elims
    by (fastforce simp: config_ok_def daemon_ok_def)
  then show ?thesis by (auto simp: daemon_start_def split: sum.splits prod.splits if_splits)
qed



section \<open>Clients\<close>

text \<open>
  C4. Every client gets the answer to its own request. In every reachable state no client was
  answered twice; the runtime has answered a client only for the request the client's bytes stand
  for, with what it answers in the state its earlier inputs led to; and what a finished client
  was sent is what its connection sends for the answer the runtime gave to this client, or for no
  answer at all.
\<close>

theorem clients_served_own_answers:
  assumes "reachable w cd s st"
  shows "distinct (map fst (sy_answers st)) \<and>
    (\<forall>(i, q, resp) \<in> set (sy_answers st).
       read_request cd (connection_of st i) = Conn_Ask q \<and> answered w s (sy_inputs st) q resp) \<and>
    (\<forall>i < length (sy_clients st). \<forall>r out. phase st i = Served r out \<longrightarrow>
       (\<exists>ans. handle_connection cd (connection_of st i) ans = (r, out) \<and>
          (\<forall>q resp. ans q = Inr resp \<longrightarrow> (i, q, resp) \<in> set (sy_answers st))))"
proof -
  have log: "log_ok w s st" and ok: "clients_ok cd st" using reachable_ok [OF assms] by (simp_all add: system_ok_def)
  have "\<exists>ans. handle_connection cd (connection_of st i) ans = (r, out) \<and>
      (\<forall>q resp. ans q = Inr resp \<longrightarrow> (i, q, resp) \<in> set (sy_answers st))"
    if "i < length (sy_clients st)" "phase st i = Served r out" for i r out
    using clients_okD [OF ok that(1)] that(2) by (simp add: client_ok_def)
  moreover have "read_request cd (connection_of st i) = Conn_Ask q" if "(i, q, resp) \<in> set (sy_answers st)" for i q resp
    using ok that unfolding clients_ok_def asks_def by blast
  ultimately show ?thesis using log ok by (auto simp: clients_ok_def log_ok_def)
qed

theorem clients_served_own_answers_witness:
  "\<exists>st resp. reachable reload_world demo_codec demo_runtime st \<and> sy_answers st = [(0, R_Status, resp)] \<and>
     answered reload_world demo_runtime [In_Control (Some R_Status)] R_Status resp \<and>
     (\<exists>ans. handle_connection demo_codec (demo_connection ''status'') ans =
        (Inr (), ''Kovert is running'' @ [CHR 0x0A]) \<and>
        (\<forall>q resp. ans q = Inr resp \<longrightarrow> (0, q, resp) \<in> set (sy_answers st)))"
proof -
  from demo_system obtain st resp where st: "reachable reload_world demo_codec demo_runtime st"
    "sy_inputs st = [In_Control (Some R_Status)]" "sy_answers st = [(0, R_Status, resp)]"
    "sy_clients st = [\<lparr> ct_connection = demo_connection ''status'',
       ct_phase = Served (Inr ()) (''Kovert is running'' @ [CHR 0x0A]) \<rparr>]" by blast
  note own = clients_served_own_answers [OF st(1), unfolded st(2), THEN conjunct2]
  from own [THEN conjunct1] have "answered reload_world demo_runtime [In_Control (Some R_Status)] R_Status resp"
    by (simp add: st(3))
  moreover have "\<exists>ans. handle_connection demo_codec (demo_connection ''status'') ans =
        (Inr (), ''Kovert is running'' @ [CHR 0x0A]) \<and>
        (\<forall>q resp. ans q = Inr resp \<longrightarrow> (0, q, resp) \<in> set (sy_answers st))"
    using own [THEN conjunct2, rule_format, of 0] by (simp add: st(4) phase_def connection_of_def)
  ultimately show ?thesis using st(1,3) by blast
qed

section \<open>Termination\<close>

text \<open>
  C5. The daemon does not hang on its channels. From every reachable state the tasks alone take
  finitely many steps and then come to rest; and at rest, unless the runtime panicked, every
  client whose request was read has been served, so nobody waits for room in a channel or for a
  response, and a running runtime has handled every queued event and request.
\<close>

theorem tasks_settle:
  assumes "reachable w cd s st"
  shows "(\<forall>f. f 0 = st \<longrightarrow> \<not> (\<forall>n. task_step w cd (f n) (f (Suc n)))) \<and>
    (\<exists>st'. (task_step w cd)\<^sup>*\<^sup>* st st' \<and> at_rest w cd st') \<and>
    (\<forall>st'. (task_step w cd)\<^sup>*\<^sup>* st st' \<and> at_rest w cd st' \<and> (\<forall>p. sy_runtime st' \<noteq> Crashed p) \<longrightarrow>
       (\<forall>i < length (sy_clients st'). settled (phase st' i)) \<and>
       (\<forall>t. sy_runtime st' = Running t \<longrightarrow> sy_events st' = [] \<and> sy_control st' = []))"
proof -
  have ok: "clients_ok cd st" using reachable_ok [OF assms] by (simp add: system_ok_def)
  have "\<not> (\<forall>n. task_step w cd (f n) (f (Suc n)))" if "f 0 = st" for f
    using tasks_terminate [of cd f w] ok that by simp
  moreover have "(\<forall>i < length (sy_clients st'). settled (phase st' i)) \<and>
      (\<forall>t. sy_runtime st' = Running t \<longrightarrow> sy_events st' = [] \<and> sy_control st' = [])"
    if "(task_step w cd)\<^sup>*\<^sup>* st st'" "at_rest w cd st'" "\<forall>p. sy_runtime st' \<noteq> Crashed p" for st'
    using rest_clients [OF that(2) tasks_ok [OF that(1) ok] that(3)] rest_queues [OF that(2)] by blast
  ultimately show ?thesis using tasks_come_to_rest [OF ok] by blast
qed

theorem tasks_settle_witness:
  "\<exists>st st'. reachable reload_world demo_codec demo_runtime st \<and> sy_answers st \<noteq> [] \<and>
     (task_step reload_world demo_codec)\<^sup>*\<^sup>* st st' \<and> at_rest reload_world demo_codec st'"
proof -
  from demo_system obtain st resp where reach: "reachable reload_world demo_codec demo_runtime st"
    and "sy_answers st = [(0, R_Status, resp)]" by blast
  then have st: "reachable reload_world demo_codec demo_runtime st" "sy_answers st \<noteq> []" by simp_all
  with tasks_settle [OF st(1), THEN conjunct2, THEN conjunct1] show ?thesis by blast
qed

section \<open>A failing server\<close>

text \<open>
  An error of the accept call ends the server, and with it the main task and the process: the
  runtime is not asked to stop, and the journal gets no record of the end.
\<close>

lemma accept_error_ends_daemon:
  assumes "alive st" and "sy_server st = Serving" and "\<not> sy_shutdown st"
  shows "\<exists>st1 st2. system_step w cd st st1 \<and> system_step w cd st1 st2 \<and> sy_exit st2 = Some (Inl e) \<and>
    sy_runtime st2 = sy_runtime st \<and> sy_inputs st2 = sy_inputs st"
proof -
  let ?st1 = "st\<lparr>sy_server := Closed (Inl e)\<rparr>"
  have "system_step w cd st ?st1" by (intro system_step.env env_step.server_error assms)
  moreover have "system_step w cd ?st1 (?st1\<lparr>sy_exit := Some (fst (daemon_finish (End_Server (Inr (Inl e))) (Inr (Inr ())) (Inr (Inr ()))))\<rparr>)"
    using assms by (intro system_step.main main_step.server_ends) (simp_all add: alive_def)
  ultimately show ?thesis
    by (intro exI conjI) (assumption, assumption, simp_all add: joined_def with_context_def)
qed

end
