(* ===== verification/Spec2Isabelle.thy ===== *)
theory Spec2Isabelle
  imports Engine_Properties Validation_Properties Audit_Properties Actions_Properties Runtime_Properties
    Requirements_Properties Sensors_Properties Control_Properties Runtime_Reload System_Properties
begin

text \<open>
  A verification development of Kovert, a host-security daemon in Rust. Sensors turn what
  happens on a Linux host into events; a policy engine matches events and the latest known
  host state against configured rules and plans actions; an executor performs them; every
  step is recorded in a hash-chained journal; a control socket lets a command-line client
  inspect and steer the daemon. The development models the program's crates under
  \<open>src/crates/\<close> function by function and proves what each component promises the others.

  \<^bold>\<open>Parts and theories.\<close> Every theory names the source file it translates.

  \<^item> \<open>Kovert_Prelude\<close>: the parts of the Rust standard library the source uses (byte
    strings, \<open>trim\<close>, \<open>Path\<close>, \<open>Option\<close>), time, and the locale \<open>safe_machine\<close> of a component
    whose operations keep an invariant. \<open>Host\<close>: results with their error texts, JSON
    trees, file metadata.
  \<^item> \<open>Config\<close>, \<open>Event\<close>, \<open>Matching\<close>, \<open>Engine\<close>: \<open>kovert-core/src/config.rs\<close>, \<open>event.rs\<close> and
    \<open>engine.rs\<close>. A \<open>policy_engine\<close> holds the sorted rules, a snapshot of the host and the
    runtime of every rule; \<open>handle\<close> is \<open>PolicyEngine::handle\<close> with its panic as a value.
    \<open>Engine_Conflicts\<close>, \<open>Engine_Invariant\<close>, \<open>Engine_Runs\<close> and \<open>Engine_Temporal\<close> hold the
    lemmas on conflict resolution, the cursor invariant, cooldowns and firings along runs,
    and sequence and sustain evidence; \<open>Engine_Properties\<close> states the results.
  \<^item> \<open>Validation\<close>, \<open>Validation_Spec\<close>, \<open>Validation_Properties\<close>: \<open>validation.rs\<close> with its list
    of errors in source order, the declarative predicate \<open>config_ok\<close>, and their equivalence.
  \<^item> \<open>Commands\<close>, \<open>Actions\<close>: \<open>kovert-actions/src/command.rs\<close>, \<open>vault.rs\<close>, \<open>lib.rs\<close> and
    \<open>evidence.rs\<close>. An action is a computation that may fail and leaves a trace of processes,
    signals and files. \<open>Actions_Spec\<close> is a small logic of traces and the relation
    \<open>permitted\<close> between an action and its effects; \<open>Actions_Properties\<close> the confinement of
    every action.
  \<^item> \<open>Audit_Db\<close>, \<open>Audit_Chain\<close>, \<open>Audit_Store\<close>, \<open>Audit_Properties\<close>:
    \<open>kovert-daemon/src/audit.rs\<close>, with its three tables, a fault at any SQL statement, the
    rollback of a failed append, retention and verification; the chain and its invariant;
    the key-value contract of the state table and the action ledger as a locale with two
    interpretations.
  \<^item> \<open>Ipc\<close>, \<open>Config_Loader\<close>, \<open>Runtime\<close>: \<open>kovert-core/src/ipc.rs\<close>,
    \<open>kovert-daemon/src/config_loader.rs\<close> and \<open>runtime.rs\<close>. The runtime passes its state
    explicitly through a monad with panics and errors; the outside is the record \<open>world\<close>,
    asked anew at every call. \<open>Runtime_Logic\<close> is a logic of invariants and step relations
    with the contracts of the loop, of events and of requests as locales, \<open>Runtime_Invariant\<close>
    interprets them for the running daemon and for dry-run mode, \<open>Runtime_Properties\<close> states
    the results. \<open>Runtime_Reload\<close> says which configurations may follow each other and interprets
    the loop's contract for runs with reloads.
  \<^item> \<open>Requirements\<close>, \<open>Requirements_Spec\<close>, \<open>Requirements_Properties\<close>:
    \<open>kovert-sensors/src/requirements.rs\<close>, that requirements only grow, and that they cover
    what the triggers match.
  \<^item> \<open>Sensor_Text\<close>, \<open>Hotkey\<close>, \<open>Polling\<close>, \<open>Poll_Cycle\<close>, \<open>Sensors\<close>: the decoders of the text the
    sensors read, \<open>hotkey.rs\<close>, \<open>polling.rs\<close>, \<open>filesystem.rs\<close> and \<open>SensorHub::start\<close>. A task is
    a function of a finite stream of what it sees and of the channel it sends to.
    \<open>Hotkey_Spec\<close> has the reference recognizer. \<open>Poll_Spec\<close> states the contract of a polled
    sensor as the locales \<open>tracker\<close> and \<open>sensor_step\<close>; \<open>Poll_Tracking\<close> interprets it for
    the eight sensors the snapshot shows; \<open>Poll_Refinement\<close> lifts it to whole cycles and to
    every run of the poll task against every run of the engine. \<open>Sensors_Properties\<close> states the results.
  \<^item> \<open>Server\<close>, \<open>Cli\<close>, \<open>Daemon\<close>: \<open>kovert-daemon/src/server.rs\<close>, \<open>kovert-cli/src/main.rs\<close> and
    \<open>kovert-daemon/src/main.rs\<close>. Socket preparation is a list of file-system effects, a
    connection is split where it asks the runtime, the shell is a function of its input
    lines, and the start is the sequence of its checks. \<open>Control_Properties\<close> states the
    results, which reach from the command line through the server to the runtime.
  \<^item> \<open>System\<close>: the tasks of the running daemon and their channels as step relations: the loop
    of the runtime, the accept loop and one task per client, the main task that waits for them,
    and the environment of sensors, clients, time limits and signals. The state records what the
    runtime received and answered. \<open>System_Invariant\<close> shows that this history is a run of
    \<open>run\<close>, that clients and answers correspond and that the queues are bounded;
    \<open>System_Progress\<close> that the tasks come to rest; \<open>System_Properties\<close> states the results, also
    from the checks of the start.

  \<^bold>\<open>How the parts interact.\<close> \<open>daemon_start\<close> loads and validates the configuration, opens and
  verifies the store, starts the sensors that \<open>from_config\<close> requires and builds the runtime.
  The sensors send events; \<open>run_loop\<close> receives them and the requests the server admits;
  \<open>process_event\<close> journals an event, lets \<open>handle\<close> plan, and executes each planned action
  between two journal records, with a ledger against repetition. A reload replaces rules,
  executor and sensors. Each of these calls is a call of the model.

  \<^bold>\<open>What is shown.\<close> Safety of the whole daemon on every stream of events and requests, with
  arbitrary SQL faults and host answers, and with reloads that keep modes and sequence lengths;
  that every interleaving of its tasks is explained by the sequential task on the inputs it
  received, keeps the bounds of its channels, gives every client its own answer and comes to
  rest, also from the checks of its start; the journal's chain, its tamper evidence and its
  limits; confinement of actions, unlocking keys and output; engine behaviour over time; validation as an equivalence; dry
  run and recovery mode; the snapshot as a refinement of the host the probes saw; coverage of
  triggers by sensors; hotkey recognition; the guards of the control socket; and that a client's
  request reaches the runtime and its response the client. Some theorems and lemmas show where
  the code does less than it means to: a reload that leads to a panic or to a mode nobody
  configured, an accept error that ends the daemon, a channel capacity that makes the start
  panic, an unlock that can never succeed, triggers that cannot fire, a recursive watch that is
  lost, a recovered sensor that stays unhealthy, an undetected truncation, a mount path cut at Unicode white space, a shell that ends on a missing argument.

  \<^bold>\<open>Bounds and termination.\<close> Every function is total; there is no fuel. The steps of the tasks
  decrease the work left in clients and queues. Loops of
  the source that wait for input are functions of the finite stream they have seen so far, so a
  statement for all streams covers every moment of an endless run. Integers are words where
  the source's width matters (versions, ports, modes, identifiers, record counts) and
  naturals or integers where the source cannot overflow them. Row identifiers are bounded by
  SQLite's largest one, which the statements on appending assume of the retention limit.

  \<^bold>\<open>Arguments of the model.\<close> The host (files, processes, signals, clocks, devices, sockets),
  SQLite's failures, and the libraries serde, toml, chrono, regex, BLAKE3, SHA-256, notify,
  evdev and tokio's scheduling. Where a theorem needs a law of one of them it is a hypothesis
  of the theorem: that serde reads back what it printed, that the table's primary key orders
  its rows.

  \<^bold>\<open>Not modelled.\<close> Command-line parsing (clap), logging (tracing), zeroization of buffers, the
  environment of the tools the sensors run, the causes an error prints after its
  outermost message, the bytes of JSON and TOML, and the packaging. One turn of the runtime's
  loop is one step of the system: while it awaits a command other tasks move, but none of them
  touches its state; that the process may end in the middle of a turn is not represented. A
  panic ends the process, as the release profile has it. A panic in a poll cycle resets the poll
  state (\<open>polling_loop\<close>); the refinement of the snapshot is stated for cycles that complete.
\<close>

end
